(* ===== verification/Prelude.thy ===== *)
theory Prelude
  imports Main "HOL-Library.Word" "HOL-Library.Sublist"
begin

text \<open>
  What every component of the development shares: the collections of facts the proofs are
  driven by, the time units of \<^verbatim>\<open>datetime\<close> and \<^verbatim>\<open>timedelta\<close>, rows kept in lists (the tables
  of the database) with the interface of a keyed table, and sorting by a total preorder.
\<close>

named_theorems act_simps \<comment> \<open>how the primitive actions of a request evaluate\<close>
named_theorems keeps \<comment> \<open>actions that cannot change the committed database\<close>
named_theorems outcomes \<comment> \<open>which exceptions an action can end with\<close>
named_theorems row_simps \<comment> \<open>lookups after updates of a table\<close>

section \<open>Time\<close>

text \<open>
  An aware \<^verbatim>\<open>datetime\<close> is the number of microseconds since the epoch, a \<^verbatim>\<open>timedelta\<close> a
  number of microseconds: that is their resolution in Python, and all datetimes of the
  program are aware (\<^verbatim>\<open>datetime.now(UTC)\<close>, \<^verbatim>\<open>DateTime(timezone=True)\<close>, \<^verbatim>\<open>AwareDatetime\<close>).
\<close>

type_synonym time = int

abbreviation seconds :: "int \<Rightarrow> time" where "seconds n \<equiv> n * 1000000"
abbreviation minutes :: "int \<Rightarrow> time" where "minutes n \<equiv> n * 60000000"
abbreviation days :: "int \<Rightarrow> time" where "days n \<equiv> n * 86400000000"

text \<open>\<^verbatim>\<open>int(delta.total_seconds())\<close>: whole seconds, rounded towards zero.\<close>

definition total_seconds_int :: "time \<Rightarrow> int" where
  "total_seconds_int d = (if 0 \<le> d then d div 1000000 else - ((- d) div 1000000))"

lemma total_seconds_int_seconds [simp]: "total_seconds_int (seconds n) = n"
  by (auto simp: total_seconds_int_def)

lemma total_seconds_int_pos_iff: "0 < total_seconds_int d \<longleftrightarrow> 1000000 \<le> d"
proof (cases "0 \<le> d")
  case True
  then show ?thesis by (simp add: total_seconds_int_def pos_imp_zdiv_pos_iff)
next
  case False
  then have "0 \<le> (- d) div 1000000" by (simp add: pos_imp_zdiv_nonneg_iff)
  with False show ?thesis by (simp add: total_seconds_int_def)
qed

section \<open>Options and sums\<close>

definition is_some :: "'a option \<Rightarrow> bool" where
  "is_some x = (case x of None \<Rightarrow> False | Some _ \<Rightarrow> True)"

lemma is_some_simps [simp]: "is_some None = False" "is_some (Some a) = True"
  by (simp_all add: is_some_def)

lemma is_some_iff: "is_some x \<longleftrightarrow> x \<noteq> None"
  by (cases x) simp_all

text \<open>The first of several optional answers, in order.\<close>

fun first_some :: "'a option list \<Rightarrow> 'a option" where
  "first_some [] = None"
| "first_some (None # xs) = first_some xs"
| "first_some (Some a # xs) = Some a"

lemma first_some_None_iff: "first_some xs = None \<longleftrightarrow> set xs \<subseteq> {None}"
  by (induction xs rule: first_some.induct) auto

text \<open>A named check: the name when the condition fails.\<close>

definition unless :: "bool \<Rightarrow> 'a \<Rightarrow> 'a option" where
  "unless ok name = (if ok then None else Some name)"

lemma unless_None_iff [simp]: "unless ok n = None \<longleftrightarrow> ok"
  by (simp add: unless_def)

lemma unless_True [simp]: "unless True n = None"
  by (simp add: unless_def)

lemma None_unless_iff [simp]: "None = unless ok n \<longleftrightarrow> ok"
  by (auto simp: unless_def)

section \<open>Rows in a list\<close>

text \<open>
  A table is the list of its rows. \<^verbatim>\<open>session.scalar(select(...))\<close> is \<open>find\<close>: the first row
  that satisfies the condition, or \<open>None\<close>. \<open>update_where\<close> is an SQL \<^verbatim>\<open>UPDATE\<close>,
  \<open>delete_where\<close> an SQL \<^verbatim>\<open>DELETE\<close>; both give the number of rows they affect.
\<close>

definition update_where :: "('r \<Rightarrow> bool) \<Rightarrow> ('r \<Rightarrow> 'r) \<Rightarrow> 'r list \<Rightarrow> 'r list" where
  "update_where P f rs = map (\<lambda>r. if P r then f r else r) rs"

definition delete_where :: "('r \<Rightarrow> bool) \<Rightarrow> 'r list \<Rightarrow> 'r list" where
  "delete_where P rs = filter (\<lambda>r. \<not> P r) rs"

definition rowcount :: "('r \<Rightarrow> bool) \<Rightarrow> 'r list \<Rightarrow> int" where
  "rowcount P rs = int (length (filter P rs))"

lemma update_where_simps [simp]:
  "update_where P f [] = []"
  "update_where P f (r # rs) = (if P r then f r else r) # update_where P f rs"
  by (simp_all add: update_where_def)

lemma length_update_where [simp]: "length (update_where P f rs) = length rs"
  by (simp add: update_where_def)

lemma set_update_where: "set (update_where P f rs) = (\<lambda>r. if P r then f r else r) ` set rs"
  by (simp add: update_where_def)

lemma update_where_id: "(\<And>r. r \<in> set rs \<Longrightarrow> P r \<Longrightarrow> f r = r) \<Longrightarrow> update_where P f rs = rs"
  by (induction rs) auto

lemma map_update_where:
  "(\<And>r. P r \<Longrightarrow> g (f r) = g r) \<Longrightarrow> map g (update_where P f rs) = map g rs"
  by (auto simp: update_where_def)

lemma delete_where_simps [simp]:
  "delete_where P [] = []"
  "delete_where P (r # rs) = (if P r then delete_where P rs else r # delete_where P rs)"
  by (simp_all add: delete_where_def)

lemma set_delete_where [simp]: "set (delete_where P rs) = {r \<in> set rs. \<not> P r}"
  by (auto simp: delete_where_def)

text \<open>Writing rows that a condition excludes does not change the rows it selects.\<close>

lemma filter_update_where:
  "(\<And>r. r \<in> set rs \<Longrightarrow> P r \<Longrightarrow> \<not> Q r \<and> \<not> Q (f r)) \<Longrightarrow>
     filter Q (update_where P f rs) = filter Q rs"
  by (induction rs) auto

lemma filter_delete_where:
  "(\<And>r. r \<in> set rs \<Longrightarrow> P r \<Longrightarrow> \<not> Q r) \<Longrightarrow> filter Q (delete_where P rs) = filter Q rs"
  by (induction rs) auto

lemma key_unique: "distinct (map key rs) \<Longrightarrow> r \<in> set rs \<Longrightarrow> t \<in> set rs \<Longrightarrow> key r = key t \<Longrightarrow> r = t"
  by (auto simp: distinct_map dest: inj_onD)

lemma rowcount_nonneg [simp]: "0 \<le> rowcount P rs"
  by (simp add: rowcount_def)

lemma rowcount_zero_iff: "rowcount P rs = 0 \<longleftrightarrow> (\<forall>r\<in>set rs. \<not> P r)"
  by (simp add: rowcount_def filter_empty_conv)

lemma rowcount_delete: "rowcount P (delete_where P rs) = 0"
  by (simp add: rowcount_zero_iff)

lemma length_delete_where: "int (length (delete_where P rs)) = int (length rs) - rowcount P rs"
  using sum_length_filter_compl [of P rs] by (simp add: delete_where_def rowcount_def)

lemma find_None_iff': "find P rs = None \<longleftrightarrow> (\<forall>r\<in>set rs. \<not> P r)"
  by (induction rs) auto

lemma find_SomeD: "find P rs = Some r \<Longrightarrow> r \<in> set rs \<and> P r"
  by (induction rs) (auto split: if_splits)

lemma find_append: "find P (xs @ ys) = (case find P xs of None \<Rightarrow> find P ys | Some r \<Rightarrow> Some r)"
  by (induction xs) auto

section \<open>Replacing one row\<close>

text \<open>
  The row \<open>t\<close> replaced by \<open>t'\<close>, found by its key: what the set of rows is afterwards, and
  that a column whose new value is no other row's stays a unique column.
\<close>

lemma update_where_const:
  assumes "distinct (map key rs)" and "t \<in> set rs"
  shows "update_where (\<lambda>r. key r = key t) f rs = update_where (\<lambda>r. key r = key t) (\<lambda>_. f t) rs"
proof -
  have "key r = key t \<Longrightarrow> f r = f t" if "r \<in> set rs" for r
    using assms that by (metis distinct_map inj_on_def)
  then show ?thesis by (auto simp: update_where_def)
qed

lemma update_where_other: "k \<notin> key ` set rs \<Longrightarrow> update_where (\<lambda>r. key r = k) f rs = rs"
  by (rule update_where_id) auto

lemma set_replace:
  assumes "distinct (map key rs)" and "t \<in> set rs"
  shows "set (update_where (\<lambda>r. key r = key t) (\<lambda>_. t') rs) = insert t' (set rs - {t})"
proof -
  have "key r = key t \<longleftrightarrow> r = t" if "r \<in> set rs" for r
    using assms that by (metis distinct_map inj_on_def)
  with assms(2) show ?thesis by (auto simp: set_update_where)
qed

lemma distinct_replace:
  assumes "distinct (map key rs)" and "distinct (map g rs)" and "t \<in> set rs"
    and "g t' \<notin> g ` (set rs - {t})"
  shows "distinct (map g (update_where (\<lambda>r. key r = key t) (\<lambda>_. t') rs))"
  using assms
proof (induction rs)
  case Nil
  then show ?case by simp
next
  case (Cons r rs)
  show ?case
  proof (cases "r = t")
    case True
    with Cons.prems(1) have "key t \<notin> key ` set rs" by auto
    moreover from Cons.prems(1) True have "set (r # rs) - {t} = set rs" by auto
    ultimately show ?thesis using Cons.prems True by (simp add: update_where_other)
  next
    case False
    with Cons.prems have t: "t \<in> set rs" and k: "key r \<noteq> key t" by (auto simp: image_iff)
    from Cons.prems(1) t have "set (update_where (\<lambda>r. key r = key t) (\<lambda>_. t') rs) =
        insert t' (set rs - {t})" by (intro set_replace) auto
    moreover have "r \<in> set (r # rs) - {t}" using False by simp
    then have "g r \<noteq> g t'" using Cons.prems(4) by (metis image_eqI)
    moreover have "g r \<notin> g ` set rs" using Cons.prems(2) by simp
    moreover have "distinct (map g (update_where (\<lambda>r. key r = key t) (\<lambda>_. t') rs))"
      using Cons t False by (intro Cons.IH) auto
    ultimately show ?thesis using k by auto
  qed
qed

lemma distinct_map_delete_where: "distinct (map g rs) \<Longrightarrow> distinct (map g (delete_where P rs))"
  unfolding delete_where_def by (induction rs) auto

lemma find_unique:
  assumes "distinct (map key rs)" and "t \<in> set rs"
  shows "find (\<lambda>r. key r = key t) rs = Some t"
  using assms by (induction rs) (auto simp: image_iff)

section \<open>Keyed tables\<close>

text \<open>
  The interface the repositories rely on: a table of the database is a component that can
  be read and replaced, and replacing it does what it says. Every table of the database
  interprets this locale, and the repository facts are its consequences: a row is found by
  its key after an insert and after an update, is not found after its deletion, and rows
  under other keys are not touched.
\<close>

locale table =
  fixes rows :: "'d \<Rightarrow> 'r list"
    and put :: "'r list \<Rightarrow> 'd \<Rightarrow> 'd"
    and key :: "'r \<Rightarrow> 'k"
  assumes rows_put: "rows (put rs d) = rs"
    and put_put: "put rs' (put rs d) = put rs' d"
    and put_rows: "put (rows d) d = d"
begin

lemma find_inserted:
  "find (\<lambda>r. key r = k) (rows d) = None \<Longrightarrow> key r = k \<Longrightarrow>
     find (\<lambda>r. key r = k) (rows (put (rows d @ [r]) d)) = Some r"
  by (simp add: rows_put find_append)

lemma find_other_inserted:
  "key r \<noteq> k \<Longrightarrow>
     find (\<lambda>r. key r = k) (rows (put (rows d @ [r]) d)) = find (\<lambda>r. key r = k) (rows d)"
  by (simp add: rows_put find_append split: option.splits)

lemma find_updated:
  assumes "\<And>r. key (f r) = key r" and "find (\<lambda>r. key r = k) (rows d) = Some r"
  shows "find (\<lambda>r. key r = k)
           (rows (put (update_where (\<lambda>r. key r = k) f (rows d)) d)) = Some (f r)"
proof -
  have "find (\<lambda>r. key r = k) rs = Some r \<Longrightarrow>
          find (\<lambda>r. key r = k) (update_where (\<lambda>r. key r = k) f rs) = Some (f r)" for rs
    using assms(1) by (induction rs) (auto split: if_splits)
  with assms(2) show ?thesis by (simp add: rows_put)
qed

lemma find_other_updated:
  assumes "\<And>r. key (f r) = key r" and "k' \<noteq> k"
  shows "find (\<lambda>r. key r = k') (rows (put (update_where (\<lambda>r. key r = k) f (rows d)) d)) =
         find (\<lambda>r. key r = k') (rows d)"
proof -
  have "find (\<lambda>r. key r = k') (update_where (\<lambda>r. key r = k) f rs) =
        find (\<lambda>r. key r = k') rs" for rs
    using assms by (induction rs) auto
  then show ?thesis by (simp add: rows_put)
qed

lemma find_deleted:
  "find (\<lambda>r. key r = k) (rows (put (delete_where (\<lambda>r. key r = k) (rows d)) d)) = None"
  by (simp add: rows_put find_None_iff')

lemma find_other_deleted:
  assumes "k' \<noteq> k"
  shows "find (\<lambda>r. key r = k') (rows (put (delete_where (\<lambda>r. key r = k) (rows d)) d)) =
         find (\<lambda>r. key r = k') (rows d)"
proof -
  have "find (\<lambda>r. key r = k') (delete_where (\<lambda>r. key r = k) rs) = find (\<lambda>r. key r = k') rs" for rs
    using assms by (induction rs) auto
  then show ?thesis by (simp add: rows_put)
qed

lemmas table_facts =
  find_inserted find_other_inserted find_updated find_other_updated
  find_deleted find_other_deleted

end

section \<open>Sorting by a total preorder\<close>

text \<open>
  \<^verbatim>\<open>ORDER BY\<close>: insertion by a comparison. The comparison is a parameter; what the callers
  need is that it is total and transitive.
\<close>

fun insert_by :: "('a \<Rightarrow> 'a \<Rightarrow> bool) \<Rightarrow> 'a \<Rightarrow> 'a list \<Rightarrow> 'a list" where
  "insert_by le x [] = [x]"
| "insert_by le x (y # ys) = (if le x y then x # y # ys else y # insert_by le x ys)"

fun sort_by :: "('a \<Rightarrow> 'a \<Rightarrow> bool) \<Rightarrow> 'a list \<Rightarrow> 'a list" where
  "sort_by le [] = []"
| "sort_by le (x # xs) = insert_by le x (sort_by le xs)"

lemma set_insert_by [simp]: "set (insert_by le x xs) = insert x (set xs)"
  by (induction xs) auto

lemma set_sort_by [simp]: "set (sort_by le xs) = set xs"
  by (induction xs) auto

lemma length_insert_by [simp]: "length (insert_by le x xs) = Suc (length xs)"
  by (induction xs) auto

lemma length_sort_by [simp]: "length (sort_by le xs) = length xs"
  by (induction xs) auto

lemma distinct_insert_by [simp]: "distinct (insert_by le x xs) \<longleftrightarrow> x \<notin> set xs \<and> distinct xs"
  by (induction xs) auto

lemma distinct_sort_by [simp]: "distinct (sort_by le xs) \<longleftrightarrow> distinct xs"
  by (induction xs) auto

locale total_preorder =
  fixes le :: "'a \<Rightarrow> 'a \<Rightarrow> bool"
  assumes total: "le x y \<or> le y x"
    and trans: "le x y \<Longrightarrow> le y z \<Longrightarrow> le x z"
begin

lemma refl: "le x x"
  using total [of x x] by simp

lemma sorted_insert_by: "sorted_wrt le xs \<Longrightarrow> sorted_wrt le (insert_by le x xs)"
proof (induction xs)
  case Nil
  then show ?case by simp
next
  case (Cons y ys)
  then show ?case using total [of x y] by (auto intro: trans)
qed

lemma sorted_sort_by: "sorted_wrt le (sort_by le xs)"
  by (induction xs) (auto intro: sorted_insert_by)

text \<open>Any contiguous part of the sorted rows is sorted: a page of a listing.\<close>

lemma sorted_page: "sorted_wrt le (take n (drop k (sort_by le xs)))"
  by (intro sorted_wrt_take sorted_wrt_drop sorted_sort_by)

end

section \<open>Pages of a list\<close>

text \<open>\<^verbatim>\<open>LIMIT n OFFSET k\<close>.\<close>

definition page :: "nat \<Rightarrow> nat \<Rightarrow> 'a list \<Rightarrow> 'a list" where
  "page limit offset xs = take limit (drop offset xs)"

lemma length_page: "length (page n k xs) = min n (length xs - k)"
  by (simp add: page_def)

lemma set_page_subset: "set (page n k xs) \<subseteq> set xs"
  unfolding page_def by (meson set_drop_subset set_take_subset subset_trans)

lemma concat_pages: "concat (map (\<lambda>i. page n (i * n) xs) [0..<m]) = take (m * n) xs"
proof (induction m)
  case 0
  then show ?case by simp
next
  case (Suc m)
  have "take (n + m * n) xs = take (m * n) xs @ take n (drop (m * n) xs)"
    by (metis add.commute take_add)
  with Suc show ?case by (simp add: page_def)
qed

end
