(* ===== verification/Py_Str.thy ===== *)
theory Py_Str
  imports Prelude
begin

text \<open>
  The operations of Python's \<^verbatim>\<open>str\<close> and \<^verbatim>\<open>int\<close> that the program uses. A string is a list of
  8-bit characters, the code points U+0000 to U+00FF: what the HTTP layer's Latin-1 headers
  can carry, and what the schemas are exercised with. On these code points \<open>strip\<close>,
  \<open>lower\<close> and \<open>int\<close> are Python's; \<open>casefold\<close> is Python's but for U+00B5 (micro sign), whose
  case folding U+03BC lies outside the range and is kept as it is.
\<close>

section \<open>Whitespace\<close>

text \<open>\<^verbatim>\<open>str.isspace\<close>, also the class \<^verbatim>\<open>\s\<close> of a \<^verbatim>\<open>str\<close> pattern.\<close>

definition is_space :: "char \<Rightarrow> bool" where
  "is_space c = (let n = (of_char c :: nat) in
     (9 \<le> n \<and> n \<le> 13) \<or> (28 \<le> n \<and> n \<le> 32) \<or> n = 133 \<or> n = 160)"

definition lstrip :: "string \<Rightarrow> string" where
  "lstrip s = dropWhile is_space s"

definition strip :: "string \<Rightarrow> string" where
  "strip s = rev (dropWhile is_space (rev (dropWhile is_space s)))"

definition no_outer_space :: "string \<Rightarrow> bool" where
  "no_outer_space s \<longleftrightarrow> (s = [] \<or> (\<not> is_space (hd s) \<and> \<not> is_space (last s)))"

lemma strip_Nil [simp]: "strip [] = []"
  by (simp add: strip_def)

lemma all_dropWhile_iff: "(\<forall>c\<in>set (dropWhile P s). P c) \<longleftrightarrow> (\<forall>c\<in>set s. P c)"
  by (induction s) auto

lemma strip_Nil_iff: "strip s = [] \<longleftrightarrow> (\<forall>c\<in>set s. is_space c)"
proof -
  have "strip s = [] \<longleftrightarrow> (\<forall>c\<in>set (dropWhile is_space s). is_space c)"
    unfolding strip_def rev_is_Nil_conv dropWhile_eq_Nil_conv set_rev ..
  then show ?thesis by (simp only: all_dropWhile_iff)
qed

lemma set_strip: "set (strip s) \<subseteq> set s"
proof
  fix c assume "c \<in> set (strip s)"
  then have "c \<in> set (dropWhile is_space (rev (dropWhile is_space s)))" by (simp add: strip_def)
  then have "c \<in> set (dropWhile is_space s)" using set_dropWhileD by fastforce
  then show "c \<in> set s" by (rule set_dropWhileD)
qed

lemma length_dropWhile_rev: "length (dropWhile P (rev xs)) \<le> length xs"
  using length_dropWhile_le [of P "rev xs"] by simp

lemma length_strip: "length (strip s) \<le> length s"
proof -
  have "length (strip s) \<le> length (dropWhile is_space s)"
    unfolding strip_def by (simp add: length_dropWhile_rev)
  then show ?thesis
    using length_dropWhile_le [of is_space s] by linarith
qed

lemma strip_id: "no_outer_space s \<Longrightarrow> strip s = s"
proof (cases "s = []")
  case True
  then show ?thesis by simp
next
  case False
  assume "no_outer_space s"
  with False have "dropWhile is_space s = s" and "dropWhile is_space (rev s) = rev s"
    by (auto simp: no_outer_space_def dropWhile_eq_self_iff hd_rev)
  then show ?thesis by (simp add: strip_def)
qed

lemma no_outer_space_strip: "no_outer_space (strip s)"
proof (cases "strip s = []")
  case True
  then show ?thesis by (simp add: no_outer_space_def)
next
  case False
  let ?t = "dropWhile is_space s"
  let ?u = "dropWhile is_space (rev ?t)"
  have u: "?u \<noteq> []" using False by (simp add: strip_def)
  then have t: "?t \<noteq> []" by (metis dropWhile.simps(1) rev.simps(1))
  have last: "\<not> is_space (last (strip s))"
    using hd_dropWhile [OF u] u by (simp add: strip_def last_rev)
  obtain p where p: "rev ?t = p @ ?u"
    by (metis takeWhile_dropWhile_id)
  have "?t = rev ?u @ rev p"
    using p by (metis rev_append rev_rev_ident)
  then have "hd ?t = hd (strip s)"
    using False by (metis strip_def hd_append2)
  with hd_dropWhile [OF t] have "\<not> is_space (hd (strip s))" by simp
  with last show ?thesis by (simp add: no_outer_space_def)
qed

lemma strip_strip [simp]: "strip (strip s) = strip s"
  by (rule strip_id [OF no_outer_space_strip])

text \<open>
  The stripping of pydantic is Rust's \<^verbatim>\<open>trim\<close>: Unicode white space, without the four separator
  controls that \<^verbatim>\<open>str.strip\<close> also takes away.
\<close>

definition is_white :: "char \<Rightarrow> bool" where
  "is_white c = (let n = (of_char c :: nat) in (9 \<le> n \<and> n \<le> 13) \<or> n = 32 \<or> n = 133 \<or> n = 160)"

definition trim :: "string \<Rightarrow> string" where
  "trim s = rev (dropWhile is_white (rev (dropWhile is_white s)))"

lemma is_white_space: "is_white c \<Longrightarrow> is_space c"
  by (auto simp: is_white_def is_space_def Let_def)

lemma trim_id: "s = [] \<or> (\<not> is_white (hd s) \<and> \<not> is_white (last s)) \<Longrightarrow> trim s = s"
proof (cases "s = []")
  case False
  assume "s = [] \<or> (\<not> is_white (hd s) \<and> \<not> is_white (last s))"
  with False have "\<not> is_white (hd s)" "\<not> is_white (hd (rev s))" by (auto simp: hd_rev)
  moreover from False obtain c r where "s = c # r" by (cases s) auto
  moreover from False obtain d q where "rev s = d # q" by (cases "rev s") auto
  ultimately have "dropWhile is_white s = s" "dropWhile is_white (rev s) = rev s" by simp_all
  then show ?thesis by (simp add: trim_def)
qed (simp add: trim_def)

lemma trim_no_outer_space: "no_outer_space s \<Longrightarrow> trim s = s"
  by (rule trim_id) (auto simp: no_outer_space_def dest: is_white_space)

lemma trim_strip [simp]: "trim (strip s) = strip s"
  by (rule trim_no_outer_space [OF no_outer_space_strip])

lemma length_trim: "length (trim s) \<le> length s"
proof -
  have "length (trim s) \<le> length (dropWhile is_white s)"
    unfolding trim_def by (metis length_dropWhile_le length_rev)
  also have "\<dots> \<le> length s" by (rule length_dropWhile_le)
  finally show ?thesis .
qed

lemma set_trim: "set (trim s) \<subseteq> set s"
proof
  fix c assume "c \<in> set (trim s)"
  then have "c \<in> set (dropWhile is_white (rev (dropWhile is_white s)))" by (simp add: trim_def)
  then have "c \<in> set (dropWhile is_white s)" by (auto dest: set_dropWhileD)
  then show "c \<in> set s" by (rule set_dropWhileD)
qed

lemma trim_outer: "trim s = [] \<or> (\<not> is_white (hd (trim s)) \<and> \<not> is_white (last (trim s)))"
proof (cases "trim s = []")
  case False
  let ?u = "dropWhile is_white s"
  have v: "dropWhile is_white (rev ?u) \<noteq> []"
    using False unfolding trim_def by (metis rev.simps(1))
  then have u: "?u \<noteq> []" by (metis dropWhile.simps(1) rev.simps(1))
  have "last (trim s) = hd (dropWhile is_white (rev ?u))" unfolding trim_def by (rule last_rev)
  then have last: "\<not> is_white (last (trim s))" using hd_dropWhile [OF v] by metis
  have "rev ?u = takeWhile is_white (rev ?u) @ dropWhile is_white (rev ?u)" by simp
  then have "?u = trim s @ rev (takeWhile is_white (rev ?u))" unfolding trim_def
    by (metis rev_append rev_rev_ident)
  then have "hd ?u = hd (trim s)" using False by (metis hd_append2)
  with hd_dropWhile [OF u] last show ?thesis by simp
qed simp

lemma trim_trim [simp]: "trim (trim s) = trim s"
  by (rule trim_id [OF trim_outer])

section \<open>Case\<close>

definition is_upper :: "char \<Rightarrow> bool" where
  "is_upper c = (let n = (of_char c :: nat) in
     (65 \<le> n \<and> n \<le> 90) \<or> (192 \<le> n \<and> n \<le> 222 \<and> n \<noteq> 215))"

definition lower_char :: "char \<Rightarrow> char" where
  "lower_char c = (if is_upper c then char_of ((of_char c :: nat) + 32) else c)"

definition lower :: "string \<Rightarrow> string" where
  "lower s = map lower_char s"

definition upper_ascii :: "string \<Rightarrow> string" where
  "upper_ascii s = map (\<lambda>c. let n = (of_char c :: nat) in
     if 97 \<le> n \<and> n \<le> 122 then char_of (n - 32) else c) s"

definition fold_char :: "char \<Rightarrow> string" where
  "fold_char c = (if c = CHR 0xDF then ''ss'' else [lower_char c])"

definition casefold :: "string \<Rightarrow> string" where
  "casefold s = concat (map fold_char s)"

lemma of_char_lower_char:
  "(of_char (lower_char c) :: nat) = (if is_upper c then of_char c + 32 else of_char c)"
  by (auto simp: lower_char_def is_upper_def Let_def of_char_of)

lemma is_upper_lower_char [simp]: "\<not> is_upper (lower_char c)"
  by (auto simp: is_upper_def [of "lower_char c"] of_char_lower_char Let_def)
     (auto simp: is_upper_def Let_def)

lemma lower_char_idem [simp]: "lower_char (lower_char c) = lower_char c"
  by (simp add: lower_char_def [of "lower_char c"])

lemma lower_lower [simp]: "lower (lower s) = lower s"
  by (simp add: lower_def)

lemma is_space_lower_char [simp]: "is_space (lower_char c) = is_space c"
  by (auto simp: is_space_def of_char_lower_char Let_def) (auto simp: is_upper_def Let_def)

lemma lower_char_sharp: "lower_char c = CHR 0xDF \<longleftrightarrow> c = CHR 0xDF"
proof
  assume "lower_char c = CHR 0xDF"
  then have "(of_char (lower_char c) :: nat) = of_char (CHR 0xDF)" by simp
  then have "(of_char c :: nat) = 223"
    by (auto simp: of_char_lower_char is_upper_def Let_def split: if_splits)
  then have "(of_char c :: nat) = of_char (CHR 0xDF)" by simp
  then show "c = CHR 0xDF" by (simp only: of_char_eq_iff)
next
  assume "c = CHR 0xDF"
  then show "lower_char c = CHR 0xDF" by (simp add: lower_char_def is_upper_def)
qed

lemma fold_char_nonempty [simp]: "fold_char c \<noteq> []"
  by (simp add: fold_char_def)

lemma casefold_Nil [simp]: "casefold [] = []"
  by (simp add: casefold_def)

lemma casefold_Cons: "casefold (c # cs) = fold_char c @ casefold cs"
  by (simp add: casefold_def)

lemma casefold_append: "casefold (xs @ ys) = casefold xs @ casefold ys"
  by (simp add: casefold_def)

lemma casefold_fold_char: "casefold (fold_char c) = fold_char c"
  by (auto simp: casefold_def fold_char_def lower_char_sharp)
     (auto simp: lower_char_def is_upper_def)

lemma casefold_idem [simp]: "casefold (casefold s) = casefold s"
  by (induction s) (simp_all add: casefold_Cons casefold_append casefold_fold_char)

lemma casefold_Nil_iff [simp]: "casefold s = [] \<longleftrightarrow> s = []"
  by (cases s) (simp_all add: casefold_Cons)

lemma is_space_fold_char: "x \<in> set (fold_char c) \<Longrightarrow> is_space x \<longleftrightarrow> is_space c"
  by (auto simp: fold_char_def split: if_splits) (auto simp: is_space_def)

lemma no_outer_space_casefold: "no_outer_space s \<Longrightarrow> no_outer_space (casefold s)"
proof (cases "s = []")
  case True
  then show ?thesis by (simp add: no_outer_space_def)
next
  case False
  assume n: "no_outer_space s"
  obtain c cs where cs: "s = c # cs" using False by (cases s) auto
  obtain ds d where ds: "s = ds @ [d]" using False by (cases s rule: rev_cases) auto
  have "hd (casefold s) = hd (fold_char c)" by (simp add: cs casefold_Cons)
  then have h: "\<not> is_space (hd (casefold s))"
    using n is_space_fold_char [of "hd (fold_char c)" c] by (simp add: no_outer_space_def cs)
  have "last (casefold s) = last (fold_char d)"
    by (simp add: ds casefold_append casefold_Cons)
  then have "\<not> is_space (last (casefold s))"
    using n is_space_fold_char [of "last (fold_char d)" d] by (simp add: no_outer_space_def ds)
  with h show ?thesis by (simp add: no_outer_space_def)
qed

section \<open>Searching and splitting\<close>

definition contains_char :: "char \<Rightarrow> string \<Rightarrow> bool" where
  "contains_char c s = (c \<in> set s)"

definition startswith :: "string \<Rightarrow> string \<Rightarrow> bool" where
  "startswith s p = prefix p s"

text \<open>
  \<^verbatim>\<open>s.partition(sep)\<close> for a one-character separator: the part before the first separator,
  whether there is one, the part after it.
\<close>

fun partition_char :: "char \<Rightarrow> string \<Rightarrow> string \<times> bool \<times> string" where
  "partition_char x [] = ([], False, [])"
| "partition_char x (c # cs) =
     (if c = x then ([], True, cs)
      else (case partition_char x cs of (a, found, b) \<Rightarrow> (c # a, found, b)))"

lemma partition_char_found:
  "partition_char x s = (a, True, b) \<Longrightarrow> s = a @ x # b \<and> x \<notin> set a"
  by (induction s arbitrary: a) (auto split: if_splits prod.splits)

lemma partition_char_absent:
  "partition_char x s = (a, False, b) \<Longrightarrow> a = s \<and> b = [] \<and> x \<notin> set s"
  by (induction s arbitrary: a) (auto split: if_splits prod.splits)

lemma partition_char_append: "x \<notin> set a \<Longrightarrow> partition_char x (a @ x # b) = (a, True, b)"
  by (induction a) auto

section \<open>Integers\<close>

text \<open>
  \<^verbatim>\<open>int(s)\<close>: surrounding whitespace, an optional sign, decimal digits with single underscores
  between them, at most 4300 digits; anything else is a \<^verbatim>\<open>ValueError\<close>, here \<open>None\<close>.
\<close>

definition digit_of :: "char \<Rightarrow> int option" where
  "digit_of c = (let n = (of_char c :: nat) in
     if 48 \<le> n \<and> n \<le> 57 then Some (int n - 48) else None)"

definition digit_char :: "nat \<Rightarrow> char" where
  "digit_char d = char_of (48 + d)"

fun parse_digits :: "bool \<Rightarrow> int \<Rightarrow> string \<Rightarrow> int option" where
  "parse_digits after_digit acc [] = (if after_digit then Some acc else None)"
| "parse_digits after_digit acc (c # cs) =
     (case digit_of c of
        Some d \<Rightarrow> parse_digits True (acc * 10 + d) cs
      | None \<Rightarrow> if c = CHR ''_'' \<and> after_digit then parse_digits False acc cs else None)"

definition max_str_digits :: nat where
  "max_str_digits = 4300"

definition parse_unsigned :: "string \<Rightarrow> int option" where
  "parse_unsigned s =
     (if max_str_digits < length (filter (\<lambda>c. digit_of c \<noteq> None) s) then None
      else parse_digits False 0 s)"

definition py_int :: "string \<Rightarrow> int option" where
  "py_int s = (case strip s of
      [] \<Rightarrow> None
    | c # cs \<Rightarrow>
        if c = CHR ''-'' then map_option uminus (parse_unsigned cs)
        else if c = CHR ''+'' then parse_unsigned cs
        else parse_unsigned (c # cs))"

text \<open>\<^verbatim>\<open>str(n)\<close> of a non-negative integer, and of any integer.\<close>

fun str_nat :: "nat \<Rightarrow> string" where
  "str_nat n = (if n < 10 then [digit_char n] else str_nat (n div 10) @ [digit_char (n mod 10)])"

declare str_nat.simps [simp del]

definition py_str :: "int \<Rightarrow> string" where
  "py_str i = (if i < 0 then CHR ''-'' # str_nat (nat (- i)) else str_nat (nat i))"

lemma digit_of_digit_char: "d < 10 \<Longrightarrow> digit_of (digit_char d) = Some (int d)"
  by (simp add: digit_of_def digit_char_def of_char_of Let_def)

lemma digit_char_not_space: "d < 10 \<Longrightarrow> \<not> is_space (digit_char d)"
  by (simp add: is_space_def digit_char_def of_char_of Let_def)

lemma str_nat_nonempty [simp]: "str_nat n \<noteq> []"
  by (subst str_nat.simps) simp

lemma set_str_nat: "set (str_nat n) \<subseteq> digit_char ` {..<10}"
proof (induction n rule: str_nat.induct)
  case (1 n)
  show ?case
  proof (cases "n < 10")
    case True
    then show ?thesis by (subst str_nat.simps) auto
  next
    case False
    with 1 have "set (str_nat (n div 10)) \<subseteq> digit_char ` {..<10}" by simp
    moreover have "digit_char (n mod 10) \<in> digit_char ` {..<10}" by simp
    ultimately show ?thesis using False by (subst str_nat.simps) simp
  qed
qed

lemma str_nat_digits: "c \<in> set (str_nat n) \<Longrightarrow> \<exists>d<10. c = digit_char d"
  using set_str_nat by fastforce

lemma str_nat_no_space: "c \<in> set (str_nat n) \<Longrightarrow> \<not> is_space c"
  using str_nat_digits digit_char_not_space by blast

lemma parse_digits_append:
  assumes "\<forall>c\<in>set xs. digit_of c \<noteq> None" and "xs \<noteq> []"
  shows "parse_digits b acc (xs @ ys) =
         (case parse_digits b acc xs of None \<Rightarrow> None | Some v \<Rightarrow> parse_digits True v ys)"
  using assms
proof (induction xs arbitrary: b acc)
  case Nil
  then show ?case by simp
next
  case (Cons x xs)
  then show ?case by (cases "xs = []") auto
qed

lemma digit_of_str_nat: "c \<in> set (str_nat n) \<Longrightarrow> digit_of c \<noteq> None"
  using str_nat_digits digit_of_digit_char by fastforce

lemma parse_digits_str_nat: "parse_digits b 0 (str_nat n) = Some (int n)"
proof (induction n arbitrary: b rule: str_nat.induct)
  case (1 n)
  show ?case
  proof (cases "n < 10")
    case True
    then show ?thesis by (subst str_nat.simps) (simp add: digit_of_digit_char)
  next
    case False
    have "parse_digits b 0 (str_nat n) =
          parse_digits b 0 (str_nat (n div 10) @ [digit_char (n mod 10)])"
      using False by (subst str_nat.simps) simp
    also have "\<dots> = parse_digits True (int (n div 10)) [digit_char (n mod 10)]"
      using 1 [OF False] digit_of_str_nat by (subst parse_digits_append) auto
    also have "\<dots> = Some (int n)"
      by (simp add: digit_of_digit_char zdiv_int zmod_int)
    finally show ?thesis .
  qed
qed

lemma length_str_nat: "0 < k \<Longrightarrow> n < 10 ^ k \<Longrightarrow> length (str_nat n) \<le> k"
proof (induction k arbitrary: n)
  case 0
  then show ?case by simp
next
  case (Suc k)
  show ?case
  proof (cases "n < 10")
    case True
    then show ?thesis by (subst str_nat.simps) simp
  next
    case False
    with Suc.prems have "0 < k" by (cases k) auto
    moreover have "n div 10 < 10 ^ k"
      using Suc.prems by (simp add: less_mult_imp_div_less mult.commute)
    ultimately have "length (str_nat (n div 10)) \<le> k" by (rule Suc.IH)
    with False show ?thesis by (subst str_nat.simps) simp
  qed
qed

lemma strip_py_str [simp]: "strip (py_str i) = py_str i"
proof (rule strip_id)
  have "\<not> is_space (CHR ''-'')" by (simp add: is_space_def)
  then show "no_outer_space (py_str i)"
    using str_nat_no_space [OF hd_in_set [OF str_nat_nonempty]]
      str_nat_no_space [OF last_in_set [OF str_nat_nonempty]]
    by (auto simp: no_outer_space_def py_str_def)
qed

lemma trim_py_str [simp]: "trim (py_str i) = py_str i"
  using trim_strip [of "py_str i"] by simp

lemma py_str_nonempty [simp]: "py_str i \<noteq> []"
  by (simp add: py_str_def)

lemma parse_unsigned_str_nat:
  assumes "n < 10 ^ max_str_digits"
  shows "parse_unsigned (str_nat n) = Some (int n)"
proof -
  have "0 < max_str_digits" by (simp add: max_str_digits_def)
  then have "length (str_nat n) \<le> max_str_digits"
    using assms by (rule length_str_nat)
  moreover have "length (filter (\<lambda>c. digit_of c \<noteq> None) (str_nat n)) \<le> length (str_nat n)"
    by (rule length_filter_le)
  ultimately have "\<not> max_str_digits < length (filter (\<lambda>c. digit_of c \<noteq> None) (str_nat n))"
    by linarith
  then show ?thesis
    unfolding parse_unsigned_def by (simp only: if_False parse_digits_str_nat)
qed

lemma hd_str_nat_not_sign: "hd (str_nat n) \<noteq> CHR ''-'' \<and> hd (str_nat n) \<noteq> CHR ''+''"
proof -
  have "digit_of (hd (str_nat n)) \<noteq> None"
    by (rule digit_of_str_nat [where n = n]) simp
  then show ?thesis by (auto simp: digit_of_def)
qed

lemma py_int_py_str:
  assumes "\<bar>i\<bar> < 10 ^ max_str_digits"
  shows "py_int (py_str i) = Some i"
proof (cases "i < 0")
  case True
  with assms have "nat (- i) < 10 ^ max_str_digits" by (simp add: nat_less_iff)
  with True show ?thesis
    using strip_py_str [of i] by (simp add: py_int_def py_str_def parse_unsigned_str_nat)
next
  case False
  with assms have b: "nat i < 10 ^ max_str_digits" by (simp add: nat_less_iff)
  obtain c cs where s: "str_nat (nat i) = c # cs" by (meson list.exhaust str_nat_nonempty)
  then have "c \<noteq> CHR ''-''" "c \<noteq> CHR ''+''"
    using hd_str_nat_not_sign [of "nat i"] by auto
  with False s show ?thesis
    using strip_py_str [of i] parse_unsigned_str_nat [OF b] by (simp add: py_int_def py_str_def)
qed

lemma py_str_inject:
  "\<bar>i\<bar> < 10 ^ max_str_digits \<Longrightarrow> \<bar>j\<bar> < 10 ^ max_str_digits \<Longrightarrow> py_str i = py_str j \<longleftrightarrow> i = j"
  by (metis option.inject py_int_py_str)

text \<open>The identifiers of the database are 32-bit integers, far below the limit.\<close>

lemma id_below_max_str_digits:
  assumes "\<bar>i :: int\<bar> \<le> 2147483648"
  shows "\<bar>i\<bar> < 10 ^ max_str_digits"
proof -
  have "(10::int) ^ 10 \<le> 10 ^ max_str_digits"
    by (rule power_increasing) (simp_all add: max_str_digits_def)
  with assms show ?thesis by simp
qed

section \<open>Collapsing whitespace\<close>

text \<open>\<^verbatim>\<open>re.sub(r"\s+", " ", s)\<close>.\<close>

fun collapse_ws :: "string \<Rightarrow> string" where
  "collapse_ws [] = []"
| "collapse_ws (c # cs) =
     (if is_space c
      then (case cs of d # ds \<Rightarrow> if is_space d then collapse_ws cs else CHR '' '' # collapse_ws cs
                     | [] \<Rightarrow> CHR '' '' # collapse_ws cs)
      else c # collapse_ws cs)"

text \<open>No two neighbouring whitespace characters, and every whitespace is a space.\<close>

fun single_spaced :: "string \<Rightarrow> bool" where
  "single_spaced [] = True"
| "single_spaced [c] = (is_space c \<longrightarrow> c = CHR '' '')"
| "single_spaced (c # d # cs) =
     ((is_space c \<longrightarrow> c = CHR '' '' \<and> \<not> is_space d) \<and> single_spaced (d # cs))"

declare collapse_ws.simps(2) [simp del]

lemma collapse_ws_other: "\<not> is_space c \<Longrightarrow> collapse_ws (c # cs) = c # collapse_ws cs"
  by (simp add: collapse_ws.simps(2))

lemma collapse_ws_space:
  "is_space c \<Longrightarrow> cs \<noteq> [] \<Longrightarrow> is_space (hd cs) \<Longrightarrow> collapse_ws (c # cs) = collapse_ws cs"
  "is_space c \<Longrightarrow> cs \<noteq> [] \<Longrightarrow> \<not> is_space (hd cs) \<Longrightarrow>
     collapse_ws (c # cs) = CHR '' '' # collapse_ws cs"
  "is_space c \<Longrightarrow> collapse_ws [c] = '' ''"
  by (auto simp: collapse_ws.simps(2) neq_Nil_conv)

lemma hd_collapse_ws: "s \<noteq> [] \<Longrightarrow> \<not> is_space (hd s) \<Longrightarrow> hd (collapse_ws s) = hd s"
  by (cases s) (auto simp: collapse_ws_other)

lemma space_is_space [simp]: "is_space (CHR '' '')"
  by (simp add: is_space_def)

lemma single_spaced_Cons:
  "\<not> is_space c \<Longrightarrow> single_spaced s \<Longrightarrow> single_spaced (c # s)"
  by (cases s) auto

lemma single_spaced_space_Cons:
  "single_spaced s \<Longrightarrow> s \<noteq> [] \<Longrightarrow> \<not> is_space (hd s) \<Longrightarrow> single_spaced (CHR '' '' # s)"
  by (cases s) auto

lemma collapse_ws_cases:
  "collapse_ws (c # cs) =
     (if \<not> is_space c then c # collapse_ws cs
      else if cs \<noteq> [] \<and> is_space (hd cs) then collapse_ws cs
      else CHR '' '' # collapse_ws cs)"
  by (cases cs) (simp_all add: collapse_ws_other collapse_ws_space)

lemma collapse_ws_Nil_iff [simp]: "collapse_ws s = [] \<longleftrightarrow> s = []"
  by (induction s) (auto simp: collapse_ws_cases)

lemma single_spaced_collapse_ws: "single_spaced (collapse_ws s)"
proof (induction s)
  case Nil
  then show ?case by simp
next
  case (Cons c cs)
  show ?case
  proof (cases "is_space c \<and> cs \<noteq> [] \<and> \<not> is_space (hd cs)")
    case True
    with Cons show ?thesis
      by (simp add: collapse_ws_cases hd_collapse_ws single_spaced_space_Cons)
  next
    case False
    with Cons show ?thesis
      by (cases "cs = []") (auto simp: collapse_ws_cases single_spaced_Cons)
  qed
qed

lemma collapse_ws_id: "single_spaced s \<Longrightarrow> collapse_ws s = s"
  by (induction s rule: single_spaced.induct) (auto simp: collapse_ws_cases)

lemma last_collapse_ws: "s \<noteq> [] \<Longrightarrow> \<not> is_space (last s) \<Longrightarrow> last (collapse_ws s) = last s"
proof (induction s)
  case Nil
  then show ?case by simp
next
  case (Cons c cs)
  then show ?case by (cases "cs = []") (auto simp: collapse_ws_cases)
qed

lemma no_outer_space_collapse_ws: "no_outer_space s \<Longrightarrow> no_outer_space (collapse_ws s)"
  by (auto simp: no_outer_space_def hd_collapse_ws last_collapse_ws)

lemma length_collapse_ws: "length (collapse_ws s) \<le> length s"
  by (induction s) (auto simp: collapse_ws_cases)

end
