(* ===== verification/Encoding.thy ===== *)
theory Encoding
  imports Py_Str
begin

text \<open>
  Bytes and the encodings the credentials go through: \<^verbatim>\<open>str.encode()\<close> (UTF-8 and ASCII),
  \<^verbatim>\<open>hexdigest\<close> of \<^verbatim>\<open>hashlib\<close>, \<^verbatim>\<open>base64.urlsafe_b64encode\<close> and the two functions of \<^verbatim>\<open>secrets\<close> that
  turn 32 random bytes into text. SHA-256 itself is a parameter of the model (\<open>sha256\<close> below
  is always a function argument); all that is ever assumed of it is that a digest has 32
  bytes, so no result here rests on the hash being injective.
\<close>

type_synonym byte = "8 word"

section \<open>Text to bytes\<close>

definition utf8_char :: "char \<Rightarrow> byte list" where
  "utf8_char c = (let n = (of_char c :: nat) in
     if n < 128 then [of_nat n] else [of_nat (192 + n div 64), of_nat (128 + n mod 64)])"

definition utf8_encode :: "string \<Rightarrow> byte list" where
  "utf8_encode s = concat (map utf8_char s)"

definition is_ascii :: "string \<Rightarrow> bool" where
  "is_ascii s = list_all (\<lambda>c. (of_char c :: nat) < 128) s"

text \<open>\<^verbatim>\<open>s.encode("ascii")\<close>: \<open>None\<close> is the \<^verbatim>\<open>UnicodeEncodeError\<close>.\<close>

definition ascii_encode :: "string \<Rightarrow> byte list option" where
  "ascii_encode s = (if is_ascii s then Some (map (\<lambda>c. of_nat (of_char c)) s) else None)"

lemma ascii_encode_utf8: "ascii_encode s = Some bs \<Longrightarrow> utf8_encode s = bs"
proof -
  have "is_ascii s \<Longrightarrow> concat (map utf8_char s) = map (\<lambda>c. of_nat (of_char c)) s"
    by (induction s) (auto simp: is_ascii_def utf8_char_def Let_def)
  then show "ascii_encode s = Some bs \<Longrightarrow> utf8_encode s = bs"
    by (auto simp: ascii_encode_def utf8_encode_def split: if_splits)
qed

section \<open>Hexadecimal\<close>

definition hex_digit :: "nat \<Rightarrow> char" where
  "hex_digit n = (if n < 10 then char_of (48 + n) else char_of (87 + n))"

definition hex_of_bytes :: "byte list \<Rightarrow> string" where
  "hex_of_bytes bs =
     concat (map (\<lambda>b. [hex_digit (unat b div 16), hex_digit (unat b mod 16)]) bs)"

lemma hex_digit_inj: "m < 16 \<Longrightarrow> n < 16 \<Longrightarrow> hex_digit m = hex_digit n \<longleftrightarrow> m = n"
proof
  assume m: "m < 16" and n: "n < 16" and eq: "hex_digit m = hex_digit n"
  from eq have "(of_char (hex_digit m) :: nat) = of_char (hex_digit n)" by simp
  with m n show "m = n" by (auto simp: hex_digit_def of_char_of split: if_splits)
qed simp

lemma unat_byte_less: "unat (b :: byte) < 256"
proof -
  have "unat b < 2 ^ LENGTH(8)" by (rule unsigned_less)
  then show ?thesis by simp
qed

lemma length_hex_of_bytes [simp]: "length (hex_of_bytes bs) = 2 * length bs"
  by (induction bs) (simp_all add: hex_of_bytes_def)

lemma byte_eq_by_nibbles:
  "unat (b :: byte) div 16 = unat c div 16 \<Longrightarrow> unat b mod 16 = unat c mod 16 \<Longrightarrow> b = c"
  by (metis div_mult_mod_eq word_unat_eq_iff)

lemma hex_of_bytes_inj: "hex_of_bytes bs = hex_of_bytes cs \<longleftrightarrow> bs = cs"
proof
  show "hex_of_bytes bs = hex_of_bytes cs \<Longrightarrow> bs = cs"
  proof (induction bs arbitrary: cs)
    case Nil
    then show ?case by (cases cs) (simp_all add: hex_of_bytes_def)
  next
    case (Cons b bs)
    then obtain c cs' where cs: "cs = c # cs'"
      by (cases cs) (auto simp: hex_of_bytes_def)
    have "unat b div 16 < 16" "unat c div 16 < 16"
      using unat_byte_less [of b] unat_byte_less [of c] by (simp_all add: less_mult_imp_div_less)
    with Cons.prems have "unat b div 16 = unat c div 16" "unat b mod 16 = unat c mod 16"
      by (auto simp: hex_of_bytes_def cs hex_digit_inj)
    then have "b = c" by (rule byte_eq_by_nibbles)
    moreover have "bs = cs'"
      using Cons by (auto simp: hex_of_bytes_def cs)
    ultimately show ?case by (simp add: cs)
  qed
qed simp

section \<open>URL-safe base64\<close>

definition b64_char :: "nat \<Rightarrow> char" where
  "b64_char n =
     (if n < 26 then char_of (65 + n)
      else if n < 52 then char_of (71 + n)
      else if n < 62 then char_of (n - 4)
      else if n = 62 then CHR ''-'' else CHR ''_'')"

definition b64_value :: "char \<Rightarrow> nat" where
  "b64_value c = (let n = (of_char c :: nat) in
     if 65 \<le> n \<and> n \<le> 90 then n - 65
     else if 97 \<le> n \<and> n \<le> 122 then n - 71
     else if 48 \<le> n \<and> n \<le> 57 then n + 4
     else if n = 45 then 62 else 63)"

text \<open>The characters \<^verbatim>\<open>[A-Za-z0-9_-]\<close>: the pattern of \<^verbatim>\<open>code_challenge\<close>.\<close>

definition b64url_alphabet :: "char \<Rightarrow> bool" where
  "b64url_alphabet c = (let n = (of_char c :: nat) in
     (65 \<le> n \<and> n \<le> 90) \<or> (97 \<le> n \<and> n \<le> 122) \<or> (48 \<le> n \<and> n \<le> 57) \<or> n = 95 \<or> n = 45)"

fun urlsafe_b64encode :: "byte list \<Rightarrow> string" where
  "urlsafe_b64encode [] = []"
| "urlsafe_b64encode [a] =
     [b64_char (unat a div 4), b64_char (unat a mod 4 * 16), CHR ''='', CHR ''='']"
| "urlsafe_b64encode [a, b] =
     [b64_char (unat a div 4), b64_char (unat a mod 4 * 16 + unat b div 16),
      b64_char (unat b mod 16 * 4), CHR ''='']"
| "urlsafe_b64encode (a # b # c # bs) =
     b64_char (unat a div 4) # b64_char (unat a mod 4 * 16 + unat b div 16) #
     b64_char (unat b mod 16 * 4 + unat c div 64) # b64_char (unat c mod 64) #
     urlsafe_b64encode bs"

definition rstrip_char :: "char \<Rightarrow> string \<Rightarrow> string" where
  "rstrip_char x s = rev (dropWhile (\<lambda>c. c = x) (rev s))"

lemma b64_value_char: "n < 64 \<Longrightarrow> b64_value (b64_char n) = n"
  by (auto simp: b64_value_def b64_char_def Let_def of_char_of)

lemma b64_char_inj: "m < 64 \<Longrightarrow> n < 64 \<Longrightarrow> b64_char m = b64_char n \<longleftrightarrow> m = n"
  by (metis b64_value_char)

lemma b64_char_alphabet: "n < 64 \<Longrightarrow> b64url_alphabet (b64_char n)"
  by (auto simp: b64url_alphabet_def b64_char_def Let_def of_char_of)

lemma eq_sign_not_alphabet: "\<not> b64url_alphabet (CHR ''='')"
  by (simp add: b64url_alphabet_def)

lemma alphabet_ascii: "b64url_alphabet c \<Longrightarrow> (of_char c :: nat) < 128"
  by (auto simp: b64url_alphabet_def Let_def)

lemma alphabet_not_space: "b64url_alphabet c \<Longrightarrow> \<not> is_space c"
  by (auto simp: b64url_alphabet_def is_space_def Let_def)

lemma byte_quotients:
  "unat (b :: byte) div 16 < 16" "unat (b :: byte) div 64 < 4" "unat (b :: byte) div 4 < 64"
  by (rule less_mult_imp_div_less, use unat_byte_less [of b] in simp)+

lemma pair_bounds:
  "x < 4 \<Longrightarrow> y < 16 \<Longrightarrow> x * 16 + y < (64::nat)"
  "x < 4 \<Longrightarrow> x * 16 < (64::nat)"
  "x < 16 \<Longrightarrow> y < 4 \<Longrightarrow> x * 4 + y < (64::nat)"
  "x < 16 \<Longrightarrow> x * 4 < (64::nat)"
  by simp_all

lemma sextet_bounds:
  "unat (a :: byte) div 4 < 64"
  "unat (a :: byte) mod 4 * 16 + unat (b :: byte) div 16 < 64"
  "unat (a :: byte) mod 4 * 16 < 64"
  "unat (b :: byte) mod 16 * 4 + unat (c :: byte) div 64 < 64"
  "unat (b :: byte) mod 16 * 4 < 64"
  "unat (c :: byte) mod 64 < 64"
proof -
  note d = byte_quotients(1) [of b] byte_quotients(2) [of c]
  have m: "unat a mod 4 < 4" "unat b mod 16 < 16" by simp_all
  show "unat a div 4 < 64" by (rule byte_quotients(3))
  show "unat a mod 4 * 16 + unat b div 16 < 64" by (rule pair_bounds(1) [OF m(1) d(1)])
  show "unat a mod 4 * 16 < 64" by (rule pair_bounds(2) [OF m(1)])
  show "unat b mod 16 * 4 + unat c div 64 < 64" by (rule pair_bounds(3) [OF m(2) d(2)])
  show "unat b mod 16 * 4 < 64" by (rule pair_bounds(4) [OF m(2)])
  show "unat c mod 64 < 64" by simp
qed

lemma rstrip_char_snoc:
  "rstrip_char x (s @ [x]) = rstrip_char x s"
  "c \<noteq> x \<Longrightarrow> rstrip_char x (s @ [c]) = s @ [c]"
  by (simp_all add: rstrip_char_def)

lemma rstrip_char_id: "x \<notin> set s \<Longrightarrow> rstrip_char x s = s"
  by (cases s rule: rev_cases) (auto simp: rstrip_char_snoc rstrip_char_def)

text \<open>
  The encoding is text of the alphabet followed by at most two \<^verbatim>\<open>=\<close>, so stripping them gives
  text of the alphabet whose length is fixed by the number of bytes.
\<close>

lemma b64_shape:
  "\<exists>body pad. urlsafe_b64encode bs = body @ replicate pad (CHR ''='') \<and>
     list_all b64url_alphabet body \<and> length body = (4 * length bs + 2) div 3"
proof (induction bs rule: urlsafe_b64encode.induct)
  case 1
  then show ?case by (intro exI [of _ "[]"] exI [of _ 0]) simp
next
  case (2 a)
  then show ?case
    by (intro exI [of _ "[b64_char (unat a div 4), b64_char (unat a mod 4 * 16)]"]
        exI [of _ "Suc (Suc 0)"])
       (simp add: b64_char_alphabet sextet_bounds)
next
  case (3 a b)
  then show ?case
    by (intro exI [of _ "[b64_char (unat a div 4), b64_char (unat a mod 4 * 16 + unat b div 16),
        b64_char (unat b mod 16 * 4)]"] exI [of _ "Suc 0"])
       (simp add: b64_char_alphabet sextet_bounds)
next
  case (4 a b c bs)
  then obtain body pad where body:
    "urlsafe_b64encode bs = body @ replicate pad (CHR ''='')"
    "list_all b64url_alphabet body" "length body = (4 * length bs + 2) div 3" by blast
  have "Suc (Suc (Suc (Suc ((4 * n + 2) div 3)))) = (4 * Suc (Suc (Suc n)) + 2) div 3" for n :: nat
    by presburger
  with body show ?case
    by (intro exI [of _ "b64_char (unat a div 4) # b64_char (unat a mod 4 * 16 + unat b div 16) #
        b64_char (unat b mod 16 * 4 + unat c div 64) # b64_char (unat c mod 64) # body"]
        exI [of _ pad])
       (simp add: b64_char_alphabet sextet_bounds)
qed

definition b64url_nopad :: "byte list \<Rightarrow> string" where
  "b64url_nopad bs = rstrip_char (CHR ''='') (urlsafe_b64encode bs)"

lemma rstrip_replicate:
  "x \<notin> set body \<Longrightarrow> rstrip_char x (body @ replicate pad x) = body"
proof (induction pad)
  case 0
  then show ?case by (simp add: rstrip_char_id)
next
  case (Suc pad)
  then show ?case
    using rstrip_char_snoc(1) [of x "body @ replicate pad x"]
    by (simp add: replicate_append_same)
qed

lemma b64url_nopad_shape:
  "list_all b64url_alphabet (b64url_nopad bs) \<and> length (b64url_nopad bs) = (4 * length bs + 2) div 3"
proof -
  obtain body pad where body:
    "urlsafe_b64encode bs = body @ replicate pad (CHR ''='')"
    "list_all b64url_alphabet body" "length body = (4 * length bs + 2) div 3"
    using b64_shape by blast
  then have "CHR ''='' \<notin> set body"
    using eq_sign_not_alphabet by (auto simp: list_all_iff)
  then have "b64url_nopad bs = body"
    unfolding b64url_nopad_def body(1) by (rule rstrip_replicate)
  with body show ?thesis by simp
qed

lemma length_b64url_nopad_32: "length bs = 32 \<Longrightarrow> length (b64url_nopad bs) = 43"
  using b64url_nopad_shape [of bs] by simp

text \<open>Without its padding the encoding still determines the bytes.\<close>

lemma byte_split_eq:
  "unat (a :: byte) div 4 = unat b div 4 \<Longrightarrow> unat a mod 4 = unat b mod 4 \<Longrightarrow> a = b"
  "unat (a :: byte) div 16 = unat b div 16 \<Longrightarrow> unat a mod 16 = unat b mod 16 \<Longrightarrow> a = b"
  "unat (a :: byte) div 64 = unat b div 64 \<Longrightarrow> unat a mod 64 = unat b mod 64 \<Longrightarrow> a = b"
  by (metis div_mult_mod_eq word_unat_eq_iff)+

lemma quotient_parts:
  assumes "a * k + m = b * k + n" and "m < k" and "n < (k :: nat)"
  shows "a = b" and "m = n"
proof -
  have "a = (a * k + m) div k" "b = (b * k + n) div k" using assms(2,3) by simp_all
  with assms(1) show "a = b" by simp
  with assms(1) show "m = n" by simp
qed

lemma sextets_eq:
  "unat (a :: byte) mod 4 * 16 + unat (b :: byte) div 16 =
     unat (a' :: byte) mod 4 * 16 + unat (b' :: byte) div 16 \<Longrightarrow>
     unat a mod 4 = unat a' mod 4 \<and> unat b div 16 = unat b' div 16"
  "unat (b :: byte) mod 16 * 4 + unat (c :: byte) div 64 =
     unat (b' :: byte) mod 16 * 4 + unat (c' :: byte) div 64 \<Longrightarrow>
     unat b mod 16 = unat b' mod 16 \<and> unat c div 64 = unat c' div 64"
proof -
  note d = byte_quotients
  show "unat a mod 4 * 16 + unat b div 16 = unat a' mod 4 * 16 + unat b' div 16 \<Longrightarrow>
      unat a mod 4 = unat a' mod 4 \<and> unat b div 16 = unat b' div 16"
    by (blast dest: quotient_parts [OF _ d(1) d(1)])
  show "unat b mod 16 * 4 + unat c div 64 = unat b' mod 16 * 4 + unat c' div 64 \<Longrightarrow>
      unat b mod 16 = unat b' mod 16 \<and> unat c div 64 = unat c' div 64"
    by (blast dest: quotient_parts [OF _ d(2) d(2)])
qed

lemma urlsafe_b64encode_inj:
  "length bs = length cs \<Longrightarrow> urlsafe_b64encode bs = urlsafe_b64encode cs \<Longrightarrow> bs = cs"
proof (induction bs arbitrary: cs rule: urlsafe_b64encode.induct)
  case 1
  then show ?case by simp
next
  case (2 a)
  then obtain a' where "cs = [a']" by (cases cs) auto
  with 2 show ?case
    by (auto simp: b64_char_inj sextet_bounds intro: byte_split_eq(1))
next
  case (3 a b)
  then obtain a' b' where cs: "cs = [a', b']"
    by (cases cs; cases "tl cs") auto
  with 3 have "unat a div 4 = unat a' div 4"
    "unat a mod 4 * 16 + unat b div 16 = unat a' mod 4 * 16 + unat b' div 16"
    "unat b mod 16 = unat b' mod 16"
    by (auto simp: b64_char_inj sextet_bounds)
  then show ?case using sextets_eq(1) byte_split_eq cs by blast
next
  case (4 a b c bs)
  then obtain a' b' c' ds where cs: "cs = a' # b' # c' # ds"
    by (cases cs; cases "tl cs"; cases "tl (tl cs)") auto
  with 4 have "unat a div 4 = unat a' div 4"
    "unat a mod 4 * 16 + unat b div 16 = unat a' mod 4 * 16 + unat b' div 16"
    "unat b mod 16 * 4 + unat c div 64 = unat b' mod 16 * 4 + unat c' div 64"
    "unat c mod 64 = unat c' mod 64" "bs = ds"
    by (auto simp: b64_char_inj sextet_bounds)
  then show ?case using sextets_eq byte_split_eq cs by blast
qed

lemma b64url_nopad_inj:
  assumes "length bs = length cs" and "b64url_nopad bs = b64url_nopad cs"
  shows "bs = cs"
proof (rule urlsafe_b64encode_inj [OF assms(1)])
  have decomp: "\<exists>pad. urlsafe_b64encode xs = b64url_nopad xs @ replicate pad (CHR ''='')" for xs
  proof -
    obtain body pad where body: "urlsafe_b64encode xs = body @ replicate pad (CHR ''='')"
      "list_all b64url_alphabet body"
      using b64_shape by blast
    then have "CHR ''='' \<notin> set body" using eq_sign_not_alphabet by (auto simp: list_all_iff)
    then have "b64url_nopad xs = body"
      unfolding b64url_nopad_def body(1) by (rule rstrip_replicate)
    with body show ?thesis by auto
  qed
  obtain p q where p: "urlsafe_b64encode bs = b64url_nopad bs @ replicate p (CHR ''='')"
    and q: "urlsafe_b64encode cs = b64url_nopad cs @ replicate q (CHR ''='')"
    using decomp by blast
  have step: "(5 + n) div 3 = Suc ((n + 2) div 3)" for n :: nat
    by presburger
  have "length (urlsafe_b64encode xs) = 4 * ((length xs + 2) div 3)" for xs
    by (induction xs rule: urlsafe_b64encode.induct)
       (simp_all add: step del: add_2_eq_Suc add_2_eq_Suc')
  with assms(1) have "length (urlsafe_b64encode bs) = length (urlsafe_b64encode cs)" by simp
  with p q assms(2) show "urlsafe_b64encode bs = urlsafe_b64encode cs" by simp
qed

section \<open>Random text\<close>

text \<open>
  \<^verbatim>\<open>secrets.token_hex(32)\<close> and \<^verbatim>\<open>secrets.token_urlsafe(32)\<close> of the 32 random bytes drawn. A draw
  is always brought to 32 bytes.
\<close>

definition bytes32 :: "byte list \<Rightarrow> byte list" where
  "bytes32 bs = take 32 (bs @ replicate 32 0)"

definition token_hex :: "byte list \<Rightarrow> string" where
  "token_hex bs = hex_of_bytes (bytes32 bs)"

definition token_urlsafe :: "byte list \<Rightarrow> string" where
  "token_urlsafe bs = b64url_nopad (bytes32 bs)"

lemma length_bytes32 [simp]: "length (bytes32 bs) = 32"
  by (simp add: bytes32_def)

lemma length_token_hex [simp]: "length (token_hex bs) = 64"
  by (simp add: token_hex_def)

lemma length_token_urlsafe [simp]: "length (token_urlsafe bs) = 43"
  by (simp add: token_urlsafe_def length_b64url_nopad_32)

lemma token_urlsafe_alphabet: "list_all b64url_alphabet (token_urlsafe bs)"
  by (simp add: token_urlsafe_def b64url_nopad_shape)

end
