(* ===== verification/Errors.thy ===== *)
theory Errors
  imports Encoding
begin

text \<open>
  The exception classes of \<^verbatim>\<open>exceptions/\<close>, one datatype per module, and the HTTP responses
  \<^verbatim>\<open>api/exception_handlers.py\<close> turns them into. An instance is its class: the program only
  raises exceptions without a message of their own, so \<^verbatim>\<open>public_message\<close> is the class
  attribute. The class statement's base is \<open>base_class\<close>; the method resolution order, which
  both Starlette's choice of handler and \<^verbatim>\<open>_config_for\<close> walk, is computed from it.
\<close>

section \<open>The exception classes\<close>

datatype auth_error =
    AuthServiceError
  | EmailAlreadyRegisteredError
  | RegistrationUnavailableError
  | EmailNotVerifiedError
  | InvalidEmailVerificationTokenError
  | EmailVerificationUnavailableError
  | InvalidCredentialsError
  | InvalidBasicCredentialsError
  | BasicAuthenticationUnavailableError
  | InactiveUserError
  | InvalidAccessTokenError
  | InvalidRefreshTokenError
  | InvalidCSRFTokenError
  | RequestOriginNotAllowedError
  | RefreshTokenReuseDetectedError
  | LoginSessionUnavailableError
  | TokenAuthenticationUnavailableError
  | TokenRefreshUnavailableError
  | LogoutUnavailableError

primrec auth_base :: "auth_error \<Rightarrow> auth_error option" where
  "auth_base AuthServiceError = None"
| "auth_base EmailAlreadyRegisteredError = Some AuthServiceError"
| "auth_base RegistrationUnavailableError = Some AuthServiceError"
| "auth_base EmailNotVerifiedError = Some AuthServiceError"
| "auth_base InvalidEmailVerificationTokenError = Some AuthServiceError"
| "auth_base EmailVerificationUnavailableError = Some AuthServiceError"
| "auth_base InvalidCredentialsError = Some AuthServiceError"
| "auth_base InvalidBasicCredentialsError = Some InvalidCredentialsError"
| "auth_base BasicAuthenticationUnavailableError = Some AuthServiceError"
| "auth_base InactiveUserError = Some AuthServiceError"
| "auth_base InvalidAccessTokenError = Some AuthServiceError"
| "auth_base InvalidRefreshTokenError = Some AuthServiceError"
| "auth_base InvalidCSRFTokenError = Some AuthServiceError"
| "auth_base RequestOriginNotAllowedError = Some AuthServiceError"
| "auth_base RefreshTokenReuseDetectedError = Some InvalidRefreshTokenError"
| "auth_base LoginSessionUnavailableError = Some AuthServiceError"
| "auth_base TokenAuthenticationUnavailableError = Some AuthServiceError"
| "auth_base TokenRefreshUnavailableError = Some AuthServiceError"
| "auth_base LogoutUnavailableError = Some AuthServiceError"

primrec auth_code :: "auth_error \<Rightarrow> string" where
  "auth_code AuthServiceError = ''auth_service_error''"
| "auth_code EmailAlreadyRegisteredError = ''email_already_registered''"
| "auth_code RegistrationUnavailableError = ''registration_unavailable''"
| "auth_code EmailNotVerifiedError = ''email_not_verified''"
| "auth_code InvalidEmailVerificationTokenError = ''invalid_email_verification_token''"
| "auth_code EmailVerificationUnavailableError = ''email_verification_unavailable''"
| "auth_code InvalidCredentialsError = ''invalid_credentials''"
| "auth_code InvalidBasicCredentialsError = ''invalid_basic_credentials''"
| "auth_code BasicAuthenticationUnavailableError = ''basic_authentication_unavailable''"
| "auth_code InactiveUserError = ''inactive_user''"
| "auth_code InvalidAccessTokenError = ''invalid_access_token''"
| "auth_code InvalidRefreshTokenError = ''invalid_refresh_token''"
| "auth_code InvalidCSRFTokenError = ''invalid_csrf_token''"
| "auth_code RequestOriginNotAllowedError = ''request_origin_not_allowed''"
| "auth_code RefreshTokenReuseDetectedError = ''refresh_token_reuse_detected''"
| "auth_code LoginSessionUnavailableError = ''login_session_unavailable''"
| "auth_code TokenAuthenticationUnavailableError = ''token_authentication_unavailable''"
| "auth_code TokenRefreshUnavailableError = ''token_refresh_unavailable''"
| "auth_code LogoutUnavailableError = ''logout_unavailable''"

primrec auth_message :: "auth_error \<Rightarrow> string" where
  "auth_message AuthServiceError =
     ''Authentication operation failed.''"
| "auth_message EmailAlreadyRegisteredError =
     ''A user with this email already exists.''"
| "auth_message RegistrationUnavailableError =
     ''Registration could not be completed.''"
| "auth_message EmailNotVerifiedError =
     ''Email verification is required before signing in.''"
| "auth_message InvalidEmailVerificationTokenError =
     ''The email verification link is invalid or expired.''"
| "auth_message EmailVerificationUnavailableError =
     ''Email verification is temporarily unavailable.''"
| "auth_message InvalidCredentialsError =
     ''Incorrect email or password.''"
| "auth_message InvalidBasicCredentialsError =
     ''Invalid Basic authentication credentials.''"
| "auth_message BasicAuthenticationUnavailableError =
     ''Basic authentication could not be completed.''"
| "auth_message InactiveUserError =
     ''User account is inactive.''"
| "auth_message InvalidAccessTokenError =
     ''Access token is invalid or expired.''"
| "auth_message InvalidRefreshTokenError =
     ''Refresh token is invalid or expired.''"
| "auth_message InvalidCSRFTokenError =
     ''CSRF token is missing or invalid.''"
| "auth_message RequestOriginNotAllowedError =
     ''Request origin is not allowed.''"
| "auth_message RefreshTokenReuseDetectedError =
     ''Refresh token reuse was detected. Sign in again.''"
| "auth_message LoginSessionUnavailableError =
     ''Login could not be completed.''"
| "auth_message TokenAuthenticationUnavailableError =
     ''Token authentication could not be completed.''"
| "auth_message TokenRefreshUnavailableError =
     ''Token refresh could not be completed.''"
| "auth_message LogoutUnavailableError =
     ''Logout could not be completed.''"

datatype api_key_error =
    APIKeyServiceError
  | APIKeyRequiredError
  | InvalidAPIKeyError
  | APIKeyCreationUnavailableError
  | APIKeyListUnavailableError
  | APIKeyNotFoundError
  | APIKeyRevocationUnavailableError

primrec api_key_base :: "api_key_error \<Rightarrow> api_key_error option" where
  "api_key_base APIKeyServiceError = None"
| "api_key_base APIKeyRequiredError = Some APIKeyServiceError"
| "api_key_base InvalidAPIKeyError = Some APIKeyServiceError"
| "api_key_base APIKeyCreationUnavailableError = Some APIKeyServiceError"
| "api_key_base APIKeyListUnavailableError = Some APIKeyServiceError"
| "api_key_base APIKeyNotFoundError = Some APIKeyServiceError"
| "api_key_base APIKeyRevocationUnavailableError = Some APIKeyServiceError"

primrec api_key_code :: "api_key_error \<Rightarrow> string" where
  "api_key_code APIKeyServiceError = ''api_key_service_error''"
| "api_key_code APIKeyRequiredError = ''api_key_required''"
| "api_key_code InvalidAPIKeyError = ''invalid_api_key''"
| "api_key_code APIKeyCreationUnavailableError = ''api_key_creation_unavailable''"
| "api_key_code APIKeyListUnavailableError = ''api_key_list_unavailable''"
| "api_key_code APIKeyNotFoundError = ''api_key_not_found''"
| "api_key_code APIKeyRevocationUnavailableError = ''api_key_revocation_unavailable''"

primrec api_key_message :: "api_key_error \<Rightarrow> string" where
  "api_key_message APIKeyServiceError =
     ''API key operation could not be completed.''"
| "api_key_message APIKeyRequiredError =
     ''API key is required.''"
| "api_key_message InvalidAPIKeyError =
     ''API key is invalid or revoked.''"
| "api_key_message APIKeyCreationUnavailableError =
     ''API key creation could not be completed.''"
| "api_key_message APIKeyListUnavailableError =
     ''API keys could not be retrieved.''"
| "api_key_message APIKeyNotFoundError =
     ''API key was not found.''"
| "api_key_message APIKeyRevocationUnavailableError =
     ''API key revocation could not be completed.''"

datatype email_error =
    EmailServiceUnavailableError

primrec email_base :: "email_error \<Rightarrow> email_error option" where
  "email_base EmailServiceUnavailableError = None"

primrec email_code :: "email_error \<Rightarrow> string" where
  "email_code EmailServiceUnavailableError = ''email_service_unavailable''"

primrec email_message :: "email_error \<Rightarrow> string" where
  "email_message EmailServiceUnavailableError =
     ''The email service is temporarily unavailable.''"

datatype oauth_error =
    OAuthServiceError
  | OAuthProtocolError
  | InvalidAuthorizationRequestError
  | UnsupportedResponseTypeError
  | InvalidOAuthClientError
  | InvalidRedirectURIError
  | UnsupportedCodeChallengeMethodError
  | InvalidCodeChallengeError
  | InvalidScopeError
  | UnsupportedGrantTypeError
  | InvalidAuthorizationGrantError
  | AuthorizationCodeIssuanceUnavailableError
  | AuthorizationCodeExchangeUnavailableError

primrec oauth_base :: "oauth_error \<Rightarrow> oauth_error option" where
  "oauth_base OAuthServiceError = None"
| "oauth_base OAuthProtocolError = Some OAuthServiceError"
| "oauth_base InvalidAuthorizationRequestError = Some OAuthProtocolError"
| "oauth_base UnsupportedResponseTypeError = Some OAuthProtocolError"
| "oauth_base InvalidOAuthClientError = Some OAuthProtocolError"
| "oauth_base InvalidRedirectURIError = Some OAuthProtocolError"
| "oauth_base UnsupportedCodeChallengeMethodError = Some OAuthProtocolError"
| "oauth_base InvalidCodeChallengeError = Some OAuthProtocolError"
| "oauth_base InvalidScopeError = Some OAuthProtocolError"
| "oauth_base UnsupportedGrantTypeError = Some OAuthProtocolError"
| "oauth_base InvalidAuthorizationGrantError = Some OAuthProtocolError"
| "oauth_base AuthorizationCodeIssuanceUnavailableError = Some OAuthServiceError"
| "oauth_base AuthorizationCodeExchangeUnavailableError = Some OAuthServiceError"

primrec oauth_code :: "oauth_error \<Rightarrow> string" where
  "oauth_code OAuthServiceError = ''oauth_service_error''"
| "oauth_code OAuthProtocolError = ''oauth_protocol_error''"
| "oauth_code InvalidAuthorizationRequestError = ''invalid_authorization_request''"
| "oauth_code UnsupportedResponseTypeError = ''unsupported_response_type''"
| "oauth_code InvalidOAuthClientError = ''invalid_oauth_client''"
| "oauth_code InvalidRedirectURIError = ''invalid_redirect_uri''"
| "oauth_code UnsupportedCodeChallengeMethodError = ''unsupported_code_challenge_method''"
| "oauth_code InvalidCodeChallengeError = ''invalid_code_challenge''"
| "oauth_code InvalidScopeError = ''invalid_oauth_scope''"
| "oauth_code UnsupportedGrantTypeError = ''unsupported_grant_type''"
| "oauth_code InvalidAuthorizationGrantError = ''invalid_authorization_grant''"
| "oauth_code AuthorizationCodeIssuanceUnavailableError = ''authorization_code_issuance_unavailable''"
| "oauth_code AuthorizationCodeExchangeUnavailableError = ''authorization_code_exchange_unavailable''"

primrec oauth_message :: "oauth_error \<Rightarrow> string" where
  "oauth_message OAuthServiceError =
     ''OAuth operation failed.''"
| "oauth_message OAuthProtocolError =
     ''The authorization server could not process the request.''"
| "oauth_message InvalidAuthorizationRequestError =
     ''The authorization request is invalid.''"
| "oauth_message UnsupportedResponseTypeError =
     ''Only response_type=code is supported.''"
| "oauth_message InvalidOAuthClientError =
     ''The OAuth client is invalid.''"
| "oauth_message InvalidRedirectURIError =
     ''The redirect_uri is not registered for this client.''"
| "oauth_message UnsupportedCodeChallengeMethodError =
     ''Only the S256 PKCE code challenge method is supported.''"
| "oauth_message InvalidCodeChallengeError =
     ''The PKCE code_challenge is invalid.''"
| "oauth_message InvalidScopeError =
     ''The requested OAuth scope is not supported.''"
| "oauth_message UnsupportedGrantTypeError =
     ''Only grant_type=authorization_code is supported.''"
| "oauth_message InvalidAuthorizationGrantError =
     ''The authorization code or PKCE verifier is invalid.''"
| "oauth_message AuthorizationCodeIssuanceUnavailableError =
     ''The authorization code could not be issued.''"
| "oauth_message AuthorizationCodeExchangeUnavailableError =
     ''The authorization code could not be exchanged.''"

text \<open>The class attribute \<^verbatim>\<open>oauth_error\<close>, inherited where a class does not set it.\<close>

primrec oauth_error_name :: "oauth_error \<Rightarrow> string" where
  "oauth_error_name OAuthServiceError = ''server_error''"
| "oauth_error_name OAuthProtocolError = ''server_error''"
| "oauth_error_name InvalidAuthorizationRequestError = ''invalid_request''"
| "oauth_error_name UnsupportedResponseTypeError = ''unsupported_response_type''"
| "oauth_error_name InvalidOAuthClientError = ''invalid_client''"
| "oauth_error_name InvalidRedirectURIError = ''invalid_request''"
| "oauth_error_name UnsupportedCodeChallengeMethodError = ''invalid_request''"
| "oauth_error_name InvalidCodeChallengeError = ''invalid_request''"
| "oauth_error_name InvalidScopeError = ''invalid_scope''"
| "oauth_error_name UnsupportedGrantTypeError = ''unsupported_grant_type''"
| "oauth_error_name InvalidAuthorizationGrantError = ''invalid_grant''"
| "oauth_error_name AuthorizationCodeIssuanceUnavailableError = ''server_error''"
| "oauth_error_name AuthorizationCodeExchangeUnavailableError = ''server_error''"

datatype todo_error =
    TodoServiceError
  | TodoNotFoundError
  | TodoStateConflictError
  | TodoServiceUnavailableError

primrec todo_base :: "todo_error \<Rightarrow> todo_error option" where
  "todo_base TodoServiceError = None"
| "todo_base TodoNotFoundError = Some TodoServiceError"
| "todo_base TodoStateConflictError = Some TodoServiceError"
| "todo_base TodoServiceUnavailableError = Some TodoServiceError"

primrec todo_code :: "todo_error \<Rightarrow> string" where
  "todo_code TodoServiceError = ''todo_service_error''"
| "todo_code TodoNotFoundError = ''todo_not_found''"
| "todo_code TodoStateConflictError = ''todo_state_conflict''"
| "todo_code TodoServiceUnavailableError = ''todo_service_unavailable''"

primrec todo_message :: "todo_error \<Rightarrow> string" where
  "todo_message TodoServiceError =
     ''Todo operation failed.''"
| "todo_message TodoNotFoundError =
     ''Todo not found.''"
| "todo_message TodoStateConflictError =
     ''The requested Todo status transition is not allowed.''"
| "todo_message TodoServiceUnavailableError =
     ''Todo service is temporarily unavailable.''"

datatype user_error =
    UserServiceError
  | ProfileUpdateUnavailableError
  | AccountDeactivationUnavailableError

primrec user_base :: "user_error \<Rightarrow> user_error option" where
  "user_base UserServiceError = None"
| "user_base ProfileUpdateUnavailableError = Some UserServiceError"
| "user_base AccountDeactivationUnavailableError = Some UserServiceError"

primrec user_code :: "user_error \<Rightarrow> string" where
  "user_code UserServiceError = ''user_service_error''"
| "user_code ProfileUpdateUnavailableError = ''profile_update_unavailable''"
| "user_code AccountDeactivationUnavailableError = ''account_deactivation_unavailable''"

primrec user_message :: "user_error \<Rightarrow> string" where
  "user_message UserServiceError =
     ''User operation could not be completed.''"
| "user_message ProfileUpdateUnavailableError =
     ''Profile update could not be completed.''"
| "user_message AccountDeactivationUnavailableError =
     ''Account deactivation could not be completed.''"

datatype error_class =
    ApplicationError
  | Auth_Error auth_error
  | Api_Key_Error api_key_error
  | Email_Error email_error
  | OAuth_Error oauth_error
  | Todo_Error todo_error
  | User_Error user_error

primrec base_class :: "error_class \<Rightarrow> error_class option" where
  "base_class ApplicationError = None"
| "base_class (Auth_Error e) =
     Some (case auth_base e of None \<Rightarrow> ApplicationError | Some b \<Rightarrow> Auth_Error b)"
| "base_class (Api_Key_Error e) =
     Some (case api_key_base e of None \<Rightarrow> ApplicationError | Some b \<Rightarrow> Api_Key_Error b)"
| "base_class (Email_Error e) =
     Some (case email_base e of None \<Rightarrow> ApplicationError | Some b \<Rightarrow> Email_Error b)"
| "base_class (OAuth_Error e) =
     Some (case oauth_base e of None \<Rightarrow> ApplicationError | Some b \<Rightarrow> OAuth_Error b)"
| "base_class (Todo_Error e) =
     Some (case todo_base e of None \<Rightarrow> ApplicationError | Some b \<Rightarrow> Todo_Error b)"
| "base_class (User_Error e) =
     Some (case user_base e of None \<Rightarrow> ApplicationError | Some b \<Rightarrow> User_Error b)"

primrec error_code :: "error_class \<Rightarrow> string" where
  "error_code ApplicationError = ''application_error''"
| "error_code (Auth_Error e) = auth_code e"
| "error_code (Api_Key_Error e) = api_key_code e"
| "error_code (Email_Error e) = email_code e"
| "error_code (OAuth_Error e) = oauth_code e"
| "error_code (Todo_Error e) = todo_code e"
| "error_code (User_Error e) = user_code e"

primrec public_message :: "error_class \<Rightarrow> string" where
  "public_message ApplicationError = ''An application error occurred.''"
| "public_message (Auth_Error e) = auth_message e"
| "public_message (Api_Key_Error e) = api_key_message e"
| "public_message (Email_Error e) = email_message e"
| "public_message (OAuth_Error e) = oauth_message e"
| "public_message (Todo_Error e) = todo_message e"
| "public_message (User_Error e) = user_message e"

text \<open>
  \<^verbatim>\<open>type(error).__mro__\<close> without \<^verbatim>\<open>Exception\<close> and above. No class is more than three classes
  below \<^verbatim>\<open>ApplicationError\<close>, so five steps reach the end (\<open>mro_enough\<close>).
\<close>

fun mro_upto :: "nat \<Rightarrow> error_class \<Rightarrow> error_class list" where
  "mro_upto 0 c = []"
| "mro_upto (Suc n) c = c # (case base_class c of None \<Rightarrow> [] | Some b \<Rightarrow> mro_upto n b)"

definition mro :: "error_class \<Rightarrow> error_class list" where
  "mro c = mro_upto 5 c"

text \<open>\<^verbatim>\<open>isinstance(error, cls)\<close>.\<close>

definition isinstance :: "error_class \<Rightarrow> error_class \<Rightarrow> bool" where
  "isinstance c cls = (cls \<in> set (mro c))"
lemmas mro_unfold = mro_def isinstance_def eval_nat_numeral

lemma mro_ends:
  "last (mro c) = ApplicationError"
proof (cases c)
  case (Auth_Error e)
  then show ?thesis by (cases e) (simp_all add: mro_unfold)
next
  case (Api_Key_Error e)
  then show ?thesis by (cases e) (simp_all add: mro_unfold)
next
  case (Email_Error e)
  then show ?thesis by (cases e) (simp_all add: mro_unfold)
next
  case (OAuth_Error e)
  then show ?thesis by (cases e) (simp_all add: mro_unfold)
next
  case (Todo_Error e)
  then show ?thesis by (cases e) (simp_all add: mro_unfold)
next
  case (User_Error e)
  then show ?thesis by (cases e) (simp_all add: mro_unfold)
qed (simp add: mro_unfold)

lemma mro_upto_stable: "last (mro_upto n c) = ApplicationError \<Longrightarrow> mro_upto n c \<noteq> [] \<Longrightarrow>
    n \<le> m \<Longrightarrow> mro_upto m c = mro_upto n c"
proof (induction n c arbitrary: m rule: mro_upto.induct)
  case (1 c)
  then show ?case by simp
next
  case (2 n c)
  from "2.prems"(3) obtain m' where m: "m = Suc m'" "n \<le> m'" by (cases m) auto
  show ?case
  proof (cases "base_class c")
    case None
    with m show ?thesis by simp
  next
    case (Some b)
    have "mro_upto n b \<noteq> []"
    proof
      assume "mro_upto n b = []"
      with "2.prems"(1) Some have "c = ApplicationError" by simp
      with Some show False by simp
    qed
    moreover from this "2.prems"(1) Some have "last (mro_upto n b) = ApplicationError" by simp
    ultimately have "mro_upto m' b = mro_upto n b" using 2 Some m by blast
    with Some m show ?thesis by simp
  qed
qed

lemma mro_enough: "5 \<le> n \<Longrightarrow> mro_upto n c = mro c"
  using mro_upto_stable [of 5 c n] mro_ends [of c]
  by (simp add: mro_def eval_nat_numeral)

section \<open>The error handlers\<close>

text \<open>\<^verbatim>\<open>ErrorConfig\<close> and the table \<^verbatim>\<open>ERROR_CONFIG\<close>, entry by entry.\<close>

record error_config =
  config_status :: int
  config_authenticate :: "string option"

definition ErrorConfig :: "int \<Rightarrow> string option \<Rightarrow> error_config" where
  "ErrorConfig s a = \<lparr>config_status = s, config_authenticate = a\<rparr>"

fun ERROR_CONFIG :: "error_class \<Rightarrow> error_config option" where
  "ERROR_CONFIG (Auth_Error EmailAlreadyRegisteredError) = Some (ErrorConfig 409 None)"
| "ERROR_CONFIG (Auth_Error EmailNotVerifiedError) = Some (ErrorConfig 403 None)"
| "ERROR_CONFIG (Auth_Error InvalidEmailVerificationTokenError) = Some (ErrorConfig 400 None)"
| "ERROR_CONFIG (Auth_Error EmailVerificationUnavailableError) = Some (ErrorConfig 503 None)"
| "ERROR_CONFIG (Auth_Error InvalidCredentialsError) = Some (ErrorConfig 401 (Some ''Bearer''))"
| "ERROR_CONFIG (Auth_Error InvalidBasicCredentialsError) = Some (ErrorConfig 401 (Some ''Basic''))"
| "ERROR_CONFIG (Auth_Error InvalidAccessTokenError) = Some (ErrorConfig 401 (Some ''Bearer''))"
| "ERROR_CONFIG (Auth_Error InvalidRefreshTokenError) = Some (ErrorConfig 401 (Some ''Bearer''))"
| "ERROR_CONFIG (Auth_Error InvalidCSRFTokenError) = Some (ErrorConfig 403 None)"
| "ERROR_CONFIG (Auth_Error RequestOriginNotAllowedError) = Some (ErrorConfig 403 None)"
| "ERROR_CONFIG (Api_Key_Error APIKeyRequiredError) = Some (ErrorConfig 401 (Some ''APIKey''))"
| "ERROR_CONFIG (Api_Key_Error InvalidAPIKeyError) = Some (ErrorConfig 401 (Some ''APIKey''))"
| "ERROR_CONFIG (Auth_Error InactiveUserError) = Some (ErrorConfig 403 None)"
| "ERROR_CONFIG (Api_Key_Error APIKeyNotFoundError) = Some (ErrorConfig 404 None)"
| "ERROR_CONFIG (Auth_Error AuthServiceError) = Some (ErrorConfig 503 None)"
| "ERROR_CONFIG (Api_Key_Error APIKeyServiceError) = Some (ErrorConfig 503 None)"
| "ERROR_CONFIG (User_Error UserServiceError) = Some (ErrorConfig 503 None)"
| "ERROR_CONFIG (Email_Error EmailServiceUnavailableError) = Some (ErrorConfig 503 None)"
| "ERROR_CONFIG (Todo_Error TodoNotFoundError) = Some (ErrorConfig 404 None)"
| "ERROR_CONFIG (Todo_Error TodoServiceError) = Some (ErrorConfig 409 None)"
| "ERROR_CONFIG (Todo_Error TodoStateConflictError) = Some (ErrorConfig 503 None)"
| "ERROR_CONFIG _ = None"

text \<open>\<^verbatim>\<open>_config_for\<close>: the first class of the resolution order that has an entry.\<close>

definition config_for :: "error_class \<Rightarrow> error_config" where
  "config_for c = (case first_some (map ERROR_CONFIG (mro c)) of
      Some config \<Rightarrow> config
    | None \<Rightarrow> ErrorConfig 500 None)"

text \<open>
  A JSON error response: status, the fields of the body, headers; \<open>logged\<close> says whether the
  failure is logged as a server error, \<open>registration\<close> the outcome counted, if any.
\<close>

record error_response =
  er_status :: int
  er_body :: "(string \<times> string) list"
  er_headers :: "(string \<times> string) list"
  er_logged :: bool
  er_registration :: "string option"

definition application_error_handler :: "error_class \<Rightarrow> error_response" where
  "application_error_handler c =
     (let config = config_for c in
      \<lparr>er_status = config_status config,
       er_body = [(''detail'', public_message c), (''code'', error_code c)],
       er_headers = (case config_authenticate config of
                       Some a \<Rightarrow> if a = [] then [] else [(''WWW-Authenticate'', a)]
                     | None \<Rightarrow> []),
       er_logged = (500 \<le> config_status config),
       er_registration =
         (if isinstance c (Auth_Error EmailAlreadyRegisteredError) then Some ''conflict''
          else if isinstance c (Auth_Error RegistrationUnavailableError) then Some ''error''
          else None)\<rparr>)"

text \<open>
  \<^verbatim>\<open>oauth_error_handler\<close>; the request enters through its path and whether it carried a
  non-empty \<^verbatim>\<open>Authorization\<close> header.
\<close>

definition oauth_error_handler :: "string \<Rightarrow> bool \<Rightarrow> oauth_error \<Rightarrow> error_response" where
  "oauth_error_handler path attempted_client_authentication e =
     (let status = (if isinstance (OAuth_Error e) (OAuth_Error OAuthProtocolError)
                    then 400 else 503);
          no_store = [(''Cache-Control'', ''no-store''), (''Pragma'', ''no-cache'')];
          challenge = isinstance (OAuth_Error e) (OAuth_Error InvalidOAuthClientError) \<and>
                      suffix ''/token'' path \<and> attempted_client_authentication
      in
      \<lparr>er_status = (if challenge then 401 else status),
       er_body = [(''error'', oauth_error_name e),
                  (''error_description'', public_message (OAuth_Error e))],
       er_headers = no_store @
         (if challenge then [(''WWW-Authenticate'', ''Basic realm=\"oauth-token\"'')] else []),
       er_logged = (500 \<le> (if challenge then 401 else status)),
       er_registration = None\<rparr>)"

text \<open>
  \<^verbatim>\<open>register_exception_handlers\<close>: Starlette runs the handler registered for the first class of
  the resolution order that has one, so every \<^verbatim>\<open>OAuthServiceError\<close> goes to its own handler.
\<close>

definition handle_error :: "string \<Rightarrow> bool \<Rightarrow> error_class \<Rightarrow> error_response" where
  "handle_error path attempted c =
     (case c of
        OAuth_Error e \<Rightarrow> oauth_error_handler path attempted e
      | _ \<Rightarrow> application_error_handler c)"

lemmas handler_unfold =
  handle_error_def application_error_handler_def oauth_error_handler_def config_for_def
  ErrorConfig_def mro_unfold Let_def

text \<open>Which handler a class reaches is its place below \<^verbatim>\<open>OAuthServiceError\<close>.\<close>

lemma isinstance_oauth_iff:
  "isinstance c (OAuth_Error OAuthServiceError) \<longleftrightarrow> (\<exists>e. c = OAuth_Error e)"
proof (cases c)
  case (Auth_Error e)
  then show ?thesis by (cases e) (simp_all add: mro_unfold)
next
  case (Api_Key_Error e)
  then show ?thesis by (cases e) (simp_all add: mro_unfold)
next
  case (Email_Error e)
  then show ?thesis by (cases e) (simp_all add: mro_unfold)
next
  case (OAuth_Error e)
  then show ?thesis by (cases e) (simp_all add: mro_unfold)
next
  case (Todo_Error e)
  then show ?thesis by (cases e) (simp_all add: mro_unfold)
next
  case (User_Error e)
  then show ?thesis by (cases e) (simp_all add: mro_unfold)
qed (simp add: mro_unfold)

lemma status_auth_error:
  "er_status (handle_error p a (Auth_Error e)) =
     (case e of
        EmailAlreadyRegisteredError \<Rightarrow> 409
      | EmailNotVerifiedError \<Rightarrow> 403 | InactiveUserError \<Rightarrow> 403
      | InvalidCSRFTokenError \<Rightarrow> 403 | RequestOriginNotAllowedError \<Rightarrow> 403
      | InvalidEmailVerificationTokenError \<Rightarrow> 400
      | InvalidCredentialsError \<Rightarrow> 401 | InvalidBasicCredentialsError \<Rightarrow> 401
      | InvalidAccessTokenError \<Rightarrow> 401 | InvalidRefreshTokenError \<Rightarrow> 401
      | RefreshTokenReuseDetectedError \<Rightarrow> 401
      | _ \<Rightarrow> 503)"
  by (cases e) (simp_all add: handler_unfold)

lemma status_api_key_error:
  "er_status (handle_error p a (Api_Key_Error e)) =
     (case e of APIKeyRequiredError \<Rightarrow> 401 | InvalidAPIKeyError \<Rightarrow> 401
      | APIKeyNotFoundError \<Rightarrow> 404 | _ \<Rightarrow> 503)"
  by (cases e) (simp_all add: handler_unfold)

lemma status_todo_error:
  "er_status (handle_error p a (Todo_Error e)) =
     (case e of TodoNotFoundError \<Rightarrow> 404 | TodoStateConflictError \<Rightarrow> 503 | _ \<Rightarrow> 409)"
  by (cases e) (simp_all add: handler_unfold)

lemma status_user_error: "er_status (handle_error p a (User_Error e)) = 503"
  by (cases e) (simp_all add: handler_unfold)

lemma status_email_error: "er_status (handle_error p a (Email_Error e)) = 503"
  by (cases e) (simp_all add: handler_unfold)

lemma status_oauth_error:
  "er_status (handle_error p a (OAuth_Error e)) =
     (if e \<in> {OAuthServiceError, AuthorizationCodeIssuanceUnavailableError,
              AuthorizationCodeExchangeUnavailableError} then 503
      else if e = InvalidOAuthClientError \<and> suffix ''/token'' p \<and> a then 401 else 400)"
  by (cases e) (simp_all add: handler_unfold)

lemmas status_simps =
  status_auth_error status_api_key_error status_todo_error status_user_error
  status_email_error status_oauth_error

text \<open>A 401 always says how to authenticate, and nothing else does.\<close>

definition has_header :: "string \<Rightarrow> (string \<times> string) list \<Rightarrow> bool" where
  "has_header name hs = list_ex (\<lambda>h. fst h = name) hs"

lemma has_header_simps [simp]:
  "has_header n [] = False"
  "has_header n (h # hs) \<longleftrightarrow> fst h = n \<or> has_header n hs"
  "has_header n (xs @ ys) \<longleftrightarrow> has_header n xs \<or> has_header n ys"
  by (auto simp: has_header_def list_ex_iff)

lemma challenge_iff_401:
  "has_header ''WWW-Authenticate'' (er_headers (handle_error p a c)) \<longleftrightarrow>
   er_status (handle_error p a c) = 401"
proof (cases c)
  case (Auth_Error e)
  then show ?thesis by (cases e) (simp_all add: handler_unfold)
next
  case (Api_Key_Error e)
  then show ?thesis by (cases e) (simp_all add: handler_unfold)
next
  case (Email_Error e)
  then show ?thesis by (cases e) (simp_all add: handler_unfold)
next
  case (OAuth_Error e)
  then show ?thesis by (cases e) (simp_all add: handler_unfold)
next
  case (Todo_Error e)
  then show ?thesis by (cases e) (simp_all add: handler_unfold)
next
  case (User_Error e)
  then show ?thesis by (cases e) (simp_all add: handler_unfold)
qed (simp add: handler_unfold)

end
