(* ===== verification/Models.thy ===== *)
theory Models
  imports Errors Encoding
begin

text \<open>
  The persisted entities of \<^verbatim>\<open>models/\<close>: one record per mapped class, its columns as fields
  (prefixed by the table, since record fields share one name space), the methods of the
  class as functions, and the constraints the class declares. \<open>db\<close> is the database, a list
  of rows per table; \<open>violation\<close> is what PostgreSQL checks when rows are written.
  \<^verbatim>\<open>created_at\<close> and \<^verbatim>\<open>updated_at\<close> come from \<^verbatim>\<open>TimestampMixin\<close>.
\<close>

section \<open>Users\<close>

record user =
  u_id :: int
  u_email :: string
  u_full_name :: "string option"
  u_hashed_password :: string
  u_email_verified_at :: "time option"
  u_email_verification_token_hash :: "string option"
  u_email_verification_expires_at :: "time option"
  u_email_verification_requested_at :: "time option"
  u_is_active :: bool
  u_is_superuser :: bool
  u_created_at :: time
  u_updated_at :: time

definition is_email_verified :: "user \<Rightarrow> bool" where
  "is_email_verified u = is_some (u_email_verified_at u)"

section \<open>Refresh sessions\<close>

record refresh_session =
  s_id :: string
  s_user_id :: int
  s_token_hash :: string
  s_previous_token_hash :: "string option"
  s_expires_at :: time
  s_absolute_expires_at :: time
  s_revoked_at :: "time option"
  s_last_used_at :: "time option"
  s_rotated_at :: "time option"
  s_created_at :: time
  s_updated_at :: time

definition session_is_active :: "refresh_session \<Rightarrow> time \<Rightarrow> bool" where
  "session_is_active s now \<longleftrightarrow>
     s_revoked_at s = None \<and> now < s_expires_at s \<and> now < s_absolute_expires_at s"

text \<open>\<^verbatim>\<open>self.revoked_at = self.revoked_at or at\<close>: the first revocation time stays.\<close>

definition session_revoke :: "refresh_session \<Rightarrow> time \<Rightarrow> refresh_session" where
  "session_revoke s at =
     s\<lparr>s_revoked_at := (case s_revoked_at s of Some t \<Rightarrow> Some t | None \<Rightarrow> Some at)\<rparr>"

text \<open>\<^verbatim>\<open>rotate\<close>: \<open>None\<close> is the \<^verbatim>\<open>ValueError\<close> for an inactive session.\<close>

definition session_rotate ::
  "refresh_session \<Rightarrow> string \<Rightarrow> time \<Rightarrow> time \<Rightarrow> refresh_session option" where
  "session_rotate s token_hash expires_at rotated_at =
     (if \<not> session_is_active s rotated_at then None
      else Some (s\<lparr>s_previous_token_hash := Some (s_token_hash s),
                   s_token_hash := token_hash,
                   s_expires_at := min expires_at (s_absolute_expires_at s),
                   s_last_used_at := Some rotated_at,
                   s_rotated_at := Some rotated_at\<rparr>))"

section \<open>Authorization codes and API keys\<close>

record auth_code =
  c_code_hash :: string
  c_user_id :: int
  c_client_id :: string
  c_redirect_uri :: string
  c_code_challenge :: string
  c_expires_at :: time
  c_consumed_at :: "time option"
  c_created_at :: time
  c_updated_at :: time

record api_key =
  k_id :: int
  k_user_id :: int
  k_name :: string
  k_key_hash :: string
  k_is_active :: bool
  k_created_at :: time
  k_updated_at :: time

section \<open>Todos\<close>

datatype todo_status = TODO | IN_PROGRESS | DONE | CANCELLED

datatype todo_priority = LOW | MEDIUM | HIGH | URGENT

record todo =
  t_id :: int
  t_user_id :: int
  t_title :: string
  t_description :: "string option"
  t_status :: todo_status
  t_priority :: todo_priority
  t_due_at :: "time option"
  t_completed_at :: "time option"
  t_is_archived :: bool
  t_created_at :: time
  t_updated_at :: time

text \<open>\<^verbatim>\<open>complete\<close>: \<open>None\<close> is the \<^verbatim>\<open>ValueError\<close> for a cancelled todo.\<close>

definition todo_complete :: "todo \<Rightarrow> time \<Rightarrow> todo option" where
  "todo_complete t now =
     (if t_status t = CANCELLED then None
      else Some (t\<lparr>t_status := DONE, t_completed_at := Some now\<rparr>))"

definition todo_reopen :: "todo \<Rightarrow> todo" where
  "todo_reopen t = t\<lparr>t_status := TODO, t_completed_at := None\<rparr>"

definition todo_cancel :: "todo \<Rightarrow> todo" where
  "todo_cancel t = t\<lparr>t_status := CANCELLED, t_completed_at := None\<rparr>"

section \<open>The database\<close>

record db =
  users :: "user list"
  refresh_sessions :: "refresh_session list"
  auth_codes :: "auth_code list"
  api_keys :: "api_key list"
  todos :: "todo list"

definition empty_db :: db where
  "empty_db = \<lparr>users = [], refresh_sessions = [], auth_codes = [], api_keys = [], todos = []\<rparr>"

text \<open>
  Each table is a keyed table of the database: the repositories find, insert, update and
  delete rows by primary key through the facts these interpretations provide.
\<close>

interpretation users: table users "\<lambda>rs d. d\<lparr>users := rs\<rparr>" u_id
  by unfold_locales simp_all

interpretation refresh_sessions: table refresh_sessions "\<lambda>rs d. d\<lparr>refresh_sessions := rs\<rparr>" s_id
  by unfold_locales simp_all

interpretation auth_codes: table auth_codes "\<lambda>rs d. d\<lparr>auth_codes := rs\<rparr>" c_code_hash
  by unfold_locales simp_all

interpretation api_keys: table api_keys "\<lambda>rs d. d\<lparr>api_keys := rs\<rparr>" k_id
  by unfold_locales simp_all

interpretation todos: table todos "\<lambda>rs d. d\<lparr>todos := rs\<rparr>" t_id
  by unfold_locales simp_all

subsection \<open>Column sizes\<close>

text \<open>
  \<^verbatim>\<open>String(n)\<close> columns: a longer value makes PostgreSQL refuse the statement with a
  \<^verbatim>\<open>DataError\<close>, an \<^verbatim>\<open>SQLAlchemyError\<close> that is not an \<^verbatim>\<open>IntegrityError\<close>.
\<close>

definition fits :: "nat \<Rightarrow> string \<Rightarrow> bool" where
  "fits n s = (length s \<le> n)"

definition fits_opt :: "nat \<Rightarrow> string option \<Rightarrow> bool" where
  "fits_opt n x = (case x of None \<Rightarrow> True | Some s \<Rightarrow> fits n s)"

lemma fits_simps [simp]: "fits n s \<longleftrightarrow> length s \<le> n" "fits_opt n None" "fits_opt n (Some s) \<longleftrightarrow> length s \<le> n"
  by (simp_all add: fits_def fits_opt_def)

text \<open>The range of PostgreSQL's \<^verbatim>\<open>INTEGER\<close>, the type of the integer keys.\<close>

definition int32 :: "int \<Rightarrow> bool" where
  "int32 n \<longleftrightarrow> - 2147483648 \<le> n \<and> n \<le> 2147483647"

definition user_fits :: "user \<Rightarrow> bool" where
  "user_fits u \<longleftrightarrow> int32 (u_id u) \<and> fits 255 (u_email u) \<and> fits_opt 150 (u_full_name u) \<and>
     fits 255 (u_hashed_password u) \<and> fits_opt 64 (u_email_verification_token_hash u)"

definition session_fits :: "refresh_session \<Rightarrow> bool" where
  "session_fits s \<longleftrightarrow> fits 64 (s_id s) \<and> fits 64 (s_token_hash s) \<and>
     fits_opt 64 (s_previous_token_hash s)"

definition auth_code_fits :: "auth_code \<Rightarrow> bool" where
  "auth_code_fits c \<longleftrightarrow> fits 64 (c_code_hash c) \<and> fits 128 (c_client_id c) \<and>
     fits 2048 (c_redirect_uri c) \<and> fits 43 (c_code_challenge c)"

definition api_key_fits :: "api_key \<Rightarrow> bool" where
  "api_key_fits k \<longleftrightarrow> int32 (k_id k) \<and> fits 100 (k_name k) \<and> fits 64 (k_key_hash k)"

definition todo_fits :: "todo \<Rightarrow> bool" where
  "todo_fits t \<longleftrightarrow> int32 (t_id t) \<and> fits 200 (t_title t)"

definition db_fits :: "db \<Rightarrow> bool" where
  "db_fits d \<longleftrightarrow> list_all user_fits (users d) \<and> list_all session_fits (refresh_sessions d) \<and>
     list_all auth_code_fits (auth_codes d) \<and> list_all api_key_fits (api_keys d) \<and>
     list_all todo_fits (todos d)"

subsection \<open>Constraints\<close>

text \<open>
  The checks of each row, then uniqueness and foreign keys, under the names that the
  naming convention of \<^verbatim>\<open>db/base.py\<close> gives them. \<^verbatim>\<open>trim\<close> of SQL removes spaces only; two nulls
  never violate a uniqueness constraint.
\<close>

definition session_check_expiration :: "refresh_session \<Rightarrow> bool" where
  "session_check_expiration s \<longleftrightarrow> s_created_at s < s_expires_at s"

definition session_check_absolute :: "refresh_session \<Rightarrow> bool" where
  "session_check_absolute s \<longleftrightarrow> s_created_at s < s_absolute_expires_at s"

definition session_check_idle :: "refresh_session \<Rightarrow> bool" where
  "session_check_idle s \<longleftrightarrow> s_expires_at s \<le> s_absolute_expires_at s"

definition code_check_consumption :: "auth_code \<Rightarrow> bool" where
  "code_check_consumption c \<longleftrightarrow>
     (case c_consumed_at c of None \<Rightarrow> True
      | Some t \<Rightarrow> c_created_at c \<le> t \<and> t \<le> c_expires_at c)"

definition todo_check_title :: "todo \<Rightarrow> bool" where
  "todo_check_title t \<longleftrightarrow> list_ex (\<lambda>c. c \<noteq> CHR '' '') (t_title t)"

definition todo_check_completion :: "todo \<Rightarrow> bool" where
  "todo_check_completion t \<longleftrightarrow>
     (t_status t = DONE \<and> is_some (t_completed_at t)) \<or>
     (t_status t \<noteq> DONE \<and> \<not> is_some (t_completed_at t))"

definition somes :: "'a option list \<Rightarrow> 'a list" where
  "somes xs = List.map_filter id xs"

definition users_violation :: "user list \<Rightarrow> string option" where
  "users_violation rs = first_some
     [unless (distinct (map u_id rs)) ''pk_users'',
      unless (distinct (map u_email rs)) ''uq_users_email'',
      unless (distinct (somes (map u_email_verification_token_hash rs)))
        ''uq_users_email_verification_token_hash'']"

definition sessions_violation :: "int list \<Rightarrow> refresh_session list \<Rightarrow> string option" where
  "sessions_violation uids rs = first_some
     [unless (list_all session_check_expiration rs) ''ck_refresh_sessions_expiration'',
      unless (list_all session_check_absolute rs) ''ck_refresh_sessions_absolute_expiration'',
      unless (list_all session_check_idle rs) ''ck_refresh_sessions_idle_before_absolute'',
      unless (distinct (map s_id rs)) ''pk_refresh_sessions'',
      unless (distinct (map s_token_hash rs)) ''uq_refresh_sessions_token_hash'',
      unless (list_all (\<lambda>s. s_user_id s \<in> set uids) rs) ''fk_refresh_sessions_user_id_users'']"

definition codes_violation :: "int list \<Rightarrow> auth_code list \<Rightarrow> string option" where
  "codes_violation uids rs = first_some
     [unless (list_all (\<lambda>c. length (c_code_hash c) = 64) rs)
        ''ck_oauth_authorization_codes_code_hash_length'',
      unless (list_all (\<lambda>c. length (c_code_challenge c) = 43) rs)
        ''ck_oauth_authorization_codes_code_challenge_length'',
      unless (list_all (\<lambda>c. c_client_id c \<noteq> []) rs)
        ''ck_oauth_authorization_codes_client_id_not_empty'',
      unless (list_all (\<lambda>c. c_redirect_uri c \<noteq> []) rs)
        ''ck_oauth_authorization_codes_redirect_uri_not_empty'',
      unless (list_all (\<lambda>c. c_created_at c < c_expires_at c) rs)
        ''ck_oauth_authorization_codes_expiration'',
      unless (list_all code_check_consumption rs)
        ''ck_oauth_authorization_codes_consumption_window'',
      unless (distinct (map c_code_hash rs)) ''pk_oauth_authorization_codes'',
      unless (list_all (\<lambda>c. c_user_id c \<in> set uids) rs)
        ''fk_oauth_authorization_codes_user_id_users'']"

definition api_keys_violation :: "int list \<Rightarrow> api_key list \<Rightarrow> string option" where
  "api_keys_violation uids rs = first_some
     [unless (distinct (map k_id rs)) ''pk_api_keys'',
      unless (distinct (map k_key_hash rs)) ''uq_api_keys_key_hash'',
      unless (list_all (\<lambda>k. k_user_id k \<in> set uids) rs) ''fk_api_keys_user_id_users'']"

definition todos_violation :: "int list \<Rightarrow> todo list \<Rightarrow> string option" where
  "todos_violation uids rs = first_some
     [unless (list_all todo_check_title rs) ''ck_todos_title_not_blank'',
      unless (list_all todo_check_completion rs) ''ck_todos_completion_state'',
      unless (distinct (map t_id rs)) ''pk_todos'',
      unless (list_all (\<lambda>t. t_user_id t \<in> set uids) rs) ''fk_todos_user_id_users'']"

definition violation :: "db \<Rightarrow> string option" where
  "violation d = (let uids = map u_id (users d) in first_some
     [users_violation (users d), sessions_violation uids (refresh_sessions d),
      codes_violation uids (auth_codes d), api_keys_violation uids (api_keys d),
      todos_violation uids (todos d)])"

text \<open>A database that PostgreSQL would hold: every check passes, every value fits.\<close>

definition valid_db :: "db \<Rightarrow> bool" where
  "valid_db d \<longleftrightarrow> violation d = None \<and> db_fits d"

lemmas violations_def =
  users_violation_def sessions_violation_def codes_violation_def api_keys_violation_def
  todos_violation_def

lemma None_eq_iff: "None = x \<longleftrightarrow> x = None"
  by auto

lemma violation_None_iff:
  "violation d = None \<longleftrightarrow>
     users_violation (users d) = None \<and>
     sessions_violation (map u_id (users d)) (refresh_sessions d) = None \<and>
     codes_violation (map u_id (users d)) (auth_codes d) = None \<and>
     api_keys_violation (map u_id (users d)) (api_keys d) = None \<and>
     todos_violation (map u_id (users d)) (todos d) = None"
  by (auto simp: violation_def Let_def first_some_None_iff)

lemma todos_violation_None_iff:
  "todos_violation uids rs = None \<longleftrightarrow>
     (\<forall>t\<in>set rs. todo_check_title t \<and> todo_check_completion t \<and> t_user_id t \<in> set uids) \<and>
     distinct (map t_id rs)"
  by (auto simp: todos_violation_def first_some_None_iff list_all_iff)

lemma sessions_violation_None_iff:
  "sessions_violation uids rs = None \<longleftrightarrow>
     (\<forall>s\<in>set rs. session_check_expiration s \<and> session_check_absolute s \<and>
        session_check_idle s \<and> s_user_id s \<in> set uids) \<and>
     distinct (map s_id rs) \<and> distinct (map s_token_hash rs)"
  by (auto simp: sessions_violation_def first_some_None_iff list_all_iff)

lemma users_violation_None_iff:
  "users_violation rs = None \<longleftrightarrow>
     distinct (map u_id rs) \<and> distinct (map u_email rs) \<and>
     distinct (somes (map u_email_verification_token_hash rs))"
  by (auto simp: users_violation_def first_some_None_iff)

lemma api_keys_violation_None_iff:
  "api_keys_violation uids rs = None \<longleftrightarrow>
     (\<forall>k\<in>set rs. k_user_id k \<in> set uids) \<and>
     distinct (map k_id rs) \<and> distinct (map k_key_hash rs)"
  by (auto simp: api_keys_violation_def first_some_None_iff list_all_iff)

lemma codes_violation_None_iff:
  "codes_violation uids rs = None \<longleftrightarrow>
     (\<forall>c\<in>set rs. length (c_code_hash c) = 64 \<and> length (c_code_challenge c) = 43 \<and>
        c_client_id c \<noteq> [] \<and> c_redirect_uri c \<noteq> [] \<and> c_created_at c < c_expires_at c \<and>
        code_check_consumption c \<and> c_user_id c \<in> set uids) \<and>
     distinct (map c_code_hash rs)"
  by (auto simp: codes_violation_def first_some_None_iff list_all_iff)

lemmas violation_iffs =
  violation_None_iff users_violation_None_iff sessions_violation_None_iff
  codes_violation_None_iff api_keys_violation_None_iff todos_violation_None_iff

lemma valid_empty_db: "valid_db empty_db"
  by (simp add: valid_db_def empty_db_def violation_iffs db_fits_def somes_def List.map_filter_def)

section \<open>Writing a table of a valid database\<close>

text \<open>
  A write to one table leaves the others valid: to check a write it is enough to check the
  table, and for the users that no id has gone.
\<close>

lemma valid_put_todos:
  "valid_db d \<Longrightarrow> todos_violation (map u_id (users d)) ts = None \<Longrightarrow> list_all todo_fits ts \<Longrightarrow>
     valid_db (d\<lparr>todos := ts\<rparr>)"
  by (simp add: valid_db_def violation_None_iff db_fits_def)

lemma valid_put_api_keys:
  "valid_db d \<Longrightarrow> api_keys_violation (map u_id (users d)) ks = None \<Longrightarrow> list_all api_key_fits ks \<Longrightarrow>
     valid_db (d\<lparr>api_keys := ks\<rparr>)"
  by (simp add: valid_db_def violation_None_iff db_fits_def)

lemma valid_put_codes:
  "valid_db d \<Longrightarrow> codes_violation (map u_id (users d)) cs = None \<Longrightarrow> list_all auth_code_fits cs \<Longrightarrow>
     valid_db (d\<lparr>auth_codes := cs\<rparr>)"
  by (simp add: valid_db_def violation_None_iff db_fits_def)

lemma valid_put_sessions:
  "valid_db d \<Longrightarrow> sessions_violation (map u_id (users d)) ss = None \<Longrightarrow> list_all session_fits ss \<Longrightarrow>
     valid_db (d\<lparr>refresh_sessions := ss\<rparr>)"
  by (simp add: valid_db_def violation_None_iff db_fits_def)

lemma valid_put_users:
  assumes "valid_db d" and "users_violation us = None" and "list_all user_fits us"
    and "u_id ` set (users d) \<subseteq> u_id ` set us"
  shows "valid_db (d\<lparr>users := us\<rparr>)"
proof -
  note v = assms(1) [unfolded valid_db_def violation_None_iff db_fits_def]
  have sub: "i \<in> set (map u_id (users d)) \<Longrightarrow> i \<in> set (map u_id us)" for i
    using assms(4) by auto
  have "sessions_violation (map u_id us) (refresh_sessions d) = None"
    using v sub unfolding sessions_violation_None_iff by blast
  moreover have "codes_violation (map u_id us) (auth_codes d) = None"
    using v sub unfolding codes_violation_None_iff by blast
  moreover have "api_keys_violation (map u_id us) (api_keys d) = None"
    using v sub unfolding api_keys_violation_None_iff by blast
  moreover have "todos_violation (map u_id us) (todos d) = None"
    using v sub unfolding todos_violation_None_iff by blast
  ultimately show ?thesis using v assms(2,3)
    by (simp add: valid_db_def violation_None_iff db_fits_def)
qed

text \<open>What the rows of a valid database satisfy.\<close>

lemma valid_todo:
  "valid_db d \<Longrightarrow> t \<in> set (todos d) \<Longrightarrow>
     todo_check_title t \<and> todo_check_completion t \<and> t_user_id t \<in> u_id ` set (users d) \<and> todo_fits t"
  by (simp add: valid_db_def violation_iffs db_fits_def list_all_iff)

lemma valid_session:
  "valid_db d \<Longrightarrow> s \<in> set (refresh_sessions d) \<Longrightarrow>
     session_check_expiration s \<and> session_check_absolute s \<and> session_check_idle s \<and>
     s_user_id s \<in> u_id ` set (users d) \<and> session_fits s"
  by (simp add: valid_db_def violation_iffs db_fits_def list_all_iff)

lemma valid_code:
  "valid_db d \<Longrightarrow> c \<in> set (auth_codes d) \<Longrightarrow>
     length (c_code_hash c) = 64 \<and> length (c_code_challenge c) = 43 \<and> c_client_id c \<noteq> [] \<and>
     c_redirect_uri c \<noteq> [] \<and> c_created_at c < c_expires_at c \<and> code_check_consumption c \<and>
     c_user_id c \<in> u_id ` set (users d) \<and> auth_code_fits c"
  by (simp add: valid_db_def violation_iffs db_fits_def list_all_iff)

lemma valid_api_key:
  "valid_db d \<Longrightarrow> k \<in> set (api_keys d) \<Longrightarrow> k_user_id k \<in> u_id ` set (users d) \<and> api_key_fits k"
  by (simp add: valid_db_def violation_iffs db_fits_def list_all_iff)

lemma valid_user: "valid_db d \<Longrightarrow> u \<in> set (users d) \<Longrightarrow> user_fits u"
  by (simp add: valid_db_def db_fits_def list_all_iff)

lemma valid_keys:
  assumes "valid_db d"
  shows "distinct (map u_id (users d))" "distinct (map u_email (users d))"
    "distinct (map s_id (refresh_sessions d))" "distinct (map s_token_hash (refresh_sessions d))"
    "distinct (map c_code_hash (auth_codes d))"
    "distinct (map k_id (api_keys d))" "distinct (map k_key_hash (api_keys d))"
    "distinct (map t_id (todos d))"
  using assms by (simp_all add: valid_db_def violation_iffs)

lemma valid_replace_todo:
  assumes "valid_db d" and "t \<in> set (todos d)" and "t_id t' = t_id t"
    and "todo_check_title t'" "todo_check_completion t'" "todo_fits t'"
    and "t_user_id t' = t_user_id t"
  shows "valid_db (d\<lparr>todos := update_where (\<lambda>r. t_id r = t_id t) (\<lambda>_. t') (todos d)\<rparr>)"
proof (rule valid_put_todos [OF assms(1)])
  let ?ts = "update_where (\<lambda>r. t_id r = t_id t) (\<lambda>_. t') (todos d)"
  have set: "set ?ts = insert t' (set (todos d) - {t})"
    using valid_keys(8) [OF assms(1)] assms(2) by (rule set_replace)
  have "distinct (map t_id ?ts)"
    using valid_keys(8) [OF assms(1)] assms(3) by (subst map_update_where) auto
  then show "todos_violation (map u_id (users d)) ?ts = None"
    using set assms valid_todo [OF assms(1)] by (auto simp: todos_violation_None_iff)
  show "list_all todo_fits ?ts"
    using set assms(6) valid_todo [OF assms(1)] by (auto simp: list_all_iff)
qed

lemma valid_replace_session:
  assumes "valid_db d" and "s \<in> set (refresh_sessions d)" and "s_id s' = s_id s"
    and "session_check_expiration s'" "session_check_absolute s'" "session_check_idle s'"
    and "session_fits s'" and "s_user_id s' = s_user_id s"
    and "s_token_hash s' \<notin> s_token_hash ` (set (refresh_sessions d) - {s})"
  shows "valid_db (d\<lparr>refresh_sessions :=
           update_where (\<lambda>r. s_id r = s_id s) (\<lambda>_. s') (refresh_sessions d)\<rparr>)"
proof (rule valid_put_sessions [OF assms(1)])
  let ?ss = "update_where (\<lambda>r. s_id r = s_id s) (\<lambda>_. s') (refresh_sessions d)"
  have set: "set ?ss = insert s' (set (refresh_sessions d) - {s})"
    using valid_keys(3) [OF assms(1)] assms(2) by (rule set_replace)
  have "distinct (map s_id ?ss)"
    using valid_keys(3) [OF assms(1)] assms(3) by (subst map_update_where) auto
  moreover have "distinct (map s_token_hash ?ss)"
    using valid_keys(3,4) [OF assms(1)] assms(2,9) by (rule distinct_replace)
  ultimately show "sessions_violation (map u_id (users d)) ?ss = None"
    using set assms valid_session [OF assms(1)] by (auto simp: sessions_violation_None_iff)
  show "list_all session_fits ?ss"
    using set assms(7) valid_session [OF assms(1)] by (auto simp: list_all_iff)
qed

lemma valid_replace_api_key:
  assumes "valid_db d" and "k \<in> set (api_keys d)" and "k_id k' = k_id k"
    and "k_user_id k' = k_user_id k" and "k_key_hash k' = k_key_hash k" and "api_key_fits k'"
  shows "valid_db (d\<lparr>api_keys := update_where (\<lambda>r. k_id r = k_id k) (\<lambda>_. k') (api_keys d)\<rparr>)"
proof (rule valid_put_api_keys [OF assms(1)])
  let ?ks = "update_where (\<lambda>r. k_id r = k_id k) (\<lambda>_. k') (api_keys d)"
  have set: "set ?ks = insert k' (set (api_keys d) - {k})"
    using valid_keys(6) [OF assms(1)] assms(2) by (rule set_replace)
  have inj: "inj_on k_key_hash (set (api_keys d))"
    using valid_keys(7) [OF assms(1)] by (simp add: distinct_map)
  have "distinct (map k_id ?ks)"
    using valid_keys(6) [OF assms(1)] assms(3) by (subst map_update_where) auto
  moreover have "distinct (map k_key_hash ?ks)"
    using valid_keys(6,7) [OF assms(1)] assms(2)
    by (rule distinct_replace) (use inj assms(2,5) in \<open>auto dest: inj_onD\<close>)
  ultimately show "api_keys_violation (map u_id (users d)) ?ks = None"
    using set assms valid_api_key [OF assms(1)] by (auto simp: api_keys_violation_None_iff)
  show "list_all api_key_fits ?ks"
    using set assms(6) valid_api_key [OF assms(1)] by (auto simp: list_all_iff)
qed

text \<open>A user whose address stays and whose verification token is new or gone.\<close>

lemma set_somes: "set (somes xs) = {x. Some x \<in> set xs}"
  unfolding somes_def by (auto simp: List.map_filter_def image_iff) (metis option.sel option.distinct(1))

lemma distinct_somes_Cons:
  "distinct (somes (x # xs)) \<longleftrightarrow> (x = None \<or> x \<notin> set xs) \<and> distinct (somes xs)"
proof -
  have "somes (x # xs) = (case x of None \<Rightarrow> somes xs | Some y \<Rightarrow> y # somes xs)"
    by (simp add: somes_def List.map_filter_def split: option.splits)
  then show ?thesis by (auto simp: set_somes split: option.splits)
qed

lemma distinct_somes_replace:
  assumes "distinct (map key rs)" and "distinct (somes (map g rs))" and "t \<in> set rs"
    and "g t' = None \<or> g t' \<notin> g ` (set rs - {t})"
  shows "distinct (somes (map g (update_where (\<lambda>r. key r = key t) (\<lambda>_. t') rs)))"
  using assms
proof (induction rs)
  case Nil
  then show ?case by simp
next
  case (Cons r rs)
  show ?case
  proof (cases "r = t")
    case True
    with Cons.prems(1) have "key t \<notin> key ` set rs" by auto
    moreover from Cons.prems(1) True have "set (r # rs) - {t} = set rs" by auto
    ultimately show ?thesis
      using Cons.prems True by (auto simp: update_where_other distinct_somes_Cons)
  next
    case False
    with Cons.prems have t: "t \<in> set rs" and k: "key r \<noteq> key t" by (auto simp: image_iff)
    from Cons.prems(1) t have "set (update_where (\<lambda>r. key r = key t) (\<lambda>_. t') rs) =
        insert t' (set rs - {t})" by (intro set_replace) auto
    moreover have "r \<in> set (r # rs) - {t}" using False by simp
    then have "g t' = None \<or> g r \<noteq> g t'" using Cons.prems(4) by (metis image_eqI)
    moreover have "distinct (somes (map g (update_where (\<lambda>r. key r = key t) (\<lambda>_. t') rs)))"
      using Cons t False by (intro Cons.IH) (auto simp: distinct_somes_Cons)
    ultimately show ?thesis using k Cons.prems(2) by (auto simp: distinct_somes_Cons)
  qed
qed

lemma valid_replace_user:
  assumes "valid_db d" and "u \<in> set (users d)" and "u_id u' = u_id u"
    and "u_email u' = u_email u" and "user_fits u'"
    and "u_email_verification_token_hash u' = None \<or>
         u_email_verification_token_hash u' \<notin>
           u_email_verification_token_hash ` (set (users d) - {u})"
  shows "valid_db (d\<lparr>users := update_where (\<lambda>r. u_id r = u_id u) (\<lambda>_. u') (users d)\<rparr>)"
proof (rule valid_put_users [OF assms(1)])
  let ?us = "update_where (\<lambda>r. u_id r = u_id u) (\<lambda>_. u') (users d)"
  note keys = valid_keys(1,2) [OF assms(1)]
  have set: "set ?us = insert u' (set (users d) - {u})"
    using keys(1) assms(2) by (rule set_replace)
  have inj: "inj_on u_email (set (users d))" using keys(2) by (simp add: distinct_map)
  have ids: "map u_id ?us = map u_id (users d)" using assms(3) by (subst map_update_where) auto
  have "distinct (map u_email ?us)"
    using keys assms(2) by (rule distinct_replace) (use inj assms(2,4) in \<open>auto dest: inj_onD\<close>)
  moreover have "distinct (somes (map u_email_verification_token_hash (users d)))"
    using assms(1) by (simp add: valid_db_def violation_iffs)
  with keys(1) have "distinct (somes (map u_email_verification_token_hash ?us))"
    using assms(2,6) by (rule distinct_somes_replace)
  ultimately show "users_violation ?us = None" using keys(1) ids by (simp add: users_violation_None_iff)
  show "list_all user_fits ?us"
    using set assms(5) valid_user [OF assms(1)] by (auto simp: list_all_iff)
  show "u_id ` set (users d) \<subseteq> u_id ` set ?us"
    using ids by (metis list.set_map order_refl)
qed

lemma somes_append: "somes (xs @ ys) = somes xs @ somes ys"
  by (simp add: somes_def List.map_filter_def)

lemma valid_insert_user:
  assumes "valid_db d" and "user_fits u" and "\<forall>v \<in> set (users d). u_id v \<noteq> u_id u \<and> u_email v \<noteq> u_email u"
    and "\<forall>v \<in> set (users d). u_email_verification_token_hash u = None \<or>
       u_email_verification_token_hash v \<noteq> u_email_verification_token_hash u"
  shows "valid_db (d\<lparr>users := users d @ [u]\<rparr>)"
proof (rule valid_put_users [OF assms(1)])
  have "distinct (somes (map u_email_verification_token_hash (users d)))"
    using assms(1) by (simp add: valid_db_def violation_iffs)
  moreover have "h \<notin> set (somes (map u_email_verification_token_hash (users d)))"
    if "u_email_verification_token_hash u = Some h" for h
    using that assms(4) by (auto simp: set_somes)
  ultimately have "distinct (somes (map u_email_verification_token_hash (users d @ [u])))"
    by (cases "u_email_verification_token_hash u") (simp_all add: somes_append somes_def List.map_filter_def)
  then show "users_violation (users d @ [u]) = None"
    using valid_keys(1,2) [OF assms(1)] assms(3) by (auto simp: users_violation_None_iff)
  show "list_all user_fits (users d @ [u])"
    using assms(2) valid_user [OF assms(1)] by (simp add: list_all_iff)
  show "u_id ` set (users d) \<subseteq> u_id ` set (users d @ [u])" by auto
qed

section \<open>Facts about the methods\<close>

lemma session_revoke_not_active: "\<not> session_is_active (session_revoke s at) now"
  by (simp add: session_is_active_def session_revoke_def split: option.splits)

lemma session_revoke_idem: "session_revoke (session_revoke s a) b = session_revoke s a"
  by (simp add: session_revoke_def split: option.splits)

lemma session_rotate_None_iff: "session_rotate s h e at = None \<longleftrightarrow> \<not> session_is_active s at"
  by (simp add: session_rotate_def)

lemma session_rotate_checks:
  assumes "session_rotate s h e at = Some s'" and "s_created_at s \<le> at" and "at < e"
    and "session_check_absolute s"
  shows "session_check_expiration s' \<and> session_check_absolute s' \<and> session_check_idle s'"
  using assms
  by (auto simp: session_rotate_def session_check_expiration_def session_check_absolute_def
      session_check_idle_def split: if_splits)

lemma todo_methods_check:
  "todo_complete t now = Some t' \<Longrightarrow> todo_check_completion t'"
  "todo_check_completion (todo_reopen t)"
  "todo_check_completion (todo_cancel t)"
  by (auto simp: todo_complete_def todo_reopen_def todo_cancel_def todo_check_completion_def
      split: if_splits)

end
