(* ===== verification/Session.thy ===== *)
theory Session
  imports Models
begin

text \<open>
  The unit of work of a request: \<^verbatim>\<open>db/session.py\<close> (\<^verbatim>\<open>get_session\<close>, \<^verbatim>\<open>autoflush=False\<close>,
  \<^verbatim>\<open>expire_on_commit=False\<close>) and \<^verbatim>\<open>db/errors.py\<close>. An operation that may fail is a function
  from the world to an exception or a value, and the world after it. The world holds what
  PostgreSQL has committed, what the open transaction of the request sees, the clocks, the
  bytes the operating system will give \<^verbatim>\<open>secrets\<close>, and a plan of the faults the database will
  answer with, so that a theorem over all worlds is a theorem over all failures.
\<close>

section \<open>Exceptions, events and the world\<close>

text \<open>
  The exceptions the program raises or catches: its own classes, \<^verbatim>\<open>SQLAlchemyError\<close>
  and its subclass \<^verbatim>\<open>IntegrityError\<close> with the constraint the driver names, the two exceptions
  of the password hasher, the built-in ones, and \<^verbatim>\<open>ValidationError\<close> with the last
  component of each error's location.
\<close>

datatype exn =
    AppErr error_class
  | SqlErr
  | Integrity "string option"
  | HashingErr
  | UnknownHashErr
  | ValueErr
  | TypeErr
  | RuntimeErr
  | ValidationErr "string list"

text \<open>\<^verbatim>\<open>is_constraint_violation\<close>.\<close>

definition is_constraint_violation :: "exn \<Rightarrow> string \<Rightarrow> bool" where
  "is_constraint_violation e name = (e = Integrity (Some name))"

definition is_sqlalchemy_error :: "exn \<Rightarrow> bool" where
  "is_sqlalchemy_error e = (case e of SqlErr \<Rightarrow> True | Integrity _ \<Rightarrow> True | _ \<Rightarrow> False)"

text \<open>
  What the database answers a statement with: it succeeds, it fails (connection, timeout,
  deadlock), or a row that another transaction wrote meanwhile breaks a constraint.
\<close>

datatype fault = Fine | SqlFail | Violates "string option"

text \<open>
  What a request leaves behind besides rows: commits, the outcomes that are counted, a message
  task handed to the queue (its name, arguments, request and expiry), the invalidation of
  a user's cached todos, and an activity that is logged after the response.
\<close>

datatype event =
    Committed
  | AuthAttempt string string
  | Registration string
  | Published string "(string \<times> string option) list" string "time option"
  | CacheCleared int
  | Activity string int

record world =
  committed :: db
  work :: db
  user_seq :: int
  api_key_seq :: int
  todo_seq :: int
  clock :: time
  ticks :: "nat list"
  db_now :: time
  entropy :: "byte list list"
  faults :: "fault list"
  trace :: "event list"

type_synonym 'a act = "world \<Rightarrow> (exn + 'a) \<times> world"

section \<open>Sequencing and exceptions\<close>

definition ret :: "'a \<Rightarrow> 'a act" where
  "ret x w = (Inr x, w)"

definition raise :: "exn \<Rightarrow> 'a act" where
  "raise e w = (Inl e, w)"

definition bnd :: "'a act \<Rightarrow> ('a \<Rightarrow> 'b act) \<Rightarrow> 'b act" where
  "bnd m f w = (case m w of (Inl e, w') \<Rightarrow> (Inl e, w') | (Inr x, w') \<Rightarrow> f x w')"

text \<open>\<^verbatim>\<open>try: m except ...: h\<close>; the handler gives \<open>None\<close> for an exception it does not catch.\<close>

definition catch :: "'a act \<Rightarrow> (exn \<Rightarrow> 'a act option) \<Rightarrow> 'a act" where
  "catch m h w = (case m w of
      (Inl e, w') \<Rightarrow> (case h e of None \<Rightarrow> (Inl e, w') | Some m' \<Rightarrow> m' w')
    | (Inr x, w') \<Rightarrow> (Inr x, w'))"

text \<open>\<^verbatim>\<open>except SQLAlchemyError as exc: raise c() from exc\<close>.\<close>

definition except_sql :: "error_class \<Rightarrow> 'a act \<Rightarrow> 'a act" where
  "except_sql c m = catch m (\<lambda>e. if is_sqlalchemy_error e then Some (raise (AppErr c)) else None)"

definition guard :: "bool \<Rightarrow> exn \<Rightarrow> unit act" where
  "guard ok e = (if ok then ret () else raise e)"

definition of_option :: "exn \<Rightarrow> 'a option \<Rightarrow> 'a act" where
  "of_option e x = (case x of None \<Rightarrow> raise e | Some a \<Rightarrow> ret a)"

definition read :: "(world \<Rightarrow> 'a) \<Rightarrow> 'a act" where
  "read f w = (Inr (f w), w)"

lemma bnd_simps [act_simps]:
  "bnd (ret x) f = f x"
  "bnd (raise e) f = raise e"
  "bnd (bnd m f) g = bnd m (\<lambda>x. bnd (f x) g)"
  "bnd (read h) f w = f (h w) w"
  "bnd (if c then m else m') f = (if c then bnd m f else bnd m' f)"
  by (auto simp: bnd_def ret_def raise_def read_def fun_eq_iff split: prod.splits sum.splits)

lemma catch_simps [act_simps]:
  "catch (ret x) h = ret x"
  "catch (raise e) h = (case h e of None \<Rightarrow> raise e | Some m \<Rightarrow> m)"
  by (auto simp: catch_def ret_def raise_def fun_eq_iff split: option.splits)

lemma except_sql_simps [act_simps]:
  "except_sql c (ret x) = ret x"
  "except_sql c (raise e) = raise (if is_sqlalchemy_error e then AppErr c else e)"
  by (auto simp: except_sql_def catch_simps)

lemma guard_simps [act_simps]:
  "guard True e = ret ()"
  "guard False e = raise e"
  by (simp_all add: guard_def)

lemma is_sqlalchemy_error_simps [simp]:
  "is_sqlalchemy_error SqlErr" "is_sqlalchemy_error (Integrity n)"
  "\<not> is_sqlalchemy_error (AppErr c)" "\<not> is_sqlalchemy_error HashingErr"
  "\<not> is_sqlalchemy_error UnknownHashErr" "\<not> is_sqlalchemy_error ValueErr"
  "\<not> is_sqlalchemy_error TypeErr" "\<not> is_sqlalchemy_error RuntimeErr" "\<not> is_sqlalchemy_error (ValidationErr fs)"
  by (simp_all add: is_sqlalchemy_error_def)

section \<open>Statements and transactions\<close>

text \<open>Once the plan of faults is used up every statement succeeds.\<close>

definition next_fault :: "world \<Rightarrow> fault \<times> world" where
  "next_fault w = (case faults w of [] \<Rightarrow> (Fine, w) | f # fs \<Rightarrow> (f, w\<lparr>faults := fs\<rparr>))"

definition statement :: "unit act" where
  "statement w = (case next_fault w of
      (Fine, w') \<Rightarrow> (Inr (), w')
    | (SqlFail, w') \<Rightarrow> (Inl SqlErr, w')
    | (Violates n, w') \<Rightarrow> (Inl (Integrity n), w'))"

text \<open>A query over what the transaction sees.\<close>

definition select :: "(db \<Rightarrow> 'a) \<Rightarrow> 'a act" where
  "select q = bnd statement (\<lambda>_. read (\<lambda>w. q (work w)))"

text \<open>
  A change of mapped objects (\<^verbatim>\<open>session.add\<close>, \<^verbatim>\<open>session.delete\<close>, an attribute assignment):
  the transaction sees it, the database checks it at the next flush.
\<close>

definition edit :: "(db \<Rightarrow> db) \<Rightarrow> unit act" where
  "edit f w = (Inr (), w\<lparr>work := f (work w)\<rparr>)"

text \<open>The checks of PostgreSQL on the rows a flush or a statement wrote.\<close>

definition check_rows :: "unit act" where
  "check_rows w =
     (if \<not> db_fits (work w) then (Inl SqlErr, w)
      else case violation (work w) of
             Some n \<Rightarrow> (Inl (Integrity (Some n)), w)
           | None \<Rightarrow> (Inr (), w))"

definition flush :: "unit act" where
  "flush = bnd statement (\<lambda>_. check_rows)"

text \<open>\<^verbatim>\<open>session.commit()\<close> flushes, then commits, which may fail by itself.\<close>

definition commit :: "unit act" where
  "commit = bnd flush (\<lambda>_. bnd statement (\<lambda>_ w.
     (Inr (), w\<lparr>committed := work w, trace := trace w @ [Committed]\<rparr>)))"

text \<open>
  \<^verbatim>\<open>get_session\<close> gives the request a fresh session: it starts from what is committed, and
  whatever was not committed is rolled back when the request ends, with an exception or
  without one.
\<close>

definition get_session :: "'a act \<Rightarrow> 'a act" where
  "get_session m w = (case m (w\<lparr>work := committed w\<rparr>) of
      (r, w') \<Rightarrow> (r, w'\<lparr>work := committed w'\<rparr>))"

section \<open>Clock, randomness and counters\<close>

text \<open>\<^verbatim>\<open>datetime.now(UTC)\<close>: time may pass between two readings, never backwards.\<close>

definition now_utc :: "time act" where
  "now_utc w = (let t = clock w + (case ticks w of [] \<Rightarrow> 0 | n # _ \<Rightarrow> int n)
     in (Inr t, w\<lparr>clock := t, ticks := tl (ticks w)\<rparr>))"

text \<open>The bytes that \<^verbatim>\<open>secrets\<close> and the password hasher draw next.\<close>

definition draw :: "byte list act" where
  "draw w = (case entropy w of [] \<Rightarrow> (Inr [], w) | b # bs \<Rightarrow> (Inr b, w\<lparr>entropy := bs\<rparr>))"

definition emit :: "event \<Rightarrow> unit act" where
  "emit e w = (Inr (), w\<lparr>trace := trace w @ [e]\<rparr>)"

definition next_user_id :: "int act" where
  "next_user_id w = (Inr (user_seq w), w\<lparr>user_seq := user_seq w + 1\<rparr>)"

definition next_api_key_id :: "int act" where
  "next_api_key_id w = (Inr (api_key_seq w), w\<lparr>api_key_seq := api_key_seq w + 1\<rparr>)"

definition next_todo_id :: "int act" where
  "next_todo_id w = (Inr (todo_seq w), w\<lparr>todo_seq := todo_seq w + 1\<rparr>)"

lemmas action_defs =
  ret_def raise_def bnd_def catch_def except_sql_def guard_def of_option_def read_def
  statement_def select_def edit_def check_rows_def flush_def commit_def
  now_utc_def draw_def emit_def next_user_id_def next_api_key_id_def next_todo_id_def

section \<open>Actions that do not commit\<close>

text \<open>
  \<open>no_commit m\<close>: \<open>m\<close> leaves the committed database alone, whatever happens. \<open>atomic m\<close>: an
  exception means that nothing was committed. The rules below follow the shape of an
  operation; together they are the collection \<open>keeps\<close>.
\<close>

definition no_commit :: "'a act \<Rightarrow> bool" where
  "no_commit m \<longleftrightarrow> (\<forall>w. committed (snd (m w)) = committed w)"

definition atomic :: "'a act \<Rightarrow> bool" where
  "atomic m \<longleftrightarrow> (\<forall>w e w'. m w = (Inl e, w') \<longrightarrow> committed w' = committed w)"

lemma no_commitD: "no_commit m \<Longrightarrow> m w = (r, w') \<Longrightarrow> committed w' = committed w"
  unfolding no_commit_def by (metis snd_conv)

lemma atomicD: "atomic m \<Longrightarrow> m w = (Inl e, w') \<Longrightarrow> committed w' = committed w"
  unfolding atomic_def by blast

lemma no_commit_atomic [keeps]: "no_commit m \<Longrightarrow> atomic m"
  unfolding no_commit_def atomic_def by (metis snd_conv)

lemma no_commit_bnd [keeps]:
  assumes "no_commit m" and "\<And>x. no_commit (f x)"
  shows "no_commit (bnd m f)"
  unfolding no_commit_def
proof
  fix w
  show "committed (snd (bnd m f w)) = committed w"
  proof (cases "m w")
    case (Pair r w')
    moreover from this assms(1) have "committed w' = committed w" by (rule no_commitD [rotated])
    ultimately show ?thesis
      using assms(2) by (cases r) (simp_all add: bnd_def no_commit_def)
  qed
qed

lemma no_commit_catch [keeps]:
  assumes "no_commit m" and "\<And>e m'. h e = Some m' \<Longrightarrow> no_commit m'"
  shows "no_commit (catch m h)"
  unfolding no_commit_def
proof
  fix w
  show "committed (snd (catch m h w)) = committed w"
  proof (cases "m w")
    case (Pair r w')
    moreover from this assms(1) have "committed w' = committed w" by (rule no_commitD [rotated])
    ultimately show ?thesis
      using assms(2) by (auto simp: catch_def no_commit_def split: sum.splits option.splits)
  qed
qed

lemma no_commit_prim [keeps]:
  "no_commit (ret x)" "no_commit (raise e)" "no_commit (guard b e)" "no_commit (of_option e y)"
  "no_commit (read f)" "no_commit (edit g)" "no_commit check_rows" "no_commit statement"
  "no_commit now_utc" "no_commit draw" "no_commit (emit ev)"
  "no_commit next_user_id" "no_commit next_api_key_id" "no_commit next_todo_id"
  by (auto simp: no_commit_def action_defs next_fault_def Let_def
      split: option.splits list.splits fault.splits)

lemma no_commit_except_sql [keeps]: "no_commit m \<Longrightarrow> no_commit (except_sql c m)"
  unfolding except_sql_def by (intro keeps) (auto split: if_splits intro: keeps)

lemma no_commit_select [keeps]: "no_commit (select q)"
  unfolding select_def by (intro keeps)

lemma no_commit_flush [keeps]: "no_commit flush"
  unfolding flush_def by (intro keeps)

lemma no_commit_if [keeps]: "(b \<Longrightarrow> no_commit m) \<Longrightarrow> (\<not> b \<Longrightarrow> no_commit m') \<Longrightarrow> no_commit (if b then m else m')"
  by simp

lemma no_commit_option [keeps]:
  "(x = None \<Longrightarrow> no_commit m) \<Longrightarrow> (\<And>a. x = Some a \<Longrightarrow> no_commit (f a)) \<Longrightarrow>
     no_commit (case x of None \<Rightarrow> m | Some a \<Rightarrow> f a)"
  by (cases x) simp_all

lemma no_commit_prod [keeps]:
  "(\<And>a b. no_commit (f a b)) \<Longrightarrow> no_commit (case p of (a, b) \<Rightarrow> f a b)"
  by (cases p) simp

lemma atomic_bnd [keeps]:
  assumes "no_commit m" and "\<And>x. atomic (f x)"
  shows "atomic (bnd m f)"
  unfolding atomic_def
proof (intro allI impI)
  fix w e w'
  assume run: "bnd m f w = (Inl e, w')"
  obtain r w1 where m: "m w = (r, w1)" by fastforce
  with assms(1) have "committed w1 = committed w" by (rule no_commitD)
  with run m show "committed w' = committed w"
    using atomicD [OF assms(2)] by (cases r) (auto simp: bnd_def)
qed

lemma atomic_catch:
  assumes "atomic m" and "\<And>e m'. h e = Some m' \<Longrightarrow> no_commit m'"
  shows "atomic (catch m h)"
  unfolding atomic_def
proof (intro allI impI)
  fix w e w'
  assume run: "catch m h w = (Inl e, w')"
  obtain r w1 where m: "m w = (r, w1)" by fastforce
  with run obtain e1 where e1: "r = Inl e1" by (cases r) (auto simp: catch_def)
  with m assms(1) have "committed w1 = committed w" by (blast dest: atomicD)
  with run m e1 show "committed w' = committed w"
    using no_commitD [OF assms(2)] by (fastforce simp: catch_def split: option.splits)
qed

lemma atomic_except_sql [keeps]: "atomic m \<Longrightarrow> atomic (except_sql c m)"
  unfolding except_sql_def by (rule atomic_catch) (auto split: if_splits intro: keeps)

lemma atomic_if [keeps]: "(b \<Longrightarrow> atomic m) \<Longrightarrow> (\<not> b \<Longrightarrow> atomic m') \<Longrightarrow> atomic (if b then m else m')"
  by simp

lemma atomic_option [keeps]:
  "(x = None \<Longrightarrow> atomic m) \<Longrightarrow> (\<And>a. x = Some a \<Longrightarrow> atomic (f a)) \<Longrightarrow>
     atomic (case x of None \<Rightarrow> m | Some a \<Rightarrow> f a)"
  by (cases x) simp_all

lemma atomic_prod [keeps]:
  "(\<And>a b. atomic (f a b)) \<Longrightarrow> atomic (case p of (a, b) \<Rightarrow> f a b)"
  by (cases p) simp

lemma atomic_commit [keeps]: "atomic commit"
  unfolding commit_def
  by (rule atomic_bnd [OF no_commit_flush], rule atomic_bnd [OF no_commit_prim(8)])
     (simp add: atomic_def)

text \<open>The usual end of an operation: commit, then return.\<close>

lemma atomic_commit_ret [keeps]: "atomic (bnd commit (\<lambda>_. ret x))"
  unfolding atomic_def
proof (intro allI impI)
  fix w e w'
  assume run: "bnd commit (\<lambda>_. ret x) w = (Inl e, w')"
  obtain r w1 where c: "commit w = (r, w1)" by fastforce
  with run have "r = Inl e \<and> w1 = w'" by (cases r) (auto simp: bnd_def ret_def)
  with c show "committed w' = committed w" using atomicD [OF atomic_commit] by blast
qed

lemma atomic_bnd_ret: "atomic m \<Longrightarrow> atomic (bnd m (\<lambda>x. ret (f x)))"
  unfolding atomic_def by (auto simp: bnd_def ret_def split: prod.splits sum.splits)

lemma atomic_get_session [keeps]: "atomic m \<Longrightarrow> atomic (get_session m)"
  unfolding atomic_def get_session_def
  by (auto split: prod.splits)

lemma no_commit_get_session [keeps]: "no_commit m \<Longrightarrow> no_commit (get_session m)"
  unfolding no_commit_def get_session_def by (simp add: split_beta)

section \<open>Runs without faults\<close>

text \<open>With no faults planned, a statement succeeds and only the checks of the rows decide.\<close>

lemma statement_fine: "faults w = [] \<Longrightarrow> statement w = (Inr (), w)"
  by (simp add: statement_def next_fault_def)

lemma select_fine: "faults w = [] \<Longrightarrow> select q w = (Inr (q (work w)), w)"
  by (simp add: select_def bnd_def statement_fine read_def)

lemma flush_fine: "faults w = [] \<Longrightarrow> valid_db (work w) \<Longrightarrow> flush w = (Inr (), w)"
  by (simp add: flush_def bnd_def statement_fine check_rows_def valid_db_def)

lemma commit_fine:
  "faults w = [] \<Longrightarrow> valid_db (work w) \<Longrightarrow>
     commit w = (Inr (), w\<lparr>committed := work w, trace := trace w @ [Committed]\<rparr>)"
  by (simp add: commit_def bnd_def flush_fine statement_fine)

lemma bnd_app:
  "m w = (Inr x, w') \<Longrightarrow> bnd m f w = f x w'"
  "m w = (Inl e, w') \<Longrightarrow> bnd m f w = (Inl e, w')"
  by (simp_all add: bnd_def)

lemma except_sql_app:
  "m w = (Inr x, w') \<Longrightarrow> except_sql c m w = (Inr x, w')"
  "m w = (Inl e, w') \<Longrightarrow>
     except_sql c m w = (Inl (if is_sqlalchemy_error e then AppErr c else e), w')"
  by (simp_all add: except_sql_def catch_def raise_def)

lemma bnd_run:
  "m w = (r, w') \<Longrightarrow> bnd m f w = (case r of Inl e \<Rightarrow> (Inl e, w') | Inr x \<Rightarrow> f x w')"
  by (simp add: bnd_def)

lemmas fine_runs = statement_fine select_fine flush_fine commit_fine bnd_app except_sql_app

text \<open>The world after a reading of the clock, and what was read.\<close>

definition tick :: "world \<Rightarrow> world" where
  "tick w = w\<lparr>clock := clock w + (case ticks w of [] \<Rightarrow> 0 | n # _ \<Rightarrow> int n), ticks := tl (ticks w)\<rparr>"

lemma now_utc_tick: "now_utc w = (Inr (clock (tick w)), tick w)"
  by (simp add: now_utc_def tick_def Let_def)

lemma tick_simps [simp]:
  "committed (tick w) = committed w" "work (tick w) = work w" "user_seq (tick w) = user_seq w"
  "api_key_seq (tick w) = api_key_seq w" "todo_seq (tick w) = todo_seq w"
  "db_now (tick w) = db_now w" "entropy (tick w) = entropy w" "faults (tick w) = faults w"
  "trace (tick w) = trace w"
  by (simp_all add: tick_def)

lemma clock_tick: "clock w \<le> clock (tick w)"
  by (simp add: tick_def split: list.splits)

section \<open>What a successful run went through\<close>

lemma bnd_ok: "bnd m f w = (Inr y, w') \<longleftrightarrow> (\<exists>x w1. m w = (Inr x, w1) \<and> f x w1 = (Inr y, w'))"
  by (auto simp: bnd_def split: prod.splits sum.splits)

lemma catch_reraise_ok:
  "except_sql c m w = (Inr y, w') \<longleftrightarrow> m w = (Inr y, w')"
  by (auto simp: except_sql_def catch_def raise_def split: prod.splits sum.splits option.splits if_splits)

lemma ret_ok: "ret x w = (Inr y, w') \<longleftrightarrow> y = x \<and> w' = w"
  by (auto simp: ret_def)

lemma raise_ok: "raise e w = (Inr y, w') \<longleftrightarrow> False"
  by (simp add: raise_def)

lemma guard_ok: "guard b e w = (Inr y, w') \<longleftrightarrow> b \<and> w' = w"
  by (auto simp: guard_def ret_def raise_def)

lemma of_option_ok: "of_option e x w = (Inr y, w') \<longleftrightarrow> x = Some y \<and> w' = w"
  by (auto simp: of_option_def ret_def raise_def split: option.splits)

lemma read_ok: "read f w = (Inr y, w') \<longleftrightarrow> y = f w \<and> w' = w"
  by (auto simp: read_def)

lemma edit_ok: "edit f w = (Inr y, w') \<longleftrightarrow> w' = w\<lparr>work := f (work w)\<rparr>"
  by (auto simp: edit_def)

lemma emit_ok: "emit ev w = (Inr y, w') \<longleftrightarrow> w' = w\<lparr>trace := trace w @ [ev]\<rparr>"
  by (auto simp: emit_def)

text \<open>The bytes a draw gives.\<close>

definition drawn :: "world \<Rightarrow> byte list" where
  "drawn w = (case entropy w of [] \<Rightarrow> [] | b # _ \<Rightarrow> b)"

lemma draw_eq: "draw w = (Inr (drawn w), w\<lparr>entropy := tl (entropy w)\<rparr>)"
  by (cases "entropy w") (auto simp: draw_def drawn_def)

lemma draw_ok: "draw w = (Inr y, w') \<longleftrightarrow> y = drawn w \<and> w' = w\<lparr>entropy := tl (entropy w)\<rparr>"
  by (auto simp: draw_eq)

lemma drawn_simps [simp]: "drawn (w\<lparr>faults := f\<rparr>) = drawn w" "drawn (w\<lparr>work := d\<rparr>) = drawn w"
    "drawn (tick w) = drawn w"
  by (simp_all add: drawn_def)

lemma now_utc_ok: "now_utc w = (Inr y, w') \<longleftrightarrow> y = clock (tick w) \<and> w' = tick w"
  by (auto simp: now_utc_tick)

text \<open>A statement uses up a fault and changes nothing else.\<close>

lemma statement_ok: "statement w = (Inr y, w') \<Longrightarrow> w' = w\<lparr>faults := tl (faults w)\<rparr>"
  by (auto simp: statement_def next_fault_def split: list.splits fault.splits)

lemma select_ok:
  "select q w = (Inr y, w') \<Longrightarrow> y = q (work w) \<and> w' = w\<lparr>faults := tl (faults w)\<rparr>"
  by (auto simp: select_def bnd_ok read_ok dest!: statement_ok)

lemma flush_ok:
  "flush w = (Inr y, w') \<Longrightarrow> valid_db (work w) \<and> w' = w\<lparr>faults := tl (faults w)\<rparr>"
  by (auto simp: flush_def bnd_ok check_rows_def valid_db_def dest!: statement_ok
      split: if_splits option.splits)

lemma commit_ok:
  "commit w = (Inr y, w') \<Longrightarrow> valid_db (work w) \<and>
     w' = w\<lparr>faults := tl (tl (faults w)), committed := work w, trace := trace w @ [Committed]\<rparr>"
  by (auto simp: commit_def bnd_ok dest!: flush_ok statement_ok)

text \<open>An operation succeeds in a world when it returns.\<close>

definition succeeds :: "'a act \<Rightarrow> world \<Rightarrow> bool" where
  "succeeds m w \<longleftrightarrow> (\<exists>x w'. m w = (Inr x, w'))"

lemmas run_ok =
  bnd_ok catch_reraise_ok ret_ok raise_ok guard_ok of_option_ok read_ok edit_ok emit_ok
  now_utc_ok draw_ok

lemmas run_okD = statement_ok select_ok flush_ok commit_ok

text \<open>Whatever is committed has passed the checks.\<close>

definition commits_valid :: "'a act \<Rightarrow> bool" where
  "commits_valid m \<longleftrightarrow> (\<forall>w. valid_db (committed w) \<longrightarrow> valid_db (committed (snd (m w))))"

lemma commits_validD: "commits_valid m \<Longrightarrow> m w = (r, w') \<Longrightarrow> valid_db (committed w) \<Longrightarrow> valid_db (committed w')"
  unfolding commits_valid_def by (metis snd_conv)

lemma commits_valid_no_commit: "no_commit m \<Longrightarrow> commits_valid m"
  by (simp add: no_commit_def commits_valid_def)

lemma commits_valid_bnd:
  assumes "commits_valid m" and "\<And>x. commits_valid (f x)"
  shows "commits_valid (bnd m f)"
  unfolding commits_valid_def
proof (intro allI impI)
  fix w :: world
  assume v: "valid_db (committed w)"
  obtain r w1 where m: "m w = (r, w1)" by fastforce
  with assms(1) v have v1: "valid_db (committed w1)" by (blast dest: commits_validD)
  with m show "valid_db (committed (snd (bnd m f w)))"
    using assms(2) by (cases r) (simp_all add: bnd_def commits_valid_def)
qed

lemma commits_valid_catch:
  assumes "commits_valid m" and "\<And>e m'. h e = Some m' \<Longrightarrow> commits_valid m'"
  shows "commits_valid (catch m h)"
  unfolding commits_valid_def
proof (intro allI impI)
  fix w :: world
  assume v: "valid_db (committed w)"
  obtain r w1 where m: "m w = (r, w1)" by fastforce
  with assms(1) v have v1: "valid_db (committed w1)" by (blast dest: commits_validD)
  with m show "valid_db (committed (snd (catch m h w)))"
    using assms(2)
    by (cases r) (auto simp: catch_def commits_valid_def split: option.splits)
qed

lemma commits_valid_commit: "commits_valid commit"
  unfolding commits_valid_def
proof (intro allI impI)
  fix w :: world
  assume v: "valid_db (committed w)"
  obtain r w1 where c: "commit w = (r, w1)" by fastforce
  show "valid_db (committed (snd (commit w)))"
  proof (cases r)
    case (Inl e)
    with c v show ?thesis using atomicD [OF atomic_commit, of w e w1] by simp
  next
    case (Inr u)
    with c have "commit w = (Inr u, w1)" by simp
    from commit_ok [OF this] c show ?thesis by simp
  qed
qed

lemma commits_valid_get_session: "commits_valid m \<Longrightarrow> commits_valid (get_session m)"
  unfolding commits_valid_def get_session_def by (simp add: split_beta)

section \<open>Which exceptions an operation can end with\<close>

definition raises :: "exn set \<Rightarrow> 'a act \<Rightarrow> bool" where
  "raises E m \<longleftrightarrow> (\<forall>w e w'. m w = (Inl e, w') \<longrightarrow> e \<in> E)"

definition sql_errors :: "exn set" where
  "sql_errors = {e. is_sqlalchemy_error e}"

lemma raisesD: "raises E m \<Longrightarrow> m w = (Inl e, w') \<Longrightarrow> e \<in> E"
  by (auto simp: raises_def)

lemma raises_ret [outcomes]: "raises E (ret x)"
  by (simp add: raises_def ret_def)

lemma raises_raise [outcomes]: "e \<in> E \<Longrightarrow> raises E (raise e)"
  by (simp add: raises_def raise_def)

lemma raises_pure [outcomes]:
  "raises E (read f)" "raises E (edit g)" "raises E now_utc" "raises E draw" "raises E (emit ev)"
  "raises E next_user_id" "raises E next_api_key_id" "raises E next_todo_id"
  by (simp_all add: raises_def read_def edit_def now_utc_tick draw_eq emit_def next_user_id_def
      next_api_key_id_def next_todo_id_def)

lemma raises_guard [outcomes]: "e \<in> E \<Longrightarrow> raises E (guard b e)"
  by (simp add: raises_def guard_def ret_def raise_def)

lemma raises_of_option [outcomes]: "e \<in> E \<Longrightarrow> raises E (of_option e x)"
  by (simp add: raises_def of_option_def ret_def raise_def split: option.splits)

lemma raises_bnd [outcomes]: "raises E m \<Longrightarrow> (\<And>x. raises E (f x)) \<Longrightarrow> raises E (bnd m f)"
  unfolding raises_def bnd_def by (auto split: prod.splits sum.splits)

lemma raises_catch:
  assumes "raises F m" and "\<And>e m'. e \<in> F \<Longrightarrow> h e = Some m' \<Longrightarrow> raises E m'"
    and "\<And>e. e \<in> F \<Longrightarrow> h e = None \<Longrightarrow> e \<in> E"
  shows "raises E (catch m h)"
  unfolding raises_def
proof (intro allI impI)
  fix w e w'
  assume run: "catch m h w = (Inl e, w')"
  obtain r w1 where m: "m w = (r, w1)" by fastforce
  with run obtain e1 where r: "r = Inl e1" by (cases r) (auto simp: catch_def)
  with m assms(1) have "e1 \<in> F" by (auto dest: raisesD)
  with assms(2,3) [of e1] run m r show "e \<in> E"
    by (cases "h e1") (auto simp: catch_def dest: raisesD)
qed

lemma raises_except_sql [outcomes]:
  "raises (E \<union> sql_errors) m \<Longrightarrow> AppErr c \<in> E \<Longrightarrow> raises E (except_sql c m)"
  unfolding except_sql_def
  by (rule raises_catch [of "E \<union> sql_errors"], assumption)
     (auto simp: sql_errors_def split: if_splits intro: raises_raise)

lemma raises_sql [outcomes]:
  "sql_errors \<subseteq> E \<Longrightarrow> raises E statement" "sql_errors \<subseteq> E \<Longrightarrow> raises E check_rows"
  by (auto simp: raises_def statement_def next_fault_def check_rows_def sql_errors_def
      split: list.splits fault.splits if_splits option.splits)

lemma raises_statements [outcomes]:
  assumes "sql_errors \<subseteq> E"
  shows "raises E (select q)" "raises E flush" "raises E commit"
proof -
  show "raises E (select q)" unfolding select_def by (intro outcomes assms)
  show f: "raises E flush" unfolding flush_def by (intro outcomes assms)
  have "raises E (\<lambda>w. (Inr (), w\<lparr>committed := work w, trace := trace w @ [Committed]\<rparr>))"
    by (simp add: raises_def)
  then show "raises E commit" unfolding commit_def by (intro raises_bnd f raises_sql assms)
qed

lemma raises_if [outcomes]: "(b \<Longrightarrow> raises E m) \<Longrightarrow> (\<not> b \<Longrightarrow> raises E m') \<Longrightarrow> raises E (if b then m else m')"
  by simp

lemma raises_option [outcomes]:
  "raises E m \<Longrightarrow> (\<And>a. raises E (f a)) \<Longrightarrow> raises E (case x of None \<Rightarrow> m | Some a \<Rightarrow> f a)"
  by (cases x) simp_all

lemma raises_prod [outcomes]: "(\<And>a b. raises E (f a b)) \<Longrightarrow> raises E (case p of (a, b) \<Rightarrow> f a b)"
  by (cases p) simp

lemma raises_get_session [outcomes]: "raises E m \<Longrightarrow> raises E (get_session m)"
  unfolding raises_def get_session_def by (auto split: prod.splits)

lemma raises_mono: "raises E m \<Longrightarrow> E \<subseteq> F \<Longrightarrow> raises F m"
  by (auto simp: raises_def)

lemma sql_errors_simps [simp]:
  "SqlErr \<in> sql_errors" "Integrity n \<in> sql_errors" "AppErr c \<notin> sql_errors" "ValueErr \<notin> sql_errors"
  by (simp_all add: sql_errors_def)

end
