(* ===== verification/Env.thy ===== *)
theory Env
  imports Session
begin

text \<open>
  The code the program calls and does not contain, as parameters: PostgreSQL's \<^verbatim>\<open>ILIKE\<close> and
  collation, PyJWT, pwdlib, email-validator and SQLAlchemy's \<^verbatim>\<open>make_url\<close>. A definition that uses one of them takes the
  record \<open>env\<close>; what a theorem needs of it is a hypothesis that names it.
\<close>

text \<open>The claims \<^verbatim>\<open>jwt.encode\<close> is given and the decoded payload \<^verbatim>\<open>jwt.decode\<close> returns.\<close>

record claims =
  cl_sub :: string
  cl_exp :: time
  cl_iat :: time
  cl_jti :: string
  cl_iss :: string
  cl_aud :: string
  cl_sid :: "string option"
  cl_type :: string

datatype json_value = JStr string | JInt int | JOther

type_synonym json_dict = "(string \<times> json_value) list"

text \<open>The outcomes of \<^verbatim>\<open>verify_and_update\<close>: a verdict with a replacement hash, or an exception.\<close>

datatype password_verdict =
    Verdict bool "string option"
  | UnknownHash
  | HashingFailed

record env =
  ilike :: "string \<Rightarrow> string \<Rightarrow> bool" \<comment> \<open>value, pattern, escape character backslash\<close>
  collate :: "string \<Rightarrow> nat list" \<comment> \<open>the sort key of a text under the database's collation\<close>
  jwt_encode :: "string \<Rightarrow> string \<Rightarrow> claims \<Rightarrow> string" \<comment> \<open>secret, algorithm, payload\<close>
  jwt_decode :: "string \<Rightarrow> string \<Rightarrow> string \<Rightarrow> string \<Rightarrow> string list \<Rightarrow> time \<Rightarrow> string \<Rightarrow> json_dict option"
    \<comment> \<open>secret, algorithm, issuer, audience, required claims, current time, token\<close>
  password_hash :: "byte list \<Rightarrow> string \<Rightarrow> string option" \<comment> \<open>salt, password\<close>
  password_verify :: "string \<Rightarrow> string \<Rightarrow> bool option" \<comment> \<open>password, hash\<close>
  password_verify_and_update :: "byte list \<Rightarrow> string \<Rightarrow> string \<Rightarrow> password_verdict"
  dummy_password_hash :: string
  email_str :: "string \<Rightarrow> string option" \<comment> \<open>the address \<^verbatim>\<open>EmailStr\<close> makes of a text\<close>
  url_drivername :: "string \<Rightarrow> string option" \<comment> \<open>\<^verbatim>\<open>make_url(value).drivername\<close>\<close>

text \<open>
  \<^verbatim>\<open>LIKE\<close> as PostgreSQL documents it: \<^verbatim>\<open>%\<close> stands for any sequence of characters, \<^verbatim>\<open>_\<close> for any one,
  the escape character makes the next one stand for itself. \<open>ilike_documented\<close> is the
  documented behaviour of \<^verbatim>\<open>ILIKE\<close>: \<^verbatim>\<open>LIKE\<close> on the two sides in lower case.
\<close>

fun like_match :: "string \<Rightarrow> string \<Rightarrow> bool" where
  "like_match s [] = (s = [])"
| "like_match [] (p # ps) = (p = CHR ''%'' \<and> like_match [] ps)"
| "like_match (c # cs) (p # ps) =
     (if p = CHR ''%'' then like_match (c # cs) ps \<or> like_match cs (p # ps)
      else if p = CHR ''_'' then like_match cs ps
      else if p = CHR 0x5C then (case ps of [] \<Rightarrow> False | q # qs \<Rightarrow> c = q \<and> like_match cs qs)
      else c = p \<and> like_match cs ps)"

definition ilike_documented :: "env \<Rightarrow> bool" where
  "ilike_documented env \<longleftrightarrow>
     (\<forall>value pattern. ilike env value pattern = like_match (lower value) (lower pattern))"

end
