(* ===== verification/Todo_Schema.thy ===== *)
theory Todo_Schema
  imports Env
begin

text \<open>
  \<^verbatim>\<open>schemas/todo.py\<close>: what a request may say about todos. A field of a JSON object is absent,
  null or given; the conversion of JSON values to the annotated types is pydantic's, so a
  given field already has its type. A validator gives the names of the fields it rejects
  (\<open>Inl\<close>) or the model (\<open>Inr\<close>).
\<close>

section \<open>Fields of a request body\<close>

datatype 'a field = Absent | Null | Given 'a

definition is_absent :: "'a field \<Rightarrow> bool" where
  "is_absent f = (case f of Absent \<Rightarrow> True | _ \<Rightarrow> False)"

definition rejected :: "(string \<times> bool) list \<Rightarrow> string list" where
  "rejected checks = map fst (filter (\<lambda>f. \<not> snd f) checks)"

text \<open>\<^verbatim>\<open>min_length\<close> and \<^verbatim>\<open>max_length\<close> of a string.\<close>

definition length_between :: "nat \<Rightarrow> nat \<Rightarrow> string \<Rightarrow> bool" where
  "length_between lo hi s \<longleftrightarrow> lo \<le> length s \<and> length s \<le> hi"

section \<open>Normalisation\<close>

definition normalize_title :: "string \<Rightarrow> string option" where
  "normalize_title value = (let normalized = strip value in
     if normalized = [] then None else Some normalized)"

definition normalize_description :: "string option \<Rightarrow> string option" where
  "normalize_description value = (case value of None \<Rightarrow> None
     | Some v \<Rightarrow> (let normalized = strip v in if normalized = [] then None else Some normalized))"

section \<open>Creating a todo\<close>

record todo_create_input =
  ci_title :: "string field"
  ci_description :: "string field"
  ci_priority :: "todo_priority field"
  ci_due_at :: "time field"
  ci_extra :: "string list"

record todo_create =
  tc_title :: string
  tc_description :: "string option"
  tc_priority :: todo_priority
  tc_due_at :: "time option"

definition create_title :: "string field \<Rightarrow> string option" where
  "create_title f = (case f of
      Given s \<Rightarrow> if length_between 1 200 s then normalize_title s else None
    | _ \<Rightarrow> None)"

text \<open>\<open>None\<close>: rejected; \<open>Some x\<close>: the value, itself optional. A default is not validated.\<close>

definition description_field :: "string field \<Rightarrow> string option option" where
  "description_field f = (case f of
      Absent \<Rightarrow> Some None
    | Null \<Rightarrow> Some (normalize_description None)
    | Given s \<Rightarrow> if length s \<le> 5000 then Some (normalize_description (Some s)) else None)"

definition priority_field :: "todo_priority field \<Rightarrow> todo_priority option" where
  "priority_field f = (case f of Absent \<Rightarrow> Some MEDIUM | Null \<Rightarrow> None | Given p \<Rightarrow> Some p)"

definition due_field :: "time field \<Rightarrow> time option" where
  "due_field f = (case f of Given t \<Rightarrow> Some t | _ \<Rightarrow> None)"

definition TodoCreateSchema :: "todo_create_input \<Rightarrow> string list + todo_create" where
  "TodoCreateSchema i =
     (case (create_title (ci_title i), description_field (ci_description i),
            priority_field (ci_priority i), ci_extra i) of
        (Some t, Some d, Some p, []) \<Rightarrow>
          Inr \<lparr>tc_title = t, tc_description = d, tc_priority = p, tc_due_at = due_field (ci_due_at i)\<rparr>
      | (t, d, p, extra) \<Rightarrow>
          Inl (rejected [(''title'', is_some t), (''description'', is_some d),
                         (''priority'', is_some p)] @ extra))"

section \<open>Changing a todo\<close>

record todo_update_input =
  ui_title :: "string field"
  ui_description :: "string field"
  ui_status :: "todo_status field"
  ui_priority :: "todo_priority field"
  ui_due_at :: "time field"
  ui_is_archived :: "bool field"
  ui_extra :: "string list"

text \<open>
  \<^verbatim>\<open>model_dump(exclude_unset=True)\<close>: \<open>None\<close> for a field the request did not set; the outer
  option of the nullable fields is the same, the inner one their value.
\<close>

record todo_update =
  tu_title :: "string option"
  tu_description :: "string option option"
  tu_status :: "todo_status option"
  tu_priority :: "todo_priority option"
  tu_due_at :: "time option option"
  tu_is_archived :: "bool option"

text \<open>\<^verbatim>\<open>reject_null_non_nullable_fields\<close>: null is rejected (outer \<open>None\<close>).\<close>

definition non_null :: "'a field \<Rightarrow> 'a option option" where
  "non_null f = (case f of Absent \<Rightarrow> Some None | Null \<Rightarrow> None | Given x \<Rightarrow> Some (Some x))"

definition nullable :: "'a field \<Rightarrow> 'a option option" where
  "nullable f = (case f of Absent \<Rightarrow> None | Null \<Rightarrow> Some None | Given x \<Rightarrow> Some (Some x))"

definition update_title :: "string field \<Rightarrow> string option option" where
  "update_title f = (case f of
      Absent \<Rightarrow> Some None
    | Null \<Rightarrow> None
    | Given s \<Rightarrow> if length_between 1 200 s then map_option Some (normalize_title s) else None)"

definition update_description :: "string field \<Rightarrow> string option option option" where
  "update_description f = (case f of
      Absent \<Rightarrow> Some None
    | _ \<Rightarrow> map_option Some (description_field f))"

definition sets_nothing :: "todo_update_input \<Rightarrow> bool" where
  "sets_nothing i \<longleftrightarrow> is_absent (ui_title i) \<and> is_absent (ui_description i) \<and>
     is_absent (ui_status i) \<and> is_absent (ui_priority i) \<and> is_absent (ui_due_at i) \<and>
     is_absent (ui_is_archived i)"

definition TodoUpdateSchema :: "todo_update_input \<Rightarrow> string list + todo_update" where
  "TodoUpdateSchema i =
     (case (update_title (ui_title i), update_description (ui_description i),
            non_null (ui_status i), non_null (ui_priority i), non_null (ui_is_archived i),
            ui_extra i) of
        (Some t, Some d, Some s, Some p, Some a, []) \<Rightarrow>
          if sets_nothing i then Inl []
          else Inr \<lparr>tu_title = t, tu_description = d, tu_status = s, tu_priority = p,
                    tu_due_at = nullable (ui_due_at i), tu_is_archived = a\<rparr>
      | (t, d, s, p, a, extra) \<Rightarrow>
          Inl (rejected [(''title'', is_some t), (''description'', is_some d),
                         (''status'', is_some s), (''priority'', is_some p),
                         (''is_archived'', is_some a)] @ extra))"

section \<open>Listing todos\<close>

datatype todo_sort_field = CREATED_AT | UPDATED_AT | DUE_AT | TITLE

datatype sort_direction = ASC | DESC

record todo_query =
  q_text :: "string option"
  q_status :: "todo_status option"
  q_priority :: "todo_priority option"
  q_is_archived :: bool
  q_due_from :: "time option"
  q_due_to :: "time option"
  q_sort_by :: todo_sort_field
  q_sort_direction :: sort_direction
  q_limit :: int
  q_offset :: int

definition default_query :: todo_query where
  "default_query = \<lparr>q_text = None, q_status = None, q_priority = None, q_is_archived = False,
     q_due_from = None, q_due_to = None, q_sort_by = CREATED_AT, q_sort_direction = DESC,
     q_limit = 20, q_offset = 0\<rparr>"

text \<open>\<^verbatim>\<open>normalize_search\<close>, after the bounds on the length of the text as it was sent.\<close>

definition normalize_search :: "string option \<Rightarrow> string option option" where
  "normalize_search value = (case value of None \<Rightarrow> Some None
     | Some v \<Rightarrow> if \<not> length_between 1 100 v then None
                 else (let normalized = strip v in
                       if normalized = [] then None else Some (Some normalized)))"

definition due_range_ok :: "todo_query \<Rightarrow> bool" where
  "due_range_ok q = (case (q_due_from q, q_due_to q) of
      (Some a, Some b) \<Rightarrow> a \<le> b | _ \<Rightarrow> True)"

definition TodoListQuerySchema :: "todo_query \<Rightarrow> string list \<Rightarrow> string list + todo_query" where
  "TodoListQuerySchema q extra =
     (case (normalize_search (q_text q), 1 \<le> q_limit q \<and> q_limit q \<le> 100, 0 \<le> q_offset q, extra) of
        (Some text, True, True, []) \<Rightarrow>
          if due_range_ok q then Inr (q\<lparr>q_text := text\<rparr>) else Inl []
      | (text, l, off, _) \<Rightarrow>
          Inl (rejected [(''q'', is_some text), (''limit'', l), (''offset'', off)] @ extra))"

section \<open>Responses\<close>

record todo_response =
  tr_id :: int
  tr_title :: string
  tr_description :: "string option"
  tr_status :: todo_status
  tr_priority :: todo_priority
  tr_due_at :: "time option"
  tr_completed_at :: "time option"
  tr_is_archived :: bool
  tr_created_at :: time
  tr_updated_at :: time

definition TodoResponseSchema :: "todo \<Rightarrow> todo_response" where
  "TodoResponseSchema t = \<lparr>tr_id = t_id t, tr_title = t_title t, tr_description = t_description t,
     tr_status = t_status t, tr_priority = t_priority t, tr_due_at = t_due_at t,
     tr_completed_at = t_completed_at t, tr_is_archived = t_is_archived t,
     tr_created_at = t_created_at t, tr_updated_at = t_updated_at t\<rparr>"

record todo_list_response =
  tl_items :: "todo_response list"
  tl_total :: int
  tl_limit :: int
  tl_offset :: int

section \<open>What the schemas guarantee\<close>

text \<open>A title that a schema lets through meets the constraints of its column.\<close>

definition good_title :: "string \<Rightarrow> bool" where
  "good_title t \<longleftrightarrow> t \<noteq> [] \<and> length t \<le> 200 \<and> no_outer_space t"

lemma normalize_title_good:
  "normalize_title s = Some t \<Longrightarrow> length s \<le> 200 \<Longrightarrow> good_title t"
  using length_strip [of s] no_outer_space_strip [of s]
  by (auto simp: normalize_title_def good_title_def Let_def split: if_splits)

lemma good_title_checks: "good_title t \<Longrightarrow> list_ex (\<lambda>c. c \<noteq> CHR '' '') t \<and> length t \<le> 200"
proof -
  assume g: "good_title t"
  then have "t \<noteq> []" and "\<not> is_space (hd t)"
    by (auto simp: good_title_def no_outer_space_def)
  then have "hd t \<in> set t" and "hd t \<noteq> CHR '' ''" by auto
  then have "list_ex (\<lambda>c. c \<noteq> CHR '' '') t" by (auto simp: list_ex_iff)
  with g show ?thesis by (simp add: good_title_def)
qed

lemma TodoCreateSchema_title:
  "TodoCreateSchema i = Inr p \<Longrightarrow> good_title (tc_title p)"
  by (auto simp: TodoCreateSchema_def create_title_def length_between_def
      split: prod.splits option.splits list.splits field.splits if_splits
      dest: normalize_title_good)

lemma TodoUpdateSchema_title:
  "TodoUpdateSchema i = Inr p \<Longrightarrow> tu_title p = Some t \<Longrightarrow> good_title t"
  by (auto simp: TodoUpdateSchema_def update_title_def length_between_def
      split: prod.splits option.splits list.splits field.splits if_splits
      dest: normalize_title_good)

definition good_query :: "todo_query \<Rightarrow> bool" where
  "good_query q \<longleftrightarrow> 1 \<le> q_limit q \<and> q_limit q \<le> 100 \<and> 0 \<le> q_offset q \<and> due_range_ok q \<and>
     (case q_text q of None \<Rightarrow> True | Some t \<Rightarrow> t \<noteq> [] \<and> length t \<le> 100)"

lemma TodoListQuerySchema_good:
  assumes "TodoListQuerySchema raw extra = Inr q"
  shows "good_query q"
  using assms
  by (auto simp: TodoListQuerySchema_def good_query_def normalize_search_def length_between_def
      due_range_ok_def Let_def split: option.splits if_splits list.splits bool.splits
      dest: order_trans [OF length_strip])

end
