(* ===== verification/Todos.thy ===== *)
theory Todos
  imports Todo_Schema "HOL-Library.List_Lexorder"
begin

text \<open>
  Todos: \<^verbatim>\<open>repositories/todo.py\<close> and \<^verbatim>\<open>services/todo.py\<close>. The repository is a group of queries
  and edits on the table of todos, the service the transactions built from them, with every
  exception the code raises. The order of a listing interprets the locale of total
  preorders; the status machine of \<open>transition\<close> refines an abstract relation on statuses.
\<close>

section \<open>Filters\<close>

definition escape_like :: "string \<Rightarrow> string" where
  "escape_like value = concat (map (\<lambda>c.
     if c = CHR 0x5C \<or> c = CHR ''%'' \<or> c = CHR ''_'' then [CHR 0x5C, c] else [c]) value)"

definition search_matches :: "env \<Rightarrow> string option \<Rightarrow> todo \<Rightarrow> bool" where
  "search_matches env search t = (case search of
      None \<Rightarrow> True
    | Some s \<Rightarrow> s = [] \<or>
        (let pattern = ''%'' @ escape_like s @ ''%'' in
         ilike env (t_title t) pattern \<or>
         (case t_description t of None \<Rightarrow> False | Some d \<Rightarrow> ilike env d pattern)))"

text \<open>A comparison with a null column is not true, so it filters the row out.\<close>

definition due_matches :: "time option \<Rightarrow> time option \<Rightarrow> time option \<Rightarrow> bool" where
  "due_matches due_from due_to due =
     ((case due_from of None \<Rightarrow> True
       | Some a \<Rightarrow> (case due of None \<Rightarrow> False | Some d \<Rightarrow> a \<le> d)) \<and>
      (case due_to of None \<Rightarrow> True
       | Some b \<Rightarrow> (case due of None \<Rightarrow> False | Some d \<Rightarrow> d \<le> b)))"

definition todo_filters :: "env \<Rightarrow> int \<Rightarrow> todo_query \<Rightarrow> todo \<Rightarrow> bool" where
  "todo_filters env user_id q t \<longleftrightarrow>
     t_user_id t = user_id \<and> t_is_archived t = q_is_archived q \<and>
     search_matches env (q_text q) t \<and>
     (case q_status q of None \<Rightarrow> True | Some s \<Rightarrow> t_status t = s) \<and>
     (case q_priority q of None \<Rightarrow> True | Some p \<Rightarrow> t_priority t = p) \<and>
     due_matches (q_due_from q) (q_due_to q) (t_due_at t)"

section \<open>Ordering\<close>

text \<open>
  The value a listing sorts by: a time, or the sort key of a text under the collation of the
  database. Both are linearly ordered, and the column decides which one occurs.
\<close>

datatype sort_value = Time_Value int | Text_Value "nat list"

instantiation sort_value :: linorder
begin

fun less_eq_sort_value :: "sort_value \<Rightarrow> sort_value \<Rightarrow> bool" where
  "less_eq_sort_value (Time_Value a) (Time_Value b) = (a \<le> b)"
| "less_eq_sort_value (Time_Value _) (Text_Value _) = True"
| "less_eq_sort_value (Text_Value _) (Time_Value _) = False"
| "less_eq_sort_value (Text_Value a) (Text_Value b) = (a \<le> b)"

definition less_sort_value :: "sort_value \<Rightarrow> sort_value \<Rightarrow> bool" where
  "less_sort_value x y \<longleftrightarrow> x \<le> y \<and> \<not> y \<le> x"

instance
proof
  fix x y z :: sort_value
  show "x < y \<longleftrightarrow> x \<le> y \<and> \<not> y \<le> x" by (simp add: less_sort_value_def)
  show "x \<le> x" by (cases x) simp_all
  show "x \<le> y \<Longrightarrow> y \<le> z \<Longrightarrow> x \<le> z" by (cases x; cases y; cases z) auto
  show "x \<le> y \<Longrightarrow> y \<le> x \<Longrightarrow> x = y" by (cases x; cases y) auto
  show "x \<le> y \<or> y \<le> x" by (cases x; cases y) auto
qed

end

definition sort_column :: "env \<Rightarrow> todo_sort_field \<Rightarrow> todo \<Rightarrow> sort_value option" where
  "sort_column env f t = (case f of
      CREATED_AT \<Rightarrow> Some (Time_Value (t_created_at t))
    | UPDATED_AT \<Rightarrow> Some (Time_Value (t_updated_at t))
    | DUE_AT \<Rightarrow> map_option Time_Value (t_due_at t)
    | TITLE \<Rightarrow> Some (Text_Value (collate env (t_title t))))"

text \<open>
  \<^verbatim>\<open>_apply_ordering\<close>: the column, ascending or descending, nulls last (only the due date
  has nulls), then the id in the same direction.
\<close>

definition directed :: "sort_direction \<Rightarrow> 'a::linorder \<Rightarrow> 'a \<Rightarrow> bool" where
  "directed dir x y = (case dir of ASC \<Rightarrow> x \<le> y | DESC \<Rightarrow> y \<le> x)"

definition todo_le :: "env \<Rightarrow> todo_sort_field \<Rightarrow> sort_direction \<Rightarrow> todo \<Rightarrow> todo \<Rightarrow> bool" where
  "todo_le env f dir a b =
     (case (sort_column env f a, sort_column env f b) of
        (None, None) \<Rightarrow> directed dir (t_id a) (t_id b)
      | (Some _, None) \<Rightarrow> True
      | (None, Some _) \<Rightarrow> False
      | (Some x, Some y) \<Rightarrow>
          if x = y then directed dir (t_id a) (t_id b) else directed dir x y)"

interpretation listing: total_preorder "todo_le env f dir" for env f dir
proof
  fix x y z
  show "todo_le env f dir x y \<or> todo_le env f dir y x"
    by (auto simp: todo_le_def directed_def split: option.splits sort_direction.splits)
  show "todo_le env f dir x y \<Longrightarrow> todo_le env f dir y z \<Longrightarrow> todo_le env f dir x z"
    by (auto simp: todo_le_def directed_def split: option.splits sort_direction.splits if_splits)
qed

section \<open>The repository\<close>

definition new_todo :: "int \<Rightarrow> int \<Rightarrow> todo_create \<Rightarrow> time \<Rightarrow> todo" where
  "new_todo i user_id p now =
     \<lparr>t_id = i, t_user_id = user_id, t_title = tc_title p, t_description = tc_description p,
      t_status = TODO, t_priority = tc_priority p, t_due_at = tc_due_at p,
      t_completed_at = None, t_is_archived = False, t_created_at = now, t_updated_at = now\<rparr>"

definition create_todo :: "int \<Rightarrow> todo_create \<Rightarrow> todo act" where
  "create_todo user_id p =
     bnd next_todo_id (\<lambda>i.
     bnd (read db_now) (\<lambda>now.
     (let todo = new_todo i user_id p now in
      bnd (edit (\<lambda>d. d\<lparr>todos := todos d @ [todo]\<rparr>)) (\<lambda>_.
      bnd flush (\<lambda>_. ret todo)))))"

text \<open>
  A key that is not an \<^verbatim>\<open>INTEGER\<close> cannot be sent to the database: the driver raises a
  \<^verbatim>\<open>DataError\<close>, which SQLAlchemy passes on as an \<^verbatim>\<open>SQLAlchemyError\<close>.
\<close>

definition get_owned_todo :: "int \<Rightarrow> int \<Rightarrow> todo option act" where
  "get_owned_todo user_id todo_id =
     bnd (guard (int32 todo_id) SqlErr) (\<lambda>_.
     select (\<lambda>d. find (\<lambda>t. t_id t = todo_id \<and> t_user_id t = user_id) (todos d)))"

definition list_owned_todos :: "env \<Rightarrow> int \<Rightarrow> todo_query \<Rightarrow> (todo list \<times> int) act" where
  "list_owned_todos env user_id q =
     bnd (guard (q_offset q < 2 ^ 63) SqlErr) (\<lambda>_.
     bnd (select (\<lambda>d. page (nat (q_limit q)) (nat (q_offset q))
            (sort_by (todo_le env (q_sort_by q) (q_sort_direction q))
               (filter (todo_filters env user_id q) (todos d))))) (\<lambda>items.
     bnd (select (\<lambda>d. rowcount (todo_filters env user_id q) (todos d))) (\<lambda>total.
     ret (items, total))))"

definition delete_todo :: "todo \<Rightarrow> unit act" where
  "delete_todo t = edit (\<lambda>d. d\<lparr>todos := delete_where (\<lambda>r. t_id r = t_id t) (todos d)\<rparr>)"

definition archive_completed_todos :: "time \<Rightarrow> int act" where
  "archive_completed_todos completed_before =
     (let due = (\<lambda>t. t_status t = DONE \<and> \<not> t_is_archived t \<and>
            (case t_completed_at t of None \<Rightarrow> False | Some c \<Rightarrow> c \<le> completed_before))
      in bnd statement (\<lambda>_.
         bnd (read (\<lambda>w. (db_now w, rowcount due (todos (work w))))) (\<lambda>(now, n).
         bnd (edit (\<lambda>d. d\<lparr>todos := update_where due
                (\<lambda>t. t\<lparr>t_is_archived := True, t_updated_at := now\<rparr>) (todos d)\<rparr>)) (\<lambda>_.
         bnd check_rows (\<lambda>_. ret n)))))"

text \<open>
  The attributes of the mapped object that changed are written back, with \<^verbatim>\<open>updated_at\<close> from
  its \<^verbatim>\<open>onupdate\<close>; assigning the value an attribute has is not a change.
\<close>

definition touch_todo :: "time \<Rightarrow> todo \<Rightarrow> todo \<Rightarrow> todo" where
  "touch_todo now old new = (if new = old then old else new\<lparr>t_updated_at := now\<rparr>)"

definition save_todo :: "todo \<Rightarrow> unit act" where
  "save_todo t = bnd (read db_now) (\<lambda>now.
     edit (\<lambda>d. d\<lparr>todos := update_where (\<lambda>r. t_id r = t_id t) (\<lambda>r. touch_todo now r t) (todos d)\<rparr>))"

section \<open>The service\<close>

definition todo_create_op :: "int \<Rightarrow> todo_create \<Rightarrow> todo act" where
  "todo_create_op user_id payload =
     except_sql (Todo_Error TodoServiceUnavailableError)
       (bnd (create_todo user_id payload) (\<lambda>todo. bnd commit (\<lambda>_. ret todo)))"

definition todo_get :: "int \<Rightarrow> int \<Rightarrow> todo act" where
  "todo_get user_id todo_id =
     bnd (except_sql (Todo_Error TodoServiceUnavailableError) (get_owned_todo user_id todo_id))
       (of_option (AppErr (Todo_Error TodoNotFoundError)))"

definition todo_list :: "env \<Rightarrow> int \<Rightarrow> todo_query \<Rightarrow> todo_list_response act" where
  "todo_list env user_id q =
     bnd (except_sql (Todo_Error TodoServiceUnavailableError) (list_owned_todos env user_id q))
       (\<lambda>(items, total). ret
          \<lparr>tl_items = map TodoResponseSchema items, tl_total = total,
           tl_limit = q_limit q, tl_offset = q_offset q\<rparr>)"

text \<open>\<^verbatim>\<open>setattr\<close> for every field the request set, except the status.\<close>

definition apply_changes :: "todo_update \<Rightarrow> todo \<Rightarrow> todo" where
  "apply_changes p t = t\<lparr>
     t_title := (case tu_title p of None \<Rightarrow> t_title t | Some x \<Rightarrow> x),
     t_description := (case tu_description p of None \<Rightarrow> t_description t | Some x \<Rightarrow> x),
     t_priority := (case tu_priority p of None \<Rightarrow> t_priority t | Some x \<Rightarrow> x),
     t_due_at := (case tu_due_at p of None \<Rightarrow> t_due_at t | Some x \<Rightarrow> x),
     t_is_archived := (case tu_is_archived p of None \<Rightarrow> t_is_archived t | Some x \<Rightarrow> x)\<rparr>"

definition transition :: "todo \<Rightarrow> todo_status \<Rightarrow> todo act" where
  "transition t target =
     (if target = t_status t then ret t
      else if t_status t = CANCELLED \<and> target \<noteq> TODO
        then raise (AppErr (Todo_Error TodoStateConflictError))
      else if t_status t = DONE \<and> target = CANCELLED
        then raise (AppErr (Todo_Error TodoStateConflictError))
      else (case target of
          TODO \<Rightarrow> ret (todo_reopen t)
        | IN_PROGRESS \<Rightarrow> ret (t\<lparr>t_status := IN_PROGRESS, t_completed_at := None\<rparr>)
        | DONE \<Rightarrow> bnd now_utc (\<lambda>now.
            of_option (AppErr (Todo_Error TodoStateConflictError)) (todo_complete t now))
        | CANCELLED \<Rightarrow> ret (todo_cancel t)))"

definition todo_update_op :: "int \<Rightarrow> int \<Rightarrow> todo_update \<Rightarrow> todo act" where
  "todo_update_op user_id todo_id payload =
     except_sql (Todo_Error TodoServiceUnavailableError)
       (bnd (get_owned_todo user_id todo_id) (\<lambda>found.
        bnd (of_option (AppErr (Todo_Error TodoNotFoundError)) found) (\<lambda>todo.
        bnd (case tu_status payload of
               None \<Rightarrow> ret (apply_changes payload todo)
             | Some target \<Rightarrow> transition (apply_changes payload todo) target) (\<lambda>todo.
        bnd (save_todo todo) (\<lambda>_.
        bnd flush (\<lambda>_.
        bnd (select (\<lambda>d. find (\<lambda>r. t_id r = t_id todo) (todos d))) (\<lambda>refreshed.
        bnd (of_option SqlErr refreshed) (\<lambda>todo.
        bnd commit (\<lambda>_. ret todo)))))))))"

definition todo_delete :: "int \<Rightarrow> int \<Rightarrow> unit act" where
  "todo_delete user_id todo_id =
     except_sql (Todo_Error TodoServiceUnavailableError)
       (bnd (get_owned_todo user_id todo_id) (\<lambda>found.
        bnd (of_option (AppErr (Todo_Error TodoNotFoundError)) found) (\<lambda>todo.
        bnd (delete_todo todo) (\<lambda>_. commit))))"

end
