(* ===== verification/Todo_Facts.thy ===== *)
theory Todo_Facts
  imports Todos
begin

text \<open>
  What the todo service guarantees: writes are all or nothing under any faults of the
  database, an update follows the status machine and nothing else, nobody reads or changes
  another user's todos, and a listing is the sorted, filtered table cut into pages.
\<close>

section \<open>All or nothing\<close>

lemma no_commit_create_todo [keeps]: "no_commit (create_todo uid p)"
  unfolding create_todo_def Let_def by (intro keeps)

lemma no_commit_get_owned [keeps]: "no_commit (get_owned_todo uid i)"
  unfolding get_owned_todo_def by (intro keeps)

lemma no_commit_save_todo [keeps]: "no_commit (save_todo t)"
  unfolding save_todo_def by (intro keeps)

lemma no_commit_transition [keeps]: "no_commit (transition t s)"
  unfolding transition_def by (cases s) (auto intro!: keeps)

lemma no_commit_todo_get [keeps]: "no_commit (todo_get uid i)"
  unfolding todo_get_def by (intro keeps)

lemma no_commit_todo_list [keeps]: "no_commit (todo_list env uid q)"
  unfolding todo_list_def list_owned_todos_def by (intro keeps)

lemma atomic_todo_create_op: "atomic (todo_create_op uid p)"
  unfolding todo_create_op_def
  by (rule atomic_except_sql, rule atomic_bnd [OF no_commit_create_todo], rule atomic_commit_ret)

lemma atomic_todo_update_op: "atomic (todo_update_op uid i p)"
  unfolding todo_update_op_def
  by (intro atomic_except_sql atomic_bnd atomic_commit_ret no_commit_option) (intro keeps)+

lemma atomic_todo_delete: "atomic (todo_delete uid i)"
  unfolding todo_delete_def delete_todo_def
  by (intro atomic_except_sql atomic_bnd atomic_commit) (intro keeps)+

section \<open>The status machine\<close>

text \<open>The abstract machine: which status may follow which.\<close>

inductive status_step :: "todo_status \<Rightarrow> todo_status \<Rightarrow> bool" where
  start: "status_step TODO IN_PROGRESS"
| finish_todo: "status_step TODO DONE"
| finish: "status_step IN_PROGRESS DONE"
| step_back: "status_step IN_PROGRESS TODO"
| resume: "status_step DONE IN_PROGRESS"
| reopen_done: "status_step DONE TODO"
| cancel_todo: "status_step TODO CANCELLED"
| cancel: "status_step IN_PROGRESS CANCELLED"
| reopen_cancelled: "status_step CANCELLED TODO"

inductive_simps status_step_simps [simp]:
  "status_step TODO s" "status_step IN_PROGRESS s" "status_step DONE s" "status_step CANCELLED s"

code_pred status_step .

definition may_become :: "todo_status \<Rightarrow> todo_status \<Rightarrow> bool" where
  "may_become s s' \<longleftrightarrow> s' = s \<or> status_step s s'"

text \<open>The todo in another status: a completion time exactly when it is done.\<close>

definition with_status :: "time \<Rightarrow> todo_status \<Rightarrow> todo \<Rightarrow> todo" where
  "with_status now s t =
     (if s = t_status t then t
      else t\<lparr>t_status := s, t_completed_at := (if s = DONE then Some now else None)\<rparr>)"

lemma transition_refines:
  "transition t s w =
     (if \<not> may_become (t_status t) s then (Inl (AppErr (Todo_Error TodoStateConflictError)), w)
      else let w' = (if s = DONE \<and> t_status t \<noteq> DONE then tick w else w)
           in (Inr (with_status (clock w') s t), w'))"
  by (cases s; cases "t_status t")
     (auto simp: transition_def may_become_def with_status_def Let_def action_defs
        now_utc_tick [unfolded now_utc_def Let_def] todo_reopen_def todo_cancel_def todo_complete_def)

lemma with_status_simps [simp]:
  "t_id (with_status n s t) = t_id t" "t_user_id (with_status n s t) = t_user_id t"
  "t_title (with_status n s t) = t_title t" "t_status (with_status n s t) = s"
  "t_updated_at (with_status n s t) = t_updated_at t"
  by (simp_all add: with_status_def)

lemma with_status_check: "todo_check_completion t \<Longrightarrow> todo_check_completion (with_status n s t)"
  by (auto simp: todo_check_completion_def with_status_def)

lemma apply_changes_simps [simp]:
  "t_id (apply_changes p t) = t_id t" "t_user_id (apply_changes p t) = t_user_id t"
  "t_status (apply_changes p t) = t_status t" "t_completed_at (apply_changes p t) = t_completed_at t"
  "t_updated_at (apply_changes p t) = t_updated_at t"
  "t_title (apply_changes p t) = (case tu_title p of None \<Rightarrow> t_title t | Some x \<Rightarrow> x)"
  by (simp_all add: apply_changes_def)

lemma touch_simps [simp]:
  "t_id new = t_id old \<Longrightarrow> t_id (touch_todo n old new) = t_id old"
  "t_user_id new = t_user_id old \<Longrightarrow> t_user_id (touch_todo n old new) = t_user_id old"
  by (simp_all add: touch_todo_def)

text \<open>What an update makes of a todo: the changed fields, the requested status.\<close>

definition requested :: "todo_update \<Rightarrow> todo \<Rightarrow> todo_status" where
  "requested p t = (case tu_status p of None \<Rightarrow> t_status t | Some s \<Rightarrow> s)"

definition updated_todo :: "time \<Rightarrow> todo_update \<Rightarrow> todo \<Rightarrow> todo" where
  "updated_todo now p t = with_status now (requested p t) (apply_changes p t)"

lemma change_status_eq:
  "(case tu_status p of None \<Rightarrow> ret (apply_changes p t)
    | Some target \<Rightarrow> transition (apply_changes p t) target) w =
     (if \<not> may_become (t_status t) (requested p t)
      then (Inl (AppErr (Todo_Error TodoStateConflictError)), w)
      else let w' = (if requested p t = DONE \<and> t_status t \<noteq> DONE then tick w else w)
           in (Inr (updated_todo (clock w') p t), w'))"
  by (cases "tu_status p")
     (auto simp: requested_def updated_todo_def transition_refines with_status_def may_become_def ret_def)

lemma updated_todo_simps [simp]:
  "t_id (updated_todo n p t) = t_id t" "t_user_id (updated_todo n p t) = t_user_id t"
  "t_status (updated_todo n p t) = requested p t"
  by (simp_all add: updated_todo_def)

text \<open>The row an update writes meets the checks of the table.\<close>

lemma updated_todo_checks:
  assumes "todo_check_title t" "todo_check_completion t" "todo_fits t"
    and "\<And>x. tu_title p = Some x \<Longrightarrow> good_title x"
    and "t' = touch_todo m t (updated_todo n p t)"
  shows "todo_check_title t' \<and> todo_check_completion t' \<and> todo_fits t'"
proof -
  have c: "todo_check_completion (updated_todo n p t)"
    unfolding updated_todo_def using assms(2)
    by (intro with_status_check) (simp add: todo_check_completion_def)
  have title: "todo_check_title (updated_todo n p t) \<and> todo_fits (updated_todo n p t)"
    using assms(1,3,4) good_title_checks
    by (auto simp: todo_check_title_def todo_fits_def updated_todo_def split: option.splits)
  from c title assms(1-3) show ?thesis
    by (simp add: assms(5) touch_todo_def todo_check_title_def todo_check_completion_def todo_fits_def)
qed

section \<open>Updates\<close>

lemma find_owned:
  assumes "valid_db d" and "find (\<lambda>t. t_id t = i \<and> t_user_id t = uid) (todos d) = Some t"
  shows "t \<in> set (todos d)" "t_id t = i" "t_user_id t = uid"
    "find (\<lambda>t. t_id t = i) (todos d) = Some t"
proof -
  from find_SomeD [OF assms(2)] show t: "t \<in> set (todos d)" "t_id t = i" "t_user_id t = uid" by auto
  from find_unique [OF valid_keys(8) [OF assms(1)] t(1)] t(2)
  show "find (\<lambda>t. t_id t = i) (todos d) = Some t" by simp
qed

lemma save_todo_eq:
  assumes "valid_db (work w)" and "t \<in> set (todos (work w))" and "t_id t' = t_id t"
  shows "save_todo t' w = (Inr (), w\<lparr>work := (work w)\<lparr>todos :=
     update_where (\<lambda>r. t_id r = t_id t) (\<lambda>_. touch_todo (db_now w) t t') (todos (work w))\<rparr>\<rparr>)"
  using update_where_const [OF valid_keys(8) [OF assms(1)] assms(2), of "\<lambda>r. touch_todo (db_now w) r t'"]
    assms(3)
  by (simp add: save_todo_def bnd_def read_def edit_def)

text \<open>
  The update of an owned todo once it is found, up to the flush: what the status machine
  allows is written to the transaction.
\<close>

definition write_back :: "int \<Rightarrow> todo \<Rightarrow> db \<Rightarrow> db" where
  "write_back i t' d = d\<lparr>todos := update_where (\<lambda>r. t_id r = i) (\<lambda>_. t') (todos d)\<rparr>"

lemma find_write_back:
  assumes "valid_db d" and "t \<in> set (todos d)" and "t_id t = i" and "t_id t' = i"
  shows "find (\<lambda>r. t_id r = i) (todos (write_back i t' d)) = Some t'"
proof -
  have set: "set (todos (write_back i t' d)) = insert t' (set (todos d) - {t})"
    using set_replace [OF valid_keys(8) [OF assms(1)] assms(2), of t'] assms(3)
    by (simp add: write_back_def)
  have "distinct (map t_id (todos (write_back i t' d)))"
    using valid_keys(8) [OF assms(1)] assms(4)
    by (simp add: write_back_def) (subst map_update_where, auto)
  from find_unique [OF this, of t'] set assms(4) show ?thesis by simp
qed

lemma valid_write_back:
  assumes "valid_db d" and "t \<in> set (todos d)" and "t_id t = i"
    and "\<And>x. tu_title p = Some x \<Longrightarrow> good_title x"
  shows "valid_db (write_back i (touch_todo m t (updated_todo n p t)) d)"
  unfolding write_back_def assms(3) [symmetric]
  using updated_todo_checks [where p = p, OF _ _ _ assms(4) refl, of t m n] valid_todo [OF assms(1,2)]
  by (intro valid_replace_todo [OF assms(1,2)]) auto

lemma todo_update_success:
  assumes run: "todo_update_op uid i p w = (Inr t', w')" and v: "valid_db (work w)"
  obtains t where "t \<in> set (todos (work w))" "t_id t = i" "t_user_id t = uid"
    "may_become (t_status t) (requested p t)"
    "t' = touch_todo (db_now w) t (updated_todo (clock w') p t)"
    "committed w' = write_back i t' (work w)" "valid_db (committed w')"
proof -
  let ?found = "find (\<lambda>t. t_id t = i \<and> t_user_id t = uid) (todos (work w))"
  from run obtain t w1 t1 w2 w3 w4 w5 where
    found: "?found = Some t" and w1: "w1 = w\<lparr>faults := tl (faults w)\<rparr>" and
    change: "(case tu_status p of None \<Rightarrow> ret (apply_changes p t)
       | Some target \<Rightarrow> transition (apply_changes p t) target) w1 = (Inr t1, w2)" and
    save: "save_todo t1 w2 = (Inr (), w3)" and
    flush: "flush w3 = (Inr (), w4)" and
    w5: "w5 = w4\<lparr>faults := tl (faults w4)\<rparr>" and
    refreshed: "find (\<lambda>r. t_id r = t_id t1) (todos (work w4)) = Some t'" and
    commit: "commit w5 = (Inr (), w')"
    unfolding todo_update_op_def get_owned_todo_def run_ok
    by (auto dest!: select_ok)
  note owned = find_owned [OF v found]
  have ok: "may_become (t_status t) (requested p t)"
    and t1: "t1 = updated_todo (clock w2) p t" and w2: "w2 = w1 \<or> w2 = tick w1"
    using change unfolding change_status_eq by (auto simp: Let_def split: if_splits)
  let ?t' = "touch_todo (db_now w) t t1"
  have work3: "work w3 = write_back i ?t' (work w)" and w3: "clock w3 = clock w2"
    using save w2 w1 save_todo_eq [of w2 t t1] owned v t1 by (auto simp: write_back_def)
  from flush_ok [OF flush] have w4: "work w4 = work w3" "clock w4 = clock w3" by auto
  from commit_ok [OF commit] w5 w4 have w': "committed w' = work w3" "clock w' = clock w3"
    and valid: "valid_db (work w3)" by auto
  have "find (\<lambda>r. t_id r = i) (todos (write_back i ?t' (work w))) = Some ?t'"
    using owned t1 by (intro find_write_back [OF v]) auto
  with refreshed w4 work3 t1 owned have t': "t' = ?t'" by simp
  with that [OF owned(1-3) ok] t1 w' w3 work3 valid show thesis by simp
qed

section \<open>Creation and deletion\<close>

lemma todo_create_success:
  assumes "todo_create_op uid p w = (Inr t, w')"
  shows "t = new_todo (todo_seq w) uid p (db_now w)"
    "committed w' = (work w)\<lparr>todos := todos (work w) @ [t]\<rparr>" "valid_db (committed w')"
  using assms
  by (auto simp: todo_create_op_def create_todo_def Let_def run_ok next_todo_id_def
      dest!: flush_ok commit_ok)

lemma todo_delete_success:
  assumes "todo_delete uid i w = (Inr u, w')"
  obtains t where "find (\<lambda>t. t_id t = i \<and> t_user_id t = uid) (todos (work w)) = Some t"
    "committed w' = (work w)\<lparr>todos := delete_where (\<lambda>r. t_id r = i) (todos (work w))\<rparr>"
proof -
  from assms obtain t w1 w2 where
    t: "find (\<lambda>t. t_id t = i \<and> t_user_id t = uid) (todos (work w)) = Some t" and
    w1: "w1 = w\<lparr>faults := tl (faults w)\<rparr>" and del: "delete_todo t w1 = (Inr (), w2)" and
    c: "commit w2 = (Inr u, w')"
    by (auto simp: todo_delete_def get_owned_todo_def run_ok dest!: select_ok)
  from find_SomeD [OF t] have i: "t_id t = i" by simp
  from commit_ok [OF c] have "committed w' = work w2" by simp
  with del w1 i have "committed w' = (work w)\<lparr>todos := delete_where (\<lambda>r. t_id r = i) (todos (work w))\<rparr>"
    by (simp add: delete_todo_def edit_ok)
  with t that show thesis by blast
qed

section \<open>Isolation between users\<close>

text \<open>The two databases differ at most in todos of the user.\<close>

definition only_todos_of :: "int \<Rightarrow> db \<Rightarrow> db \<Rightarrow> bool" where
  "only_todos_of uid d d' \<longleftrightarrow> d' = d\<lparr>todos := todos d'\<rparr> \<and>
     filter (\<lambda>t. t_user_id t \<noteq> uid) (todos d') = filter (\<lambda>t. t_user_id t \<noteq> uid) (todos d)"

lemma only_todos_of_refl: "only_todos_of uid d d"
  by (simp add: only_todos_of_def)

lemma only_todos_of_write:
  "filter (\<lambda>t. t_user_id t \<noteq> uid) ts = filter (\<lambda>t. t_user_id t \<noteq> uid) (todos d) \<Longrightarrow>
     only_todos_of uid d (d\<lparr>todos := ts\<rparr>)"
  by (simp add: only_todos_of_def)

text \<open>A whole request: from what is committed before it to what is committed after it.\<close>

lemma get_session_cases:
  assumes "atomic m"
    and "\<And>x w'. m (w\<lparr>work := committed w\<rparr>) = (Inr x, w') \<Longrightarrow> R (committed w')"
    and "R (committed w)"
  shows "R (committed (snd (get_session m w)))"
proof -
  obtain r w' where m: "m (w\<lparr>work := committed w\<rparr>) = (r, w')" by fastforce
  show ?thesis
  proof (cases r)
    case (Inl e)
    with atomicD [OF assms(1)] m have "committed w' = committed w" by fastforce
    with m assms(3) show ?thesis by (simp add: get_session_def)
  next
    case (Inr x)
    with m assms(2) show ?thesis by (simp add: get_session_def)
  qed
qed

lemma todo_create_isolated:
  "only_todos_of uid (committed w) (committed (snd (get_session (todo_create_op uid p) w)))"
proof (rule get_session_cases [OF atomic_todo_create_op _ only_todos_of_refl])
  fix t w'
  assume "todo_create_op uid p (w\<lparr>work := committed w\<rparr>) = (Inr t, w')"
  from todo_create_success [OF this] show "only_todos_of uid (committed w) (committed w')"
    by (auto simp: new_todo_def intro: only_todos_of_write)
qed

lemma todo_update_isolated:
  assumes "valid_db (committed w)"
  shows "only_todos_of uid (committed w) (committed (snd (get_session (todo_update_op uid i p) w)))"
proof (rule get_session_cases [OF atomic_todo_update_op _ only_todos_of_refl])
  fix t' w'
  assume "todo_update_op uid i p (w\<lparr>work := committed w\<rparr>) = (Inr t', w')"
  then obtain t where t: "t \<in> set (todos (committed w))" "t_id t = i" "t_user_id t = uid"
      "t_user_id t' = uid" "committed w' = write_back i t' (committed w)"
    using assms by (rule_tac todo_update_success) auto
  have "filter (\<lambda>t. t_user_id t \<noteq> uid) (update_where (\<lambda>r. t_id r = i) (\<lambda>_. t') (todos (committed w)))
      = filter (\<lambda>t. t_user_id t \<noteq> uid) (todos (committed w))"
    using t key_unique [OF valid_keys(8) [OF assms] _ t(1)] by (intro filter_update_where) auto
  with t(5) show "only_todos_of uid (committed w) (committed w')"
    by (simp add: write_back_def only_todos_of_write)
qed

lemma todo_delete_isolated:
  assumes "valid_db (committed w)"
  shows "only_todos_of uid (committed w) (committed (snd (get_session (todo_delete uid i) w)))"
proof (rule get_session_cases [OF atomic_todo_delete _ only_todos_of_refl])
  fix u w'
  assume "todo_delete uid i (w\<lparr>work := committed w\<rparr>) = (Inr u, w')"
  then obtain t where t: "t \<in> set (todos (committed w))" "t_id t = i" "t_user_id t = uid"
      "committed w' = (committed w)\<lparr>todos := delete_where (\<lambda>r. t_id r = i) (todos (committed w))\<rparr>"
    by (rule todo_delete_success) (auto dest!: find_SomeD)
  have "filter (\<lambda>t. t_user_id t \<noteq> uid) (delete_where (\<lambda>r. t_id r = i) (todos (committed w)))
      = filter (\<lambda>t. t_user_id t \<noteq> uid) (todos (committed w))"
    using t key_unique [OF valid_keys(8) [OF assms] _ t(1)] by (intro filter_delete_where) auto
  with t(4) show "only_todos_of uid (committed w) (committed w')"
    by (simp add: only_todos_of_write)
qed

section \<open>Search\<close>

text \<open>
  The escaped search text matches itself only, so a pattern built from it finds the values
  that contain the text.
\<close>

lemma escape_like_Cons:
  "escape_like (c # cs) =
     (if c = CHR 0x5C \<or> c = CHR ''%'' \<or> c = CHR ''_'' then [CHR 0x5C, c] else [c]) @ escape_like cs"
  by (simp add: escape_like_def)

lemma escape_like_Nil [simp]: "escape_like [] = []"
  by (simp add: escape_like_def)

lemma like_match_any: "like_match s ''%''"
  by (induction s) auto

lemma like_match_escaped_prefix:
  "like_match s (escape_like p @ ''%'') \<longleftrightarrow> prefix p s"
proof (induction p arbitrary: s)
  case Nil
  then show ?case by (simp add: like_match_any)
next
  case (Cons c cs)
  then show ?case by (cases s) (auto simp: escape_like_Cons)
qed

lemma like_match_percent:
  "like_match s (CHR ''%'' # ps) \<longleftrightarrow> (\<exists>t. suffix t s \<and> like_match t ps)"
  by (induction s) (auto simp: suffix_Cons)

lemma like_contains: "like_match s (''%'' @ escape_like p @ ''%'') \<longleftrightarrow> sublist p s"
proof -
  have "like_match s (''%'' @ escape_like p @ ''%'') \<longleftrightarrow> (\<exists>t. suffix t s \<and> prefix p t)"
    using like_match_percent [of s "escape_like p @ ''%''"] by (simp add: like_match_escaped_prefix)
  also have "\<dots> \<longleftrightarrow> sublist p s"
    by (auto simp: sublist_def suffix_def prefix_def)
  finally show ?thesis .
qed

lemma lower_char_low:
  assumes "(of_char d :: nat) < 97" and "\<not> is_upper d"
  shows "lower_char c = d \<longleftrightarrow> c = d"
proof
  assume c: "lower_char c = d"
  show "c = d"
  proof (cases "is_upper c")
    case True
    then have "97 \<le> (of_char (lower_char c) :: nat)"
      by (auto simp: of_char_lower_char is_upper_def Let_def)
    with c assms(1) show ?thesis by simp
  next
    case False
    with c show ?thesis by (simp add: lower_char_def)
  qed
qed (use assms(2) in \<open>simp add: lower_char_def\<close>)

lemma lower_special:
  "lower_char c = CHR 0x5C \<longleftrightarrow> c = CHR 0x5C" "lower_char c = CHR ''%'' \<longleftrightarrow> c = CHR ''%''"
  "lower_char c = CHR ''_'' \<longleftrightarrow> c = CHR ''_''"
  by (rule lower_char_low; simp add: is_upper_def)+

lemma lower_escape_like: "lower (escape_like s) = escape_like (lower s)"
  by (induction s) (auto simp: escape_like_Cons lower_def lower_special)

end
