(* ===== verification/Url.thy ===== *)
theory Url
  imports Encoding
begin

text \<open>
  \<^verbatim>\<open>urllib.parse.urlsplit\<close> of the standard library (Python 3.11, the version of the images) as
  far as the program uses it: scheme, network location, path, query, fragment, the user
  information and the host name. \<open>None\<close> is the \<^verbatim>\<open>ValueError\<close> for brackets that do not enclose
  an IPv6 or IPvFuture address. Text is Latin-1, where no network location changes its
  delimiters under normalisation, so \<^verbatim>\<open>_checknetloc\<close> accepts everything.
\<close>

section \<open>Addresses in brackets\<close>

definition is_hex :: "char \<Rightarrow> bool" where
  "is_hex c = (let n = (of_char c :: nat) in
     (48 \<le> n \<and> n \<le> 57) \<or> (65 \<le> n \<and> n \<le> 70) \<or> (97 \<le> n \<and> n \<le> 102))"

text \<open>\<^verbatim>\<open>s.split(sep)\<close> for one character.\<close>

fun split_char :: "char \<Rightarrow> string \<Rightarrow> string list" where
  "split_char x [] = [[]]"
| "split_char x (c # cs) =
     (if c = x then [] # split_char x cs
      else (case split_char x cs of [] \<Rightarrow> [[c]] | p # ps \<Rightarrow> (c # p) # ps))"

definition ipv4_octet :: "string \<Rightarrow> bool" where
  "ipv4_octet s \<longleftrightarrow> s \<noteq> [] \<and> length s \<le> 3 \<and> list_all (\<lambda>c. digit_of c \<noteq> None) s \<and>
     \<not> (s \<noteq> ''0'' \<and> hd s = CHR ''0'') \<and>
     (case parse_unsigned s of Some n \<Rightarrow> n \<le> 255 | None \<Rightarrow> False)"

definition ipv4_address :: "string \<Rightarrow> bool" where
  "ipv4_address s \<longleftrightarrow> length (split_char (CHR ''.'') s) = 4 \<and>
     list_all ipv4_octet (split_char (CHR ''.'') s)"

definition hextet :: "string \<Rightarrow> bool" where
  "hextet s \<longleftrightarrow> s \<noteq> [] \<and> length s \<le> 4 \<and> list_all is_hex s"

text \<open>
  \<^verbatim>\<open>IPv6Address\<close>: a trailing IPv4 address counts as two groups; eight groups, or one \<^verbatim>\<open>::\<close> that
  stands for at least one group of zeros.
\<close>

definition ipv6_groups :: "string list \<Rightarrow> bool" where
  "ipv6_groups parts =
     (let n = length parts;
          gaps = filter (\<lambda>i. parts ! i = []) [1..<n - 1]
      in 3 \<le> n \<and> n \<le> 9 \<and>
         (case gaps of
            [] \<Rightarrow> n = 8 \<and> list_all hextet parts
          | [g] \<Rightarrow>
              let front = take g parts; behind = drop (g + 1) parts;
                  front' = (if hd front = [] then tl front else front);
                  behind' = (if last behind = [] then butlast behind else behind)
              in (hd front = [] \<longrightarrow> front' = []) \<and> (last behind = [] \<longrightarrow> behind' = []) \<and>
                 length front' + length behind' < 8 \<and>
                 list_all hextet front' \<and> list_all hextet behind'
          | _ \<Rightarrow> False))"

definition ipv6_address :: "string \<Rightarrow> bool" where
  "ipv6_address s =
     (case partition_char (CHR ''%'') s of (addr, scoped, scope) \<Rightarrow>
        (scoped \<longrightarrow> scope \<noteq> [] \<and> CHR ''%'' \<notin> set scope) \<and> CHR ''/'' \<notin> set s \<and>
        (let parts = split_char (CHR '':'') addr in
         if CHR ''.'' \<in> set (last parts)
         then 3 \<le> length parts \<and> ipv4_address (last parts) \<and>
              ipv6_groups (butlast parts @ [''0'', ''0''])
         else ipv6_groups parts))"

definition ipv_future :: "string \<Rightarrow> bool" where
  "ipv_future host =
     (case partition_char (CHR ''.'') (tl host) of (version, dot, rest) \<Rightarrow>
        dot \<and> version \<noteq> [] \<and> list_all is_hex version \<and> rest \<noteq> [])"

definition check_bracketed_host :: "string \<Rightarrow> bool" where
  "check_bracketed_host host =
     (if startswith host ''v'' then ipv_future host else ipv6_address host)"

section \<open>User information and host\<close>

text \<open>\<^verbatim>\<open>netloc.rpartition('@')\<close>: user information (\<open>None\<close> without \<^verbatim>\<open>@\<close>) and the rest.\<close>

definition rpartition_at :: "string \<Rightarrow> string option \<times> string" where
  "rpartition_at netloc =
     (case partition_char (CHR ''@'') (rev netloc) of
        (back, True, front) \<Rightarrow> (Some (rev front), rev back)
      | (back, False, _) \<Rightarrow> (None, netloc))"

definition url_username :: "string \<Rightarrow> string option" where
  "url_username netloc = (case fst (rpartition_at netloc) of
      None \<Rightarrow> None
    | Some info \<Rightarrow> Some (fst (partition_char (CHR '':'') info)))"

definition url_password :: "string \<Rightarrow> string option" where
  "url_password netloc = (case fst (rpartition_at netloc) of
      None \<Rightarrow> None
    | Some info \<Rightarrow> (case partition_char (CHR '':'') info of
          (_, True, p) \<Rightarrow> Some p | _ \<Rightarrow> None))"

text \<open>\<^verbatim>\<open>hostname\<close>, empty for none; its case is not used.\<close>

definition url_hostname :: "string \<Rightarrow> string" where
  "url_hostname netloc =
     (let host_port = snd (rpartition_at netloc) in
      case partition_char (CHR ''['') host_port of
        (_, True, bracketed) \<Rightarrow> fst (partition_char (CHR '']'') bracketed)
      | (_, False, _) \<Rightarrow> fst (partition_char (CHR '':'') host_port))"

definition check_bracketed_netloc :: "string \<Rightarrow> bool" where
  "check_bracketed_netloc netloc =
     (case partition_char (CHR ''['') (snd (rpartition_at netloc)) of
        (before, True, bracketed) \<Rightarrow>
          (case partition_char (CHR '']'') bracketed of (host, _, port) \<Rightarrow>
             before = [] \<and> (port \<noteq> [] \<longrightarrow> hd port = CHR '':'') \<and> check_bracketed_host host)
      | (host_port, False, _) \<Rightarrow> check_bracketed_host (fst (partition_char (CHR '':'') host_port)))"

section \<open>Splitting\<close>

record url =
  url_scheme :: string
  url_netloc :: string
  url_path :: string
  url_query :: string
  url_fragment :: string

definition scheme_char :: "char \<Rightarrow> bool" where
  "scheme_char c = (let n = (of_char c :: nat) in
     (97 \<le> n \<and> n \<le> 122) \<or> (65 \<le> n \<and> n \<le> 90) \<or> (48 \<le> n \<and> n \<le> 57) \<or> n = 43 \<or> n = 45 \<or> n = 46)"

definition ascii_letter :: "char \<Rightarrow> bool" where
  "ascii_letter c = (let n = (of_char c :: nat) in
     (97 \<le> n \<and> n \<le> 122) \<or> (65 \<le> n \<and> n \<le> 90))"

definition split_scheme :: "string \<Rightarrow> string \<times> string" where
  "split_scheme url =
     (case partition_char (CHR '':'') url of (s, colon, rest) \<Rightarrow>
        if colon \<and> s \<noteq> [] \<and> ascii_letter (hd s) \<and> list_all scheme_char s
        then (lower s, rest) else ([], url))"

definition netloc_end :: "char \<Rightarrow> bool" where
  "netloc_end c \<longleftrightarrow> c = CHR ''/'' \<or> c = CHR ''?'' \<or> c = CHR ''#''"

definition urlsplit :: "string \<Rightarrow> url option" where
  "urlsplit raw =
     (let stripped = dropWhile (\<lambda>c. (of_char c :: nat) \<le> 32) raw;
          url = filter (\<lambda>c. c \<noteq> CHR 0x09 \<and> c \<noteq> CHR 0x0D \<and> c \<noteq> CHR 0x0A) stripped;
          (scheme, rest) = split_scheme url;
          (netloc, rest) = (if startswith rest ''//''
             then (takeWhile (\<lambda>c. \<not> netloc_end c) (drop 2 rest),
                   dropWhile (\<lambda>c. \<not> netloc_end c) (drop 2 rest))
             else ([], rest));
          (rest, _, fragment) = partition_char (CHR ''#'') rest;
          (path, _, query) = partition_char (CHR ''?'') rest;
          opened = (CHR ''['' \<in> set netloc); closed = (CHR '']'' \<in> set netloc)
      in if opened \<noteq> closed \<or> (opened \<and> closed \<and> \<not> check_bracketed_netloc netloc) then None
         else Some \<lparr>url_scheme = scheme, url_netloc = netloc, url_path = path,
                    url_query = query, url_fragment = fragment\<rparr>)"

section \<open>Facts\<close>

text \<open>A scheme is in lower case, a network location has no delimiter.\<close>

lemma split_scheme_lower: "split_scheme u = (s, r) \<Longrightarrow> lower s = s"
  by (auto simp: split_scheme_def split: prod.splits if_splits) (simp_all add: lower_def)

lemma urlsplit_scheme_lower: "urlsplit u = Some p \<Longrightarrow> lower (url_scheme p) = url_scheme p"
  by (auto simp: urlsplit_def Let_def split: prod.splits if_splits dest: split_scheme_lower)

lemma urlsplit_netloc:
  "urlsplit u = Some p \<Longrightarrow> c \<in> set (url_netloc p) \<Longrightarrow> \<not> netloc_end c"
  by (auto simp: urlsplit_def Let_def split: prod.splits if_splits dest: set_takeWhileD)

end
