(* ===== verification/Sha256.thy ===== *)
theory Sha256
  imports Encoding
begin

text \<open>
  \<^verbatim>\<open>hashlib.sha256\<close> of the standard library, as FIPS 180-4 defines it, on 32-bit words. The
  proofs of the other theories use it as a function whose digests have 32 bytes.
\<close>

unbundle bit_operations_syntax

type_synonym w32 = "32 word"

text \<open>
  The standard's constants are the first 32 bits of the fractional parts of roots of the first
  primes: cube roots for the rounds, square roots for the initial state. The root is found
  bit by bit.
\<close>

definition first_primes :: "int list" where
  "first_primes =
   [2, 3, 5, 7, 11, 13, 17, 19, 23, 29, 31, 37, 41, 43, 47, 53, 59, 61, 67, 71, 73, 79, 83,
    89, 97, 101, 103, 107, 109, 113, 127, 131, 137, 139, 149, 151, 157, 163, 167, 173,
    179, 181, 191, 193, 197, 199, 211, 223, 227, 229, 233, 239, 241, 251, 257, 263, 269,
    271, 277, 281, 283, 293, 307, 311]"

fun root_below :: "nat \<Rightarrow> int \<Rightarrow> nat \<Rightarrow> int \<Rightarrow> int" where
  "root_below k n 0 r = r"
| "root_below k n (Suc b) r = root_below k n b (if (r + 2 ^ b) ^ k \<le> n then r + 2 ^ b else r)"

definition root_bits :: "nat \<Rightarrow> int \<Rightarrow> w32" where
  "root_bits k p = of_int (root_below k (p * 2 ^ (32 * k)) 40 0)"

definition round_constants :: "w32 list" where
  "round_constants = map (root_bits 3) first_primes"

definition rotr :: "nat \<Rightarrow> w32 \<Rightarrow> w32" where
  "rotr n x = (drop_bit n x OR push_bit (32 - n) x)"

definition big_sigma0 :: "w32 \<Rightarrow> w32" where
  "big_sigma0 x = (rotr 2 x XOR rotr 13 x XOR rotr 22 x)"

definition big_sigma1 :: "w32 \<Rightarrow> w32" where
  "big_sigma1 x = (rotr 6 x XOR rotr 11 x XOR rotr 25 x)"

definition small_sigma0 :: "w32 \<Rightarrow> w32" where
  "small_sigma0 x = (rotr 7 x XOR rotr 18 x XOR drop_bit 3 x)"

definition small_sigma1 :: "w32 \<Rightarrow> w32" where
  "small_sigma1 x = (rotr 17 x XOR rotr 19 x XOR drop_bit 10 x)"

definition word_of_bytes :: "byte list \<Rightarrow> w32" where
  "word_of_bytes bs = foldl (\<lambda>acc b. acc * 256 + ucast b) 0 bs"

definition bytes_of_word :: "w32 \<Rightarrow> byte list" where
  "bytes_of_word x = [ucast (drop_bit 24 x), ucast (drop_bit 16 x), ucast (drop_bit 8 x), ucast x]"

fun chunks :: "nat \<Rightarrow> nat \<Rightarrow> 'a list \<Rightarrow> 'a list list" where
  "chunks 0 n xs = []"
| "chunks (Suc k) n xs = take n xs # chunks k n (drop n xs)"

text \<open>The message, a one bit, zeros, and the length in bits as 64 bits: whole blocks of 64 bytes.\<close>

definition pad :: "byte list \<Rightarrow> byte list" where
  "pad m = (let zeros = (119 - length m mod 64) mod 64 in
     m @ [0x80] @ replicate zeros 0 @
     map (\<lambda>i. ucast (drop_bit (8 * i) (of_nat (8 * length m) :: 64 word))) [7, 6, 5, 4, 3, 2, 1, 0])"

definition extend_schedule :: "w32 list \<Rightarrow> w32 list" where
  "extend_schedule ws = (let n = length ws in
     ws @ [small_sigma1 (ws ! (n - 2)) + ws ! (n - 7) + small_sigma0 (ws ! (n - 15)) + ws ! (n - 16)])"

definition schedule :: "byte list \<Rightarrow> w32 list" where
  "schedule block = (extend_schedule ^^ 48) (map word_of_bytes (chunks 16 4 block))"

datatype hash_state = HS w32 w32 w32 w32 w32 w32 w32 w32

fun sha_round :: "hash_state \<Rightarrow> w32 \<times> w32 \<Rightarrow> hash_state" where
  "sha_round (HS a b c d e f g h) (k, w) =
     (let t1 = h + big_sigma1 e + ((e AND f) XOR (NOT e AND g)) + k + w;
          t2 = big_sigma0 a + ((a AND b) XOR (a AND c) XOR (b AND c))
      in HS (t1 + t2) a b c (d + t1) e f g)"

fun hs_add :: "hash_state \<Rightarrow> hash_state \<Rightarrow> hash_state" where
  "hs_add (HS a b c d e f g h) (HS a' b' c' d' e' f' g' h') =
     HS (a + a') (b + b') (c + c') (d + d') (e + e') (f + f') (g + g') (h + h')"

definition compress :: "hash_state \<Rightarrow> byte list \<Rightarrow> hash_state" where
  "compress s block = hs_add s (foldl sha_round s (zip round_constants (schedule block)))"

definition initial_hash :: hash_state where
  "initial_hash = HS (root_bits 2 2) (root_bits 2 3) (root_bits 2 5) (root_bits 2 7)
     (root_bits 2 11) (root_bits 2 13) (root_bits 2 17) (root_bits 2 19)"

fun digest_bytes :: "hash_state \<Rightarrow> byte list" where
  "digest_bytes (HS a b c d e f g h) = concat (map bytes_of_word [a, b, c, d, e, f, g, h])"

definition sha256 :: "byte list \<Rightarrow> byte list" where
  "sha256 m = (let padded = pad m in
     digest_bytes (foldl compress initial_hash (chunks (length padded div 64) 64 padded)))"

lemma length_sha256 [simp]: "length (sha256 m) = 32"
proof -
  have "length (digest_bytes s) = 32" for s by (cases s) (simp add: bytes_of_word_def)
  then show ?thesis by (simp add: sha256_def Let_def)
qed

lemma pad_blocks: "64 dvd length (pad m)"
proof -
  define q r where "q = length m div 64" and "r = length m mod 64"
  have m: "length m = 64 * q + r" and r: "r < 64" by (simp_all add: q_def r_def)
  have len: "length (pad m) = length m + 9 + (119 - r) mod 64" by (simp add: pad_def Let_def r_def)
  show ?thesis
  proof (cases "r \<le> 55")
    case True
    then have "119 - r = 55 - r + 64" by simp
    then have "(119 - r) mod 64 = (55 - r + 64) mod 64" by (rule arg_cong)
    also have "\<dots> = 55 - r" by (subst mod_add_self2) simp
    finally have "length (pad m) = 64 * (q + 1)" using len m True by simp
    then show ?thesis by (metis dvd_triv_left)
  next
    case False
    then have "(119 - r) mod 64 = 119 - r" by (intro mod_less) simp
    then have "length (pad m) = 64 * (q + 2)" using len m r False by simp
    then show ?thesis by (metis dvd_triv_left)
  qed
qed

end
