(* ===== verification/Security.thy ===== *)
theory Security
  imports Config Sha256
begin

text \<open>
  \<^verbatim>\<open>core/security.py\<close> and \<^verbatim>\<open>schemas/token.py\<close>: hashes of secrets, opaque tokens, and the signed
  access and refresh tokens. PyJWT and pwdlib are parameters (\<open>Env\<close>); what is modelled is what
  the program asks them to sign and what it accepts of what they return.
\<close>

section \<open>Secrets\<close>

definition hash_secret :: "string \<Rightarrow> string" where
  "hash_secret value = hex_of_bytes (sha256 (utf8_encode value))"

lemma length_hash_secret [simp]: "length (hash_secret v) = 64"
  by (simp add: hash_secret_def)

text \<open>
  \<^verbatim>\<open>compare_digest\<close> of two texts compares them when both are ASCII and raises \<^verbatim>\<open>TypeError\<close>
  otherwise.
\<close>

definition compare_digest :: "string \<Rightarrow> string \<Rightarrow> exn + bool" where
  "compare_digest a b = (if is_ascii a \<and> is_ascii b then Inr (a = b) else Inl TypeErr)"

definition verify_csrf_token :: "string option \<Rightarrow> string option \<Rightarrow> exn + bool" where
  "verify_csrf_token header_token cookie_token =
     (case (header_token, cookie_token) of
        (Some h, Some c) \<Rightarrow> if h = [] \<or> c = [] then Inr False else compare_digest h c
      | _ \<Rightarrow> Inr False)"

definition generate_api_key :: "string act" where
  "generate_api_key = bnd draw (\<lambda>bs. ret (''todo_'' @ token_urlsafe bs))"

definition generate_token_id :: "string act" where
  "generate_token_id = bnd draw (\<lambda>bs. ret (token_hex bs))"

definition generate_email_verification_token :: "string act" where
  "generate_email_verification_token = bnd draw (\<lambda>bs. ret (token_urlsafe bs))"

section \<open>Password hashing\<close>

definition hash_password :: "env \<Rightarrow> string \<Rightarrow> string act" where
  "hash_password env password =
     bnd draw (\<lambda>salt. of_option HashingErr (password_hash env salt password))"

definition verify_and_update_password :: "env \<Rightarrow> string \<Rightarrow> string \<Rightarrow> (bool \<times> string option) act" where
  "verify_and_update_password env password hash =
     bnd draw (\<lambda>salt. case password_verify_and_update env salt password hash of
       Verdict valid replacement \<Rightarrow> ret (valid, replacement)
     | UnknownHash \<Rightarrow> raise UnknownHashErr
     | HashingFailed \<Rightarrow> raise HashingErr)"

definition verify_password :: "env \<Rightarrow> string \<Rightarrow> string \<Rightarrow> bool act" where
  "verify_password env password hash = of_option UnknownHashErr (password_verify env password hash)"

section \<open>Payload schemas\<close>

text \<open>
  \<^verbatim>\<open>BaseTokenPayload\<close>: texts are trimmed before their length is checked, \<^verbatim>\<open>exp\<close> is after
  \<^verbatim>\<open>iat\<close>. The literal type and the session id distinguish the two subclasses.
\<close>

definition token_payload :: "string \<Rightarrow> bool \<Rightarrow> claims \<Rightarrow> string list + claims" where
  "token_payload type with_sid c =
     (let c' = c\<lparr>cl_sub := trim (cl_sub c), cl_jti := trim (cl_jti c), cl_iss := trim (cl_iss c),
              cl_aud := trim (cl_aud c), cl_sid := map_option trim (cl_sid c)\<rparr>;
          sid_ok = (case cl_sid c' of None \<Rightarrow> \<not> with_sid
                    | Some sid \<Rightarrow> with_sid \<and> 32 \<le> length sid);
          errors = map fst (filter (\<lambda>f. \<not> snd f)
            [(''sub'', cl_sub c' \<noteq> []), (''jti'', 32 \<le> length (cl_jti c')),
             (''iss'', cl_iss c' \<noteq> []), (''aud'', cl_aud c' \<noteq> []), (''sid'', sid_ok),
             (''type'', cl_type c' = type)])
      in if errors \<noteq> [] then Inl errors
         else if cl_exp c' \<le> cl_iat c' then Inl []
         else Inr c')"

definition AccessTokenPayload :: "claims \<Rightarrow> string list + claims" where
  "AccessTokenPayload = token_payload ''access'' False"

definition RefreshTokenPayload :: "claims \<Rightarrow> string list + claims" where
  "RefreshTokenPayload = token_payload ''refresh'' True"

text \<open>A model built in the code raises its \<^verbatim>\<open>ValidationError\<close>.\<close>

definition of_valid :: "string list + 'a \<Rightarrow> 'a act" where
  "of_valid r = (case r of Inl names \<Rightarrow> raise (ValidationErr names) | Inr x \<Rightarrow> ret x)"

text \<open>
  \<^verbatim>\<open>model_validate\<close> of a decoded payload: every field present with its JSON type, nothing
  else; an integer becomes a time, in seconds up to \<open>2 * 10 ^ 10\<close> and in milliseconds beyond,
  as pydantic reads it. Texts and floats for times, which the program never signs, are not
  accepted here.
\<close>

definition unix_time :: "int \<Rightarrow> time" where
  "unix_time n = (if \<bar>n\<bar> \<le> 20000000000 then seconds n else n * 1000)"

definition json_str :: "json_dict \<Rightarrow> string \<Rightarrow> string option" where
  "json_str d k = (case map_of d k of Some (JStr s) \<Rightarrow> Some s | _ \<Rightarrow> None)"

definition json_time :: "json_dict \<Rightarrow> string \<Rightarrow> time option" where
  "json_time d k = (case map_of d k of Some (JInt n) \<Rightarrow> Some (unix_time n) | _ \<Rightarrow> None)"

definition claims_of_json :: "bool \<Rightarrow> json_dict \<Rightarrow> claims option" where
  "claims_of_json with_sid d =
     (let allowed = [''sub'', ''exp'', ''iat'', ''jti'', ''iss'', ''aud'', ''type''] @
                    (if with_sid then [''sid''] else [])
      in if \<not> list_all (\<lambda>(k, _). k \<in> set allowed) d then None
         else if with_sid \<and> json_str d ''sid'' = None then None
         else (case (json_str d ''sub'', json_time d ''exp'', json_time d ''iat'', json_str d ''jti'') of
             (Some sub, Some exp, Some iat, Some jti) \<Rightarrow>
               (case (json_str d ''iss'', json_str d ''aud'', json_str d ''type'') of
                  (Some iss, Some aud, Some type) \<Rightarrow>
                    Some \<lparr>cl_sub = sub, cl_exp = exp, cl_iat = iat, cl_jti = jti, cl_iss = iss,
                          cl_aud = aud, cl_sid = json_str d ''sid'', cl_type = type\<rparr>
                | _ \<Rightarrow> None)
           | _ \<Rightarrow> None))"

section \<open>Lifetimes\<close>

definition required :: "string \<Rightarrow> string act" where
  "required value = (let normalized = strip value in
     if normalized \<noteq> [] then ret normalized else raise ValueErr)"

definition lifetime_of :: "time option \<Rightarrow> time \<Rightarrow> time act" where
  "lifetime_of custom usual =
     (let lifetime = (case custom of Some c \<Rightarrow> c | None \<Rightarrow> usual) in
      if lifetime \<le> 0 then raise ValueErr else ret lifetime)"

definition access_token_lifetime :: "settings \<Rightarrow> time option \<Rightarrow> time act" where
  "access_token_lifetime s custom = lifetime_of custom (minutes (access_token_expire_minutes s))"

definition refresh_token_lifetime :: "settings \<Rightarrow> time option \<Rightarrow> time act" where
  "refresh_token_lifetime s custom = lifetime_of custom (days (refresh_token_expire_days s))"

definition bounded_lifetime :: "time \<Rightarrow> time \<Rightarrow> time option \<Rightarrow> time act" where
  "bounded_lifetime lifetime issued_at absolute_expires_at =
     (case absolute_expires_at of
        None \<Rightarrow> ret lifetime
      | Some deadline \<Rightarrow>
          let remaining = deadline - issued_at in
          if remaining \<le> 0 then raise ValueErr else ret (min lifetime remaining))"

section \<open>Signing\<close>

definition algorithm_name :: "hmac_algorithm \<Rightarrow> string" where
  "algorithm_name a = (case a of HS256 \<Rightarrow> ''HS256'' | HS384 \<Rightarrow> ''HS384'' | HS512 \<Rightarrow> ''HS512'')"

definition encode_payload :: "env \<Rightarrow> settings \<Rightarrow> claims \<Rightarrow> string" where
  "encode_payload env s payload =
     jwt_encode env (secret_key s) (algorithm_name (jwt_algorithm s)) payload"

definition create_access_token :: "env \<Rightarrow> settings \<Rightarrow> string \<Rightarrow> time option \<Rightarrow> time \<Rightarrow> string act" where
  "create_access_token env s subject expires_delta issued_at =
     bnd (access_token_lifetime s expires_delta) (\<lambda>lifetime.
     bnd (required subject) (\<lambda>sub.
     bnd generate_token_id (\<lambda>jti.
     bnd (of_valid (AccessTokenPayload
       \<lparr>cl_sub = sub, cl_exp = issued_at + lifetime, cl_iat = issued_at, cl_jti = jti,
        cl_iss = jwt_issuer s, cl_aud = jwt_access_audience s, cl_sid = None,
        cl_type = ''access''\<rparr>)) (\<lambda>payload.
     ret (encode_payload env s payload)))))"

definition create_refresh_token ::
  "env \<Rightarrow> settings \<Rightarrow> string \<Rightarrow> string \<Rightarrow> time option \<Rightarrow> time \<Rightarrow> string act" where
  "create_refresh_token env s subject session_id expires_delta issued_at =
     bnd (refresh_token_lifetime s expires_delta) (\<lambda>lifetime.
     bnd (required subject) (\<lambda>sub.
     bnd generate_token_id (\<lambda>jti.
     bnd (required session_id) (\<lambda>sid.
     bnd (of_valid (RefreshTokenPayload
       \<lparr>cl_sub = sub, cl_exp = issued_at + lifetime, cl_iat = issued_at, cl_jti = jti,
        cl_iss = jwt_issuer s, cl_aud = jwt_refresh_audience s, cl_sid = Some sid,
        cl_type = ''refresh''\<rparr>)) (\<lambda>payload.
     ret (encode_payload env s payload))))))"

text \<open>\<^verbatim>\<open>TokenResponseSchema\<close>: both tokens non-empty, a positive \<^verbatim>\<open>expires_in\<close>.\<close>

record token_response =
  access_token :: string
  refresh_token :: string
  expires_in :: int

definition TokenResponseSchema :: "token_response \<Rightarrow> string list + token_response" where
  "TokenResponseSchema r =
     (let errors = map fst (filter (\<lambda>f. \<not> snd f)
        [(''access_token'', access_token r \<noteq> []), (''refresh_token'', refresh_token r \<noteq> []),
         (''expires_in'', 0 < expires_in r)])
      in if errors = [] then Inr r else Inl errors)"

definition create_token_pair ::
  "env \<Rightarrow> settings \<Rightarrow> string \<Rightarrow> string \<Rightarrow> time \<Rightarrow> time option \<Rightarrow> token_response act" where
  "create_token_pair env s subject session_id issued_at absolute_expires_at =
     bnd (access_token_lifetime s None) (\<lambda>a.
     bnd (bounded_lifetime a issued_at absolute_expires_at) (\<lambda>access_lifetime.
     bnd (refresh_token_lifetime s None) (\<lambda>r.
     bnd (bounded_lifetime r issued_at absolute_expires_at) (\<lambda>refresh_lifetime.
     bnd (create_access_token env s subject (Some access_lifetime) issued_at) (\<lambda>access.
     bnd (create_refresh_token env s subject session_id (Some refresh_lifetime) issued_at) (\<lambda>refresh.
     of_valid (TokenResponseSchema
       \<lparr>access_token = access, refresh_token = refresh,
        expires_in = total_seconds_int access_lifetime\<rparr>)))))))"

section \<open>Verification\<close>

definition ACCESS_TOKEN_CLAIMS :: "string list" where
  "ACCESS_TOKEN_CLAIMS = [''sub'', ''exp'', ''iat'', ''jti'', ''iss'', ''aud'', ''type'']"

definition REFRESH_TOKEN_CLAIMS :: "string list" where
  "REFRESH_TOKEN_CLAIMS = ACCESS_TOKEN_CLAIMS @ [''sid'']"

text \<open>
  \<^verbatim>\<open>_decode\<close>: PyJWT reads the clock itself; any of its errors, and a payload that does not
  fit the model, is the error of the token type.
\<close>

definition decode_token ::
  "env \<Rightarrow> settings \<Rightarrow> string \<Rightarrow> string list \<Rightarrow> (claims \<Rightarrow> string list + claims) \<Rightarrow> bool \<Rightarrow>
   auth_error \<Rightarrow> string \<Rightarrow> claims act" where
  "decode_token env s audience required_claims payload_model with_sid error_type token =
     bnd now_utc (\<lambda>now.
     case jwt_decode env (secret_key s) (algorithm_name (jwt_algorithm s)) (jwt_issuer s) audience
            required_claims now token of
       None \<Rightarrow> raise (AppErr (Auth_Error error_type))
     | Some decoded \<Rightarrow>
         (case claims_of_json with_sid decoded of
            None \<Rightarrow> raise (AppErr (Auth_Error error_type))
          | Some c \<Rightarrow> (case payload_model c of
                Inl _ \<Rightarrow> raise (AppErr (Auth_Error error_type))
              | Inr payload \<Rightarrow> ret payload)))"

definition decode_access_token :: "env \<Rightarrow> settings \<Rightarrow> string \<Rightarrow> claims act" where
  "decode_access_token env s token =
     decode_token env s (jwt_access_audience s) ACCESS_TOKEN_CLAIMS AccessTokenPayload False
       InvalidAccessTokenError token"

definition decode_refresh_token :: "env \<Rightarrow> settings \<Rightarrow> string \<Rightarrow> claims act" where
  "decode_refresh_token env s token =
     decode_token env s (jwt_refresh_audience s) REFRESH_TOKEN_CLAIMS RefreshTokenPayload True
       InvalidRefreshTokenError token"

section \<open>PyJWT as documented\<close>

text \<open>
  \<^verbatim>\<open>encode\<close> signs the payload with times cut to whole seconds. \<^verbatim>\<open>decode\<close> under the same key
  accepts it while \<^verbatim>\<open>iat \<le> now < exp\<close>, when issuer and audience are the expected ones and
  the required claims are there, and whenever it accepts a signed payload it returns that
  payload. A token is a non-empty text without whitespace.
\<close>

definition whole_seconds :: "time \<Rightarrow> int" where
  "whole_seconds t = t div 1000000"

definition claims_json :: "claims \<Rightarrow> json_dict" where
  "claims_json c =
     [(''sub'', JStr (cl_sub c)), (''exp'', JInt (whole_seconds (cl_exp c))),
      (''iat'', JInt (whole_seconds (cl_iat c))), (''jti'', JStr (cl_jti c)),
      (''iss'', JStr (cl_iss c)), (''aud'', JStr (cl_aud c))] @
     (case cl_sid c of None \<Rightarrow> [] | Some sid \<Rightarrow> [(''sid'', JStr sid)]) @
     [(''type'', JStr (cl_type c))]"

definition jwt_accepts_own :: "env \<Rightarrow> bool" where
  "jwt_accepts_own env \<longleftrightarrow> (\<forall>secret alg req now c.
     seconds (whole_seconds (cl_iat c)) \<le> now \<and> now < seconds (whole_seconds (cl_exp c)) \<and>
     set req \<subseteq> fst ` set (claims_json c) \<longrightarrow>
     jwt_decode env secret alg (cl_iss c) (cl_aud c) req now (jwt_encode env secret alg c) =
       Some (claims_json c))"

definition jwt_faithful :: "env \<Rightarrow> bool" where
  "jwt_faithful env \<longleftrightarrow> (\<forall>secret alg iss aud req now c d.
     jwt_decode env secret alg iss aud req now (jwt_encode env secret alg c) = Some d \<longrightarrow>
     d = claims_json c)"

definition jwt_checks_claims :: "env \<Rightarrow> bool" where
  "jwt_checks_claims env \<longleftrightarrow> (\<forall>secret alg iss aud req now token d.
     jwt_decode env secret alg iss aud req now token = Some d \<longrightarrow>
     map_of d ''iss'' = Some (JStr iss) \<and> map_of d ''aud'' = Some (JStr aud) \<and>
     (\<forall>e. map_of d ''exp'' = Some (JInt e) \<longrightarrow> now < seconds e))"

definition jwt_text :: "env \<Rightarrow> bool" where
  "jwt_text env \<longleftrightarrow> (\<forall>secret alg c. jwt_encode env secret alg c \<noteq> [] \<and>
     list_all (\<lambda>ch. \<not> is_space ch) (jwt_encode env secret alg c))"

end
