(* ===== verification/Security_Facts.thy ===== *)
theory Security_Facts
  imports Security
begin

text \<open>
  What the signing and the verification of tokens guarantee: which claims a token pair
  carries and for how long, that a token decodes to what was signed, and that the two types
  of tokens are never taken for each other.
\<close>

section \<open>Nothing here touches the database\<close>

lemma no_commit_security [keeps]:
  "no_commit (generate_token_id)" "no_commit generate_api_key"
  "no_commit generate_email_verification_token" "no_commit (hash_password env p)"
  "no_commit (verify_password env p h)" "no_commit (required v)" "no_commit (lifetime_of c d)"
  "no_commit (of_valid r)"
  by (auto simp: generate_token_id_def generate_api_key_def generate_email_verification_token_def
      hash_password_def verify_password_def required_def lifetime_of_def of_valid_def Let_def
      intro!: keeps split: sum.splits)

lemma no_commit_verify_and_update [keeps]: "no_commit (verify_and_update_password env p h)"
  unfolding verify_and_update_password_def
  by (rule no_commit_bnd) (auto intro: keeps split: password_verdict.splits)

lemma no_commit_bounded [keeps]: "no_commit (bounded_lifetime l i d)"
  by (auto simp: bounded_lifetime_def Let_def intro!: keeps split: option.splits)

lemma no_commit_create_access [keeps]: "no_commit (create_access_token env s sub e i)"
  unfolding create_access_token_def access_token_lifetime_def by (intro keeps)

lemma no_commit_create_refresh [keeps]: "no_commit (create_refresh_token env s sub sid e i)"
  unfolding create_refresh_token_def refresh_token_lifetime_def by (intro keeps)

lemma no_commit_token_pair [keeps]: "no_commit (create_token_pair env s sub sid i d)"
  unfolding create_token_pair_def access_token_lifetime_def refresh_token_lifetime_def
  by (intro keeps)

lemma no_commit_decode [keeps]:
  "no_commit (decode_token env s aud req model b err tok)"
  unfolding decode_token_def
  by (rule no_commit_bnd) (auto intro!: keeps split: option.splits sum.splits)

lemma no_commit_decode_refresh [keeps]: "no_commit (decode_refresh_token env s tok)"
  unfolding decode_refresh_token_def by (intro keeps)

lemma no_commit_decode_access [keeps]: "no_commit (decode_access_token env s tok)"
  unfolding decode_access_token_def by (intro keeps)

section \<open>Decoding, evaluated\<close>

text \<open>The verdict on a token at a time: what \<^verbatim>\<open>_decode\<close> computes once the clock is read.\<close>

definition verdict ::
  "env \<Rightarrow> settings \<Rightarrow> string \<Rightarrow> string list \<Rightarrow> (claims \<Rightarrow> string list + claims) \<Rightarrow> bool \<Rightarrow>
   time \<Rightarrow> string \<Rightarrow> claims option" where
  "verdict env s aud req model with_sid now token =
     (case jwt_decode env (secret_key s) (algorithm_name (jwt_algorithm s)) (jwt_issuer s) aud
             req now token of
        None \<Rightarrow> None
      | Some d \<Rightarrow> (case claims_of_json with_sid d of
          None \<Rightarrow> None
        | Some c \<Rightarrow> (case model c of Inl _ \<Rightarrow> None | Inr p \<Rightarrow> Some p)))"

lemma decode_token_eq:
  "decode_token env s aud req model b err tok w =
     (case verdict env s aud req model b (clock (tick w)) tok of
        None \<Rightarrow> (Inl (AppErr (Auth_Error err)), tick w)
      | Some c \<Rightarrow> (Inr c, tick w))"
  by (auto simp: decode_token_def verdict_def bnd_def now_utc_tick raise_def ret_def
      split: option.splits sum.splits)

abbreviation "refresh_verdict env s \<equiv>
  verdict env s (jwt_refresh_audience s) REFRESH_TOKEN_CLAIMS RefreshTokenPayload True"
abbreviation "access_verdict env s \<equiv>
  verdict env s (jwt_access_audience s) ACCESS_TOKEN_CLAIMS AccessTokenPayload False"

lemma decode_refresh_eq:
  "decode_refresh_token env s tok w = (case refresh_verdict env s (clock (tick w)) tok of
     None \<Rightarrow> (Inl (AppErr (Auth_Error InvalidRefreshTokenError)), tick w)
   | Some c \<Rightarrow> (Inr c, tick w))"
  by (simp add: decode_refresh_token_def decode_token_eq)

lemma decode_access_eq:
  "decode_access_token env s tok w = (case access_verdict env s (clock (tick w)) tok of
     None \<Rightarrow> (Inl (AppErr (Auth_Error InvalidAccessTokenError)), tick w)
   | Some c \<Rightarrow> (Inr c, tick w))"
  by (simp add: decode_access_token_def decode_token_eq)

section \<open>The claims of a token pair\<close>

definition access_claims :: "settings \<Rightarrow> string \<Rightarrow> time \<Rightarrow> time \<Rightarrow> string \<Rightarrow> claims" where
  "access_claims s sub exp iat jti =
     \<lparr>cl_sub = strip sub, cl_exp = exp, cl_iat = iat, cl_jti = jti, cl_iss = trim (jwt_issuer s),
      cl_aud = trim (jwt_access_audience s), cl_sid = None, cl_type = ''access''\<rparr>"

definition refresh_claims :: "settings \<Rightarrow> string \<Rightarrow> string \<Rightarrow> time \<Rightarrow> time \<Rightarrow> string \<Rightarrow> claims" where
  "refresh_claims s sub sid exp iat jti =
     \<lparr>cl_sub = strip sub, cl_exp = exp, cl_iat = iat, cl_jti = jti, cl_iss = trim (jwt_issuer s),
      cl_aud = trim (jwt_refresh_audience s), cl_sid = Some (strip sid), cl_type = ''refresh''\<rparr>"

definition access_life :: "settings \<Rightarrow> time \<Rightarrow> time" where
  "access_life s remaining = min (minutes (access_token_expire_minutes s)) remaining"

definition refresh_life :: "settings \<Rightarrow> time \<Rightarrow> time" where
  "refresh_life s remaining = min (days (refresh_token_expire_days s)) remaining"

text \<open>Token ids are hexadecimal: stripping does not change them.\<close>

lemma hex_digit_not_space: "n < 16 \<Longrightarrow> \<not> is_space (hex_digit n)"
  by (auto simp: hex_digit_def is_space_def of_char_of Let_def)

lemma token_hex_no_space: "\<forall>c \<in> set (token_hex bs). \<not> is_space c"
proof -
  have "unat (b :: byte) div 16 < 16" for b using unat_byte_less [of b] by simp
  then show ?thesis
    by (auto simp: token_hex_def hex_of_bytes_def hex_digit_not_space)
qed

lemma strip_no_space: "\<forall>c \<in> set s. \<not> is_space c \<Longrightarrow> strip s = s"
  by (rule strip_id) (auto simp: no_outer_space_def)

lemma strip_token_hex [simp]: "strip (token_hex bs) = token_hex bs"
  by (rule strip_no_space [OF token_hex_no_space])

lemma trim_token_hex [simp]: "trim (token_hex bs) = token_hex bs"
  using trim_strip [of "token_hex bs"] by simp

lemma lifetime_of_ok: "lifetime_of c d w = (Inr l, w') \<longleftrightarrow>
    l = (case c of Some x \<Rightarrow> x | None \<Rightarrow> d) \<and> 0 < l \<and> w' = w"
  by (auto simp: lifetime_of_def Let_def raise_def ret_def)

lemma bounded_lifetime_ok: "bounded_lifetime l i (Some d) w = (Inr x, w') \<longleftrightarrow>
    x = min l (d - i) \<and> i < d \<and> w' = w"
  by (auto simp: bounded_lifetime_def Let_def raise_def ret_def)

lemma required_ok: "required v w = (Inr x, w') \<longleftrightarrow> x = strip v \<and> x \<noteq> [] \<and> w' = w"
  by (auto simp: required_def Let_def raise_def ret_def)

lemma of_valid_ok: "of_valid r w = (Inr x, w') \<longleftrightarrow> r = Inr x \<and> w' = w"
  by (auto simp: of_valid_def raise_def ret_def split: sum.splits)

lemma generate_token_id_ok: "generate_token_id w = (Inr x, w') \<longleftrightarrow>
    x = token_hex (drawn w) \<and> w' = w\<lparr>entropy := tl (entropy w)\<rparr>"
  by (auto simp: generate_token_id_def run_ok)

lemmas signing_ok = lifetime_of_ok bounded_lifetime_ok required_ok of_valid_ok generate_token_id_ok

lemma token_payload_access: "AccessTokenPayload c = Inr p \<Longrightarrow>
    p = c\<lparr>cl_sub := trim (cl_sub c), cl_jti := trim (cl_jti c), cl_iss := trim (cl_iss c),
          cl_aud := trim (cl_aud c), cl_sid := map_option trim (cl_sid c)\<rparr> \<and>
    cl_type c = ''access'' \<and> cl_sid c = None \<and> cl_iat c < cl_exp c \<and> trim (cl_sub c) \<noteq> []"
  by (auto simp: AccessTokenPayload_def token_payload_def Let_def split: if_splits option.splits)

lemma token_payload_refresh: "RefreshTokenPayload c = Inr p \<Longrightarrow>
    p = c\<lparr>cl_sub := trim (cl_sub c), cl_jti := trim (cl_jti c), cl_iss := trim (cl_iss c),
          cl_aud := trim (cl_aud c), cl_sid := map_option trim (cl_sid c)\<rparr> \<and>
    cl_type c = ''refresh'' \<and> (\<exists>sid. cl_sid c = Some sid \<and> 32 \<le> length (trim sid)) \<and>
    cl_iat c < cl_exp c \<and> trim (cl_sub c) \<noteq> []"
  by (auto simp: RefreshTokenPayload_def token_payload_def Let_def split: if_splits option.splits)

lemma create_access_ok:
  assumes "create_access_token env s sub (Some l) i w = (Inr t, w')"
  shows "t = encode_payload env s (access_claims s sub (i + l) i (token_hex (drawn w))) \<and>
    w' = w\<lparr>entropy := tl (entropy w)\<rparr>"
  using assms
  by (auto simp: create_access_token_def access_token_lifetime_def bnd_ok ret_ok signing_ok
      access_claims_def dest!: token_payload_access)

lemma create_refresh_ok:
  assumes "create_refresh_token env s sub sid (Some l) i w = (Inr t, w')"
  shows "t = encode_payload env s (refresh_claims s sub sid (i + l) i (token_hex (drawn w))) \<and>
    w' = w\<lparr>entropy := tl (entropy w)\<rparr> \<and> 32 \<le> length (strip sid)"
  using assms
  by (auto simp: create_refresh_token_def refresh_token_lifetime_def bnd_ok ret_ok signing_ok
      refresh_claims_def dest!: token_payload_refresh)

lemma token_pair_success:
  assumes "create_token_pair env s sub sid i (Some d) w = (Inr t, w')"
  shows "access_token t = encode_payload env s
      (access_claims s sub (i + access_life s (d - i)) i (token_hex (drawn w)))"
    "refresh_token t = encode_payload env s
      (refresh_claims s sub sid (i + refresh_life s (d - i)) i
        (token_hex (drawn (w\<lparr>entropy := tl (entropy w)\<rparr>))))"
    "expires_in t = total_seconds_int (access_life s (d - i))" "0 < expires_in t" "i < d"
    "w' = w\<lparr>entropy := tl (tl (entropy w))\<rparr>"
  using assms
  by (auto simp: create_token_pair_def access_token_lifetime_def refresh_token_lifetime_def bnd_ok
      signing_ok access_life_def refresh_life_def TokenResponseSchema_def Let_def
      split: if_splits dest!: create_access_ok create_refresh_ok)

section \<open>From signing to decoding\<close>

text \<open>A token carries its times in whole seconds.\<close>

definition on_wire :: "claims \<Rightarrow> claims" where
  "on_wire c = c\<lparr>cl_exp := seconds (whole_seconds (cl_exp c)), cl_iat := seconds (whole_seconds (cl_iat c))\<rparr>"

definition sane_time :: "time \<Rightarrow> bool" where
  "sane_time t \<longleftrightarrow> 0 \<le> t \<and> t \<le> seconds 20000000000"

lemma unix_time_whole: "sane_time t \<Longrightarrow> unix_time (whole_seconds t) = seconds (whole_seconds t)"
  by (auto simp: unix_time_def sane_time_def whole_seconds_def)

lemma whole_seconds_le: "seconds (whole_seconds t) \<le> t"
  by (simp add: whole_seconds_def)

lemma whole_seconds_gt: "t - 1000000 < seconds (whole_seconds t)"
  by (simp add: whole_seconds_def)

lemma claims_of_json_claims:
  assumes "sane_time (cl_exp c)" "sane_time (cl_iat c)"
  shows "claims_of_json b (claims_json c) =
    (if b \<longleftrightarrow> cl_sid c \<noteq> None then Some (on_wire c) else None)"
  using assms unix_time_whole
  by (cases "cl_sid c")
     (auto simp: claims_of_json_def claims_json_def json_str_def json_time_def on_wire_def Let_def)

text \<open>The type of a payload is on the wire, so one type never decodes as the other.\<close>

lemma claims_of_json_type:
  "claims_of_json b (claims_json c) = Some c' \<Longrightarrow> cl_type c' = cl_type c"
  by (cases "cl_sid c")
     (auto simp: claims_of_json_def claims_json_def json_str_def json_time_def Let_def
       split: if_splits option.splits)

lemma access_not_refresh:
  assumes "jwt_faithful env" and "cl_type c = ''access''"
    and "secret_key s' = secret_key s" "jwt_algorithm s' = jwt_algorithm s"
  shows "refresh_verdict env s' now (encode_payload env s c) = None"
proof (rule ccontr)
  assume "\<not> ?thesis"
  then obtain d c' p where d: "jwt_decode env (secret_key s) (algorithm_name (jwt_algorithm s))
      (jwt_issuer s') (jwt_refresh_audience s') REFRESH_TOKEN_CLAIMS now (encode_payload env s c) = Some d"
    and c': "claims_of_json True d = Some c'" and p: "RefreshTokenPayload c' = Inr p"
    using assms(3,4) by (auto simp: verdict_def split: option.splits sum.splits)
  from assms(1) d have "d = claims_json c"
    unfolding jwt_faithful_def encode_payload_def by blast
  with c' assms(2) have "cl_type c' = ''access''" by (auto dest: claims_of_json_type)
  with token_payload_refresh [OF p] show False by simp
qed

lemma refresh_not_access:
  assumes "jwt_faithful env" and "cl_type c = ''refresh''"
    and "secret_key s' = secret_key s" "jwt_algorithm s' = jwt_algorithm s"
  shows "access_verdict env s' now (encode_payload env s c) = None"
proof (rule ccontr)
  assume "\<not> ?thesis"
  then obtain d c' p where d: "jwt_decode env (secret_key s) (algorithm_name (jwt_algorithm s))
      (jwt_issuer s') (jwt_access_audience s') ACCESS_TOKEN_CLAIMS now (encode_payload env s c) = Some d"
    and c': "claims_of_json False d = Some c'" and p: "AccessTokenPayload c' = Inr p"
    using assms(3,4) by (auto simp: verdict_def split: option.splits sum.splits)
  from assms(1) d have "d = claims_json c"
    unfolding jwt_faithful_def encode_payload_def by blast
  with c' assms(2) have "cl_type c' = ''refresh''" by (auto dest: claims_of_json_type)
  with token_payload_access [OF p] show False by simp
qed

text \<open>
  Settings whose issuer and audiences survive the trimming of the payload models; without
  that no token the program signs is accepted by it.
\<close>

definition identity_ok :: "settings \<Rightarrow> bool" where
  "identity_ok s \<longleftrightarrow> jwt_issuer s \<noteq> [] \<and> trim (jwt_issuer s) = jwt_issuer s \<and>
     jwt_access_audience s \<noteq> [] \<and> trim (jwt_access_audience s) = jwt_access_audience s \<and>
     jwt_refresh_audience s \<noteq> [] \<and> trim (jwt_refresh_audience s) = jwt_refresh_audience s"

lemma jwt_accepts_ownD:
  assumes "jwt_accepts_own env" "seconds (whole_seconds (cl_iat c)) \<le> now"
    "now < seconds (whole_seconds (cl_exp c))" "set req \<subseteq> fst ` set (claims_json c)"
  shows "jwt_decode env (secret_key s) (algorithm_name (jwt_algorithm s)) (cl_iss c) (cl_aud c) req now
     (encode_payload env s c) = Some (claims_json c)"
  using assms unfolding jwt_accepts_own_def encode_payload_def by blast

lemma refresh_verdict_own:
  assumes "jwt_accepts_own env" "identity_ok s" "sane_time exp" "sane_time iat"
    and "seconds (whole_seconds iat) \<le> now" "now < seconds (whole_seconds exp)"
    and "strip sub \<noteq> []" "32 \<le> length jti" "trim jti = jti" "32 \<le> length (strip sid)"
  shows "refresh_verdict env s now (encode_payload env s (refresh_claims s sub sid exp iat jti)) =
     Some (on_wire (refresh_claims s sub sid exp iat jti))"
proof -
  let ?c = "refresh_claims s sub sid exp iat jti"
  have "set REFRESH_TOKEN_CLAIMS \<subseteq> fst ` set (claims_json ?c)"
    by (simp add: REFRESH_TOKEN_CLAIMS_def ACCESS_TOKEN_CLAIMS_def claims_json_def refresh_claims_def)
  with assms(1,5,6) have "jwt_decode env (secret_key s) (algorithm_name (jwt_algorithm s))
      (cl_iss ?c) (cl_aud ?c) REFRESH_TOKEN_CLAIMS now (encode_payload env s ?c) = Some (claims_json ?c)"
    by (intro jwt_accepts_ownD) (simp_all add: refresh_claims_def)
  moreover have "cl_iss ?c = jwt_issuer s" "cl_aud ?c = jwt_refresh_audience s"
    using assms(2) by (simp_all add: refresh_claims_def identity_ok_def)
  moreover have "claims_of_json True (claims_json ?c) = Some (on_wire ?c)"
    using claims_of_json_claims [of ?c True] assms(3,4) by (simp add: refresh_claims_def)
  moreover have "RefreshTokenPayload (on_wire ?c) = Inr (on_wire ?c)"
    using assms(2,5-10)
    by (simp add: RefreshTokenPayload_def token_payload_def Let_def on_wire_def refresh_claims_def
        identity_ok_def)
  ultimately show ?thesis by (simp add: verdict_def)
qed

lemma access_verdict_own:
  assumes "jwt_accepts_own env" "identity_ok s" "sane_time exp" "sane_time iat"
    and "seconds (whole_seconds iat) \<le> now" "now < seconds (whole_seconds exp)"
    and "strip sub \<noteq> []" "32 \<le> length jti" "trim jti = jti"
  shows "access_verdict env s now (encode_payload env s (access_claims s sub exp iat jti)) =
     Some (on_wire (access_claims s sub exp iat jti))"
proof -
  let ?c = "access_claims s sub exp iat jti"
  have "set ACCESS_TOKEN_CLAIMS \<subseteq> fst ` set (claims_json ?c)"
    by (simp add: ACCESS_TOKEN_CLAIMS_def claims_json_def access_claims_def)
  with assms(1,5,6) have "jwt_decode env (secret_key s) (algorithm_name (jwt_algorithm s))
      (cl_iss ?c) (cl_aud ?c) ACCESS_TOKEN_CLAIMS now (encode_payload env s ?c) = Some (claims_json ?c)"
    by (intro jwt_accepts_ownD) (simp_all add: access_claims_def)
  moreover have "cl_iss ?c = jwt_issuer s" "cl_aud ?c = jwt_access_audience s"
    using assms(2) by (simp_all add: access_claims_def identity_ok_def)
  moreover have "claims_of_json False (claims_json ?c) = Some (on_wire ?c)"
    using claims_of_json_claims [of ?c False] assms(3,4) by (simp add: access_claims_def)
  moreover have "AccessTokenPayload (on_wire ?c) = Inr (on_wire ?c)"
    using assms(2,5-9)
    by (simp add: AccessTokenPayload_def token_payload_def Let_def on_wire_def access_claims_def
        identity_ok_def)
  ultimately show ?thesis by (simp add: verdict_def)
qed

end
