(* ===== verification/Sample.thy ===== *)
theory Sample
  imports Security_Facts
begin

text \<open>
  Concrete instances for the witnesses: a signer that has the documented behaviour of PyJWT
  (its tokens spell out key and payload, so that signing is a round trip by construction),
  a password hasher, a small database and a world without faults. Nothing here models code
  of the program; the properties hold for every environment and every world.
\<close>

section \<open>A signer\<close>

definition spell :: "string \<Rightarrow> string" where
  "spell s = concat (map (\<lambda>c. [b64_char (of_char c div 16), b64_char (of_char c mod 16)]) s)"

fun unspell :: "string \<Rightarrow> string" where
  "unspell (a # b # cs) = char_of (16 * b64_value a + b64_value b) # unspell cs"
| "unspell _ = []"

definition spell_int :: "int \<Rightarrow> string" where
  "spell_int n = (if n < 0 then ''n'' else ''p'') @ str_nat (nat \<bar>n\<bar>)"

definition unspell_int :: "string \<Rightarrow> int" where
  "unspell_int s = (case s of [] \<Rightarrow> 0
     | c # cs \<Rightarrow> (case parse_digits False 0 cs of None \<Rightarrow> 0
         | Some k \<Rightarrow> if c = CHR ''n'' then - k else k))"

fun join_dots :: "string list \<Rightarrow> string" where
  "join_dots [] = []"
| "join_dots (x # xs) = x @ CHR ''.'' # join_dots xs"

lemma char_bound: "(of_char (c :: char) :: nat) < 256"
proof -
  have "(of_char c :: nat) = of_char c mod 256" by simp
  then show ?thesis by (metis mod_less_divisor zero_less_numeral)
qed

lemma nibbles: "(of_char (c :: char) :: nat) div 16 < 64" "(of_char (c :: char) :: nat) mod 16 < 64"
  using less_mult_imp_div_less [of "of_char c" 64 16] char_bound [of c] by simp_all

lemma unspell_spell [simp]: "unspell (spell s) = s"
proof (induction s)
  case Nil
  then show ?case by (simp add: spell_def)
next
  case (Cons c cs)
  then show ?case by (simp add: spell_def b64_value_char nibbles)
qed

lemma unspell_int_spell [simp]: "unspell_int (spell_int n) = n"
  by (simp add: spell_int_def unspell_int_def parse_digits_str_nat)

lemma spell_alphabet: "c \<in> set (spell s) \<Longrightarrow> b64url_alphabet c"
  by (auto simp: spell_def b64_char_alphabet nibbles)

lemma spell_int_alphabet: "c \<in> set (spell_int n) \<Longrightarrow> b64url_alphabet c"
  using str_nat_digits [of c "nat \<bar>n\<bar>"]
  by (auto simp: spell_int_def b64url_alphabet_def digit_char_def of_char_of Let_def split: if_splits)

lemma dot_not_alphabet: "\<not> b64url_alphabet (CHR ''.'')"
  by (simp add: b64url_alphabet_def)

fun cut_dots :: "string \<Rightarrow> string \<Rightarrow> string list" where
  "cut_dots acc [] = []"
| "cut_dots acc (c # cs) = (if c = CHR ''.'' then rev acc # cut_dots [] cs else cut_dots (c # acc) cs)"

lemma cut_dots_field: "CHR ''.'' \<notin> set x \<Longrightarrow> cut_dots acc (x @ CHR ''.'' # r) = (rev acc @ x) # cut_dots [] r"
  by (induction x arbitrary: acc) auto

lemma cut_join: "\<forall>x \<in> set xs. CHR ''.'' \<notin> set x \<Longrightarrow> cut_dots [] (join_dots xs) = xs"
  by (induction xs) (auto simp: cut_dots_field)

definition sign :: "string \<Rightarrow> string \<Rightarrow> claims \<Rightarrow> string" where
  "sign secret alg c = join_dots
     [spell secret, spell alg, spell (cl_sub c), spell_int (whole_seconds (cl_exp c)),
      spell_int (whole_seconds (cl_iat c)), spell (cl_jti c), spell (cl_iss c), spell (cl_aud c),
      spell (case cl_sid c of None \<Rightarrow> [] | Some sid \<Rightarrow> CHR ''s'' # sid), spell (cl_type c)]"

definition signed_json :: "string list \<Rightarrow> json_dict" where
  "signed_json p =
     [(''sub'', JStr (unspell (p ! 2))), (''exp'', JInt (unspell_int (p ! 3))),
      (''iat'', JInt (unspell_int (p ! 4))), (''jti'', JStr (unspell (p ! 5))),
      (''iss'', JStr (unspell (p ! 6))), (''aud'', JStr (unspell (p ! 7)))] @
     (case unspell (p ! 8) of [] \<Rightarrow> [] | _ # sid \<Rightarrow> [(''sid'', JStr sid)]) @
     [(''type'', JStr (unspell (p ! 9)))]"

definition check_signed ::
  "string \<Rightarrow> string \<Rightarrow> string \<Rightarrow> string \<Rightarrow> string list \<Rightarrow> time \<Rightarrow> string \<Rightarrow> json_dict option" where
  "check_signed secret alg iss aud req now token =
     (let p = cut_dots [] token; d = signed_json p in
      if length p = 10 \<and> unspell (p ! 0) = secret \<and> unspell (p ! 1) = alg \<and>
         unspell (p ! 6) = iss \<and> unspell (p ! 7) = aud \<and> set req \<subseteq> fst ` set d \<and>
         seconds (unspell_int (p ! 4)) \<le> now \<and> now < seconds (unspell_int (p ! 3))
      then Some d else None)"

lemma cut_sign:
  "cut_dots [] (sign secret alg c) =
     [spell secret, spell alg, spell (cl_sub c), spell_int (whole_seconds (cl_exp c)),
      spell_int (whole_seconds (cl_iat c)), spell (cl_jti c), spell (cl_iss c), spell (cl_aud c),
      spell (case cl_sid c of None \<Rightarrow> [] | Some sid \<Rightarrow> CHR ''s'' # sid), spell (cl_type c)]"
  unfolding sign_def
  using spell_alphabet spell_int_alphabet dot_not_alphabet by (intro cut_join) fastforce

lemma signed_json_sign: "signed_json (cut_dots [] (sign secret alg c)) = claims_json c"
  by (simp add: cut_sign signed_json_def claims_json_def nth_Cons' split: option.splits)

lemma nth_sign:
  "length (cut_dots [] (sign secret alg c)) = 10"
  "unspell (cut_dots [] (sign secret alg c) ! 0) = secret"
  "unspell (cut_dots [] (sign secret alg c) ! 1) = alg"
  "unspell_int (cut_dots [] (sign secret alg c) ! 3) = whole_seconds (cl_exp c)"
  "unspell_int (cut_dots [] (sign secret alg c) ! 4) = whole_seconds (cl_iat c)"
  "unspell (cut_dots [] (sign secret alg c) ! 6) = cl_iss c"
  "unspell (cut_dots [] (sign secret alg c) ! 7) = cl_aud c"
  by (simp_all add: cut_sign nth_Cons')

section \<open>The environment\<close>

definition sample_env :: env where
  "sample_env = \<lparr>ilike = (\<lambda>v p. like_match (lower v) (lower p)), collate = map of_char,
     jwt_encode = sign, jwt_decode = check_signed,
     password_hash = (\<lambda>_ p. Some p), password_verify = (\<lambda>p h. Some (p = h)),
     password_verify_and_update = (\<lambda>_ p h. Verdict (p = h) None),
     dummy_password_hash = ''dummy'', email_str = Some,
     url_drivername = (\<lambda>u. Some (takeWhile (\<lambda>c. c \<noteq> CHR '':'') u))\<rparr>"

lemma sample_env_ilike: "ilike_documented sample_env"
  by (simp add: ilike_documented_def sample_env_def)

lemma sample_env_accepts: "jwt_accepts_own sample_env"
  by (simp add: jwt_accepts_own_def sample_env_def check_signed_def Let_def nth_sign
      nth_sign(3) [unfolded One_nat_def] signed_json_sign)

lemma sample_env_faithful: "jwt_faithful sample_env"
  by (simp add: jwt_faithful_def sample_env_def check_signed_def Let_def signed_json_sign)

lemma sample_env_checks: "jwt_checks_claims sample_env"
  by (auto simp: jwt_checks_claims_def sample_env_def check_signed_def Let_def signed_json_def
      split: if_splits)

lemma sample_env_text: "jwt_text sample_env"
proof -
  have "c \<in> set (sign secret alg p) \<Longrightarrow> \<not> is_space c" for c secret alg p
    using spell_alphabet spell_int_alphabet alphabet_not_space
    by (auto simp: sign_def is_space_def [of "CHR ''.''"])
  moreover have "sign secret alg p \<noteq> []" for secret alg p by (simp add: sign_def)
  ultimately show ?thesis by (auto simp: jwt_text_def sample_env_def list_all_iff)
qed

lemmas sample_env_laws =
  sample_env_ilike sample_env_accepts sample_env_faithful sample_env_checks sample_env_text

section \<open>A database and a world\<close>

definition sample_user :: "int \<Rightarrow> string \<Rightarrow> user" where
  "sample_user i email =
     \<lparr>u_id = i, u_email = email, u_full_name = None, u_hashed_password = ''hash'',
      u_email_verified_at = Some 1, u_email_verification_token_hash = None,
      u_email_verification_expires_at = None, u_email_verification_requested_at = None,
      u_is_active = True, u_is_superuser = False, u_created_at = 0, u_updated_at = 0\<rparr>"

definition sample_todo :: todo where
  "sample_todo = \<lparr>t_id = 1, t_user_id = 1, t_title = ''buy milk'', t_description = None,
     t_status = IN_PROGRESS, t_priority = MEDIUM, t_due_at = None, t_completed_at = None,
     t_is_archived = False, t_created_at = 5, t_updated_at = 5\<rparr>"

definition sample_users_db :: db where
  "sample_users_db = empty_db\<lparr>users := [sample_user 1 ''a@example.com'', sample_user 2 ''b@example.com'']\<rparr>"

definition sample_db :: db where
  "sample_db = sample_users_db\<lparr>todos := [sample_todo]\<rparr>"

definition sample_world :: "db \<Rightarrow> world" where
  "sample_world d = \<lparr>committed = d, work = d, user_seq = 3, api_key_seq = 1, todo_seq = 2,
     clock = 100, ticks = [], db_now = 99, entropy = [], faults = [], trace = []\<rparr>"

lemma sample_world_simps [simp]:
  "committed (sample_world d) = d" "work (sample_world d) = d" "faults (sample_world d) = []"
  "todo_seq (sample_world d) = 2" "clock (sample_world d) = 100" "db_now (sample_world d) = 99"
  "api_key_seq (sample_world d) = 1" "user_seq (sample_world d) = 3" "trace (sample_world d) = []"
  "entropy (sample_world d) = []"
  by (simp_all add: sample_world_def)

lemma tick_sample_world [simp]: "tick (sample_world d) = sample_world d"
  by (simp add: tick_def sample_world_def)

lemma users_sample [simp]:
  "users sample_users_db = [sample_user 1 ''a@example.com'', sample_user 2 ''b@example.com'']"
  "users sample_db = [sample_user 1 ''a@example.com'', sample_user 2 ''b@example.com'']"
  "todos sample_db = [sample_todo]"
  by (simp_all add: sample_users_db_def sample_db_def)

lemma valid_sample_users_db: "valid_db sample_users_db"
  by (simp add: valid_db_def violation_iffs db_fits_def sample_users_db_def empty_db_def sample_user_def
      somes_def List.map_filter_def user_fits_def int32_def)

lemma valid_sample_db: "valid_db sample_db"
  unfolding sample_db_def
  by (rule valid_put_todos [OF valid_sample_users_db])
     (simp_all add: todos_violation_None_iff sample_todo_def todo_check_title_def
       todo_check_completion_def todo_fits_def int32_def sample_user_def)

lemma find_sample_todo:
  "find (\<lambda>t. t_id t = 1 \<and> t_user_id t = 1) (todos sample_db) = Some sample_todo"
  by (simp add: sample_todo_def)

lemma default_settings_ok: "settings_ok default_settings"
  by (simp add: settings_ok_def default_settings_def)

lemma strip_by_ends: "no_outer_space s \<Longrightarrow> strip s = s"
  by (rule strip_id)

lemma default_identity_ok: "identity_ok default_settings"
  by (simp add: identity_ok_def default_settings_def trim_no_outer_space no_outer_space_def is_space_def)

end
