(* ===== verification/Todo_Props.thy ===== *)
theory Todo_Props
  imports Todo_Facts Sample
begin

text \<open>The properties of the todo component, each with a concrete instance.\<close>

section \<open>Updates\<close>


lemma todo_update_runs:
  assumes "faults w = []" and v: "valid_db (work w)"
    and found: "find (\<lambda>t. t_id t = i \<and> t_user_id t = uid) (todos (work w)) = Some t"
    and title: "\<And>x. tu_title p = Some x \<Longrightarrow> good_title x"
  shows "if may_become (t_status t) (requested p t)
     then \<exists>w'. todo_update_op uid i p w =
              (Inr (touch_todo (db_now w) t (updated_todo (clock w') p t)), w')
     else todo_update_op uid i p w = (Inl (AppErr (Todo_Error TodoStateConflictError)), w)"
proof -
  note owned = find_owned [OF v found]
  have "int32 i" using valid_todo [OF v owned(1)] owned(2) by (simp add: todo_fits_def)
  then have get: "get_owned_todo uid i w = (Inr (Some t), w)"
    using assms(1) found by (simp add: get_owned_todo_def fine_runs act_simps)
  show ?thesis
  proof (cases "may_become (t_status t) (requested p t)")
    case False
    then show ?thesis
      by (simp add: todo_update_op_def get fine_runs of_option_def act_simps change_status_eq)
  next
    case True
    define w2 where "w2 = (if requested p t = DONE \<and> t_status t \<noteq> DONE then tick w else w)"
    have w2: "work w2 = work w" "db_now w2 = db_now w" "faults w2 = []"
      using assms(1) by (simp_all add: w2_def)
    let ?t' = "touch_todo (db_now w) t (updated_todo (clock w2) p t)"
    let ?d = "write_back i ?t' (work w)"
    have valid: "valid_db ?d" using owned(1,2) title by (intro valid_write_back [OF v])
    have save: "save_todo (updated_todo (clock w2) p t) w2 = (Inr (), w2\<lparr>work := ?d\<rparr>)"
      using save_todo_eq [of w2 t] v owned w2 by (simp add: write_back_def)
    have "find (\<lambda>r. t_id r = i) (todos ?d) = Some ?t'"
      using owned by (intro find_write_back [OF v]) auto
    then have "todo_update_op uid i p w = (Inr ?t',
        w2\<lparr>work := ?d, committed := ?d, trace := trace w2 @ [Committed]\<rparr>)"
      using True valid w2 owned(2)
      by (simp add: todo_update_op_def get fine_runs of_option_def act_simps change_status_eq
          Let_def w2_def [symmetric] save ret_def)
    with True show ?thesis by simp
  qed
qed

text \<open>
  C2. Without faults the status machine alone decides: an update of an owned todo with a
  payload that the schema accepted succeeds exactly when the requested status may follow the
  present one, and otherwise is the state conflict, with nothing committed.
\<close>

theorem todo_update_succeeds_iff_allowed:
  assumes "faults w = []" and "valid_db (work w)" and "TodoUpdateSchema raw = Inr p"
    and "find (\<lambda>t. t_id t = i \<and> t_user_id t = uid) (todos (work w)) = Some t"
  shows "if may_become (t_status t) (requested p t)
     then \<exists>w'. todo_update_op uid i p w =
              (Inr (touch_todo (db_now w) t (updated_todo (clock w') p t)), w')
     else todo_update_op uid i p w = (Inl (AppErr (Todo_Error TodoStateConflictError)), w)"
  using TodoUpdateSchema_title [OF assms(3)] by (intro todo_update_runs assms(1,2,4)) blast

definition finish_input :: todo_update_input where
  "finish_input = \<lparr>ui_title = Given '' milk '', ui_description = Absent, ui_status = Given DONE,
     ui_priority = Absent, ui_due_at = Absent, ui_is_archived = Absent, ui_extra = []\<rparr>"

definition finish_update :: todo_update where
  "finish_update = \<lparr>tu_title = Some ''milk'', tu_description = None, tu_status = Some DONE,
     tu_priority = None, tu_due_at = None, tu_is_archived = None\<rparr>"

lemma finish_input_ok: "TodoUpdateSchema finish_input = Inr finish_update"
  by (simp add: TodoUpdateSchema_def finish_input_def finish_update_def update_title_def
      update_description_def non_null_def nullable_def sets_nothing_def is_absent_def
      length_between_def normalize_title_def strip_def is_space_def)

lemma finish_allowed: "may_become (t_status sample_todo) (requested finish_update sample_todo)"
  by (simp add: may_become_def sample_todo_def requested_def finish_update_def)

theorem todo_update_succeeds_iff_allowed_witness:
  "\<exists>w'. todo_update_op 1 1 finish_update (sample_world sample_db) =
     (Inr (touch_todo 99 sample_todo (updated_todo (clock w') finish_update sample_todo)), w')"
  using todo_update_succeeds_iff_allowed [of "sample_world sample_db" finish_input finish_update 1 1
      sample_todo] valid_sample_db finish_input_ok find_sample_todo finish_allowed
  by simp

lemma sample_update_run:
  "\<exists>w'. todo_update_op 1 1 finish_update (sample_world sample_db) =
     (Inr (touch_todo 99 sample_todo (updated_todo (clock w') finish_update sample_todo)), w')"
  using todo_update_runs [of "sample_world sample_db" 1 1 sample_todo finish_update]
    valid_sample_db find_sample_todo finish_allowed TodoUpdateSchema_title [OF finish_input_ok]
  by simp


section \<open>Atomicity and isolation\<close>

text \<open>
  C9. Whatever the database answers, a todo write that ends with an error has committed
  nothing: creation, update and deletion are all or nothing.
\<close>

theorem todo_writes_all_or_nothing:
  "atomic (todo_create_op uid p) \<and> atomic (todo_update_op uid i q) \<and> atomic (todo_delete uid i)"
  using atomic_todo_create_op atomic_todo_update_op atomic_todo_delete by blast



section \<open>Listings\<close>

definition listing_of :: "env \<Rightarrow> int \<Rightarrow> todo_query \<Rightarrow> db \<Rightarrow> todo list" where
  "listing_of env uid q d = sort_by (todo_le env (q_sort_by q) (q_sort_direction q))
     (filter (todo_filters env uid q) (todos d))"

lemma todo_list_runs:
  assumes "faults w = []" and "q_offset q < 2 ^ 63"
  shows "todo_list env uid q w =
     (Inr \<lparr>tl_items = map TodoResponseSchema
              (page (nat (q_limit q)) (nat (q_offset q)) (listing_of env uid q (work w))),
           tl_total = int (length (listing_of env uid q (work w))),
           tl_limit = q_limit q, tl_offset = q_offset q\<rparr>, w)"
  using assms
  by (simp add: todo_list_def list_owned_todos_def fine_runs act_simps listing_of_def ret_def
      rowcount_def)


lemma default_query_ok: "TodoListQuerySchema default_query [] = Inr default_query"
  by (simp add: TodoListQuerySchema_def default_query_def normalize_search_def due_range_ok_def)


fun items_of :: "(exn + todo_list_response) \<times> world \<Rightarrow> todo_response list" where
  "items_of (Inr r, _) = tl_items r"
| "items_of (Inl _, _) = []"



text \<open>
  C13. The search text is taken literally: with PostgreSQL's documented \<^verbatim>\<open>ILIKE\<close>, a todo matches
  a search exactly when its title or its description contains the text, compared in lower
  case, also when the text contains the wildcards or the escape character.
\<close>

theorem todo_search_is_literal:
  assumes "ilike_documented env"
  shows "search_matches env (Some s) t \<longleftrightarrow>
     sublist (lower s) (lower (t_title t)) \<or>
     (case t_description t of None \<Rightarrow> s = [] | Some d \<Rightarrow> s = [] \<or> sublist (lower s) (lower d))"
proof -
  have "ilike env v (''%'' @ escape_like s @ ''%'') \<longleftrightarrow> sublist (lower s) (lower v)" for v
  proof -
    have "lower (''%'' @ escape_like s @ ''%'') = ''%'' @ escape_like (lower s) @ ''%''"
      by (simp add: lower_escape_like [symmetric]) (simp add: lower_def lower_char_def is_upper_def)
    then show ?thesis
      using assms like_contains [of "lower v" "lower s"] by (simp add: ilike_documented_def)
  qed
  then show ?thesis
    by (auto simp: search_matches_def Let_def lower_def split: option.splits)
qed

theorem todo_search_is_literal_witness:
  "\<not> search_matches sample_env (Some ''100%'') (sample_todo\<lparr>t_title := ''1000 steps''\<rparr>)"
proof -
  have "\<not> sublist ''100%'' ''1000 steps''" by (auto dest: set_mono_sublist)
  with todo_search_is_literal [OF sample_env_ilike, of "''100%''" "sample_todo\<lparr>t_title := ''1000 steps''\<rparr>"]
  show ?thesis by (simp add: sample_todo_def lower_def lower_char_def is_upper_def)
qed

section \<open>Creation, reading and deletion\<close>

lemma valid_insert_todo:
  assumes "valid_db d" and "int32 i" and "\<forall>t \<in> set (todos d). t_id t < i"
    and "uid \<in> u_id ` set (users d)" and "good_title (tc_title p)"
  shows "valid_db (d\<lparr>todos := todos d @ [new_todo i uid p now]\<rparr>)"
proof (rule valid_put_todos [OF assms(1)])
  note rows = valid_todo [OF assms(1)]
  show "todos_violation (map u_id (users d)) (todos d @ [new_todo i uid p now]) = None"
    using assms(3,4) rows valid_keys(8) [OF assms(1)] good_title_checks [OF assms(5)]
    by (auto simp: todos_violation_None_iff new_todo_def todo_check_title_def todo_check_completion_def)
  show "list_all todo_fits (todos d @ [new_todo i uid p now])"
    using rows assms(2) good_title_checks [OF assms(5)]
    by (auto simp: list_all_iff todo_fits_def new_todo_def)
qed


definition milk_input :: todo_create_input where
  "milk_input = \<lparr>ci_title = Given ''milk'', ci_description = Null, ci_priority = Absent,
     ci_due_at = Absent, ci_extra = []\<rparr>"

definition milk :: todo_create where
  "milk = \<lparr>tc_title = ''milk'', tc_description = None, tc_priority = MEDIUM, tc_due_at = None\<rparr>"

lemma milk_input_ok: "TodoCreateSchema milk_input = Inr milk"
  by (simp add: TodoCreateSchema_def milk_input_def milk_def create_title_def description_field_def
      normalize_description_def priority_field_def due_field_def length_between_def
      normalize_title_def strip_def is_space_def)


text \<open>
  A deleted todo is gone: after a deletion that reports success, under any faults, no
  todo with that id is committed, and deleting or reading it again without faults is the
  not-found error.
\<close>

lemma todo_delete_is_final:
  assumes "todo_delete uid i w = (Inr u, w')" and "w'' = w'\<lparr>work := committed w', faults := []\<rparr>"
    and "valid_db (work w)"
  shows "(\<forall>t \<in> set (todos (committed w')). t_id t \<noteq> i) \<and>
     todo_get any i w'' = (Inl (AppErr (Todo_Error TodoNotFoundError)), w'') \<and>
     todo_delete any i w'' = (Inl (AppErr (Todo_Error TodoNotFoundError)), w'')"
proof -
  from assms(1) obtain t where
    t: "find (\<lambda>t. t_id t = i \<and> t_user_id t = uid) (todos (work w)) = Some t" and
    c: "committed w' = (work w)\<lparr>todos := delete_where (\<lambda>r. t_id r = i) (todos (work w))\<rparr>"
    by (rule todo_delete_success)
  from find_owned(1,2) [OF assms(3) t] valid_todo [OF assms(3)] have "int32 i"
    by (auto simp: todo_fits_def)
  moreover have gone: "\<forall>t \<in> set (todos (committed w')). t_id t \<noteq> i" using c by simp
  then have "find (\<lambda>t. t_id t = i \<and> t_user_id t = any) (todos (committed w')) = None"
    by (auto simp: find_None_iff')
  ultimately have get: "get_owned_todo any i w'' = (Inr None, w'')"
    by (simp add: get_owned_todo_def fine_runs act_simps assms(2))
  then show ?thesis using gone
    by (simp add: todo_get_def todo_delete_def fine_runs of_option_def raise_def act_simps)
qed

lemma todo_delete_is_final_sample:
  "\<exists>w'. todo_delete 1 1 (sample_world sample_db) = (Inr (), w') \<and>
     (\<forall>t \<in> set (todos (committed w')). t_id t \<noteq> 1)"
proof -
  let ?d = "sample_db\<lparr>todos := []\<rparr>"
  have "valid_db ?d" by (rule valid_put_todos [OF valid_sample_db]) (simp_all add: todos_violation_None_iff)
  moreover have "get_owned_todo 1 1 (sample_world sample_db) =
      (Inr (Some sample_todo), sample_world sample_db)"
    using find_sample_todo by (simp add: get_owned_todo_def fine_runs act_simps int32_def)
  moreover have "delete_todo sample_todo (sample_world sample_db) =
      (Inr (), (sample_world sample_db)\<lparr>work := ?d\<rparr>)"
    by (simp add: delete_todo_def edit_def)
  ultimately have run: "todo_delete 1 1 (sample_world sample_db) =
      (Inr (), (sample_world sample_db)\<lparr>work := ?d, committed := ?d, trace := [Committed]\<rparr>)"
    by (simp add: todo_delete_def fine_runs act_simps of_option_def)
  from todo_delete_is_final [OF run refl] valid_sample_db run show ?thesis by auto
qed

end
