(* ===== verification/User_Schema.thy ===== *)
theory User_Schema
  imports Todo_Schema
begin

text \<open>
  \<^verbatim>\<open>schemas/user.py\<close> and \<^verbatim>\<open>normalize_email\<close> of \<^verbatim>\<open>utils/email.py\<close>: what a registration, a resend
  request and a profile update may contain, and what a response shows of a user.
\<close>

definition normalize_email :: "string \<Rightarrow> string" where
  "normalize_email email = casefold (strip email)"

lemma normalize_email_idem [simp]: "normalize_email (normalize_email e) = normalize_email e"
  using strip_id [OF no_outer_space_casefold [OF no_outer_space_strip]]
  by (simp add: normalize_email_def)

text \<open>\<^verbatim>\<open>re.sub(r"\s+", " ", value.strip()) or None\<close>.\<close>

definition normalize_name :: "string option \<Rightarrow> string option" where
  "normalize_name value = (case value of None \<Rightarrow> None
     | Some v \<Rightarrow> (let n = collapse_ws (strip v) in if n = [] then None else Some n))"

record user_create_input =
  uci_email :: "string field"
  uci_full_name :: "string field"
  uci_password :: "string field"
  uci_extra :: "string list"

record user_create =
  uc_email :: string
  uc_full_name :: "string option"
  uc_password :: string

text \<open>\<^verbatim>\<open>EmailStr\<close> with \<^verbatim>\<open>max_length=255\<close>, then the normalisation.\<close>

definition email_field :: "env \<Rightarrow> string field \<Rightarrow> string option" where
  "email_field env f = (case f of
      Given s \<Rightarrow> (case email_str env s of
          Some e \<Rightarrow> if length e \<le> 255 then Some (normalize_email e) else None
        | None \<Rightarrow> None)
    | _ \<Rightarrow> None)"

definition full_name_field :: "string field \<Rightarrow> string option option" where
  "full_name_field f = (case f of
      Absent \<Rightarrow> Some None
    | Null \<Rightarrow> Some (normalize_name None)
    | Given s \<Rightarrow> if length s \<le> 150 then Some (normalize_name (Some s)) else None)"

definition is_ascii_letter :: "char \<Rightarrow> bool" where
  "is_ascii_letter c = (let n = (of_char c :: nat) in
     (65 \<le> n \<and> n \<le> 90) \<or> (97 \<le> n \<and> n \<le> 122))"

definition password_field :: "string field \<Rightarrow> string option" where
  "password_field f = (case f of
      Given p \<Rightarrow>
        if \<not> length_between 8 128 p then None
        else if list_ex is_space p then None
        else if \<not> list_ex is_ascii_letter p \<or> \<not> list_ex (\<lambda>c. digit_of c \<noteq> None) p then None
        else Some p
    | _ \<Rightarrow> None)"

definition UserCreateSchema :: "env \<Rightarrow> user_create_input \<Rightarrow> string list + user_create" where
  "UserCreateSchema env i =
     (case (email_field env (uci_email i), full_name_field (uci_full_name i),
            password_field (uci_password i), uci_extra i) of
        (Some e, Some n, Some p, []) \<Rightarrow> Inr \<lparr>uc_email = e, uc_full_name = n, uc_password = p\<rparr>
      | (e, n, p, extra) \<Rightarrow>
          Inl (rejected [(''email'', is_some e), (''full_name'', is_some n),
                         (''password'', is_some p)] @ extra))"

text \<open>\<^verbatim>\<open>UserProfileUpdateSchema\<close>: the field is required, null clears it.\<close>

definition UserProfileUpdateSchema :: "string field \<Rightarrow> string list \<Rightarrow> string list + string option" where
  "UserProfileUpdateSchema full_name extra =
     (case (if is_absent full_name then None else full_name_field full_name, extra) of
        (Some n, []) \<Rightarrow> Inr n
      | (n, _) \<Rightarrow> Inl (rejected [(''full_name'', is_some n)] @ extra))"

definition EmailVerificationResendRequestSchema ::
  "env \<Rightarrow> string field \<Rightarrow> string list \<Rightarrow> string list + string" where
  "EmailVerificationResendRequestSchema env email extra =
     (case (email_field env email, extra) of
        (Some e, []) \<Rightarrow> Inr e
      | (e, _) \<Rightarrow> Inl (rejected [(''email'', is_some e)] @ extra))"

record user_response =
  ur_id :: int
  ur_email :: string
  ur_full_name :: "string option"
  ur_is_active :: bool
  ur_is_superuser :: bool
  ur_is_email_verified :: bool
  ur_created_at :: time
  ur_updated_at :: time

definition UserResponseSchema :: "user \<Rightarrow> user_response" where
  "UserResponseSchema u = \<lparr>ur_id = u_id u, ur_email = u_email u, ur_full_name = u_full_name u,
     ur_is_active = u_is_active u, ur_is_superuser = u_is_superuser u,
     ur_is_email_verified = is_email_verified u, ur_created_at = u_created_at u,
     ur_updated_at = u_updated_at u\<rparr>"

section \<open>What the schemas guarantee\<close>

lemma UserCreateSchema_email:
  "UserCreateSchema env i = Inr p \<Longrightarrow> normalize_email (uc_email p) = uc_email p"
  by (auto simp: UserCreateSchema_def email_field_def
      split: option.splits field.splits list.splits if_splits)

text \<open>A stored name has no outer whitespace and no run of whitespace, and fits its column.\<close>

definition good_name :: "string option \<Rightarrow> bool" where
  "good_name n = (case n of None \<Rightarrow> True
     | Some s \<Rightarrow> s \<noteq> [] \<and> length s \<le> 150 \<and> no_outer_space s \<and> single_spaced s)"

lemma normalize_name_good:
  assumes "\<And>s. value = Some s \<Longrightarrow> length s \<le> 150"
  shows "good_name (normalize_name value)"
proof (cases "value")
  case (Some s)
  have "length (collapse_ws (strip s)) \<le> 150"
    using assms [OF Some] length_strip [of s] length_collapse_ws [of "strip s"] by linarith
  with Some show ?thesis
    using no_outer_space_collapse_ws [OF no_outer_space_strip, of s] single_spaced_collapse_ws [of "strip s"]
    by (simp add: normalize_name_def good_name_def Let_def)
qed (simp add: normalize_name_def good_name_def)

lemma full_name_field_good: "full_name_field f = Some n \<Longrightarrow> good_name n"
  using normalize_name_good [of None]
  by (auto simp: full_name_field_def good_name_def split: field.splits if_splits
      intro!: normalize_name_good [unfolded good_name_def])

lemma UserProfileUpdateSchema_good: "UserProfileUpdateSchema f extra = Inr n \<Longrightarrow> good_name n"
  by (auto simp: UserProfileUpdateSchema_def split: option.splits list.splits if_splits
      dest: full_name_field_good)

lemma UserCreateSchema_good:
  assumes "UserCreateSchema env i = Inr p"
  shows "good_name (uc_full_name p)" "8 \<le> length (uc_password p)"
    "\<forall>c \<in> set (uc_password p). \<not> is_space c"
  using assms
  by (auto simp: UserCreateSchema_def password_field_def length_between_def list_ex_iff
      split: option.splits field.splits list.splits if_splits dest: full_name_field_good)

end
