(* ===== verification/Auth.thy ===== *)
theory Auth
  imports Security User_Schema
begin

text \<open>
  Accounts and login sessions: \<^verbatim>\<open>repositories/user.py\<close>, \<^verbatim>\<open>repositories/refresh_session.py\<close> and
  \<^verbatim>\<open>services/auth.py\<close>. Registration with a pending verification, the resend cooldown, the
  single-use verification token, password authentication, and refresh sessions whose tokens
  rotate, with detection of reuse and a grace period for retries.
\<close>

section \<open>Repositories\<close>

definition get_user_by_id :: "int \<Rightarrow> user option act" where
  "get_user_by_id user_id =
     bnd (guard (int32 user_id) SqlErr) (\<lambda>_. select (\<lambda>d. find (\<lambda>u. u_id u = user_id) (users d)))"

definition get_user_by_email :: "string \<Rightarrow> user option act" where
  "get_user_by_email email = select (\<lambda>d. find (\<lambda>u. u_email u = email) (users d))"

record new_user =
  nu_email :: string
  nu_hashed_password :: string
  nu_full_name :: "string option"
  nu_is_superuser :: bool
  nu_email_verified_at :: "time option"
  nu_token_hash :: "string option"
  nu_expires_at :: "time option"
  nu_requested_at :: "time option"

definition user_row :: "int \<Rightarrow> time \<Rightarrow> new_user \<Rightarrow> user" where
  "user_row i now n =
     \<lparr>u_id = i, u_email = nu_email n, u_full_name = nu_full_name n,
      u_hashed_password = nu_hashed_password n, u_email_verified_at = nu_email_verified_at n,
      u_email_verification_token_hash = nu_token_hash n,
      u_email_verification_expires_at = nu_expires_at n,
      u_email_verification_requested_at = nu_requested_at n,
      u_is_active = True, u_is_superuser = nu_is_superuser n,
      u_created_at = now, u_updated_at = now\<rparr>"

definition create_user :: "new_user \<Rightarrow> user act" where
  "create_user n =
     bnd next_user_id (\<lambda>i.
     bnd (read db_now) (\<lambda>now.
     (let user = user_row i now n in
      bnd (edit (\<lambda>d. d\<lparr>users := users d @ [user]\<rparr>)) (\<lambda>_.
      bnd flush (\<lambda>_. ret user)))))"

definition token_is_stale :: "time \<Rightarrow> user \<Rightarrow> bool" where
  "token_is_stale expired_at u \<longleftrightarrow> u_email_verified_at u = None \<and>
     u_email_verification_token_hash u \<noteq> None \<and>
     (case u_email_verification_expires_at u of None \<Rightarrow> False | Some t \<Rightarrow> t \<le> expired_at)"

definition clear_expired_email_verification_tokens :: "time \<Rightarrow> int act" where
  "clear_expired_email_verification_tokens expired_at =
     bnd statement (\<lambda>_.
     bnd (read (\<lambda>w. (db_now w, rowcount (token_is_stale expired_at) (users (work w))))) (\<lambda>(now, n).
     bnd (edit (\<lambda>d. d\<lparr>users := update_where (token_is_stale expired_at)
            (\<lambda>u. u\<lparr>u_email_verification_token_hash := None, u_email_verification_expires_at := None,
                   u_email_verification_requested_at := None, u_updated_at := now\<rparr>) (users d)\<rparr>)) (\<lambda>_.
     bnd check_rows (\<lambda>_. ret n))))"

definition prune_expired_refresh_sessions :: "time \<Rightarrow> int act" where
  "prune_expired_refresh_sessions expired_at =
     (let due = (\<lambda>s. s_expires_at s \<le> expired_at) in
      bnd statement (\<lambda>_.
      bnd (read (\<lambda>w. rowcount due (refresh_sessions (work w)))) (\<lambda>n.
      bnd (edit (\<lambda>d. d\<lparr>refresh_sessions := delete_where due (refresh_sessions d)\<rparr>)) (\<lambda>_. ret n))))"

text \<open>Changed attributes of a mapped object, with \<^verbatim>\<open>updated_at\<close> from its \<^verbatim>\<open>onupdate\<close>.\<close>

definition touch_user :: "time \<Rightarrow> user \<Rightarrow> user \<Rightarrow> user" where
  "touch_user now old new = (if new = old then old else new\<lparr>u_updated_at := now\<rparr>)"

definition save_user :: "user \<Rightarrow> unit act" where
  "save_user u = bnd (read db_now) (\<lambda>now.
     edit (\<lambda>d. d\<lparr>users := update_where (\<lambda>r. u_id r = u_id u) (\<lambda>r. touch_user now r u) (users d)\<rparr>))"

definition touch_session :: "time \<Rightarrow> refresh_session \<Rightarrow> refresh_session \<Rightarrow> refresh_session" where
  "touch_session now old new = (if new = old then old else new\<lparr>s_updated_at := now\<rparr>)"

definition save_session :: "refresh_session \<Rightarrow> unit act" where
  "save_session s = bnd (read db_now) (\<lambda>now.
     edit (\<lambda>d. d\<lparr>refresh_sessions :=
       update_where (\<lambda>r. s_id r = s_id s) (\<lambda>r. touch_session now r s) (refresh_sessions d)\<rparr>))"

section \<open>Registration\<close>

record pending_verification =
  pv_user :: user
  pv_token :: string
  pv_expires_at :: time

record registration =
  rg_is_superuser :: bool
  rg_verified_at :: "time option"
  rg_token :: "string option"
  rg_expires_at :: "time option"
  rg_requested_at :: "time option"

definition auth_error :: "auth_error \<Rightarrow> exn" where
  "auth_error e = AppErr (Auth_Error e)"

definition register_user :: "env \<Rightarrow> user_create \<Rightarrow> registration \<Rightarrow> user act" where
  "register_user env payload r =
     bnd (except_sql (Auth_Error RegistrationUnavailableError)
            (get_user_by_email (uc_email payload))) (\<lambda>existing_user.
     if existing_user \<noteq> None then raise (auth_error EmailAlreadyRegisteredError)
     else
     bnd (catch (hash_password env (uc_password payload)) (\<lambda>e.
            if e = HashingErr then Some (raise (auth_error RegistrationUnavailableError)) else None))
       (\<lambda>password_hash.
     catch
       (bnd (create_user
          \<lparr>nu_email = uc_email payload, nu_hashed_password = password_hash,
           nu_full_name = uc_full_name payload, nu_is_superuser = rg_is_superuser r,
           nu_email_verified_at = rg_verified_at r,
           nu_token_hash = (case rg_token r of None \<Rightarrow> None
              | Some t \<Rightarrow> if t = [] then None else Some (hash_secret t)),
           nu_expires_at = rg_expires_at r, nu_requested_at = rg_requested_at r\<rparr>) (\<lambda>user.
        bnd commit (\<lambda>_. ret user)))
       (\<lambda>e. if is_constraint_violation e ''uq_users_email''
              then Some (raise (auth_error EmailAlreadyRegisteredError))
            else if is_sqlalchemy_error e
              then Some (raise (auth_error RegistrationUnavailableError))
            else None)))"

text \<open>\<^verbatim>\<open>register\<close>: the verified accounts of the command line and the seeds.\<close>

definition register_verified :: "env \<Rightarrow> user_create \<Rightarrow> bool \<Rightarrow> user act" where
  "register_verified env payload is_superuser =
     bnd now_utc (\<lambda>now. register_user env payload
       \<lparr>rg_is_superuser = is_superuser, rg_verified_at = Some now, rg_token = None,
        rg_expires_at = None, rg_requested_at = None\<rparr>)"

definition register_pending_verification ::
  "env \<Rightarrow> settings \<Rightarrow> user_create \<Rightarrow> pending_verification act" where
  "register_pending_verification env s payload =
     bnd now_utc (\<lambda>now.
     bnd generate_email_verification_token (\<lambda>token.
     (let expires_at = now + email_verification_token_ttl s in
      bnd (register_user env payload
        \<lparr>rg_is_superuser = False, rg_verified_at = None, rg_token = Some token,
         rg_expires_at = Some expires_at, rg_requested_at = Some now\<rparr>) (\<lambda>user.
      ret \<lparr>pv_user = user, pv_token = token, pv_expires_at = expires_at\<rparr>))))"

section \<open>Email verification\<close>

definition in_cooldown :: "settings \<Rightarrow> time \<Rightarrow> user \<Rightarrow> bool" where
  "in_cooldown s now u = (case u_email_verification_requested_at u of
      None \<Rightarrow> False
    | Some t \<Rightarrow> now < t + email_verification_resend_cooldown s)"

definition request_email_verification ::
  "settings \<Rightarrow> string \<Rightarrow> pending_verification option act" where
  "request_email_verification s email =
     bnd now_utc (\<lambda>now.
     bnd generate_email_verification_token (\<lambda>token.
     except_sql (Auth_Error EmailVerificationUnavailableError)
       (bnd (get_user_by_email (normalize_email email)) (\<lambda>found.
        case found of
          None \<Rightarrow> ret None
        | Some user \<Rightarrow>
            if is_email_verified user then ret None
            else if in_cooldown s now user then ret None
            else
              (let expires_at = now + email_verification_token_ttl s;
                   user = user\<lparr>u_email_verification_token_hash := Some (hash_secret token),
                               u_email_verification_expires_at := Some expires_at,
                               u_email_verification_requested_at := Some now\<rparr>
               in bnd (save_user user) (\<lambda>_.
                  bnd commit (\<lambda>_.
                  ret (Some \<lparr>pv_user = user, pv_token = token, pv_expires_at = expires_at\<rparr>))))))))"

definition verification_expired :: "time \<Rightarrow> user \<Rightarrow> bool" where
  "verification_expired now u = (case u_email_verification_expires_at u of
      None \<Rightarrow> True | Some t \<Rightarrow> t \<le> now)"

definition verify_email :: "string \<Rightarrow> user act" where
  "verify_email token =
     (let normalized_token = strip token in
      if normalized_token = [] then raise (auth_error InvalidEmailVerificationTokenError)
      else
      bnd now_utc (\<lambda>now.
      except_sql (Auth_Error EmailVerificationUnavailableError)
        (bnd (select (\<lambda>d. find (\<lambda>u. u_email_verification_token_hash u =
                Some (hash_secret normalized_token)) (users d))) (\<lambda>found.
         case found of
           None \<Rightarrow> raise (auth_error InvalidEmailVerificationTokenError)
         | Some user \<Rightarrow>
             if is_email_verified user then raise (auth_error InvalidEmailVerificationTokenError)
             else if verification_expired now user then
               bnd (save_user (user\<lparr>u_email_verification_token_hash := None,
                                    u_email_verification_expires_at := None\<rparr>)) (\<lambda>_.
               bnd commit (\<lambda>_. raise (auth_error InvalidEmailVerificationTokenError)))
             else
               (let user = user\<lparr>u_email_verified_at := Some now,
                      u_email_verification_token_hash := None,
                      u_email_verification_expires_at := None,
                      u_email_verification_requested_at := None\<rparr>
                in bnd (save_user user) (\<lambda>_.
                   bnd commit (\<lambda>_. ret user)))))))"

section \<open>Password authentication\<close>

definition authenticate :: "env \<Rightarrow> string \<Rightarrow> string \<Rightarrow> user act" where
  "authenticate env email password =
     bnd (except_sql (Auth_Error LoginSessionUnavailableError)
            (get_user_by_email (normalize_email email))) (\<lambda>found.
     bnd (catch (verify_and_update_password env password
              (case found of Some user \<Rightarrow> u_hashed_password user | None \<Rightarrow> dummy_password_hash env))
            (\<lambda>e. if e = HashingErr \<or> e = UnknownHashErr
                 then Some (raise (auth_error LoginSessionUnavailableError)) else None))
       (\<lambda>(valid, replacement_hash).
     case found of
       None \<Rightarrow> raise (auth_error InvalidCredentialsError)
     | Some user \<Rightarrow>
         if \<not> valid then raise (auth_error InvalidCredentialsError)
         else if \<not> u_is_active user then raise (auth_error InactiveUserError)
         else if \<not> is_email_verified user then raise (auth_error EmailNotVerifiedError)
         else (case replacement_hash of
             None \<Rightarrow> ret user
           | Some h \<Rightarrow> (let user = user\<lparr>u_hashed_password := h\<rparr>
                        in bnd (save_user user) (\<lambda>_. ret user)))))"

section \<open>Refresh sessions\<close>

definition stage_login_session ::
  "env \<Rightarrow> settings \<Rightarrow> user \<Rightarrow> time option \<Rightarrow> token_response act" where
  "stage_login_session env s user issued_at =
     bnd (case issued_at of Some t \<Rightarrow> ret t | None \<Rightarrow> now_utc) (\<lambda>now.
     bnd generate_token_id (\<lambda>session_id.
     (let absolute_expires_at = now + refresh_session_absolute_ttl s in
      bnd (create_token_pair env s (py_str (u_id user)) session_id now (Some absolute_expires_at)) (\<lambda>tokens.
      bnd (decode_refresh_token env s (refresh_token tokens)) (\<lambda>refresh_payload.
      bnd (read db_now) (\<lambda>created.
      bnd (edit (\<lambda>d. d\<lparr>refresh_sessions := refresh_sessions d @
        [\<lparr>s_id = session_id, s_user_id = u_id user,
          s_token_hash = hash_secret (refresh_token tokens), s_previous_token_hash = None,
          s_expires_at = cl_exp refresh_payload, s_absolute_expires_at = absolute_expires_at,
          s_revoked_at = None, s_last_used_at = Some now, s_rotated_at = None,
          s_created_at = created, s_updated_at = created\<rparr>]\<rparr>)) (\<lambda>_.
      ret tokens)))))))"

definition create_login_session :: "env \<Rightarrow> settings \<Rightarrow> user \<Rightarrow> token_response act" where
  "create_login_session env s user =
     except_sql (Auth_Error LoginSessionUnavailableError)
       (bnd (stage_login_session env s user None) (\<lambda>tokens.
        bnd commit (\<lambda>_. ret tokens)))"

definition of_result :: "exn + 'a \<Rightarrow> 'a act" where
  "of_result r = (case r of Inl e \<Rightarrow> raise e | Inr x \<Rightarrow> ret x)"

definition matches_token :: "string option \<Rightarrow> string \<Rightarrow> bool act" where
  "matches_token stored_hash presented_hash = (case stored_hash of
      None \<Rightarrow> ret False
    | Some h \<Rightarrow> of_result (compare_digest h presented_hash))"

definition is_recoverable_previous_token ::
  "settings \<Rightarrow> refresh_session \<Rightarrow> string \<Rightarrow> time \<Rightarrow> bool act" where
  "is_recoverable_previous_token s record presented_hash now =
     (let grace_period = refresh_token_reuse_grace s in
      case (s_previous_token_hash record, s_rotated_at record) of
        (Some previous, Some rotated_at) \<Rightarrow>
          if grace_period \<le> 0 then ret False
          else if rotated_at + grace_period < now then ret False
          else matches_token (Some previous) presented_hash
      | _ \<Rightarrow> ret False)"

text \<open>
  \<^verbatim>\<open>refresh_login_session\<close> once the token is decoded: the checks on the session record, in
  the order of the code. Reuse outside the grace period revokes the session and commits
  that before it raises.
\<close>

definition rotate_session ::
  "env \<Rightarrow> settings \<Rightarrow> user \<Rightarrow> refresh_session \<Rightarrow> time \<Rightarrow> token_response act" where
  "rotate_session env s user record now =
     bnd (create_token_pair env s (py_str (u_id user)) (s_id record) now
            (Some (s_absolute_expires_at record))) (\<lambda>tokens.
     bnd (decode_refresh_token env s (refresh_token tokens)) (\<lambda>rotated_payload.
     bnd (of_option ValueErr (session_rotate record (hash_secret (refresh_token tokens))
            (cl_exp rotated_payload) now)) (\<lambda>record.
     bnd (save_session record) (\<lambda>_.
     bnd commit (\<lambda>_. ret tokens)))))"

definition refresh_with_record ::
  "env \<Rightarrow> settings \<Rightarrow> int \<Rightarrow> string \<Rightarrow> time \<Rightarrow> refresh_session \<Rightarrow> token_response act" where
  "refresh_with_record env s user_id presented_hash now record =
     bnd (matches_token (Some (s_token_hash record)) presented_hash) (\<lambda>is_current_token.
     bnd (if is_current_token then ret False
          else is_recoverable_previous_token s record presented_hash now) (\<lambda>is_recoverable_retry.
     if \<not> is_current_token \<and> \<not> is_recoverable_retry then
       bnd (save_session (session_revoke record now)) (\<lambda>_.
       bnd commit (\<lambda>_. raise (auth_error RefreshTokenReuseDetectedError)))
     else
       bnd (get_user_by_id user_id) (\<lambda>found.
       case found of
         None \<Rightarrow>
           bnd (save_session (session_revoke record now)) (\<lambda>_.
           bnd commit (\<lambda>_. raise (auth_error InvalidRefreshTokenError)))
       | Some user \<Rightarrow>
           if \<not> u_is_active user then raise (auth_error InactiveUserError)
           else if \<not> is_email_verified user then raise (auth_error EmailNotVerifiedError)
           else rotate_session env s user record now)))"

definition refresh_login_session :: "env \<Rightarrow> settings \<Rightarrow> string \<Rightarrow> token_response act" where
  "refresh_login_session env s token =
     bnd (decode_refresh_token env s token) (\<lambda>payload.
     bnd (of_option (auth_error InvalidRefreshTokenError) (py_int (cl_sub payload))) (\<lambda>user_id.
     bnd now_utc (\<lambda>now.
     except_sql (Auth_Error TokenRefreshUnavailableError)
       (bnd (select (\<lambda>d. find (\<lambda>r. Some (s_id r) = cl_sid payload) (refresh_sessions d))) (\<lambda>found.
        case found of
          None \<Rightarrow> raise (auth_error InvalidRefreshTokenError)
        | Some record \<Rightarrow>
            if s_user_id record \<noteq> user_id \<or> \<not> session_is_active record now
            then raise (auth_error InvalidRefreshTokenError)
            else refresh_with_record env s user_id (hash_secret token) now record)))))"

definition ignored_on_logout :: "exn \<Rightarrow> bool" where
  "ignored_on_logout e = (case e of
      AppErr c \<Rightarrow> isinstance c (Auth_Error InvalidRefreshTokenError)
    | ValueErr \<Rightarrow> True | TypeErr \<Rightarrow> True | ValidationErr _ \<Rightarrow> True | _ \<Rightarrow> False)"

definition revoke_refresh_session :: "env \<Rightarrow> settings \<Rightarrow> string \<Rightarrow> unit act" where
  "revoke_refresh_session env s token =
     bnd (catch
            (bnd (decode_refresh_token env s token) (\<lambda>payload.
             bnd (of_option ValueErr (py_int (cl_sub payload))) (\<lambda>user_id.
             ret (Some (payload, user_id)))))
            (\<lambda>e. if ignored_on_logout e then Some (ret None) else None)) (\<lambda>decoded.
     case decoded of
       None \<Rightarrow> ret ()
     | Some (payload, user_id) \<Rightarrow>
         except_sql (Auth_Error LogoutUnavailableError)
           (bnd (guard (int32 user_id) SqlErr) (\<lambda>_.
            bnd (select (\<lambda>d. find (\<lambda>r. Some (s_id r) = cl_sid payload \<and> s_user_id r = user_id)
                   (refresh_sessions d))) (\<lambda>found.
            case found of
              None \<Rightarrow> ret ()
            | Some record \<Rightarrow>
                if s_revoked_at record \<noteq> None then ret ()
                else bnd now_utc (\<lambda>now.
                     bnd (save_session (session_revoke record now)) (\<lambda>_. commit))))))"

end
