(* ===== verification/Auth_Facts.thy ===== *)
theory Auth_Facts
  imports Auth Security_Facts
begin

text \<open>Lemmas on registration, verification, authentication and refresh sessions.\<close>

section \<open>Reads\<close>

lemma no_commit_auth_reads [keeps]:
  "no_commit (get_user_by_id i)" "no_commit (get_user_by_email e)" "no_commit (create_user n)"
  "no_commit (save_user u)" "no_commit (save_session s)"
  unfolding get_user_by_id_def get_user_by_email_def create_user_def save_user_def save_session_def
    Let_def by (intro keeps)+

lemma get_user_by_id_ok:
  "get_user_by_id i w = (Inr x, w') \<Longrightarrow>
     x = find (\<lambda>u. u_id u = i) (users (work w)) \<and> w' = w\<lparr>faults := tl (faults w)\<rparr> \<and> int32 i"
  by (auto simp: get_user_by_id_def run_ok dest!: select_ok)

lemma get_user_by_email_ok:
  "get_user_by_email e w = (Inr x, w') \<Longrightarrow>
     x = find (\<lambda>u. u_email u = e) (users (work w)) \<and> w' = w\<lparr>faults := tl (faults w)\<rparr>"
  by (auto simp: get_user_by_email_def dest!: select_ok)

lemma find_user:
  assumes "valid_db d" and "u \<in> set (users d)"
  shows "find (\<lambda>r. u_id r = u_id u) (users d) = Some u"
  using valid_keys(1) [OF assms(1)] assms(2) by (rule find_unique)

section \<open>Writing back a user or a session\<close>

definition put_user :: "user \<Rightarrow> db \<Rightarrow> db" where
  "put_user u d = d\<lparr>users := update_where (\<lambda>r. u_id r = u_id u) (\<lambda>_. u) (users d)\<rparr>"

definition put_session :: "refresh_session \<Rightarrow> db \<Rightarrow> db" where
  "put_session s d =
     d\<lparr>refresh_sessions := update_where (\<lambda>r. s_id r = s_id s) (\<lambda>_. s) (refresh_sessions d)\<rparr>"

lemma touch_user_id [simp]: "u_id new = u_id old \<Longrightarrow> u_id (touch_user n old new) = u_id old"
  by (simp add: touch_user_def)

lemma touch_session_id [simp]: "s_id new = s_id old \<Longrightarrow> s_id (touch_session n old new) = s_id old"
  by (simp add: touch_session_def)

lemma save_user_eq:
  assumes "valid_db (work w)" and "u \<in> set (users (work w))" and "u_id u' = u_id u"
  shows "save_user u' w = (Inr (), w\<lparr>work := put_user (touch_user (db_now w) u u') (work w)\<rparr>)"
  using update_where_const [OF valid_keys(1) [OF assms(1)] assms(2), of "\<lambda>r. touch_user (db_now w) r u'"]
    assms(3)
  by (simp add: save_user_def bnd_def read_def edit_def put_user_def)

lemma save_session_eq:
  assumes "valid_db (work w)" and "s \<in> set (refresh_sessions (work w))" and "s_id s' = s_id s"
  shows "save_session s' w = (Inr (), w\<lparr>work := put_session (touch_session (db_now w) s s') (work w)\<rparr>)"
  using update_where_const [OF valid_keys(3) [OF assms(1)] assms(2), of "\<lambda>r. touch_session (db_now w) r s'"]
    assms(3)
  by (simp add: save_session_def bnd_def read_def edit_def put_session_def)

lemma set_put_user:
  assumes "valid_db d" and "u \<in> set (users d)" and "u_id u' = u_id u"
  shows "set (users (put_user u' d)) = insert u' (set (users d) - {u})"
  using set_replace [OF valid_keys(1) [OF assms(1)] assms(2), of u'] assms(3)
  by (simp add: put_user_def)

lemma set_put_session:
  assumes "valid_db d" and "s \<in> set (refresh_sessions d)" and "s_id s' = s_id s"
  shows "set (refresh_sessions (put_session s' d)) = insert s' (set (refresh_sessions d) - {s})"
  using set_replace [OF valid_keys(3) [OF assms(1)] assms(2), of s'] assms(3)
  by (simp add: put_session_def)

lemma put_user_others [simp]:
  "refresh_sessions (put_user u d) = refresh_sessions d" "auth_codes (put_user u d) = auth_codes d"
  "api_keys (put_user u d) = api_keys d" "todos (put_user u d) = todos d"
  by (simp_all add: put_user_def)

lemma put_session_others [simp]:
  "users (put_session s d) = users d" "auth_codes (put_session s d) = auth_codes d"
  "api_keys (put_session s d) = api_keys d" "todos (put_session s d) = todos d"
  by (simp_all add: put_session_def)

lemma map_ids_put_session: "map s_id (refresh_sessions (put_session s d)) = map s_id (refresh_sessions d)"
  unfolding put_session_def by (simp add: map_update_where)

section \<open>Password authentication\<close>

lemma verify_and_update_ok:
  "verify_and_update_password env p h w = (Inr (v, r), w') \<longleftrightarrow>
     password_verify_and_update env (drawn w) p h = Verdict v r \<and> w' = w\<lparr>entropy := tl (entropy w)\<rparr>"
  by (auto simp: verify_and_update_password_def bnd_ok draw_ok ret_def raise_def
      split: password_verdict.splits)

lemma catch_ok:
  assumes "\<And>e m. h e = Some m \<Longrightarrow> \<exists>e'. m = raise e'"
  shows "catch m h w = (Inr y, w') \<longleftrightarrow> m w = (Inr y, w')"
proof -
  have "h e = Some m' \<Longrightarrow> m' w1 \<noteq> (Inr y, w')" for e m' w1
    using assms [of e m'] by (auto simp: raise_def)
  then show ?thesis by (auto simp: catch_def split: prod.splits sum.splits option.splits)
qed

lemma no_commit_authenticate [keeps]: "no_commit (authenticate env e p)"
  unfolding authenticate_def Let_def
  by (auto intro!: keeps split: option.splits if_splits)

lemma authenticate_success:
  assumes "authenticate env email password w = (Inr u, w')" and "valid_db (work w)"
  obtains u0 salt repl where "u0 \<in> set (users (work w))" "u_email u0 = normalize_email email"
    "password_verify_and_update env salt password (u_hashed_password u0) = Verdict True repl"
    "u_is_active u0" "is_email_verified u0"
    "u = (case repl of None \<Rightarrow> u0 | Some h \<Rightarrow> u0\<lparr>u_hashed_password := h\<rparr>)"
    "work w' = (case repl of None \<Rightarrow> work w
       | Some h \<Rightarrow> put_user (touch_user (db_now w) u0 (u0\<lparr>u_hashed_password := h\<rparr>)) (work w))"
    "committed w' = committed w" "clock w' = clock w" "db_now w' = db_now w"
proof -
  let ?h = "\<lambda>e. if e = HashingErr \<or> e = UnknownHashErr
      then Some (raise (auth_error LoginSessionUnavailableError)) else None"
  have c: "catch m ?h v = (Inr y, v') \<longleftrightarrow> m v = (Inr y, v')" for m v and y :: "bool \<times> string option" and v'
    by (rule catch_ok) (auto split: if_splits)
  from assms(1) obtain f w1 v repl w2 where
    get: "get_user_by_email (normalize_email email) w = (Inr f, w1)" and
    ver: "verify_and_update_password env password
      (case f of Some user \<Rightarrow> u_hashed_password user | None \<Rightarrow> dummy_password_hash env) w1 =
      (Inr (v, repl), w2)" and
    fin: "(case f of None \<Rightarrow> raise (auth_error InvalidCredentialsError)
      | Some user \<Rightarrow>
         if \<not> v then raise (auth_error InvalidCredentialsError)
         else if \<not> u_is_active user then raise (auth_error InactiveUserError)
         else if \<not> is_email_verified user then raise (auth_error EmailNotVerifiedError)
         else (case repl of None \<Rightarrow> ret user
           | Some h \<Rightarrow> bnd (save_user (user\<lparr>u_hashed_password := h\<rparr>))
               (\<lambda>_. ret (user\<lparr>u_hashed_password := h\<rparr>)))) w2 = (Inr u, w')"
    unfolding authenticate_def run_ok Let_def c by force
  from get have w1: "w1 = w\<lparr>faults := tl (faults w)\<rparr>"
    and f: "f = find (\<lambda>u. u_email u = normalize_email email) (users (work w))"
    by (auto dest: get_user_by_email_ok)
  from fin obtain u0 where fu: "f = Some u0" and act: "u_is_active u0" "is_email_verified u0" and v: v
    and rest: "(case repl of None \<Rightarrow> ret u0 | Some h \<Rightarrow> bnd (save_user (u0\<lparr>u_hashed_password := h\<rparr>))
       (\<lambda>_. ret (u0\<lparr>u_hashed_password := h\<rparr>))) w2 = (Inr u, w')"
    by (cases f) (auto simp: raise_ok if_distrib split: if_splits)
  from ver fu v have verdict:
      "password_verify_and_update env (drawn w1) password (u_hashed_password u0) = Verdict True repl"
    and w2: "w2 = w1\<lparr>entropy := tl (entropy w1)\<rparr>"
    by (simp_all add: verify_and_update_ok)
  from f fu have found: "find (\<lambda>u. u_email u = normalize_email email) (users (work w)) = Some u0" by simp
  from find_SomeD [OF found] have u0: "u0 \<in> set (users (work w))" "u_email u0 = normalize_email email" by auto
  show thesis
  proof (cases repl)
    case None
    with rest w1 w2 have "u = u0" "work w' = work w" "committed w' = committed w" "clock w' = clock w"
        "db_now w' = db_now w"
      by (auto simp: ret_ok)
    with None show thesis by (intro that [OF u0 verdict act]) auto
  next
    case (Some h)
    have "save_user (u0\<lparr>u_hashed_password := h\<rparr>) w2 = (Inr (), w2\<lparr>work :=
        put_user (touch_user (db_now w2) u0 (u0\<lparr>u_hashed_password := h\<rparr>)) (work w2)\<rparr>)"
      using assms(2) u0 w1 w2 by (intro save_user_eq) auto
    with rest Some w1 w2 show thesis
      by (intro that [OF u0 verdict act]) (auto simp: run_ok)
  qed
qed

section \<open>Rotation of a refresh session\<close>

lemma compare_digest_ok: "of_result (compare_digest a b) w = (Inr x, w') \<longleftrightarrow>
    is_ascii a \<and> is_ascii b \<and> x = (a = b) \<and> w' = w"
  by (auto simp: of_result_def compare_digest_def raise_def ret_def)

text \<open>A presented hash is the current one, or the previous one within the grace period.\<close>

definition within_grace :: "settings \<Rightarrow> refresh_session \<Rightarrow> string \<Rightarrow> time \<Rightarrow> bool" where
  "within_grace s r h now \<longleftrightarrow> s_previous_token_hash r = Some h \<and>
     (case s_rotated_at r of None \<Rightarrow> False
      | Some t \<Rightarrow> 0 < refresh_token_reuse_grace s \<and> now \<le> t + refresh_token_reuse_grace s)"

lemma recoverable_ok:
  "is_recoverable_previous_token s r h now w = (Inr b, w') \<Longrightarrow> w' = w \<and> (b \<longleftrightarrow> within_grace s r h now)"
  by (auto simp: is_recoverable_previous_token_def within_grace_def matches_token_def Let_def
      compare_digest_ok ret_ok split: option.splits if_splits)

lemma no_commit_matches [keeps]: "no_commit (matches_token a b)" "no_commit (is_recoverable_previous_token s r h n)"
  by (auto simp: matches_token_def is_recoverable_previous_token_def of_result_def Let_def
      intro!: keeps split: option.splits sum.splits)

text \<open>The session as a rotation leaves it.\<close>

definition rotated_session ::
  "refresh_session \<Rightarrow> string \<Rightarrow> time \<Rightarrow> time \<Rightarrow> time \<Rightarrow> refresh_session" where
  "rotated_session r h expires now written =
     r\<lparr>s_previous_token_hash := Some (s_token_hash r), s_token_hash := h,
       s_expires_at := min expires (s_absolute_expires_at r), s_last_used_at := Some now,
       s_rotated_at := Some now, s_updated_at := written\<rparr>"

lemma rotate_session_success:
  assumes "rotate_session env s user r now w = (Inr tokens, w')"
    and "valid_db (work w)" "r \<in> set (refresh_sessions (work w))"
  shows "\<exists>written expires. committed w' = put_session
      (rotated_session r (hash_secret (refresh_token tokens)) expires now written) (work w) \<and>
     valid_db (committed w') \<and> session_is_active r now \<and>
     expires_in tokens = total_seconds_int (access_life s (s_absolute_expires_at r - now)) \<and>
     now < s_absolute_expires_at r"
proof -
  from assms(1) obtain w1 c w2 r' w3 where
    pair: "create_token_pair env s (py_str (u_id user)) (s_id r) now (Some (s_absolute_expires_at r)) w =
      (Inr tokens, w1)" and
    dec: "decode_refresh_token env s (refresh_token tokens) w1 = (Inr c, w2)" and
    rot: "session_rotate r (hash_secret (refresh_token tokens)) (cl_exp c) now = Some r'" and
    save: "save_session r' w2 = (Inr (), w3)" and com: "commit w3 = (Inr (), w')"
    unfolding rotate_session_def by (auto simp: run_ok)
  note p = token_pair_success [OF pair]
  from dec have w2: "w2 = tick w1" by (simp add: decode_refresh_eq split: option.splits)
  with p(6) have same: "work w2 = work w" by simp
  from rot have r': "r' = r\<lparr>s_previous_token_hash := Some (s_token_hash r),
      s_token_hash := hash_secret (refresh_token tokens),
      s_expires_at := min (cl_exp c) (s_absolute_expires_at r),
      s_last_used_at := Some now, s_rotated_at := Some now\<rparr>" and act: "session_is_active r now"
    by (auto simp: session_rotate_def split: if_splits)
  have "save_session r' w2 = (Inr (), w2\<lparr>work := put_session (touch_session (db_now w2) r r') (work w2)\<rparr>)"
    using assms(2,3) same r' by (intro save_session_eq) auto
  with save same have w3: "work w3 = put_session (touch_session (db_now w2) r r') (work w)" by auto
  have "touch_session (db_now w2) r r' = rotated_session r (hash_secret (refresh_token tokens)) (cl_exp c) now
      (if r' = r then s_updated_at r else db_now w2)"
    by (auto simp: touch_session_def rotated_session_def r')
  then have "committed w' = put_session (rotated_session r (hash_secret (refresh_token tokens)) (cl_exp c)
      now (if r' = r then s_updated_at r else db_now w2)) (work w)" and "valid_db (committed w')"
    using w3 commit_ok [OF com] by simp_all
  with act p(3,5) show ?thesis by blast
qed

section \<open>Refreshing\<close>

lemma find_session:
  assumes "valid_db d" and "r \<in> set (refresh_sessions d)"
  shows "find (\<lambda>x. Some (s_id x) = Some (s_id r)) (refresh_sessions d) = Some r"
  using find_unique [OF valid_keys(3) [OF assms(1)] assms(2)] by simp

lemma refresh_with_record_success:
  assumes "refresh_with_record env s uid h now r w = (Inr tokens, w')"
    and "valid_db (work w)" "r \<in> set (refresh_sessions (work w))"
  shows "(h = s_token_hash r \<or> within_grace s r h now) \<and>
     (\<exists>u \<in> set (users (work w)). u_id u = uid \<and> u_is_active u \<and> is_email_verified u) \<and>
     (\<exists>written expires. committed w' = put_session
        (rotated_session r (hash_secret (refresh_token tokens)) expires now written) (work w)) \<and>
     valid_db (committed w')"
proof -
  from assms(1) obtain cur rec w1 w2 where
    cur: "matches_token (Some (s_token_hash r)) h w = (Inr cur, w1)" and
    rec: "(if cur then ret False else is_recoverable_previous_token s r h now) w1 = (Inr rec, w2)" and
    rest: "(if \<not> cur \<and> \<not> rec then
        bnd (save_session (session_revoke r now)) (\<lambda>_.
        bnd commit (\<lambda>_. raise (auth_error RefreshTokenReuseDetectedError)))
      else bnd (get_user_by_id uid) (\<lambda>found. case found of
          None \<Rightarrow> bnd (save_session (session_revoke r now)) (\<lambda>_.
            bnd commit (\<lambda>_. raise (auth_error InvalidRefreshTokenError)))
        | Some user \<Rightarrow> if \<not> u_is_active user then raise (auth_error InactiveUserError)
            else if \<not> is_email_verified user then raise (auth_error EmailNotVerifiedError)
            else rotate_session env s user r now)) w2 = (Inr tokens, w')"
    unfolding refresh_with_record_def bnd_ok by blast
  from cur have w1: "w1 = w" and c: "cur \<longleftrightarrow> s_token_hash r = h"
    by (auto simp: matches_token_def compare_digest_ok)
  from rec w1 have w2: "w2 = w" and g: "rec \<Longrightarrow> within_grace s r h now"
    by (auto simp: ret_ok dest!: recoverable_ok split: if_splits)
  have "cur \<or> rec" using rest by (auto simp: bnd_ok raise_ok split: if_splits)
  with rest obtain f w3 where f: "get_user_by_id uid w2 = (Inr f, w3)" and
    rest': "(case f of
          None \<Rightarrow> bnd (save_session (session_revoke r now)) (\<lambda>_.
            bnd commit (\<lambda>_. raise (auth_error InvalidRefreshTokenError)))
        | Some user \<Rightarrow> if \<not> u_is_active user then raise (auth_error InactiveUserError)
            else if \<not> is_email_verified user then raise (auth_error EmailNotVerifiedError)
            else rotate_session env s user r now) w3 = (Inr tokens, w')"
    by (auto simp: bnd_ok split: if_splits)
  from get_user_by_id_ok [OF f] w2 have w3: "work w3 = work w" and
    fu: "f = find (\<lambda>u. u_id u = uid) (users (work w))" by auto
  from rest' obtain u where u: "f = Some u" "u_is_active u" "is_email_verified u" and
    rot: "rotate_session env s u r now w3 = (Inr tokens, w')"
    by (cases f) (auto simp: bnd_ok raise_ok split: if_splits)
  from fu u(1) have "u \<in> set (users (work w))" "u_id u = uid" by (auto dest: find_SomeD [OF sym])
  moreover have "valid_db (work w3)" "r \<in> set (refresh_sessions (work w3))" using assms(2,3) w3 by simp_all
  from rotate_session_success [OF rot this] w3 have
    "\<exists>written expires. committed w' = put_session
        (rotated_session r (hash_secret (refresh_token tokens)) expires now written) (work w)"
    "valid_db (committed w')" by auto
  ultimately show ?thesis using \<open>cur \<or> rec\<close> c g u(2,3) by blast
qed

lemma refresh_success:
  assumes "refresh_login_session env s tok w = (Inr tokens, w')" and "valid_db (work w)"
  obtains c r u now written expires where
    "refresh_verdict env s (clock (tick w)) tok = Some c" "cl_sid c = Some (s_id r)"
    "py_int (cl_sub c) = Some (s_user_id r)"
    "r \<in> set (refresh_sessions (work w))" "session_is_active r now" "clock w \<le> now"
    "hash_secret tok = s_token_hash r \<or> within_grace s r (hash_secret tok) now"
    "u \<in> set (users (work w))" "u_id u = s_user_id r" "u_is_active u" "is_email_verified u"
    "committed w' = put_session
       (rotated_session r (hash_secret (refresh_token tokens)) expires now written) (work w)"
    "valid_db (committed w')"
proof -
  from assms(1) obtain c w1 uid f w3 where
    dec: "decode_refresh_token env s tok w = (Inr c, w1)" and
    uid: "py_int (cl_sub c) = Some uid" and
    sel: "select (\<lambda>d. find (\<lambda>r. Some (s_id r) = cl_sid c) (refresh_sessions d)) (tick w1) = (Inr f, w3)" and
    rest: "(case f of None \<Rightarrow> raise (auth_error InvalidRefreshTokenError)
        | Some record \<Rightarrow>
            if s_user_id record \<noteq> uid \<or> \<not> session_is_active record (clock (tick w1))
            then raise (auth_error InvalidRefreshTokenError)
            else refresh_with_record env s uid (hash_secret tok) (clock (tick w1)) record) w3 = (Inr tokens, w')"
    unfolding refresh_login_session_def run_ok by blast
  from dec have c: "refresh_verdict env s (clock (tick w)) tok = Some c" and w1: "w1 = tick w"
    by (simp_all add: decode_refresh_eq split: option.splits)
  let ?now = "clock (tick w1)"
  from select_ok [OF sel] w1 have f: "f = find (\<lambda>r. Some (s_id r) = cl_sid c) (refresh_sessions (work w))"
    and w3: "work w3 = work w" by auto
  from rest obtain r where r: "f = Some r" "s_user_id r = uid" "session_is_active r ?now" and
    run: "refresh_with_record env s uid (hash_secret tok) ?now r w3 = (Inr tokens, w')"
    by (cases f) (auto simp: raise_ok split: if_splits)
  from f r(1) have in_r: "r \<in> set (refresh_sessions (work w))" and sid: "cl_sid c = Some (s_id r)"
    by (auto dest: find_SomeD [OF sym])
  have "valid_db (work w3)" "r \<in> set (refresh_sessions (work w3))" using assms(2) in_r w3 by simp_all
  note ok = refresh_with_record_success [OF run this, unfolded w3]
  have "clock w \<le> ?now" using clock_tick [of w] clock_tick [of w1] w1 by simp
  moreover from ok obtain u written expires where
    "u \<in> set (users (work w))" "u_id u = uid" "u_is_active u" "is_email_verified u"
    "committed w' = put_session (rotated_session r (hash_secret (refresh_token tokens)) expires ?now written)
       (work w)" "valid_db (committed w')" by blast
  moreover from ok have "hash_secret tok = s_token_hash r \<or> within_grace s r (hash_secret tok) ?now" by blast
  ultimately show thesis
    using uid r(2) by (intro that [OF c sid _ in_r r(3)]) simp_all
qed

text \<open>Hashes of secrets are ASCII, so comparing them never raises.\<close>

lemma is_ascii_hex: "is_ascii (hex_of_bytes bs)"
proof -
  have "n < 16 \<Longrightarrow> (of_char (hex_digit n) :: nat) < 128" for n
    by (simp add: hex_digit_def of_char_of)
  moreover have "unat (b :: byte) div 16 < 16" for b using unat_byte_less [of b] by simp
  ultimately show ?thesis by (auto simp: is_ascii_def hex_of_bytes_def list_all_iff)
qed

lemma is_ascii_hash_secret [simp]: "is_ascii (hash_secret v)"
  by (simp add: hash_secret_def is_ascii_hex)

lemma session_revoke_simps [simp]:
  "s_id (session_revoke r t) = s_id r" "s_user_id (session_revoke r t) = s_user_id r"
  "s_token_hash (session_revoke r t) = s_token_hash r"
  "s_revoked_at (session_revoke r t) \<noteq> None"
  by (auto simp: session_revoke_def split: option.splits)

definition revoked_session :: "time \<Rightarrow> refresh_session \<Rightarrow> time \<Rightarrow> refresh_session" where
  "revoked_session written r t = touch_session written r (session_revoke r t)"

lemma revoked_session_simps [simp]:
  "s_id (revoked_session m r t) = s_id r" "s_user_id (revoked_session m r t) = s_user_id r"
  "s_token_hash (revoked_session m r t) = s_token_hash r"
  "s_absolute_expires_at (revoked_session m r t) = s_absolute_expires_at r"
  by (auto simp: revoked_session_def touch_session_def) (auto simp: session_revoke_def)

lemma revoked_session_revoked: "s_revoked_at (revoked_session m r t) \<noteq> None"
proof (cases "session_revoke r t = r")
  case True
  with session_revoke_simps(4) [of r t] show ?thesis
    by (metis revoked_session_def touch_session_def)
next
  case False
  then show ?thesis by (simp add: revoked_session_def touch_session_def)
qed

lemma valid_put_revoked:
  assumes "valid_db d" and "r \<in> set (refresh_sessions d)"
  shows "valid_db (put_session (revoked_session m r t) d)"
proof -
  have "inj_on s_token_hash (set (refresh_sessions d))"
    using valid_keys(4) [OF assms(1)] by (simp add: distinct_map)
  then have "s_token_hash r \<notin> s_token_hash ` (set (refresh_sessions d) - {r})"
    using assms(2) by (auto dest: inj_onD)
  moreover have "session_check_expiration (revoked_session m r t) = session_check_expiration r"
    "session_check_absolute (revoked_session m r t) = session_check_absolute r"
    "session_check_idle (revoked_session m r t) = session_check_idle r"
    "session_fits (revoked_session m r t) = session_fits r"
    by (auto simp: revoked_session_def touch_session_def session_revoke_def session_check_expiration_def
        session_check_absolute_def session_check_idle_def session_fits_def)
  ultimately show ?thesis
    using valid_replace_session [OF assms, of "revoked_session m r t"] valid_session [OF assms]
    by (simp add: put_session_def)
qed

lemma save_revoked:
  assumes "valid_db (work w)" and "r \<in> set (refresh_sessions (work w))"
  shows "save_session (session_revoke r t) w =
     (Inr (), w\<lparr>work := put_session (revoked_session (db_now w) r t) (work w)\<rparr>)"
  using save_session_eq [OF assms, of "session_revoke r t"] by (simp add: revoked_session_def)

lemma commit_revoked:
  assumes "faults w = []" "valid_db (work w)" "r \<in> set (refresh_sessions (work w))"
  shows "bnd (save_session (session_revoke r t)) (\<lambda>_. commit) w =
     (Inr (), w\<lparr>work := put_session (revoked_session (db_now w) r t) (work w),
        committed := put_session (revoked_session (db_now w) r t) (work w),
        trace := trace w @ [Committed]\<rparr>)"
  using assms valid_put_revoked [OF assms(2,3)] by (simp add: save_revoked fine_runs)

text \<open>Reuse of a token that is neither current nor in its grace period.\<close>

lemma refresh_reuse_runs:
  assumes "faults w = []" "valid_db (work w)"
    and "refresh_verdict env s (clock (tick w)) tok = Some c" "cl_sid c = Some (s_id r)"
    and "py_int (cl_sub c) = Some (s_user_id r)" "r \<in> set (refresh_sessions (work w))"
    and "session_is_active r (clock (tick (tick w)))"
    and "hash_secret tok \<noteq> s_token_hash r"
    and "\<not> within_grace s r (hash_secret tok) (clock (tick (tick w)))"
    and "is_ascii (s_token_hash r)"
    and "\<And>h. s_previous_token_hash r = Some h \<Longrightarrow> is_ascii h"
  shows "\<exists>w'. refresh_login_session env s tok w = (Inl (auth_error RefreshTokenReuseDetectedError), w') \<and>
     committed w' = put_session (revoked_session (db_now w) r (clock (tick (tick w)))) (work w)"
proof -
  let ?w = "tick (tick w)" and ?now = "clock (tick (tick w))"
  let ?d = "put_session (revoked_session (db_now w) r ?now) (work w)"
  have dec: "decode_refresh_token env s tok w = (Inr c, tick w)"
    using assms(3) by (simp add: decode_refresh_eq)
  have sel: "select (\<lambda>d. find (\<lambda>r. Some (s_id r) = cl_sid c) (refresh_sessions d)) ?w = (Inr (Some r), ?w)"
    using assms(1,4) find_session [OF assms(2,6)] by (simp add: select_fine)
  have cur: "matches_token (Some (s_token_hash r)) (hash_secret tok) ?w = (Inr False, ?w)"
    using assms(8,10) by (simp add: matches_token_def of_result_def compare_digest_def ret_def)
  have rec: "is_recoverable_previous_token s r (hash_secret tok) ?now ?w = (Inr False, ?w)"
    using assms(9,11)
    by (auto simp: is_recoverable_previous_token_def within_grace_def matches_token_def of_result_def
        compare_digest_def ret_def Let_def split: option.splits)
  have "bnd (save_session (session_revoke r ?now)) (\<lambda>_.
      bnd commit (\<lambda>_. raise (auth_error RefreshTokenReuseDetectedError))) ?w =
      (Inl (auth_error RefreshTokenReuseDetectedError), ?w\<lparr>work := ?d, committed := ?d,
        trace := trace w @ [Committed]\<rparr>)"
    using assms(1,2,6) valid_put_revoked [OF assms(2,6)]
    by (simp add: save_revoked fine_runs raise_def)
  then have "refresh_with_record env s (s_user_id r) (hash_secret tok) ?now r ?w =
      (Inl (auth_error RefreshTokenReuseDetectedError), ?w\<lparr>work := ?d, committed := ?d,
        trace := trace w @ [Committed]\<rparr>)"
    unfolding refresh_with_record_def by (simp add: bnd_run cur rec)
  then have "refresh_login_session env s tok w =
      (Inl (auth_error RefreshTokenReuseDetectedError), ?w\<lparr>work := ?d, committed := ?d,
        trace := trace w @ [Committed]\<rparr>)"
    using assms(5,7)
    by (simp add: refresh_login_session_def bnd_app dec of_option_def act_simps
        now_utc_tick except_sql_app sel auth_error_def)
  then show ?thesis by simp
qed

section \<open>Registration\<close>

lemma no_commit_get_by_email_find: "no_commit (except_sql c (get_user_by_email e))"
  by (intro keeps)

lemma atomic_register_user: "atomic (register_user env payload r)"
  unfolding register_user_def
proof (intro atomic_bnd no_commit_get_by_email_find atomic_if)
  show "no_commit (catch (hash_password env (uc_password payload)) (\<lambda>e. if e = HashingErr
      then Some (raise (auth_error RegistrationUnavailableError)) else None))"
    by (rule no_commit_catch) (auto intro: keeps split: if_splits)
  show "atomic (catch (bnd (create_user n) (\<lambda>user. bnd commit (\<lambda>_. ret user)))
      (\<lambda>e. if is_constraint_violation e ''uq_users_email''
           then Some (raise (auth_error EmailAlreadyRegisteredError))
           else if is_sqlalchemy_error e
                then Some (raise (auth_error RegistrationUnavailableError)) else None))" for n
    by (rule atomic_catch, rule atomic_bnd [OF no_commit_auth_reads(3)], rule atomic_commit_ret)
       (auto intro: keeps split: if_splits)
qed (intro keeps)

lemma raises_register_user:
  "raises {auth_error EmailAlreadyRegisteredError, auth_error RegistrationUnavailableError}
     (register_user env payload r)"
  (is "raises ?E _")
  unfolding register_user_def
proof (intro raises_bnd raises_if)
  show "raises ?E (except_sql (Auth_Error RegistrationUnavailableError) (get_user_by_email e))" for e
    unfolding get_user_by_email_def by (intro outcomes) (auto simp: auth_error_def)
  show "raises ?E (raise (auth_error EmailAlreadyRegisteredError))" by (intro outcomes) simp
  have "raises {HashingErr} (hash_password env p)" for p
    unfolding hash_password_def by (intro outcomes) simp
  then show "raises ?E (catch (hash_password env (uc_password payload)) (\<lambda>e. if e = HashingErr
      then Some (raise (auth_error RegistrationUnavailableError)) else None))"
    by (rule raises_catch) (auto split: if_splits intro: raises_raise)
  have "raises sql_errors (bnd (create_user n) (\<lambda>user. bnd commit (\<lambda>_. ret user)))" for n
    unfolding create_user_def Let_def by (intro outcomes order_refl)
  then show "raises ?E (catch (bnd (create_user n) (\<lambda>user. bnd commit (\<lambda>_. ret user)))
      (\<lambda>e. if is_constraint_violation e ''uq_users_email''
           then Some (raise (auth_error EmailAlreadyRegisteredError))
           else if is_sqlalchemy_error e
                then Some (raise (auth_error RegistrationUnavailableError)) else None))" for n
    by (rule raises_catch) (auto simp: sql_errors_def split: if_splits intro: raises_raise)
qed

lemma atomic_register_pending: "atomic (register_pending_verification env s p)"
  unfolding register_pending_verification_def Let_def
  by (rule atomic_bnd [OF no_commit_prim(9)], rule atomic_bnd [OF no_commit_security(3)],
      rule atomic_bnd_ret, rule atomic_register_user)

lemma raises_register_pending:
  "raises {auth_error EmailAlreadyRegisteredError, auth_error RegistrationUnavailableError}
     (register_pending_verification env s p)"
  unfolding register_pending_verification_def Let_def generate_email_verification_token_def
  by (intro outcomes raises_register_user)

text \<open>The row a pending registration writes.\<close>

definition pending_user :: "env \<Rightarrow> settings \<Rightarrow> user_create \<Rightarrow> time \<Rightarrow> string \<Rightarrow> string \<Rightarrow> new_user" where
  "pending_user env s p now token hash =
     \<lparr>nu_email = uc_email p, nu_hashed_password = hash, nu_full_name = uc_full_name p,
      nu_is_superuser = False, nu_email_verified_at = None,
      nu_token_hash = Some (hash_secret token),
      nu_expires_at = Some (now + email_verification_token_ttl s), nu_requested_at = Some now\<rparr>"

lemma token_urlsafe_nonempty [simp]: "token_urlsafe bs \<noteq> []"
  using length_token_urlsafe [of bs] by (metis list.size(3) zero_neq_numeral)

lemma hash_password_ok: "hash_password env p w = (Inr h, w') \<longleftrightarrow>
    password_hash env (drawn w) p = Some h \<and> w' = w\<lparr>entropy := tl (entropy w)\<rparr>"
  by (auto simp: hash_password_def run_ok)

lemma register_pending_success:
  assumes "register_pending_verification env s p w = (Inr pv, w')"
  obtains hash token where
    "pv_token pv = token_urlsafe (drawn w)"
    "pv_user pv = user_row (user_seq w) (db_now w)
       (pending_user env s p (clock (tick w)) (pv_token pv) hash)"
    "\<exists>salt. password_hash env salt (uc_password p) = Some hash"
    "find (\<lambda>u. u_email u = uc_email p) (users (work w)) = None"
    "committed w' = (work w)\<lparr>users := users (work w) @ [pv_user pv]\<rparr>" "valid_db (committed w')"
proof -
  let ?now = "clock (tick w)" and ?tok = "token_urlsafe (drawn w)"
  let ?w0 = "(tick w)\<lparr>entropy := tl (entropy w)\<rparr>"
  let ?r = "\<lparr>rg_is_superuser = False, rg_verified_at = None, rg_token = Some ?tok,
      rg_expires_at = Some (?now + email_verification_token_ttl s), rg_requested_at = Some ?now\<rparr>"
  from assms obtain u where reg: "register_user env p ?r ?w0 = (Inr u, w')" and
    pv: "pv = \<lparr>pv_user = u, pv_token = ?tok, pv_expires_at = ?now + email_verification_token_ttl s\<rparr>"
    unfolding register_pending_verification_def Let_def generate_email_verification_token_def
    by (auto simp: run_ok)
  have c1: "catch m (\<lambda>e. if e = HashingErr then Some (raise (auth_error RegistrationUnavailableError)) else None)
      v = (Inr y, v') \<longleftrightarrow> m v = (Inr y, v')" for m v and y :: string and v'
    by (rule catch_ok) (auto split: if_splits)
  have c2: "catch m (\<lambda>e. if is_constraint_violation e ''uq_users_email''
           then Some (raise (auth_error EmailAlreadyRegisteredError))
           else if is_sqlalchemy_error e
                then Some (raise (auth_error RegistrationUnavailableError)) else None)
      v = (Inr y, v') \<longleftrightarrow> m v = (Inr y, v')" for m v and y :: user and v'
    by (rule catch_ok) (auto split: if_splits)
  from reg obtain f w1 hash w2 w3 where
    f: "get_user_by_email (uc_email p) ?w0 = (Inr f, w1)" and none: "f = None" and
    h: "hash_password env (uc_password p) w1 = (Inr hash, w2)" and
    cr: "create_user (pending_user env s p ?now ?tok hash) w2 = (Inr u, w3)" and
    com: "commit w3 = (Inr (), w')"
    unfolding register_user_def by (auto simp: bnd_ok catch_reraise_ok c1 c2 ret_ok raise_ok pending_user_def
        split: if_splits)
  from get_user_by_email_ok [OF f] none have w1: "w1 = ?w0\<lparr>faults := tl (faults ?w0)\<rparr>"
    and e: "find (\<lambda>u. u_email u = uc_email p) (users (work w)) = None" by auto
  from h have hash: "\<exists>salt. password_hash env salt (uc_password p) = Some hash"
    and w2: "w2 = w1\<lparr>entropy := tl (entropy w1)\<rparr>" by (auto simp: hash_password_ok)
  from cr w2 w1 have u: "u = user_row (user_seq w) (db_now w) (pending_user env s p ?now ?tok hash)"
    and w3: "work w3 = (work w)\<lparr>users := users (work w) @ [u]\<rparr>"
    by (auto simp: create_user_def Let_def run_ok next_user_id_def dest!: flush_ok)
  from commit_ok [OF com] w3 have "committed w' = (work w)\<lparr>users := users (work w) @ [u]\<rparr>"
    "valid_db (committed w')" by auto
  with pv u e hash show thesis by (intro that) simp_all
qed

section \<open>Email verification\<close>

lemma distinct_somes_unique:
  "distinct (somes (map g rs)) \<Longrightarrow> r \<in> set rs \<Longrightarrow> t \<in> set rs \<Longrightarrow> g r = Some h \<Longrightarrow> g t = Some h \<Longrightarrow> r = t"
proof (induction rs)
  case Nil
  then show ?case by simp
next
  case (Cons x rs)
  then show ?case by (auto simp: distinct_somes_Cons) (metis image_eqI)+
qed

lemma token_hash_unique:
  assumes "valid_db d" "u \<in> set (users d)" "v \<in> set (users d)"
    and "u_email_verification_token_hash u = Some h" "u_email_verification_token_hash v = Some h"
  shows "u = v"
proof -
  have "distinct (somes (map u_email_verification_token_hash (users d)))"
    using assms(1) by (simp add: valid_db_def violation_iffs)
  from distinct_somes_unique [OF this assms(2,3,4,5)] show ?thesis .
qed

definition verified_user :: "time \<Rightarrow> time \<Rightarrow> user \<Rightarrow> user" where
  "verified_user now written u = u\<lparr>u_email_verified_at := Some now,
     u_email_verification_token_hash := None, u_email_verification_expires_at := None,
     u_email_verification_requested_at := None, u_updated_at := written\<rparr>"

lemma verify_email_success:
  assumes "verify_email tok w = (Inr u', w')" and "valid_db (work w)"
  obtains u where "u \<in> set (users (work w))"
    "u_email_verification_token_hash u = Some (hash_secret (strip tok))"
    "u_email_verified_at u = None" "\<not> verification_expired (clock (tick w)) u"
    "u_id u' = u_id u" "is_email_verified u'"
    "committed w' = put_user (verified_user (clock (tick w)) (db_now w) u) (work w)"
    "valid_db (committed w')"
proof -
  let ?now = "clock (tick w)"
  from assms(1) obtain f w1 where
    sel: "select (\<lambda>d. find (\<lambda>u. u_email_verification_token_hash u = Some (hash_secret (strip tok)))
       (users d)) (tick w) = (Inr f, w1)" and
    rest: "(case f of None \<Rightarrow> raise (auth_error InvalidEmailVerificationTokenError)
         | Some user \<Rightarrow>
             if is_email_verified user then raise (auth_error InvalidEmailVerificationTokenError)
             else if verification_expired ?now user then
               bnd (save_user (user\<lparr>u_email_verification_token_hash := None,
                                    u_email_verification_expires_at := None\<rparr>)) (\<lambda>_.
               bnd commit (\<lambda>_. raise (auth_error InvalidEmailVerificationTokenError)))
             else
               (let user = user\<lparr>u_email_verified_at := Some ?now,
                      u_email_verification_token_hash := None,
                      u_email_verification_expires_at := None,
                      u_email_verification_requested_at := None\<rparr>
                in bnd (save_user user) (\<lambda>_. bnd commit (\<lambda>_. ret user)))) w1 = (Inr u', w')"
    unfolding verify_email_def Let_def by (auto simp: raise_ok bnd_ok now_utc_ok catch_reraise_ok
        split: if_splits)
  from select_ok [OF sel] have f: "f = find (\<lambda>u. u_email_verification_token_hash u = Some (hash_secret (strip tok)))
       (users (work w))" and w1: "work w1 = work w" "db_now w1 = db_now w" by auto
  from rest obtain u w2 where u: "f = Some u" "\<not> is_email_verified u" "\<not> verification_expired ?now u" and
    u': "u' = u\<lparr>u_email_verified_at := Some ?now, u_email_verification_token_hash := None,
           u_email_verification_expires_at := None, u_email_verification_requested_at := None\<rparr>" and
    save: "save_user u' w1 = (Inr (), w2)" and com: "commit w2 = (Inr (), w')"
    by (cases f) (auto simp: raise_ok bnd_ok ret_ok Let_def split: if_splits)
  from f u(1) have in_u: "u \<in> set (users (work w))"
    and h: "u_email_verification_token_hash u = Some (hash_secret (strip tok))"
    by (auto dest: find_SomeD [OF sym])
  have saved: "save_user u' w1 = (Inr (), w1\<lparr>work := put_user (touch_user (db_now w1) u u') (work w1)\<rparr>)"
    using assms(2) in_u w1 u' by (intro save_user_eq) auto
  have "u_email_verified_at u = None" using u(2) by (simp add: is_email_verified_def is_some_iff)
  moreover have "u_email_verified_at u' = Some ?now" by (simp add: u')
  ultimately have "u' \<noteq> u" by auto
  then have "touch_user (db_now w) u u' = verified_user ?now (db_now w) u"
    by (simp add: touch_user_def verified_user_def u')
  then have "work w2 = put_user (verified_user ?now (db_now w) u) (work w)"
    using save saved w1 by auto
  with commit_ok [OF com] have "committed w' = put_user (verified_user ?now (db_now w) u) (work w)"
    "valid_db (committed w')" by simp_all
  moreover have "u_email_verified_at u = None" using u(2) by (simp add: is_email_verified_def is_some_iff)
  ultimately show thesis using u' by (intro that [OF in_u h _ u(3)]) (simp_all add: is_email_verified_def)
qed

text \<open>A token whose hash no user has is refused, without faults and with nothing committed.\<close>

lemma verify_email_unknown:
  assumes "faults w = []" "\<forall>u \<in> set (users (work w)).
      u_email_verification_token_hash u \<noteq> Some (hash_secret (strip tok))"
  shows "\<exists>w'. verify_email tok w = (Inl (auth_error InvalidEmailVerificationTokenError), w') \<and>
     committed w' = committed w"
proof (cases "strip tok = []")
  case True
  then show ?thesis by (simp add: verify_email_def raise_def)
next
  case False
  have "find (\<lambda>u. u_email_verification_token_hash u = Some (hash_secret (strip tok))) (users (work w)) = None"
    using assms(2) by (simp add: find_None_iff')
  then have "select (\<lambda>d. find (\<lambda>u. u_email_verification_token_hash u = Some (hash_secret (strip tok)))
       (users d)) (tick w) = (Inr None, tick w)"
    using assms(1) by (simp add: select_fine)
  with False show ?thesis
    by (simp add: verify_email_def Let_def bnd_run now_utc_tick except_sql_app raise_def auth_error_def)
qed

section \<open>Logout\<close>

lemma logout_success_runs:
  assumes "faults w = []" "valid_db (work w)"
    and "refresh_verdict env s (clock (tick w)) tok = Some c" "cl_sid c = Some (s_id r)"
    and "py_int (cl_sub c) = Some (s_user_id r)" "r \<in> set (refresh_sessions (work w))"
  shows "\<exists>w'. revoke_refresh_session env s tok w = (Inr (), w') \<and>
     (s_revoked_at r = None \<longrightarrow>
        committed w' = put_session (revoked_session (db_now w) r (clock (tick (tick w)))) (work w)) \<and>
     (s_revoked_at r \<noteq> None \<longrightarrow> committed w' = committed w)"
proof -
  have "int32 (s_user_id r)"
    using valid_session [OF assms(2,6)] valid_user [OF assms(2)] by (auto simp: user_fits_def)
  moreover have dec: "decode_refresh_token env s tok w = (Inr c, tick w)"
    using assms(3) by (simp add: decode_refresh_eq)
  moreover have "find (\<lambda>x. Some (s_id x) = cl_sid c \<and> s_user_id x = s_user_id r)
      (refresh_sessions (work w)) = Some r"
  proof -
    have "Some (s_id x) = cl_sid c \<and> s_user_id x = s_user_id r \<longleftrightarrow> s_id x = s_id r"
      if "x \<in> set (refresh_sessions (work w))" for x
      using assms(4) key_unique [OF valid_keys(3) [OF assms(2)] that assms(6)] by auto
    then have "find (\<lambda>x. Some (s_id x) = cl_sid c \<and> s_user_id x = s_user_id r) (refresh_sessions (work w)) =
        find (\<lambda>x. s_id x = s_id r) (refresh_sessions (work w))"
      by (intro find_cong) simp_all
    with find_unique [OF valid_keys(3) [OF assms(2)] assms(6)] show ?thesis by simp
  qed
  ultimately have sel: "select (\<lambda>d. find (\<lambda>x. Some (s_id x) = cl_sid c \<and> s_user_id x = s_user_id r)
      (refresh_sessions d)) (tick w) = (Inr (Some r), tick w)" and int: "int32 (s_user_id r)"
      and dec: "decode_refresh_token env s tok w = (Inr c, tick w)"
    using assms(1) by (simp_all add: select_fine)
  have decoded: "catch (bnd (decode_refresh_token env s tok) (\<lambda>payload.
             bnd (of_option ValueErr (py_int (cl_sub payload))) (\<lambda>user_id.
             ret (Some (payload, user_id))))) h w = (Inr (Some (c, s_user_id r)), tick w)" for h
    using assms(5) by (simp add: catch_def bnd_run dec of_option_def ret_def)
  show ?thesis
  proof (cases "s_revoked_at r = None")
    case True
    with assms(1,2,6) commit_revoked [of "tick (tick w)" r "clock (tick (tick w))"] show ?thesis
      by (simp add: revoke_refresh_session_def bnd_run decoded int guard_simps ret_def except_sql_app sel
          now_utc_tick)
  next
    case False
    then show ?thesis
      by (auto simp: revoke_refresh_session_def bnd_run decoded int guard_simps ret_def except_sql_app sel)
  qed
qed

section \<open>Refreshing succeeds\<close>

text \<open>Creating a pair succeeds when a whole second is left and the identity is well formed.\<close>

lemma create_access_runs:
  assumes "0 < l" "strip sub \<noteq> []" "identity_ok s"
  shows "create_access_token env s sub (Some l) i w =
    (Inr (encode_payload env s (access_claims s sub (i + l) i (token_hex (drawn w)))),
     w\<lparr>entropy := tl (entropy w)\<rparr>)"
  using assms
  by (simp add: create_access_token_def access_token_lifetime_def lifetime_of_def required_def
      generate_token_id_def Let_def bnd_run ret_def draw_eq AccessTokenPayload_def token_payload_def
      of_valid_def access_claims_def identity_ok_def)

lemma create_refresh_runs:
  assumes "0 < l" "strip sub \<noteq> []" "32 \<le> length (strip sid)" "identity_ok s"
  shows "create_refresh_token env s sub sid (Some l) i w =
    (Inr (encode_payload env s (refresh_claims s sub sid (i + l) i (token_hex (drawn w)))),
     w\<lparr>entropy := tl (entropy w)\<rparr>)"
proof -
  have "strip sid \<noteq> []" using assms(3) by auto
  with assms show ?thesis
    by (simp add: create_refresh_token_def refresh_token_lifetime_def lifetime_of_def required_def
        generate_token_id_def Let_def bnd_run ret_def draw_eq RefreshTokenPayload_def token_payload_def
        of_valid_def refresh_claims_def identity_ok_def)
qed

lemma token_pair_runs:
  assumes "settings_ok s" "identity_ok s" "jwt_text env" "strip sub \<noteq> []" "32 \<le> length (strip sid)"
    and "issued + 1000000 \<le> deadline"
  shows "\<exists>t. create_token_pair env s sub sid issued (Some deadline) w =
     (Inr t, w\<lparr>entropy := tl (tl (entropy w))\<rparr>)"
proof -
  let ?a = "access_life s (deadline - issued)" and ?r = "refresh_life s (deadline - issued)"
  have life: "1000000 \<le> ?a" "1000000 \<le> ?r"
    using assms(1,6) by (auto simp: access_life_def refresh_life_def settings_ok_def)
  have pos: "0 < access_token_expire_minutes s" "0 < refresh_token_expire_days s" "issued < deadline"
    using assms(1,6) by (auto simp: settings_ok_def)
  have ne: "encode_payload env s c \<noteq> []" for c
    using assms(3) by (simp add: jwt_text_def encode_payload_def)
  have "0 < total_seconds_int ?a" using life(1) by (simp add: total_seconds_int_pos_iff)
  with life pos ne assms(2,4,5) show ?thesis
    using create_access_runs [of ?a sub s env issued w]
      create_refresh_runs [of ?r sub sid s env issued "w\<lparr>entropy := tl (entropy w)\<rparr>"]
    by (simp add: create_token_pair_def access_token_lifetime_def refresh_token_lifetime_def
        lifetime_of_def bounded_lifetime_def Let_def ret_def bnd_run
        access_life_def [symmetric] refresh_life_def [symmetric] TokenResponseSchema_def of_valid_def)
qed


lemma decode_own_refresh:
  assumes "jwt_accepts_own env" "identity_ok s" "sane_time exp" "sane_time iat"
    and "seconds (whole_seconds iat) \<le> clock (tick w)" "clock (tick w) < seconds (whole_seconds exp)"
    and "strip sub \<noteq> []" "32 \<le> length (strip sid)"
  shows "decode_refresh_token env s
       (encode_payload env s (refresh_claims s sub sid exp iat (token_hex bs))) w =
     (Inr (on_wire (refresh_claims s sub sid exp iat (token_hex bs))), tick w)"
  using refresh_verdict_own [OF assms(1-8), of "token_hex bs"] assms
  by (simp add: decode_refresh_eq refresh_verdict_own)

text \<open>
  The token a rotation of a session issues, when the clock stands still between the readings
  (\<open>now\<close>): its claims, and the expiration on the wire.
\<close>

definition rotated_token :: "env \<Rightarrow> settings \<Rightarrow> refresh_session \<Rightarrow> time \<Rightarrow> world \<Rightarrow> string" where
  "rotated_token env s r now w = encode_payload env s
     (refresh_claims s (py_str (s_user_id r)) (s_id r)
        (now + refresh_life s (s_absolute_expires_at r - now)) now
        (token_hex (drawn (w\<lparr>entropy := tl (entropy w)\<rparr>))))"

definition rotated_expiry :: "settings \<Rightarrow> refresh_session \<Rightarrow> time \<Rightarrow> time" where
  "rotated_expiry s r now =
     seconds (whole_seconds (now + refresh_life s (s_absolute_expires_at r - now)))"

lemma valid_put_rotated:
  assumes "valid_db d" "r \<in> set (refresh_sessions d)" "s_created_at r \<le> now" "now < e"
    and "length h = 64" "h \<notin> s_token_hash ` (set (refresh_sessions d) - {r})"
  shows "valid_db (put_session (rotated_session r h e now m) d)"
proof -
  note r = valid_session [OF assms(1,2)]
  have "session_check_expiration (rotated_session r h e now m)"
    "session_check_absolute (rotated_session r h e now m)"
    "session_check_idle (rotated_session r h e now m)" "session_fits (rotated_session r h e now m)"
    using r assms(3-5)
    by (auto simp: rotated_session_def session_check_expiration_def session_check_absolute_def
        session_check_idle_def session_fits_def)
  then show ?thesis
    using valid_replace_session [OF assms(1,2), of "rotated_session r h e now m"] assms(6)
    by (simp add: put_session_def rotated_session_def)
qed

lemma rotate_session_runs:
  assumes "faults w = []" "valid_db (work w)" "r \<in> set (refresh_sessions (work w))" "u_id u = s_user_id r"
    and "settings_ok s" "identity_ok s" "jwt_text env" "jwt_accepts_own env"
    and "session_is_active r now" "now + 1000000 \<le> s_absolute_expires_at r"
    and "clock (tick w) = now" "sane_time now" "sane_time (s_absolute_expires_at r)"
    and "now < rotated_expiry s r now" "s_created_at r \<le> now" "32 \<le> length (strip (s_id r))"
    and "hash_secret (rotated_token env s r now w) \<notin>
           s_token_hash ` (set (refresh_sessions (work w)) - {r})"
    and "s_rotated_at r \<noteq> Some now"
    and "r' = rotated_session r (hash_secret (rotated_token env s r now w)) (rotated_expiry s r now) now (db_now w)"
  shows "\<exists>tokens w'. rotate_session env s u r now w = (Inr tokens, w') \<and>
     refresh_token tokens = rotated_token env s r now w \<and> committed w' = put_session r' (work w)"
proof -
  let ?d = "s_absolute_expires_at r" and ?sub = "py_str (s_user_id r)" and ?tok = "rotated_token env s r now w"
  let ?exp = "now + refresh_life s (?d - now)" and ?e = "rotated_expiry s r now"
  have sub: "strip ?sub \<noteq> []" by simp
  obtain t where pair: "create_token_pair env s ?sub (s_id r) now (Some ?d) w =
      (Inr t, w\<lparr>entropy := tl (tl (entropy w))\<rparr>)"
    using token_pair_runs [OF assms(5,6,7) sub assms(16,10), of w] by blast
  let ?w1 = "w\<lparr>entropy := tl (tl (entropy w))\<rparr>"
  have t: "refresh_token t = ?tok"
    using token_pair_success(2) [OF pair] by (simp add: rotated_token_def)
  have "sane_time ?exp"
    using assms(5,10,12,13) by (auto simp: sane_time_def refresh_life_def settings_ok_def)
  moreover have clk: "clock (tick ?w1) = now" using assms(11) by (simp add: tick_def)
  ultimately have "decode_refresh_token env s ?tok ?w1 =
      (Inr (on_wire (refresh_claims s ?sub (s_id r) ?exp now
         (token_hex (drawn (w\<lparr>entropy := tl (entropy w)\<rparr>))))), tick ?w1)"
    unfolding rotated_token_def
    using assms(6,8,12,14,16) sub whole_seconds_le [of now]
    by (intro decode_own_refresh) (simp_all add: rotated_expiry_def)
  then obtain c where dec: "decode_refresh_token env s (refresh_token t) ?w1 = (Inr c, tick ?w1)"
    and c: "cl_exp c = ?e"
    by (simp add: t on_wire_def refresh_claims_def rotated_expiry_def)
  let ?r = "r\<lparr>s_previous_token_hash := Some (s_token_hash r), s_token_hash := hash_secret ?tok,
      s_expires_at := min ?e ?d, s_last_used_at := Some now, s_rotated_at := Some now\<rparr>"
  have rot: "session_rotate r (hash_secret (refresh_token t)) (cl_exp c) now = Some ?r"
    using assms(9) by (simp add: session_rotate_def t c)
  have r': "r' = ?r\<lparr>s_updated_at := db_now w\<rparr>" using assms(19) by (simp add: rotated_session_def)
  have "s_rotated_at ?r = Some now" by simp
  with assms(18) have "?r \<noteq> r" by metis
  then have touch: "touch_session (db_now w) r ?r = r'" by (simp add: touch_session_def r')
  have save: "save_session ?r (tick ?w1) = (Inr (), (tick ?w1)\<lparr>work := put_session r' (work w)\<rparr>)"
    using save_session_eq [of "tick ?w1" r ?r] assms(2,3) touch by simp
  have "valid_db (put_session r' (work w))"
    unfolding assms(19) using assms(2,3,14,15,17) by (intro valid_put_rotated) auto
  then have "rotate_session env s u r now w = (Inr t, (tick ?w1)\<lparr>work := put_session r' (work w),
      committed := put_session r' (work w), trace := trace w @ [Committed]\<rparr>)"
    using assms(1,4) by (simp add: rotate_session_def bnd_run pair dec rot of_option_def ret_def save
        commit_fine)
  with t show ?thesis by simp
qed

text \<open>The whole refresh of the current token, or of the previous one in its grace period.\<close>

lemma refresh_runs:
  assumes "faults w = []" "valid_db (work w)" "ticks w = []" "now = clock w"
    and "refresh_verdict env s now tok = Some c" "cl_sid c = Some (s_id r)"
    and "py_int (cl_sub c) = Some (s_user_id r)" "r \<in> set (refresh_sessions (work w))"
    and "session_is_active r now"
    and "hash_secret tok = s_token_hash r \<or> within_grace s r (hash_secret tok) now"
    and "is_ascii (s_token_hash r)"
    and "u \<in> set (users (work w))" "u_id u = s_user_id r" "u_is_active u" "is_email_verified u"
    and "settings_ok s" "identity_ok s" "jwt_text env" "jwt_accepts_own env"
    and "now + 1000000 \<le> s_absolute_expires_at r" "sane_time now" "sane_time (s_absolute_expires_at r)"
    and "now < rotated_expiry s r now" "s_created_at r \<le> now" "32 \<le> length (strip (s_id r))"
    and "hash_secret (rotated_token env s r now w) \<notin>
           s_token_hash ` (set (refresh_sessions (work w)) - {r})"
    and "s_rotated_at r \<noteq> Some now"
  shows "\<exists>tokens w'. refresh_login_session env s tok w = (Inr tokens, w') \<and>
     refresh_token tokens = rotated_token env s r now w \<and>
     committed w' = put_session (rotated_session r (hash_secret (rotated_token env s r now w))
        (rotated_expiry s r now) now (db_now w)) (work w)"
proof -
  have tick: "tick w = w" using assms(3) by (simp add: tick_def)
  have dec: "decode_refresh_token env s tok w = (Inr c, w)"
    using assms(4,5) by (simp add: decode_refresh_eq tick)
  have sel: "select (\<lambda>d. find (\<lambda>r. Some (s_id r) = cl_sid c) (refresh_sessions d)) w = (Inr (Some r), w)"
    using assms(1,6) find_session [OF assms(2,8)] by (simp add: select_fine)
  let ?cur = "s_token_hash r = hash_secret tok"
  have cur: "matches_token (Some (s_token_hash r)) (hash_secret tok) w = (Inr ?cur, w)"
    using assms(11) by (simp add: matches_token_def of_result_def compare_digest_def ret_def)
  have rec: "is_recoverable_previous_token s r (hash_secret tok) now w = (Inr True, w)" if "\<not> ?cur"
    using assms(10) that
    by (auto simp: is_recoverable_previous_token_def within_grace_def matches_token_def of_result_def
        compare_digest_def ret_def Let_def split: option.splits)
  have user: "get_user_by_id (s_user_id r) w = (Inr (Some u), w)"
    using assms(1,13) valid_user [OF assms(2,12)] find_user [OF assms(2,12)]
    by (simp add: get_user_by_id_def user_fits_def guard_simps act_simps select_fine)
  obtain tokens w' where rot: "rotate_session env s u r now w = (Inr tokens, w')"
    "refresh_token tokens = rotated_token env s r now w"
    "committed w' = put_session (rotated_session r (hash_secret (rotated_token env s r now w))
        (rotated_expiry s r now) now (db_now w)) (work w)"
    using rotate_session_runs [OF assms(1,2,8,13,16-19,9,20)] assms tick by auto
  have "refresh_with_record env s (s_user_id r) (hash_secret tok) now r w = (Inr tokens, w')"
  proof (cases ?cur)
    case True
    have "matches_token (Some (hash_secret tok)) (hash_secret tok) w = (Inr True, w)"
      by (simp add: matches_token_def of_result_def compare_digest_def ret_def)
    then show ?thesis using rot(1) assms(14,15) True
      by (simp add: refresh_with_record_def bnd_run ret_def user)
  next
    case False
    then show ?thesis using rot(1) assms(14,15)
      by (simp add: refresh_with_record_def bnd_run cur rec user)
  qed
  then have "refresh_login_session env s tok w = (Inr tokens, w')"
    using assms(4,7,9)
    by (simp add: refresh_login_session_def bnd_run dec of_option_def ret_def now_utc_tick tick
        except_sql_app sel)
  with rot(2,3) show ?thesis by blast
qed

end
