(* ===== verification/Auth_Sample.thy ===== *)
theory Auth_Sample
  imports Auth_Facts Sample
begin

text \<open>Concrete tokens, sessions and a login on the sample database, for the witnesses.\<close>

section \<open>Login\<close>

definition sample_sid :: string where
  "sample_sid = token_hex []"

lemma sample_sid_facts [simp]: "strip sample_sid = sample_sid" "trim sample_sid = sample_sid" "length sample_sid = 64"
  by (simp_all add: sample_sid_def)

lemma strip_one: "strip ''1'' = ''1''"
  by (rule strip_no_space) (simp add: is_space_def)

lemma normalize_sample_email: "normalize_email ''a@example.com'' = ''a@example.com''"
  by (simp add: normalize_email_def strip_def is_space_def casefold_def fold_char_def lower_char_def
      is_upper_def)

lemma sample_authenticates:
  assumes "users d = users sample_users_db"
  shows "authenticate sample_env ''a@example.com'' ''hash'' (sample_world d) =
    (Inr (sample_user 1 ''a@example.com''), sample_world d)"
proof -
  let ?w = "sample_world d" and ?u = "sample_user 1 ''a@example.com''"
  have "get_user_by_email (normalize_email ''a@example.com'') ?w = (Inr (Some ?u), ?w)"
    by (simp add: get_user_by_email_def select_fine normalize_sample_email assms) (simp add: sample_user_def)
  moreover have "?w\<lparr>entropy := []\<rparr> = ?w" by (simp add: sample_world_def)
  then have "verify_and_update_password sample_env ''hash'' (u_hashed_password ?u) ?w = (Inr (True, None), ?w)"
    by (simp add: verify_and_update_ok sample_env_def sample_user_def)
  ultimately show ?thesis
    by (simp add: authenticate_def bnd_run except_sql_app catch_def ret_def)
       (simp add: sample_user_def is_email_verified_def)
qed

section \<open>A session and its token\<close>

definition sample_token :: string where
  "sample_token = encode_payload sample_env default_settings
     (refresh_claims default_settings ''1'' sample_sid (days 30) 0 sample_sid)"

definition sample_session :: "string \<Rightarrow> refresh_session" where
  "sample_session hash = \<lparr>s_id = sample_sid, s_user_id = 1, s_token_hash = hash,
     s_previous_token_hash = None, s_expires_at = days 30, s_absolute_expires_at = days 90,
     s_revoked_at = None, s_last_used_at = Some 0, s_rotated_at = None,
     s_created_at = 0, s_updated_at = 0\<rparr>"

lemma sample_session_simps [simp]:
  "s_id (sample_session h) = sample_sid" "s_user_id (sample_session h) = 1"
  "s_token_hash (sample_session h) = h" "s_previous_token_hash (sample_session h) = None"
  "s_expires_at (sample_session h) = days 30" "s_absolute_expires_at (sample_session h) = days 90"
  "s_revoked_at (sample_session h) = None" "s_last_used_at (sample_session h) = Some 0"
  "s_rotated_at (sample_session h) = None" "s_created_at (sample_session h) = 0"
  "s_updated_at (sample_session h) = 0"
  by (simp_all add: sample_session_def)

definition session_db :: "string \<Rightarrow> db" where
  "session_db hash = sample_users_db\<lparr>refresh_sessions := [sample_session hash]\<rparr>"

lemma session_db_simps [simp]:
  "refresh_sessions (session_db h) = [sample_session h]" "users (session_db h) = users sample_users_db"
  by (simp_all add: session_db_def sample_users_db_def)

lemma valid_session_db: "length h \<le> 64 \<Longrightarrow> valid_db (session_db h)"
  unfolding session_db_def
  by (rule valid_put_sessions [OF valid_sample_users_db])
     (simp_all add: sessions_violation_None_iff session_check_expiration_def
       session_check_absolute_def session_check_idle_def session_fits_def sample_user_def)

lemma sample_token_verdict:
  "\<exists>c. refresh_verdict sample_env default_settings 100 sample_token = Some c \<and>
     cl_sid c = Some sample_sid \<and> py_int (cl_sub c) = Some 1"
proof -
  have "refresh_verdict sample_env default_settings 100 sample_token =
      Some (on_wire (refresh_claims default_settings ''1'' sample_sid (days 30) 0 sample_sid))"
    unfolding sample_token_def
    by (rule refresh_verdict_own [OF sample_env_accepts default_identity_ok])
       (simp_all add: sane_time_def whole_seconds_def strip_one)
  moreover have "py_int ''1'' = Some 1"
    by (simp add: py_int_def strip_one parse_unsigned_def digit_of_def max_str_digits_def)
  ultimately show ?thesis by (simp add: on_wire_def refresh_claims_def strip_one)
qed

lemma py_str_one: "py_str 1 = ''1''"
  by (simp add: py_str_def str_nat.simps digit_char_def char_of_def bit_iff_odd)

end
