(* ===== verification/Auth_Props.thy ===== *)
theory Auth_Props
  imports Auth_Sample
begin

text \<open>The properties of accounts, tokens and login sessions, each with a concrete instance.\<close>

section \<open>Tokens\<close>

text \<open>
  C15. A token pair never outlives the deadline of its session: when the pair is created at
  all, the claims of both tokens expire at or before the absolute deadline, the configured
  lifetimes are an upper bound too, and \<^verbatim>\<open>expires_in\<close> is at least one second and does not
  exceed the time left.
\<close>

theorem token_pair_within_deadline:
  assumes "create_token_pair env s sub sid issued (Some deadline) w = (Inr t, w')"
  shows "\<exists>a r. access_token t = encode_payload env s a \<and> refresh_token t = encode_payload env s r \<and>
     cl_exp a \<le> deadline \<and> cl_exp r \<le> deadline \<and>
     cl_exp a \<le> issued + minutes (access_token_expire_minutes s) \<and>
     cl_exp r \<le> issued + days (refresh_token_expire_days s) \<and>
     cl_sid r = Some (strip sid) \<and> cl_sub a = strip sub \<and> cl_sub r = strip sub \<and>
     1 \<le> expires_in t \<and> seconds (expires_in t) \<le> deadline - issued"
proof -
  note p = token_pair_success [OF assms]
  have "0 < total_seconds_int (access_life s (deadline - issued))" using p(3,4) by simp
  then have "1000000 \<le> access_life s (deadline - issued)" by (simp add: total_seconds_int_pos_iff)
  then have "seconds (expires_in t) \<le> access_life s (deadline - issued)"
    unfolding p(3) by (simp add: total_seconds_int_def)
  also have "\<dots> \<le> deadline - issued" by (simp add: access_life_def)
  finally have "seconds (expires_in t) \<le> deadline - issued" .
  with p(1,2,4) show ?thesis
    by (intro exI) (auto simp: access_claims_def refresh_claims_def access_life_def refresh_life_def)
qed

lemma sample_pair:
  "\<exists>t. create_token_pair sample_env default_settings ''1'' sample_sid 0 (Some (days 90)) (sample_world d) =
     (Inr t, (sample_world d)\<lparr>entropy := tl (tl (entropy (sample_world d)))\<rparr>)"
  by (rule token_pair_runs [OF default_settings_ok default_identity_ok sample_env_text])
     (simp_all add: strip_one)

theorem token_pair_within_deadline_witness:
  "\<exists>t w' r. create_token_pair sample_env default_settings ''1'' sample_sid 0 (Some (days 90))
       (sample_world sample_db) = (Inr t, w') \<and>
     refresh_token t = encode_payload sample_env default_settings r \<and> cl_exp r \<le> days 90"
proof -
  obtain t w' where run: "create_token_pair sample_env default_settings ''1'' sample_sid 0
      (Some (days 90)) (sample_world sample_db) = (Inr t, w')"
    using sample_pair by blast
  from token_pair_within_deadline [OF run] run show ?thesis by blast
qed

text \<open>
  A refresh token round-trips: while it has not expired, decoding the refresh token of a
  freshly created pair gives back the subject and the session it was created for, with the
  expiration cut to whole seconds.
\<close>

lemma refresh_token_roundtrip:
  assumes "jwt_accepts_own env" and "identity_ok s"
    and "create_token_pair env s sub sid issued (Some deadline) w = (Inr t, w')"
    and "exp = issued + refresh_life s (deadline - issued)"
    and "sane_time issued" and "sane_time exp" and "strip sub = sub" and "sub \<noteq> []"
    and "strip sid = sid" and "32 \<le> length sid"
    and "issued \<le> clock (tick w2)" and "clock (tick w2) < seconds (whole_seconds exp)"
  shows "\<exists>c. decode_refresh_token env s (refresh_token t) w2 = (Inr c, tick w2) \<and>
     cl_sub c = sub \<and> cl_sid c = Some sid \<and> cl_exp c = seconds (whole_seconds exp)"
proof -
  let ?j = "token_hex (drawn (w\<lparr>entropy := tl (entropy w)\<rparr>))"
  have tok: "refresh_token t = encode_payload env s (refresh_claims s sub sid exp issued ?j)"
    using token_pair_success(2) [OF assms(3)] assms(4) by simp
  have "refresh_verdict env s (clock (tick w2)) (refresh_token t) =
      Some (on_wire (refresh_claims s sub sid exp issued ?j))"
    unfolding tok
    using assms whole_seconds_le [of issued]
    by (intro refresh_verdict_own) auto
  then show ?thesis
    using assms(7,9) by (simp add: decode_refresh_eq on_wire_def refresh_claims_def)
qed

text \<open>
  The two kinds of tokens are never interchangeable: an access token the program signed
  is not accepted as a refresh token at any time, and a refresh token not as an access
  token, even when both audiences are configured to be the same.
\<close>

lemma token_types_not_interchangeable:
  assumes "jwt_faithful env"
    and "create_token_pair env s sub sid issued (Some deadline) w = (Inr t, w')"
    and "secret_key s' = secret_key s" and "jwt_algorithm s' = jwt_algorithm s"
  shows "decode_refresh_token env s' (access_token t) w2 =
       (Inl (AppErr (Auth_Error InvalidRefreshTokenError)), tick w2) \<and>
     decode_access_token env s' (refresh_token t) w2 =
       (Inl (AppErr (Auth_Error InvalidAccessTokenError)), tick w2)"
proof -
  note p = token_pair_success(1,2) [OF assms(2)]
  show ?thesis unfolding decode_refresh_eq decode_access_eq p
    using access_not_refresh [OF assms(1) _ assms(3,4)] refresh_not_access [OF assms(1) _ assms(3,4)]
    by (simp add: access_claims_def refresh_claims_def)
qed

section \<open>Registration and verification\<close>

text \<open>
  C16. A registration that succeeds, under any faults, has committed exactly one new row: an
  active, unverified user without privileges under an address nobody had, with the hash of
  the mailed token and not the token, valid for the configured time.
\<close>

theorem registration_adds_unverified_user:
  assumes "register_pending_verification env s p w = (Inr pv, w')"
  shows "committed w' = (work w)\<lparr>users := users (work w) @ [pv_user pv]\<rparr> \<and>
     valid_db (committed w') \<and> (\<forall>u \<in> set (users (work w)). u_email u \<noteq> uc_email p) \<and>
     u_email (pv_user pv) = uc_email p \<and> u_id (pv_user pv) = user_seq w \<and>
     u_is_active (pv_user pv) \<and> \<not> u_is_superuser (pv_user pv) \<and> \<not> is_email_verified (pv_user pv) \<and>
     u_email_verification_token_hash (pv_user pv) = Some (hash_secret (pv_token pv)) \<and>
     length (pv_token pv) = 43 \<and>
     u_email_verification_expires_at (pv_user pv) = Some (clock (tick w) + email_verification_token_ttl s)"
proof -
  from register_pending_success [OF assms] obtain hash where
    tok: "pv_token pv = token_urlsafe (drawn w)" and
    row: "pv_user pv = user_row (user_seq w) (db_now w) (pending_user env s p (clock (tick w)) (pv_token pv) hash)" and
    new: "find (\<lambda>u. u_email u = uc_email p) (users (work w)) = None" and
    com: "committed w' = (work w)\<lparr>users := users (work w) @ [pv_user pv]\<rparr>" "valid_db (committed w')" .
  from new have "\<forall>u \<in> set (users (work w)). u_email u \<noteq> uc_email p" by (simp add: find_None_iff')
  moreover have "length (pv_token pv) = 43" by (simp add: tok)
  ultimately show ?thesis
    unfolding com(1) using com
    by (simp add: row) (simp add: user_row_def pending_user_def is_email_verified_def)
qed

lemma registration_sample:
  "\<exists>pv w'. register_pending_verification sample_env default_settings
     \<lparr>uc_email = ''c@example.com'', uc_full_name = None, uc_password = ''passw0rd''\<rparr>
     (sample_world sample_db) = (Inr pv, w')"
proof -
  let ?p = "\<lparr>uc_email = ''c@example.com'', uc_full_name = None, uc_password = ''passw0rd''\<rparr>"
  let ?w = "sample_world sample_db"
  let ?u = "user_row 3 99 (pending_user sample_env default_settings ?p 100 (token_urlsafe []) ''passw0rd'')"
  let ?d = "sample_db\<lparr>users := users sample_db @ [?u]\<rparr>"
  have valid: "valid_db ?d"
    by (rule valid_insert_user [OF valid_sample_db])
       (simp_all add: sample_user_def user_row_def pending_user_def user_fits_def int32_def)
  have seq: "?w\<lparr>entropy := []\<rparr> = ?w" by (simp add: sample_world_def)
  have email: "get_user_by_email ''c@example.com'' ?w = (Inr None, ?w)"
    by (simp add: get_user_by_email_def select_fine sample_user_def)
  have hash: "hash_password sample_env ''passw0rd'' ?w = (Inr ''passw0rd'', ?w)"
    by (simp add: hash_password_ok sample_env_def seq)
  have tok: "generate_email_verification_token ?w = (Inr (token_urlsafe []), ?w)"
    by (simp add: generate_email_verification_token_def bnd_run draw_eq ret_def drawn_def seq)
  have "create_user (pending_user sample_env default_settings ?p 100 (token_urlsafe []) ''passw0rd'') ?w =
      (Inr ?u, ?w\<lparr>user_seq := 4, work := ?d\<rparr>)"
    using valid by (simp add: create_user_def Let_def bnd_run next_user_id_def read_def edit_def ret_def flush_fine)
  moreover have "commit (?w\<lparr>user_seq := 4, work := ?d\<rparr>) =
      (Inr (), ?w\<lparr>user_seq := 4, work := ?d, committed := ?d, trace := [Committed]\<rparr>)"
    using valid by (simp add: commit_fine)
  ultimately have "bnd (create_user (pending_user sample_env default_settings ?p 100 (token_urlsafe []) ''passw0rd''))
      (\<lambda>user. bnd commit (\<lambda>_. ret user)) ?w =
      (Inr ?u, ?w\<lparr>user_seq := 4, work := ?d, committed := ?d, trace := [Committed]\<rparr>)"
    by (simp add: bnd_run ret_def)
  then have "register_user sample_env ?p \<lparr>rg_is_superuser = False, rg_verified_at = None,
      rg_token = Some (token_urlsafe []),
      rg_expires_at = Some (100 + email_verification_token_ttl default_settings), rg_requested_at = Some 100\<rparr> ?w =
      (Inr ?u, ?w\<lparr>user_seq := 4, work := ?d, committed := ?d, trace := [Committed]\<rparr>)"
    by (simp add: register_user_def bnd_run except_sql_app email catch_def hash pending_user_def)
  then show ?thesis
    by (simp add: register_pending_verification_def bnd_run now_utc_tick tok Let_def ret_def)
qed

theorem registration_adds_unverified_user_witness:
  "\<exists>pv w'. register_pending_verification sample_env default_settings
       \<lparr>uc_email = ''c@example.com'', uc_full_name = None, uc_password = ''passw0rd''\<rparr>
       (sample_world sample_db) = (Inr pv, w') \<and>
     u_email_verification_token_hash (pv_user pv) = Some (hash_secret (pv_token pv)) \<and>
     \<not> is_email_verified (pv_user pv)"
proof -
  obtain pv w' where run: "register_pending_verification sample_env default_settings
     \<lparr>uc_email = ''c@example.com'', uc_full_name = None, uc_password = ''passw0rd''\<rparr>
     (sample_world sample_db) = (Inr pv, w')"
    using registration_sample by blast
  from registration_adds_unverified_user [OF run] run show ?thesis by blast
qed

text \<open>
  Registration fails in two ways only, the address is taken or registration is
  unavailable, also when another request registers the address between the check and the
  insert, and a failure has committed nothing.
\<close>

lemma registration_failures:
  "raises {AppErr (Auth_Error EmailAlreadyRegisteredError), AppErr (Auth_Error RegistrationUnavailableError)}
     (register_pending_verification env s p) \<and>
   atomic (register_pending_verification env s p)"
  using raises_register_pending atomic_register_pending by (simp add: auth_error_def)

text \<open>
  C17. A verification token works once: after it verified a user, under any faults, the user
  is verified and keeps no token, and presenting the same token again to the database as it
  was left is the invalid-token error and commits nothing.
\<close>

theorem verification_token_single_use:
  assumes "verify_email tok w = (Inr u', w')" and "valid_db (work w)"
    and "work w2 = committed w'" and "faults w2 = []"
  shows "(\<exists>v \<in> set (users (committed w')). u_id v = u_id u' \<and> is_email_verified v \<and>
       u_email_verification_token_hash v = None) \<and>
     (\<exists>w3. verify_email tok w2 = (Inl (AppErr (Auth_Error InvalidEmailVerificationTokenError)), w3) \<and>
       committed w3 = committed w2)"
proof -
  from verify_email_success [OF assms(1,2)] obtain u where u: "u \<in> set (users (work w))"
    "u_email_verification_token_hash u = Some (hash_secret (strip tok))" "u_id u' = u_id u"
    and c: "committed w' = put_user (verified_user (clock (tick w)) (db_now w) u) (work w)" .
  let ?v = "verified_user (clock (tick w)) (db_now w) u"
  have v: "u_id ?v = u_id u" "is_email_verified ?v" "u_email_verification_token_hash ?v = None"
    by (simp_all add: verified_user_def is_email_verified_def)
  have set: "set (users (committed w')) = insert ?v (set (users (work w)) - {u})"
    unfolding c by (rule set_put_user [OF assms(2) u(1) v(1)])
  have "\<forall>x \<in> set (users (work w2)). u_email_verification_token_hash x \<noteq> Some (hash_secret (strip tok))"
    using set assms(3) v(3) token_hash_unique [OF assms(2) _ u(1) _ u(2)] by auto
  from verify_email_unknown [OF assms(4) this]
  show ?thesis using set u(3) v by (auto simp: auth_error_def)
qed

definition waiting_user :: user where
  "waiting_user = (sample_user 1 ''a@example.com'')\<lparr>u_email_verified_at := None,
     u_email_verification_token_hash := Some (hash_secret ''token''),
     u_email_verification_expires_at := Some 1000\<rparr>"

definition waiting_db :: db where
  "waiting_db = empty_db\<lparr>users := [waiting_user]\<rparr>"

lemma users_waiting [simp]: "users waiting_db = [waiting_user]"
  by (simp add: waiting_db_def)

lemma waiting_user_fits: "user_fits waiting_user"
  by (simp add: user_fits_def waiting_user_def sample_user_def int32_def)

lemma valid_waiting_db: "valid_db waiting_db"
  unfolding waiting_db_def
  by (rule valid_put_users [OF valid_empty_db])
     (simp_all add: users_violation_None_iff somes_def List.map_filter_def waiting_user_fits empty_db_def
       split: option.splits)

lemma strip_token: "strip ''token'' = ''token''"
  by (rule strip_no_space) (simp add: is_space_def)

lemma verify_sample: "\<exists>u w'. verify_email ''token'' (sample_world waiting_db) = (Inr u, w')"
proof -
  let ?w = "sample_world waiting_db"
  let ?u = "waiting_user\<lparr>u_email_verified_at := Some 100, u_email_verification_token_hash := None,
      u_email_verification_expires_at := None, u_email_verification_requested_at := None\<rparr>"
  have sel: "select (\<lambda>d. find (\<lambda>u. u_email_verification_token_hash u = Some (hash_secret ''token'')) (users d)) ?w
      = (Inr (Some waiting_user), ?w)"
    by (simp add: select_fine) (simp add: waiting_user_def)
  have facts: "\<not> is_email_verified waiting_user" "\<not> verification_expired 100 waiting_user"
    by (simp_all add: waiting_user_def is_email_verified_def verification_expired_def)
  let ?d = "put_user (touch_user 99 waiting_user ?u) waiting_db"
  have save: "save_user ?u ?w = (Inr (), ?w\<lparr>work := ?d\<rparr>)"
    using save_user_eq [of ?w waiting_user ?u] valid_waiting_db by simp
  have "valid_db ?d"
    using valid_replace_user [OF valid_waiting_db, of waiting_user "touch_user 99 waiting_user ?u"]
      waiting_user_fits
    by (simp add: put_user_def) (auto simp: touch_user_def user_fits_def)
  then have "commit (?w\<lparr>work := ?d\<rparr>) = (Inr (), ?w\<lparr>work := ?d, committed := ?d, trace := [Committed]\<rparr>)"
    by (simp add: commit_fine)
  with save facts show ?thesis
    by (simp add: verify_email_def Let_def strip_token bnd_run now_utc_tick except_sql_app sel ret_def)
qed

theorem verification_token_single_use_witness:
  "\<exists>u w' w3. verify_email ''token'' (sample_world waiting_db) = (Inr u, w') \<and>
     verify_email ''token'' (w'\<lparr>work := committed w', faults := []\<rparr>) =
       (Inl (AppErr (Auth_Error InvalidEmailVerificationTokenError)), w3)"
proof -
  obtain u w' where run: "verify_email ''token'' (sample_world waiting_db) = (Inr u, w')"
    using verify_sample by blast
  from verification_token_single_use [OF run, of "w'\<lparr>work := committed w', faults := []\<rparr>"]
    valid_waiting_db run
  show ?thesis by auto
qed

section \<open>Password authentication\<close>

text \<open>
  C18. Whoever authenticates is a stored, active, verified user of that address whose stored
  hash the password hasher verified, and authentication commits nothing by itself.
\<close>

theorem authentication_is_sound:
  assumes "authenticate env email password w = (Inr u, w')" and "valid_db (work w)"
  shows "\<exists>u0 \<in> set (users (work w)). u_id u0 = u_id u \<and> u_email u0 = normalize_email email \<and>
     u_is_active u0 \<and> is_email_verified u0 \<and>
     (\<exists>salt replacement. password_verify_and_update env salt password (u_hashed_password u0) =
        Verdict True replacement) \<and> committed w' = committed w"
proof -
  from authenticate_success [OF assms] obtain u0 salt r where
    u0: "u0 \<in> set (users (work w))" "u_email u0 = normalize_email email"
    "password_verify_and_update env salt password (u_hashed_password u0) = Verdict True r"
    "u_is_active u0" "is_email_verified u0"
    "u = (case r of None \<Rightarrow> u0 | Some h \<Rightarrow> u0\<lparr>u_hashed_password := h\<rparr>)"
    "committed w' = committed w" by metis
  from u0(6) have "u_id u0 = u_id u" by (cases r) simp_all
  with u0 show ?thesis by blast
qed

text \<open>
  C19. An unknown address and a wrong password are the same error, after the same verification
  work: the hasher is asked once in both cases, for an unknown address about the dummy hash.
\<close>

theorem authentication_failures_alike:
  assumes "faults w = []"
    and "find (\<lambda>u. u_email u = normalize_email email) (users (work w)) = found"
    and "password_verify_and_update env (drawn w) password
       (case found of Some u \<Rightarrow> u_hashed_password u | None \<Rightarrow> dummy_password_hash env) = Verdict valid r"
    and "found = None \<or> \<not> valid"
  shows "authenticate env email password w =
     (Inl (AppErr (Auth_Error InvalidCredentialsError)), w\<lparr>entropy := tl (entropy w)\<rparr>)"
proof -
  have get: "get_user_by_email (normalize_email email) w = (Inr found, w)"
    using assms(1,2) by (simp add: get_user_by_email_def select_fine)
  have ver: "verify_and_update_password env password
      (case found of Some u \<Rightarrow> u_hashed_password u | None \<Rightarrow> dummy_password_hash env) w =
      (Inr (valid, r), w\<lparr>entropy := tl (entropy w)\<rparr>)"
    using assms(3) by (simp add: verify_and_update_ok)
  show ?thesis
  proof (cases found)
    case None
    then show ?thesis using get ver
      by (simp add: authenticate_def bnd_run except_sql_app catch_def raise_def auth_error_def)
  next
    case (Some u)
    then show ?thesis using get ver assms(4)
      by (simp add: authenticate_def bnd_run except_sql_app catch_def raise_def auth_error_def)
  qed
qed

theorem authentication_failures_alike_witness:
  "authenticate sample_env ''a@example.com'' ''wrong'' (sample_world sample_db) =
     (Inl (AppErr (Auth_Error InvalidCredentialsError)), sample_world sample_db)"
proof -
  have "(sample_world sample_db)\<lparr>entropy := []\<rparr> = sample_world sample_db" by (simp add: sample_world_def)
  with authentication_failures_alike [of "sample_world sample_db" "''a@example.com''"
      "Some (sample_user 1 ''a@example.com'')" sample_env "''wrong''" False None]
  show ?thesis
    by (simp add: normalize_sample_email sample_user_def sample_env_def)
qed

theorem authentication_is_sound_witness:
  "\<exists>u w'. authenticate sample_env ''a@example.com'' ''hash'' (sample_world sample_db) = (Inr u, w') \<and>
     committed w' = sample_db"
proof -
  have "authenticate sample_env ''a@example.com'' ''hash'' (sample_world sample_db) =
      (Inr (sample_user 1 ''a@example.com''), sample_world sample_db)"
    by (rule sample_authenticates) simp
  from authentication_is_sound [OF this] valid_sample_db this show ?thesis by auto
qed

section \<open>Refresh sessions\<close>

lemma sample_refresh:
  "\<exists>t w'. refresh_login_session sample_env default_settings sample_token
     (sample_world (session_db (hash_secret sample_token))) = (Inr t, w')"
proof -
  let ?h = "hash_secret sample_token"
  let ?w = "sample_world (session_db ?h)"
  let ?r = "sample_session ?h"
  obtain c where c: "refresh_verdict sample_env default_settings 100 sample_token = Some c"
    "cl_sid c = Some sample_sid" "py_int (cl_sub c) = Some 1" using sample_token_verdict by blast
  have "ticks ?w = []" by (simp add: sample_world_def)
  moreover have "session_is_active ?r 100" by (simp add: session_is_active_def)
  moreover have "100 < rotated_expiry default_settings ?r 100"
    by (simp add: rotated_expiry_def refresh_life_def whole_seconds_def default_settings_def)
  moreover have "u_is_active (sample_user 1 e)" "is_email_verified (sample_user 1 e)" "u_id (sample_user 1 e) = 1" for e
    by (simp_all add: sample_user_def is_email_verified_def)
  ultimately show ?thesis
    using refresh_runs [of ?w 100 sample_env default_settings sample_token c ?r "sample_user 1 ''a@example.com''"]
      c valid_session_db [of ?h] default_settings_ok default_identity_ok sample_env_text sample_env_accepts
    by (auto simp: sane_time_def)
qed

text \<open>
  C20. A refresh that returns tokens, under any faults, presented the current token of a live
  session, or its predecessor within the grace period, of an active and verified owner; it
  has committed exactly the rotation: the new token's hash is current, the one it replaces is
  kept as the previous, and the absolute deadline of the session has not moved.
\<close>

theorem refresh_rotates_session:
  assumes "refresh_login_session env s tok w = (Inr t, w')" and "valid_db (work w)"
  shows "\<exists>r \<in> set (refresh_sessions (work w)). \<exists>r' now. session_is_active r now \<and> clock w \<le> now \<and>
     (hash_secret tok = s_token_hash r \<or> within_grace s r (hash_secret tok) now) \<and>
     (\<exists>u \<in> set (users (work w)). u_id u = s_user_id r \<and> u_is_active u \<and> is_email_verified u) \<and>
     committed w' = put_session r' (work w) \<and> s_id r' = s_id r \<and> s_user_id r' = s_user_id r \<and>
     s_token_hash r' = hash_secret (refresh_token t) \<and> s_previous_token_hash r' = Some (s_token_hash r) \<and>
     s_absolute_expires_at r' = s_absolute_expires_at r \<and>
     s_expires_at r' \<le> s_absolute_expires_at r \<and> s_revoked_at r' = None \<and> s_rotated_at r' = Some now"
proof -
  from refresh_success [OF assms] obtain r u now written expires where
    r: "r \<in> set (refresh_sessions (work w))" "session_is_active r now" "clock w \<le> now"
      "hash_secret tok = s_token_hash r \<or> within_grace s r (hash_secret tok) now" and
    u: "u \<in> set (users (work w))" "u_id u = s_user_id r" "u_is_active u" "is_email_verified u" and
    c: "committed w' = put_session (rotated_session r (hash_secret (refresh_token t)) expires now written) (work w)"
    by metis
  let ?r = "rotated_session r (hash_secret (refresh_token t)) expires now written"
  have "s_id ?r = s_id r \<and> s_user_id ?r = s_user_id r \<and>
     s_token_hash ?r = hash_secret (refresh_token t) \<and> s_previous_token_hash ?r = Some (s_token_hash r) \<and>
     s_absolute_expires_at ?r = s_absolute_expires_at r \<and>
     s_expires_at ?r \<le> s_absolute_expires_at r \<and> s_revoked_at ?r = None \<and> s_rotated_at ?r = Some now"
    using r(2) by (simp add: rotated_session_def session_is_active_def)
  with r u c show ?thesis by blast
qed

theorem refresh_rotates_session_witness:
  "\<exists>t w' r'. refresh_login_session sample_env default_settings sample_token
       (sample_world (session_db (hash_secret sample_token))) = (Inr t, w') \<and>
     committed w' = put_session r' (session_db (hash_secret sample_token)) \<and>
     s_token_hash r' = hash_secret (refresh_token t)"
proof -
  obtain t w' where run: "refresh_login_session sample_env default_settings sample_token
     (sample_world (session_db (hash_secret sample_token))) = (Inr t, w')" using sample_refresh by blast
  from refresh_rotates_session [OF run] valid_session_db [of "hash_secret sample_token"] run
  show ?thesis by auto
qed



lemma revoked_never_refreshes:
  assumes "valid_db (work w)" and "\<And>c. refresh_verdict env s (clock (tick w)) tok = Some c \<Longrightarrow> cl_sid c = Some sid"
    and "\<forall>r \<in> set (refresh_sessions (work w)). s_id r = sid \<longrightarrow> s_revoked_at r \<noteq> None"
  shows "\<not> succeeds (refresh_login_session env s tok) w"
proof
  assume "succeeds (refresh_login_session env s tok) w"
  then obtain t w' where run: "refresh_login_session env s tok w = (Inr t, w')" by (auto simp: succeeds_def)
  from refresh_success [OF run assms(1)] obtain c r now where
    "refresh_verdict env s (clock (tick w)) tok = Some c" "cl_sid c = Some (s_id r)"
    "r \<in> set (refresh_sessions (work w))" "session_is_active r now" by metis
  with assms(2,3) show False by (auto simp: session_is_active_def)
qed

text \<open>
  C22. Reuse is detected and ends the session: a signed token of a live session that is
  neither the current one nor the previous one within its grace period is refused as reuse,
  and the committed session is revoked. From then on no token of that session refreshes.
\<close>

theorem refresh_reuse_ends_session:
  assumes "faults w = []" "valid_db (work w)"
    and "refresh_verdict env s (clock (tick w)) tok = Some c" "cl_sid c = Some (s_id r)"
    and "py_int (cl_sub c) = Some (s_user_id r)" "r \<in> set (refresh_sessions (work w))"
    and "session_is_active r (clock (tick (tick w)))"
    and "hash_secret tok \<noteq> s_token_hash r"
    and "\<not> within_grace s r (hash_secret tok) (clock (tick (tick w)))"
    and "is_ascii (s_token_hash r)" "case s_previous_token_hash r of None \<Rightarrow> True | Some h \<Rightarrow> is_ascii h"
  shows "\<exists>w'. refresh_login_session env s tok w =
       (Inl (AppErr (Auth_Error RefreshTokenReuseDetectedError)), w') \<and>
     (\<exists>r' \<in> set (refresh_sessions (committed w')). s_id r' = s_id r \<and> s_revoked_at r' \<noteq> None) \<and>
     (\<forall>w2 tok2 c2. work w2 = committed w' \<and>
        refresh_verdict env s (clock (tick w2)) tok2 = Some c2 \<and> cl_sid c2 = Some (s_id r) \<longrightarrow>
        \<not> succeeds (refresh_login_session env s tok2) w2)"
proof -
  let ?now = "clock (tick (tick w))"
  let ?r = "revoked_session (db_now w) r ?now"
  have "is_ascii h" if "s_previous_token_hash r = Some h" for h using assms(11) that by simp
  from refresh_reuse_runs [OF assms(1-10) this] obtain w' where
    run: "refresh_login_session env s tok w = (Inl (auth_error RefreshTokenReuseDetectedError), w')"
    and c: "committed w' = put_session ?r (work w)" by blast
  have valid: "valid_db (committed w')" unfolding c by (rule valid_put_revoked [OF assms(2,6)])
  have in_r: "?r \<in> set (refresh_sessions (committed w'))"
    unfolding c using set_put_session [OF assms(2,6), of ?r] by simp
  have "\<forall>x \<in> set (refresh_sessions (committed w')). s_id x = s_id r \<longrightarrow> s_revoked_at x \<noteq> None"
    using key_unique [OF valid_keys(3) [OF valid] _ in_r] revoked_session_revoked
      [of "db_now w" r ?now] by auto
  then have "\<not> succeeds (refresh_login_session env s tok2) w2"
    if "work w2 = committed w'" "refresh_verdict env s (clock (tick w2)) tok2 = Some c2"
      "cl_sid c2 = Some (s_id r)" for w2 tok2 c2
    using that valid by (intro revoked_never_refreshes [where sid = "s_id r"]) auto
  moreover have "\<exists>r' \<in> set (refresh_sessions (committed w')). s_id r' = s_id r \<and> s_revoked_at r' \<noteq> None"
    by (rule bexI [OF _ in_r]) (use revoked_session_revoked [of "db_now w" r ?now] in auto)
  ultimately show ?thesis using run by (intro exI [of _ w']) (auto simp: auth_error_def)
qed

theorem refresh_reuse_ends_session_witness:
  "\<exists>w'. refresh_login_session sample_env default_settings sample_token (sample_world (session_db ''other'')) =
       (Inl (AppErr (Auth_Error RefreshTokenReuseDetectedError)), w') \<and>
     (\<exists>r' \<in> set (refresh_sessions (committed w')). s_revoked_at r' \<noteq> None)"
proof -
  let ?w = "sample_world (session_db ''other'')" and ?r = "sample_session ''other''"
  obtain c where c: "refresh_verdict sample_env default_settings 100 sample_token = Some c"
    "cl_sid c = Some sample_sid" "py_int (cl_sub c) = Some 1" using sample_token_verdict by blast
  have "length (hash_secret sample_token) \<noteq> length ''other''" by simp
  then have other: "hash_secret sample_token \<noteq> ''other''" by metis
  have t: "tick ?w = ?w" "clock ?w = 100" "faults ?w = []" "work ?w = session_db ''other''"
    by (simp_all add: tick_def sample_world_def)
  have r: "session_is_active ?r 100" "\<not> within_grace default_settings ?r (hash_secret sample_token) 100"
    "is_ascii ''other''" "?r \<in> set (refresh_sessions (session_db ''other''))"
    by (simp_all add: session_is_active_def within_grace_def is_ascii_def)
  have v: "valid_db (session_db ''other'')" by (rule valid_session_db) simp
  show ?thesis
    using refresh_reuse_ends_session [of ?w sample_env default_settings sample_token c ?r, unfolded t]
      c v r other by fastforce
qed

text \<open>
  C23. Logging out ends the session: without faults, presenting a valid refresh token to logout
  succeeds, whether or not the session was revoked before, the committed session is revoked,
  and no refresh of that session succeeds afterwards; doing it again changes nothing.
\<close>

theorem logout_ends_session:
  assumes "faults w = []" "valid_db (work w)" "work w = committed w"
    and "refresh_verdict env s (clock (tick w)) tok = Some c" "cl_sid c = Some (s_id r)"
    and "py_int (cl_sub c) = Some (s_user_id r)" "r \<in> set (refresh_sessions (work w))"
  shows "\<exists>w'. revoke_refresh_session env s tok w = (Inr (), w') \<and>
     (s_revoked_at r \<noteq> None \<longrightarrow> committed w' = committed w) \<and>
     (\<forall>r' \<in> set (refresh_sessions (committed w')). s_id r' = s_id r \<longrightarrow> s_revoked_at r' \<noteq> None) \<and>
     (\<forall>w2 tok2 c2. work w2 = committed w' \<and>
        refresh_verdict env s (clock (tick w2)) tok2 = Some c2 \<and> cl_sid c2 = Some (s_id r) \<longrightarrow>
        \<not> succeeds (refresh_login_session env s tok2) w2)"
proof -
  let ?r = "revoked_session (db_now w) r (clock (tick (tick w)))"
  from logout_success_runs [OF assms(1,2,4-7)] obtain w' where
    run: "revoke_refresh_session env s tok w = (Inr (), w')" and
    fresh: "s_revoked_at r = None \<longrightarrow> committed w' = put_session ?r (work w)" and
    old: "s_revoked_at r \<noteq> None \<longrightarrow> committed w' = committed w"
    by (elim exE conjE) (rule that)
  have revoked: "valid_db (committed w') \<and> (\<exists>x \<in> set (refresh_sessions (committed w')). s_id x = s_id r \<and> s_revoked_at x \<noteq> None)"
  proof (cases "s_revoked_at r = None")
    case True
    have "?r \<in> set (refresh_sessions (committed w'))"
      using set_put_session [OF assms(2,7), of ?r] fresh True by simp
    moreover have "valid_db (committed w')"
      using valid_put_revoked [OF assms(2,7)] fresh True by simp
    ultimately show ?thesis
      using revoked_session_revoked [of "db_now w" r "clock (tick (tick w))"] by (intro conjI bexI [of _ ?r]) auto
  next
    case False
    with old assms(2,3,7) show ?thesis by auto
  qed
  then obtain x where x: "x \<in> set (refresh_sessions (committed w'))" "s_id x = s_id r" "s_revoked_at x \<noteq> None"
    by blast
  have all: "\<forall>r' \<in> set (refresh_sessions (committed w')). s_id r' = s_id r \<longrightarrow> s_revoked_at r' \<noteq> None"
    using key_unique [OF valid_keys(3) _ x(1)] revoked x(2,3) by auto
  then have "\<not> succeeds (refresh_login_session env s tok2) w2"
    if "work w2 = committed w'" "refresh_verdict env s (clock (tick w2)) tok2 = Some c2"
      "cl_sid c2 = Some (s_id r)" for w2 tok2 c2
    using that revoked by (intro revoked_never_refreshes [where sid = "s_id r"]) auto
  with run old all show ?thesis by blast
qed

theorem logout_ends_session_witness:
  "\<exists>w'. revoke_refresh_session sample_env default_settings sample_token (sample_world (session_db ''other'')) =
       (Inr (), w') \<and>
     (\<forall>r' \<in> set (refresh_sessions (committed w')). s_id r' = sample_sid \<longrightarrow> s_revoked_at r' \<noteq> None)"
proof -
  let ?w = "sample_world (session_db ''other'')" and ?r = "sample_session ''other''"
  obtain c where c: "refresh_verdict sample_env default_settings 100 sample_token = Some c"
    "cl_sid c = Some sample_sid" "py_int (cl_sub c) = Some 1" using sample_token_verdict by blast
  have r: "s_id ?r = sample_sid" "s_user_id ?r = 1" by simp_all
  from logout_ends_session [of ?w sample_env default_settings sample_token c ?r]
    c valid_session_db [of "''other''"] r
  show ?thesis by auto
qed

end
