(* ===== verification/OAuth.thy ===== *)
theory OAuth
  imports Auth
begin

text \<open>
  The authorization code flow with PKCE: \<^verbatim>\<open>schemas/oauth.py\<close>, \<^verbatim>\<open>repositories/oauth.py\<close> and
  \<^verbatim>\<open>services/oauth.py\<close>, with the two functions of \<^verbatim>\<open>api/v1/routes/oauth.py\<close> that turn raw
  parameters into requests. A code is stored as its hash, bound to a client, a redirect URI
  and a challenge, and it is consumed by one statement.
\<close>

definition oauth_exn :: "oauth_error \<Rightarrow> exn" where
  "oauth_exn e = AppErr (OAuth_Error e)"

section \<open>Requests\<close>

text \<open>A parameter of a query or a form is absent or a text.\<close>

record authorization_params =
  ap_response_type :: "string option"
  ap_client_id :: "string option"
  ap_redirect_uri :: "string option"
  ap_state :: "string option"
  ap_code_challenge :: "string option"
  ap_code_challenge_method :: "string option"
  ap_scope :: "string option"

record authorization_request =
  ar_client_id :: string
  ar_redirect_uri :: string
  ar_state :: "string option"
  ar_code_challenge :: string
  ar_scope :: string

record token_params =
  tp_grant_type :: "string option"
  tp_code :: "string option"
  tp_client_id :: "string option"
  tp_redirect_uri :: "string option"
  tp_code_verifier :: "string option"

record token_request =
  tr_client_id :: string
  tr_redirect_uri :: string
  tr_code :: string
  tr_code_verifier :: string

text \<open>A required text with bounds on its length, and the two patterns.\<close>

definition bounded :: "nat \<Rightarrow> nat \<Rightarrow> string option \<Rightarrow> bool" where
  "bounded lo hi v = (case v of None \<Rightarrow> False | Some s \<Rightarrow> length_between lo hi s)"

definition is_word_char :: "char \<Rightarrow> bool" where
  "is_word_char c \<longleftrightarrow> is_ascii_letter c \<or> digit_of c \<noteq> None"

definition challenge_char :: "char \<Rightarrow> bool" where
  "challenge_char c \<longleftrightarrow> is_word_char c \<or> c = CHR ''_'' \<or> c = CHR ''-''"

definition verifier_char :: "char \<Rightarrow> bool" where
  "verifier_char c \<longleftrightarrow> is_word_char c \<or> c \<in> set ''-._~''"

definition valid_redirect_uri :: "string option \<Rightarrow> bool" where
  "valid_redirect_uri v = (case v of
      None \<Rightarrow> False
    | Some uri \<Rightarrow> length_between 1 2048 uri \<and>
        (case urlsplit uri of
           None \<Rightarrow> False
         | Some parsed \<Rightarrow> url_scheme parsed \<noteq> [] \<and> CHR ''#'' \<notin> set uri))"

definition valid_challenge :: "string option \<Rightarrow> bool" where
  "valid_challenge v = (case v of None \<Rightarrow> False
    | Some s \<Rightarrow> length s = 43 \<and> list_all challenge_char s)"

definition valid_verifier :: "string option \<Rightarrow> bool" where
  "valid_verifier v = (case v of None \<Rightarrow> False
    | Some s \<Rightarrow> length_between 43 128 s \<and> list_all verifier_char s)"

definition valid_state :: "string option \<Rightarrow> bool" where
  "valid_state v = (case v of None \<Rightarrow> True | Some s \<Rightarrow> length_between 1 512 s)"

definition OAuthAuthorizationRequestSchema ::
  "authorization_params \<Rightarrow> string list + authorization_request" where
  "OAuthAuthorizationRequestSchema p =
     (let bad = rejected
        [(''redirect_uri'', valid_redirect_uri (ap_redirect_uri p)),
         (''response_type'', ap_response_type p = Some ''code''),
         (''client_id'', bounded 1 128 (ap_client_id p)),
         (''state'', valid_state (ap_state p)),
         (''code_challenge'', valid_challenge (ap_code_challenge p)),
         (''code_challenge_method'', ap_code_challenge_method p = Some ''S256''),
         (''scope'', bounded 0 2048 (ap_scope p))]
      in if bad \<noteq> [] then Inl bad
         else Inr \<lparr>ar_client_id = the (ap_client_id p), ar_redirect_uri = the (ap_redirect_uri p),
                   ar_state = ap_state p, ar_code_challenge = the (ap_code_challenge p),
                   ar_scope = the (ap_scope p)\<rparr>)"

definition OAuthTokenRequestSchema :: "token_params \<Rightarrow> string list + token_request" where
  "OAuthTokenRequestSchema p =
     (let bad = rejected
        [(''redirect_uri'', valid_redirect_uri (tp_redirect_uri p)),
         (''grant_type'', tp_grant_type p = Some ''authorization_code''),
         (''client_id'', bounded 1 128 (tp_client_id p)),
         (''code'', bounded 1 512 (tp_code p)),
         (''code_verifier'', valid_verifier (tp_code_verifier p))]
      in if bad \<noteq> [] then Inl bad
         else Inr \<lparr>tr_client_id = the (tp_client_id p), tr_redirect_uri = the (tp_redirect_uri p),
                   tr_code = the (tp_code p), tr_code_verifier = the (tp_code_verifier p)\<rparr>)"

text \<open>\<^verbatim>\<open>_authorization_request\<close> and \<^verbatim>\<open>_token_request\<close> of the routes: which error a field causes.\<close>

definition authorization_request_of ::
  "authorization_params \<Rightarrow> oauth_error + authorization_request" where
  "authorization_request_of p =
     (if ap_response_type p \<notin> {None, Some ''code''} then Inl UnsupportedResponseTypeError
      else if ap_code_challenge_method p \<notin> {None, Some ''S256''}
      then Inl UnsupportedCodeChallengeMethodError
      else (case OAuthAuthorizationRequestSchema
                   (p\<lparr>ap_scope := Some (case ap_scope p of None \<Rightarrow> [] | Some s \<Rightarrow> s)\<rparr>) of
          Inr request \<Rightarrow> Inr request
        | Inl bad \<Rightarrow> Inl (
            if ''code_challenge_method'' \<in> set bad then UnsupportedCodeChallengeMethodError
            else if ''code_challenge'' \<in> set bad then InvalidCodeChallengeError
            else if ''client_id'' \<in> set bad then InvalidOAuthClientError
            else InvalidAuthorizationRequestError)))"

definition token_request_of :: "token_params \<Rightarrow> oauth_error + token_request" where
  "token_request_of p =
     (if tp_grant_type p \<notin> {None, Some ''authorization_code''} then Inl UnsupportedGrantTypeError
      else (case OAuthTokenRequestSchema p of
          Inr request \<Rightarrow> Inr request
        | Inl bad \<Rightarrow> Inl (
            if ''client_id'' \<in> set bad then InvalidOAuthClientError
            else if ''code_verifier'' \<in> set bad then InvalidAuthorizationGrantError
            else InvalidAuthorizationRequestError)))"

section \<open>Repository\<close>

definition create_authorization_code ::
  "string \<Rightarrow> int \<Rightarrow> string \<Rightarrow> string \<Rightarrow> string \<Rightarrow> time \<Rightarrow> auth_code act" where
  "create_authorization_code code_hash user_id client_id redirect_uri code_challenge expires_at =
     bnd (read db_now) (\<lambda>now.
     (let record = \<lparr>c_code_hash = code_hash, c_user_id = user_id, c_client_id = client_id,
            c_redirect_uri = redirect_uri, c_code_challenge = code_challenge,
            c_expires_at = expires_at, c_consumed_at = None, c_created_at = now, c_updated_at = now\<rparr>
      in bnd (edit (\<lambda>d. d\<lparr>auth_codes := auth_codes d @ [record]\<rparr>)) (\<lambda>_.
         bnd flush (\<lambda>_. ret record))))"

definition prune_expired_authorization_codes :: "time \<Rightarrow> int act" where
  "prune_expired_authorization_codes expired_at =
     (let due = (\<lambda>c. c_expires_at c \<le> expired_at) in
      bnd statement (\<lambda>_.
      bnd (read (\<lambda>w. rowcount due (auth_codes (work w)))) (\<lambda>n.
      bnd (edit (\<lambda>d. d\<lparr>auth_codes := delete_where due (auth_codes d)\<rparr>)) (\<lambda>_. ret n))))"

definition code_grants :: "string \<Rightarrow> string \<Rightarrow> string \<Rightarrow> string \<Rightarrow> time \<Rightarrow> auth_code \<Rightarrow> bool" where
  "code_grants code_hash client_id redirect_uri code_challenge consumed_at c \<longleftrightarrow>
     c_code_hash c = code_hash \<and> c_client_id c = client_id \<and> c_redirect_uri c = redirect_uri \<and>
     c_code_challenge c = code_challenge \<and> consumed_at < c_expires_at c \<and> c_consumed_at c = None"

definition consumed_code :: "time \<Rightarrow> time \<Rightarrow> auth_code \<Rightarrow> auth_code" where
  "consumed_code consumed_at updated_at c =
     c\<lparr>c_consumed_at := Some consumed_at, c_updated_at := updated_at\<rparr>"

text \<open>One \<^verbatim>\<open>UPDATE ... RETURNING\<close>: the check of the row and the mark are a single statement.\<close>

definition consume_authorization_code ::
  "string \<Rightarrow> string \<Rightarrow> string \<Rightarrow> string \<Rightarrow> time \<Rightarrow> int option act" where
  "consume_authorization_code code_hash client_id redirect_uri code_challenge consumed_at =
     (let granted = code_grants code_hash client_id redirect_uri code_challenge consumed_at in
      bnd statement (\<lambda>_.
      bnd (read (\<lambda>w. (db_now w, find granted (auth_codes (work w))))) (\<lambda>(now, found).
      bnd (edit (\<lambda>d. d\<lparr>auth_codes :=
             update_where granted (consumed_code consumed_at now) (auth_codes d)\<rparr>)) (\<lambda>_.
      bnd check_rows (\<lambda>_.
      ret (map_option c_user_id found))))))"

section \<open>Service\<close>

definition create_s256_code_challenge :: "string \<Rightarrow> string act" where
  "create_s256_code_challenge code_verifier =
     bnd (of_option ValueErr (ascii_encode code_verifier)) (\<lambda>bs. ret (b64url_nopad (sha256 bs)))"

definition validate_authorization_request :: "settings \<Rightarrow> authorization_request \<Rightarrow> unit act" where
  "validate_authorization_request s request =
     (if ar_client_id request \<noteq> oauth2_public_client_id s then raise (oauth_exn InvalidOAuthClientError)
      else if ar_redirect_uri request \<notin> set (oauth2_redirect_uris s)
      then raise (oauth_exn InvalidRedirectURIError)
      else if strip (ar_scope request) \<noteq> [] then raise (oauth_exn InvalidScopeError)
      else ret ())"

definition is_auth_error :: "auth_error \<Rightarrow> exn \<Rightarrow> bool" where
  "is_auth_error cls e = (case e of AppErr c \<Rightarrow> isinstance c (Auth_Error cls) | _ \<Rightarrow> False)"

definition issue_authorization_code ::
  "env \<Rightarrow> settings \<Rightarrow> string \<Rightarrow> string \<Rightarrow> authorization_request \<Rightarrow> string act" where
  "issue_authorization_code env s email password request =
     bnd (validate_authorization_request s request) (\<lambda>_.
     bnd (catch (authenticate env email password)
            (\<lambda>e. if is_auth_error LoginSessionUnavailableError e
                 then Some (raise (oauth_exn AuthorizationCodeIssuanceUnavailableError)) else None))
       (\<lambda>user.
     bnd draw (\<lambda>bs.
     (let raw_code = token_urlsafe bs in
     bnd now_utc (\<lambda>now.
     (let expires_at = now + seconds (oauth2_authorization_code_ttl_seconds s) in
     bnd (except_sql (OAuth_Error AuthorizationCodeIssuanceUnavailableError)
       (bnd (prune_expired_authorization_codes now) (\<lambda>_.
        bnd (create_authorization_code (hash_secret raw_code) (u_id user) (ar_client_id request)
               (ar_redirect_uri request) (ar_code_challenge request) expires_at) (\<lambda>_.
        commit)))) (\<lambda>_.
     ret raw_code)))))))"

definition exchange_authorization_code ::
  "env \<Rightarrow> settings \<Rightarrow> token_request \<Rightarrow> token_response act" where
  "exchange_authorization_code env s request =
     (if tr_client_id request \<noteq> oauth2_public_client_id s
      then raise (oauth_exn InvalidOAuthClientError)
      else
      bnd now_utc (\<lambda>now.
      bnd (create_s256_code_challenge (tr_code_verifier request)) (\<lambda>presented_challenge.
      except_sql (OAuth_Error AuthorizationCodeExchangeUnavailableError)
        (bnd (consume_authorization_code (hash_secret (tr_code request)) (tr_client_id request)
                (tr_redirect_uri request) presented_challenge now) (\<lambda>granted.
         case granted of
           None \<Rightarrow> raise (oauth_exn InvalidAuthorizationGrantError)
         | Some user_id \<Rightarrow>
             bnd (get_user_by_id user_id) (\<lambda>found.
             case found of
               None \<Rightarrow> raise (oauth_exn InvalidAuthorizationGrantError)
             | Some user \<Rightarrow>
                 if \<not> u_is_active user then raise (oauth_exn InvalidAuthorizationGrantError)
                 else
                   bnd (stage_login_session env s user (Some now)) (\<lambda>tokens.
                   bnd commit (\<lambda>_. ret tokens))))))))"

end
