(* ===== verification/Login_Facts.thy ===== *)
theory Login_Facts
  imports Auth_Facts
begin

text \<open>Lemmas on the session that a login stages, whatever the login is.\<close>

section \<open>Staging a login session\<close>

definition staged_session ::
  "user \<Rightarrow> token_response \<Rightarrow> string \<Rightarrow> time \<Rightarrow> time \<Rightarrow> time \<Rightarrow> time \<Rightarrow> refresh_session" where
  "staged_session u t sid exp absolute now created =
     \<lparr>s_id = sid, s_user_id = u_id u, s_token_hash = hash_secret (refresh_token t),
      s_previous_token_hash = None, s_expires_at = exp, s_absolute_expires_at = absolute,
      s_revoked_at = None, s_last_used_at = Some now, s_rotated_at = None,
      s_created_at = created, s_updated_at = created\<rparr>"

lemma staged_session_simps [simp]:
  "s_user_id (staged_session u t sid e a n c) = u_id u" "s_id (staged_session u t sid e a n c) = sid"
  "s_token_hash (staged_session u t sid e a n c) = hash_secret (refresh_token t)"
  "s_revoked_at (staged_session u t sid e a n c) = None"
  "s_absolute_expires_at (staged_session u t sid e a n c) = a"
  "s_expires_at (staged_session u t sid e a n c) = e" "s_created_at (staged_session u t sid e a n c) = c"
  by (simp_all add: staged_session_def)

definition add_session :: "refresh_session \<Rightarrow> db \<Rightarrow> db" where
  "add_session r d = d\<lparr>refresh_sessions := refresh_sessions d @ [r]\<rparr>"

lemma add_session_simps [simp]:
  "users (add_session r d) = users d" "auth_codes (add_session r d) = auth_codes d"
  "api_keys (add_session r d) = api_keys d" "todos (add_session r d) = todos d"
  "refresh_sessions (add_session r d) = refresh_sessions d @ [r]"
  by (simp_all add: add_session_def)

lemma stage_login_success:
  assumes "stage_login_session env s u issued w = (Inr t, w')"
  obtains now sid exp c where
    "now = (case issued of Some i \<Rightarrow> i | None \<Rightarrow> clock (tick w))" "clock w \<le> clock w'"
    "create_token_pair env s (py_str (u_id u)) sid now (Some (now + refresh_session_absolute_ttl s)) 
       ((case issued of Some i \<Rightarrow> w | None \<Rightarrow> tick w)\<lparr>entropy := tl (entropy w)\<rparr>) = (Inr t, c)"
    "work w' = add_session (staged_session u t sid exp (now + refresh_session_absolute_ttl s) now (db_now w))
       (work w)"
    "committed w' = committed w" "faults w' = faults w" "db_now w' = db_now w"
proof -
  let ?w0 = "case issued of Some i \<Rightarrow> w | None \<Rightarrow> tick w"
  from assms obtain now sid w1 w2 c w3 where
    now: "(case issued of Some i \<Rightarrow> ret i | None \<Rightarrow> now_utc) w = (Inr now, ?w0)" and
    sid: "generate_token_id ?w0 = (Inr sid, w1)" and
    pair: "create_token_pair env s (py_str (u_id u)) sid now (Some (now + refresh_session_absolute_ttl s)) w1
      = (Inr t, w2)" and
    dec: "decode_refresh_token env s (refresh_token t) w2 = (Inr c, w3)" and
    w': "w' = w3\<lparr>work := add_session (staged_session u t sid (cl_exp c)
        (now + refresh_session_absolute_ttl s) now (db_now w3)) (work w3)\<rparr>"
    unfolding stage_login_session_def Let_def add_session_def staged_session_def
    by (cases issued) (auto simp: run_ok)
  have w1: "w1 = ?w0\<lparr>entropy := tl (entropy w)\<rparr>"
    using sid by (cases issued) (auto simp: generate_token_id_ok)
  have w3: "w3 = tick w2" using dec by (simp add: decode_refresh_eq split: option.splits)
  note w2 = token_pair_success(6) [OF pair]
  have n: "now = (case issued of Some i \<Rightarrow> i | None \<Rightarrow> clock (tick w))"
    using now by (cases issued) (auto simp: run_ok)
  have "clock w \<le> clock w2" unfolding w2 w1 using clock_tick [of w] by (cases issued) simp_all
  with clock_tick [of w2] have "clock w \<le> clock w'" unfolding w' w3 by simp
  moreover have "work w' = add_session (staged_session u t sid (cl_exp c)
      (now + refresh_session_absolute_ttl s) now (db_now w)) (work w)"
    "committed w' = committed w" "faults w' = faults w" "db_now w' = db_now w"
    unfolding w' w3 w2 w1 by (cases issued; simp)+
  ultimately show thesis using that n pair w1 by blast
qed

lemma no_commit_stage [keeps]: "no_commit (stage_login_session env s u i)"
  unfolding stage_login_session_def Let_def by (intro keeps)

section \<open>Staging succeeds\<close>

text \<open>The token that a staged session starts with, and the session, when the clock stands still.\<close>

definition staged_sid :: "world \<Rightarrow> string" where
  "staged_sid w = token_hex (drawn w)"

definition staged_token :: "env \<Rightarrow> settings \<Rightarrow> user \<Rightarrow> time \<Rightarrow> world \<Rightarrow> string" where
  "staged_token env s u now w = encode_payload env s
     (refresh_claims s (py_str (u_id u)) (staged_sid w)
        (now + refresh_life s (refresh_session_absolute_ttl s)) now
        (token_hex (drawn (w\<lparr>entropy := tl (tl (entropy w))\<rparr>))))"

definition staged_expiry :: "settings \<Rightarrow> time \<Rightarrow> time" where
  "staged_expiry s now = seconds (whole_seconds (now + refresh_life s (refresh_session_absolute_ttl s)))"

definition fresh_session :: "env \<Rightarrow> settings \<Rightarrow> user \<Rightarrow> time \<Rightarrow> world \<Rightarrow> refresh_session" where
  "fresh_session env s u now w = \<lparr>s_id = staged_sid w, s_user_id = u_id u,
     s_token_hash = hash_secret (staged_token env s u now w), s_previous_token_hash = None,
     s_expires_at = staged_expiry s now,
     s_absolute_expires_at = now + refresh_session_absolute_ttl s, s_revoked_at = None,
     s_last_used_at = Some now, s_rotated_at = None, s_created_at = db_now w, s_updated_at = db_now w\<rparr>"

lemma stage_login_runs:
  assumes "settings_ok s" "identity_ok s" "jwt_text env" "jwt_accepts_own env"
    and "1000000 \<le> refresh_session_absolute_ttl s" "ticks w = []" "clock w = now"
    and "sane_time now" "sane_time (now + refresh_session_absolute_ttl s)" "now < staged_expiry s now"
  shows "\<exists>t. stage_login_session env s u (Some now) w = (Inr t,
      w\<lparr>entropy := tl (tl (tl (entropy w))), work := add_session (fresh_session env s u now w) (work w)\<rparr>) \<and>
    refresh_token t = staged_token env s u now w"
proof -
  let ?sub = "py_str (u_id u)" and ?d = "now + refresh_session_absolute_ttl s"
  let ?w1 = "w\<lparr>entropy := tl (entropy w)\<rparr>"
  have sub: "strip ?sub \<noteq> []" and sid: "32 \<le> length (strip (staged_sid w))"
    by (simp_all add: staged_sid_def)
  have "now + 1000000 \<le> ?d" using assms(5) by simp
  from token_pair_runs [OF assms(1-3) sub sid this, of ?w1] obtain t where
    pair: "create_token_pair env s ?sub (staged_sid w) now (Some ?d) ?w1 =
      (Inr t, w\<lparr>entropy := tl (tl (tl (entropy w)))\<rparr>)" by auto
  let ?w2 = "w\<lparr>entropy := tl (tl (tl (entropy w)))\<rparr>"
  have t: "refresh_token t = staged_token env s u now w"
    using token_pair_success(2) [OF pair] by (simp add: staged_token_def)
  have "sane_time (now + refresh_life s (refresh_session_absolute_ttl s))"
    using assms(1,5,8,9) by (auto simp: sane_time_def refresh_life_def settings_ok_def)
  moreover have tick: "tick ?w2 = ?w2" using assms(6) by (simp add: tick_def)
  ultimately have "decode_refresh_token env s (staged_token env s u now w) ?w2 =
      (Inr (on_wire (refresh_claims s ?sub (staged_sid w) (now + refresh_life s (refresh_session_absolute_ttl s))
         now (token_hex (drawn (w\<lparr>entropy := tl (tl (entropy w))\<rparr>))))), tick ?w2)"
    unfolding staged_token_def
    using assms(2,4,7,8,10) sub sid whole_seconds_le [of now]
    by (intro decode_own_refresh) (simp_all add: staged_expiry_def)
  then obtain c where dec: "decode_refresh_token env s (refresh_token t) ?w2 = (Inr c, ?w2)"
    and c: "cl_exp c = staged_expiry s now"
    by (simp add: t tick on_wire_def refresh_claims_def staged_expiry_def)
  have gen: "generate_token_id w = (Inr (staged_sid w), ?w1)"
    by (simp add: generate_token_id_def bnd_run draw_eq ret_def staged_sid_def)
  show ?thesis
    by (rule exI [of _ t])
      (simp add: stage_login_session_def Let_def bnd_run ret_def gen pair dec [unfolded t] c t read_def edit_def
        fresh_session_def add_session_def)
qed

lemma staged_expiry_le: "staged_expiry s now \<le> now + refresh_session_absolute_ttl s"
proof -
  have "staged_expiry s now \<le> now + refresh_life s (refresh_session_absolute_ttl s)"
    unfolding staged_expiry_def by (rule whole_seconds_le)
  also have "\<dots> \<le> now + refresh_session_absolute_ttl s" by (simp add: refresh_life_def)
  finally show ?thesis .
qed

lemma valid_add_fresh:
  assumes "valid_db d" "u \<in> set (users d)" "db_now w < staged_expiry s now"
    and "staged_sid w \<notin> s_id ` set (refresh_sessions d)"
    and "hash_secret (staged_token env s u now w) \<notin> s_token_hash ` set (refresh_sessions d)"
  shows "valid_db (add_session (fresh_session env s u now w) d)"
  unfolding add_session_def
proof (rule valid_put_sessions [OF assms(1)])
  let ?r = "fresh_session env s u now w"
  note le = staged_expiry_le [of s now]
  have fit: "session_fits ?r"
    by (simp add: session_fits_def fresh_session_def staged_sid_def)
  have "session_check_expiration ?r" "session_check_absolute ?r" "session_check_idle ?r"
    using assms(3) le
    by (simp_all add: fresh_session_def session_check_expiration_def session_check_absolute_def
        session_check_idle_def)
  then show "sessions_violation (map u_id (users d)) (refresh_sessions d @ [?r]) = None"
    using assms(2,4,5) valid_session [OF assms(1)] valid_keys(3,4) [OF assms(1)]
    by (auto simp: sessions_violation_None_iff) (auto simp: fresh_session_def)
  show "list_all session_fits (refresh_sessions d @ [?r])"
    using fit valid_session [OF assms(1)] by (auto simp: list_all_iff)
qed

end
