(* ===== verification/OAuth_Facts.thy ===== *)
theory OAuth_Facts
  imports OAuth Login_Facts
begin

text \<open>Lemmas on authorization codes: issuing, consuming and exchanging them.\<close>

section \<open>Consuming a code\<close>

definition put_code :: "auth_code \<Rightarrow> db \<Rightarrow> db" where
  "put_code c d = d\<lparr>auth_codes := update_where (\<lambda>r. c_code_hash r = c_code_hash c) (\<lambda>_. c) (auth_codes d)\<rparr>"

lemma put_code_others [simp]:
  "users (put_code c d) = users d" "refresh_sessions (put_code c d) = refresh_sessions d"
  "api_keys (put_code c d) = api_keys d" "todos (put_code c d) = todos d"
  by (simp_all add: put_code_def)

lemma consumed_code_simps [simp]:
  "c_code_hash (consumed_code a b c) = c_code_hash c" "c_consumed_at (consumed_code a b c) = Some a"
  by (simp_all add: consumed_code_def)

lemma set_put_code:
  assumes "valid_db d" and "c \<in> set (auth_codes d)" and "c_code_hash c' = c_code_hash c"
  shows "set (auth_codes (put_code c' d)) = insert c' (set (auth_codes d) - {c})"
  using set_replace [OF valid_keys(5) [OF assms(1)] assms(2), of c'] assms(3)
  by (simp add: put_code_def)

text \<open>The statement marks the one row it found: a granted row has the key it was asked for.\<close>

lemma update_granted:
  assumes "valid_db d" and "c \<in> set (auth_codes d)" and "code_grants h cl uri ch now c"
  shows "update_where (code_grants h cl uri ch now) (consumed_code now m) (auth_codes d) =
    auth_codes (put_code (consumed_code now m c) d)"
proof -
  have "code_grants h cl uri ch now r \<longleftrightarrow> c_code_hash r = c_code_hash c" if "r \<in> set (auth_codes d)" for r
    using key_unique [OF valid_keys(5) [OF assms(1)] that assms(2)] assms(3)
    by (auto simp: code_grants_def)
  moreover have "r = c" if "r \<in> set (auth_codes d)" "c_code_hash r = c_code_hash c" for r
    using key_unique [OF valid_keys(5) [OF assms(1)] that(1) assms(2)] that(2) by blast
  ultimately show ?thesis
    by (auto simp: put_code_def update_where_def)
qed

lemma consume_success:
  assumes "consume_authorization_code h cl uri ch now w = (Inr (Some uid), w')" and "valid_db (work w)"
  obtains c where "c \<in> set (auth_codes (work w))" "code_grants h cl uri ch now c" "c_user_id c = uid"
    "work w' = put_code (consumed_code now (db_now w) c) (work w)" "valid_db (work w')"
    "committed w' = committed w" "db_now w' = db_now w" "clock w' = clock w"
proof -
  let ?g = "code_grants h cl uri ch now"
  from assms(1) obtain w1 where st: "statement w = (Inr (), w1)" and
    f0: "Some uid = map_option c_user_id (find ?g (auth_codes (work w1)))" and
    chk: "check_rows (w1\<lparr>work := (work w1)\<lparr>auth_codes := update_where ?g (consumed_code now (db_now w1))
       (auth_codes (work w1))\<rparr>\<rparr>) = (Inr (), w')"
    unfolding consume_authorization_code_def Let_def by (auto simp: run_ok)
  from f0 [symmetric] obtain c where f: "find ?g (auth_codes (work w1)) = Some c" "c_user_id c = uid" by auto
  have w1: "work w1 = work w" "db_now w1 = db_now w" "committed w1 = committed w" "clock w1 = clock w"
    using statement_ok [OF st] by simp_all
  from f(1) have c: "c \<in> set (auth_codes (work w))" "?g c" by (auto simp: w1 dest: find_SomeD)
  have eq: "(work w)\<lparr>auth_codes := update_where ?g (consumed_code now (db_now w)) (auth_codes (work w))\<rparr> =
      put_code (consumed_code now (db_now w) c) (work w)"
    by (simp add: update_granted [OF assms(2) c] put_code_def)
  from chk have "w' = w1\<lparr>work := put_code (consumed_code now (db_now w) c) (work w)\<rparr>"
    "valid_db (put_code (consumed_code now (db_now w) c) (work w))"
    by (auto simp: check_rows_def w1 eq valid_db_def split: if_splits option.splits)
  with w1 show thesis using that c f(2) by simp
qed

lemma no_commit_codes [keeps]:
  "no_commit (consume_authorization_code h cl uri ch now)" "no_commit (create_s256_code_challenge v)"
  "no_commit (create_authorization_code h i cl uri ch e)" "no_commit (prune_expired_authorization_codes now)"
  "no_commit (validate_authorization_request s request)"
  unfolding consume_authorization_code_def create_s256_code_challenge_def create_authorization_code_def
    prune_expired_authorization_codes_def validate_authorization_request_def Let_def
  by (intro keeps)+

section \<open>Exchanging a code\<close>

lemma exchange_success:
  assumes "exchange_authorization_code env s req w = (Inr t, w')" and "valid_db (work w)"
  obtains c u bs sid exp where
    "tr_client_id req = oauth2_public_client_id s" "ascii_encode (tr_code_verifier req) = Some bs"
    "c \<in> set (auth_codes (work w))"
    "code_grants (hash_secret (tr_code req)) (tr_client_id req) (tr_redirect_uri req)
       (b64url_nopad (sha256 bs)) (clock (tick w)) c"
    "u \<in> set (users (work w))" "u_id u = c_user_id c" "u_is_active u"
    "committed w' = add_session (staged_session u t sid exp
         (clock (tick w) + refresh_session_absolute_ttl s) (clock (tick w)) (db_now w))
       (put_code (consumed_code (clock (tick w)) (db_now w) c) (work w))"
    "valid_db (committed w')"
proof -
  let ?now = "clock (tick w)" and ?h = "hash_secret (tr_code req)"
  from assms(1) have client: "tr_client_id req = oauth2_public_client_id s"
    by (auto simp: exchange_authorization_code_def raise_ok split: if_splits)
  with assms(1) obtain bs granted w2 where
    bs: "ascii_encode (tr_code_verifier req) = Some bs" and
    con: "consume_authorization_code ?h (tr_client_id req) (tr_redirect_uri req)
       (b64url_nopad (sha256 bs)) ?now (tick w) = (Inr granted, w2)" and
    rest: "(case granted of None \<Rightarrow> raise (oauth_exn InvalidAuthorizationGrantError)
       | Some user_id \<Rightarrow> bnd (get_user_by_id user_id) (\<lambda>found. case found of
            None \<Rightarrow> raise (oauth_exn InvalidAuthorizationGrantError)
          | Some user \<Rightarrow> if \<not> u_is_active user then raise (oauth_exn InvalidAuthorizationGrantError)
              else bnd (stage_login_session env s user (Some ?now)) (\<lambda>tokens.
                bnd commit (\<lambda>_. ret tokens)))) w2 = (Inr t, w')"
    unfolding exchange_authorization_code_def create_s256_code_challenge_def by (auto simp: run_ok)
  from rest obtain uid where g: "granted = Some uid" by (cases granted) (auto simp: raise_ok)
  have "valid_db (work (tick w))" using assms(2) by simp
  from consume_success [OF con [unfolded g] this] obtain c where
    c: "c \<in> set (auth_codes (work w))"
      "code_grants ?h (tr_client_id req) (tr_redirect_uri req) (b64url_nopad (sha256 bs)) ?now c"
      "c_user_id c = uid" and
    w2: "work w2 = put_code (consumed_code ?now (db_now w) c) (work w)" "db_now w2 = db_now w"
    by auto
  from rest g obtain f w3 where f: "get_user_by_id uid w2 = (Inr f, w3)" and
    rest': "(case f of None \<Rightarrow> raise (oauth_exn InvalidAuthorizationGrantError)
          | Some user \<Rightarrow> if \<not> u_is_active user then raise (oauth_exn InvalidAuthorizationGrantError)
              else bnd (stage_login_session env s user (Some ?now)) (\<lambda>tokens.
                bnd commit (\<lambda>_. ret tokens))) w3 = (Inr t, w')"
    by (auto simp: bnd_ok)
  from get_user_by_id_ok [OF f] have w3: "work w3 = work w2" "db_now w3 = db_now w2"
    and fu: "f = find (\<lambda>u. u_id u = uid) (users (work w))" by (auto simp: w2)
  from rest' obtain u w4 where u: "f = Some u" "u_is_active u" and
    st: "stage_login_session env s u (Some ?now) w3 = (Inr t, w4)" and
    com: "commit w4 = (Inr (), w')"
    by (cases f) (auto simp: run_ok split: if_splits)
  have in_u: "u \<in> set (users (work w))" "u_id u = c_user_id c"
    using fu u(1) c(3) by (auto dest: find_SomeD [OF sym])
  from stage_login_success [OF st] obtain sid exp where
    "work w4 = add_session (staged_session u t sid exp (?now + refresh_session_absolute_ttl s) ?now (db_now w3))
       (work w3)" by (metis option.simps(5))
  with commit_ok [OF com] have "committed w' = add_session (staged_session u t sid exp
       (?now + refresh_session_absolute_ttl s) ?now (db_now w))
       (put_code (consumed_code ?now (db_now w) c) (work w))" "valid_db (committed w')"
    by (simp_all add: w3 w2)
  with client bs c in_u u(2) show thesis using that by blast
qed

lemma atomic_exchange: "atomic (exchange_authorization_code env s req)"
  unfolding exchange_authorization_code_def by (intro keeps)

section \<open>Issuing a code\<close>

definition issued_code :: "authorization_request \<Rightarrow> string \<Rightarrow> int \<Rightarrow> time \<Rightarrow> time \<Rightarrow> auth_code" where
  "issued_code request raw_code user_id expires_at created =
     \<lparr>c_code_hash = hash_secret raw_code, c_user_id = user_id, c_client_id = ar_client_id request,
      c_redirect_uri = ar_redirect_uri request, c_code_challenge = ar_code_challenge request,
      c_expires_at = expires_at, c_consumed_at = None, c_created_at = created, c_updated_at = created\<rparr>"

lemma issue_success:
  assumes "issue_authorization_code env s email password req w = (Inr code, w')" and "valid_db (work w)"
  obtains u salt repl now where
    "ar_client_id req = oauth2_public_client_id s" "ar_redirect_uri req \<in> set (oauth2_redirect_uris s)"
    "strip (ar_scope req) = []" "u \<in> set (users (work w))" "u_email u = normalize_email email"
    "password_verify_and_update env salt password (u_hashed_password u) = Verdict True repl"
    "u_is_active u" "is_email_verified u" "clock w \<le> now"
    "\<exists>u' \<in> set (users (committed w')). u_id u' = u_id u \<and> u_is_active u'"
    "auth_codes (committed w') = delete_where (\<lambda>c. c_expires_at c \<le> now) (auth_codes (work w)) @
       [issued_code req code (u_id u) (now + seconds (oauth2_authorization_code_ttl_seconds s)) (db_now w)]"
    "valid_db (committed w')"
proof -
  let ?ttl = "seconds (oauth2_authorization_code_ttl_seconds s)"
  have c: "catch m (\<lambda>e. if is_auth_error LoginSessionUnavailableError e
       then Some (raise (oauth_exn AuthorizationCodeIssuanceUnavailableError)) else None) v = (Inr y, v') \<longleftrightarrow>
     m v = (Inr y, v')" for m v and y :: user and v'
    by (rule catch_ok) (auto split: if_splits)
  from assms(1) obtain r0 w0 u w1 n w3 r w4 r4 w5 where
    val: "validate_authorization_request s req w = (Inr r0, w0)" and
    auth: "authenticate env email password w0 = (Inr u, w1)" and
    code: "code = token_urlsafe (drawn w1)" and
    prune: "prune_expired_authorization_codes (clock (tick (w1\<lparr>entropy := tl (entropy w1)\<rparr>)))
      (tick (w1\<lparr>entropy := tl (entropy w1)\<rparr>)) = (Inr n, w3)" and
    add: "create_authorization_code (hash_secret (token_urlsafe (drawn w1))) (u_id u) (ar_client_id req)
      (ar_redirect_uri req) (ar_code_challenge req)
      (clock (tick (w1\<lparr>entropy := tl (entropy w1)\<rparr>)) + ?ttl) w3 = (Inr r, w4)" and
    com: "commit w4 = (Inr r4, w5)" and w5: "w' = w5"
    unfolding issue_authorization_code_def Let_def run_ok c by blast
  from val have w0: "w0 = w" and req: "ar_client_id req = oauth2_public_client_id s"
    "ar_redirect_uri req \<in> set (oauth2_redirect_uris s)" "strip (ar_scope req) = []"
    by (auto simp: validate_authorization_request_def run_ok split: if_splits)
  let ?w2 = "w1\<lparr>entropy := tl (entropy w1)\<rparr>"
  let ?now = "clock (tick ?w2)"
  from authenticate_success [OF auth [unfolded w0] assms(2)] obtain u0 salt repl where
    u0: "u0 \<in> set (users (work w))" "u_email u0 = normalize_email email"
      "password_verify_and_update env salt password (u_hashed_password u0) = Verdict True repl"
      "u_is_active u0" "is_email_verified u0" and
    u: "u = (case repl of None \<Rightarrow> u0 | Some h \<Rightarrow> u0\<lparr>u_hashed_password := h\<rparr>)" and
    w1: "work w1 = (case repl of None \<Rightarrow> work w
       | Some h \<Rightarrow> put_user (touch_user (db_now w) u0 (u0\<lparr>u_hashed_password := h\<rparr>)) (work w))"
      "clock w1 = clock w" "db_now w1 = db_now w" by metis
  have uid: "u_id u = u_id u0" using u by (simp split: option.splits)
  have codes: "auth_codes (work w1) = auth_codes (work w)" using w1(1) by (simp split: option.splits)
  let ?cs = "delete_where (\<lambda>c. c_expires_at c \<le> ?now) (auth_codes (work w))"
  from prune have w3: "work w3 = (work w1)\<lparr>auth_codes := ?cs\<rparr>" "db_now w3 = db_now w"
    unfolding prune_expired_authorization_codes_def Let_def
    by (auto simp: run_ok codes w1(3) dest!: statement_ok)
  from add have "work w4 = (work w1)\<lparr>auth_codes := ?cs @ [issued_code req code (u_id u) (?now + ?ttl) (db_now w)]\<rparr>"
    unfolding create_authorization_code_def Let_def
    by (auto simp: run_ok w3 code issued_code_def dest!: flush_ok)
  moreover from commit_ok [OF com] have "committed w' = work w4" "valid_db (work w4)" by (simp_all add: w5)
  moreover have "clock w \<le> ?now" using clock_tick [of ?w2] by (simp add: w1(2))
  moreover have "\<exists>u' \<in> set (users (work w1)). u_id u' = u_id u0 \<and> u_is_active u'"
  proof (cases repl)
    case None
    with w1(1) u0(1,4) show ?thesis by auto
  next
    case (Some h)
    let ?u = "touch_user (db_now w) u0 (u0\<lparr>u_hashed_password := h\<rparr>)"
    have "?u \<in> set (users (work w1))"
      using set_put_user [OF assms(2) u0(1), of ?u] w1(1) Some by simp
    moreover have "u_is_active ?u" using u0(4) by (simp add: touch_user_def)
    ultimately show ?thesis by (intro bexI [of _ ?u]) simp_all
  qed
  ultimately show thesis using that [OF req u0] by (simp add: uid)
qed

lemma atomic_issue: "atomic (issue_authorization_code env s email password req)"
  unfolding issue_authorization_code_def Let_def
  by (intro atomic_bnd [OF no_commit_codes(5)] atomic_bnd [OF no_commit_catch] atomic_bnd [OF no_commit_prim(10)]
      atomic_bnd [OF no_commit_prim(9)] atomic_bnd_ret)
    (auto intro: keeps split: if_splits)

section \<open>Exchanging succeeds\<close>

lemma valid_put_consumed:
  assumes "valid_db d" "c \<in> set (auth_codes d)" "c_created_at c \<le> now" "now < c_expires_at c"
  shows "valid_db (put_code (consumed_code now m c) d)"
  unfolding put_code_def
proof (rule valid_put_codes [OF assms(1)])
  let ?c = "consumed_code now m c"
  let ?cs = "update_where (\<lambda>r. c_code_hash r = c_code_hash ?c) (\<lambda>_. ?c) (auth_codes d)"
  have set: "set ?cs = insert ?c (set (auth_codes d) - {c})"
    using set_put_code [OF assms(1,2), of ?c] by (simp add: put_code_def)
  have "map c_code_hash ?cs = map c_code_hash (auth_codes d)" by (rule map_update_where) simp
  then have "distinct (map c_code_hash ?cs)" using valid_keys(5) [OF assms(1)] by simp
  moreover have "code_check_consumption ?c"
    using assms(3,4) by (simp add: code_check_consumption_def consumed_code_def)
  ultimately show "codes_violation (map u_id (users d)) ?cs = None"
    using set valid_code [OF assms(1)] assms(2)
    by (auto simp: codes_violation_None_iff) (auto simp: consumed_code_def)
  show "list_all auth_code_fits ?cs"
    using set valid_code [OF assms(1)] assms(2)
    by (auto simp: list_all_iff) (auto simp: consumed_code_def auth_code_fits_def)
qed

lemma exchange_runs:
  assumes "faults w = []" "valid_db (work w)" "ticks w = []" "now = clock w"
    and "tr_client_id req = oauth2_public_client_id s" "ascii_encode (tr_code_verifier req) = Some bs"
    and "c \<in> set (auth_codes (work w))"
    and "code_grants (hash_secret (tr_code req)) (tr_client_id req) (tr_redirect_uri req)
       (b64url_nopad (sha256 bs)) now c" "c_created_at c \<le> now"
    and "u \<in> set (users (work w))" "u_id u = c_user_id c" "u_is_active u"
    and "settings_ok s" "identity_ok s" "jwt_text env" "jwt_accepts_own env"
    and "1000000 \<le> refresh_session_absolute_ttl s"
    and "sane_time now" "sane_time (now + refresh_session_absolute_ttl s)"
    and "now < staged_expiry s now" "db_now w < staged_expiry s now"
    and "staged_sid w \<notin> s_id ` set (refresh_sessions (work w))"
    and "hash_secret (staged_token env s u now w) \<notin> s_token_hash ` set (refresh_sessions (work w))"
  shows "\<exists>t w'. exchange_authorization_code env s req w = (Inr t, w') \<and>
     refresh_token t = staged_token env s u now w \<and>
     committed w' = add_session (fresh_session env s u now w) (put_code (consumed_code now (db_now w) c) (work w))"
proof -
  let ?granted = "code_grants (hash_secret (tr_code req)) (tr_client_id req) (tr_redirect_uri req)
     (b64url_nopad (sha256 bs)) now"
  let ?d = "put_code (consumed_code now (db_now w) c) (work w)"
  let ?w1 = "w\<lparr>work := ?d\<rparr>" and ?r = "fresh_session env s u now w"
  have tick: "tick w = w" using assms(3) by (simp add: tick_def)
  have valid: "valid_db ?d" using valid_put_consumed [OF assms(2,7,9)] assms(8)
    by (simp add: code_grants_def)
  have found: "find ?granted (auth_codes (work w)) = Some c"
  proof (cases "find ?granted (auth_codes (work w))")
    case None
    with assms(7,8) show ?thesis by (auto simp: find_None_iff)
  next
    case (Some x)
    then have "x \<in> set (auth_codes (work w))" "?granted x" by (auto dest: find_SomeD)
    with key_unique [OF valid_keys(5) [OF assms(2)] _ assms(7), of x] assms(8) Some show ?thesis
      by (simp add: code_grants_def)
  qed
  have eq: "(work w)\<lparr>auth_codes := update_where ?granted (consumed_code now (db_now w)) (auth_codes (work w))\<rparr> = ?d"
    by (simp add: update_granted [OF assms(2,7,8)] put_code_def)
  have con: "consume_authorization_code (hash_secret (tr_code req)) (tr_client_id req) (tr_redirect_uri req)
      (b64url_nopad (sha256 bs)) now w = (Inr (Some (c_user_id c)), ?w1)"
    using assms(1) valid found
    by (simp add: consume_authorization_code_def Let_def bnd_run statement_fine read_def edit_def eq
        check_rows_def ret_def valid_db_def)
  have user: "get_user_by_id (c_user_id c) ?w1 = (Inr (Some u), ?w1)"
    using assms(1,11) valid_user [OF assms(2,10)] find_user [OF assms(2,10)]
    by (simp add: get_user_by_id_def user_fits_def guard_simps act_simps select_fine)
  have tok: "staged_token env s u now ?w1 = staged_token env s u now w" "staged_sid ?w1 = staged_sid w"
      "fresh_session env s u now ?w1 = ?r"
    by (simp_all add: staged_token_def staged_sid_def fresh_session_def drawn_def)
  obtain t where stage: "stage_login_session env s u (Some now) ?w1 =
      (Inr t, ?w1\<lparr>entropy := tl (tl (tl (entropy w))), work := add_session ?r ?d\<rparr>)"
    and t: "refresh_token t = staged_token env s u now w"
    using stage_login_runs [OF assms(13-17), of ?w1 now u] assms(3,4,18-20) tok by auto
  have "valid_db (add_session ?r ?d)"
    using assms(10,21-23) by (intro valid_add_fresh [OF valid]) simp_all
  then have "exchange_authorization_code env s req w = (Inr t, ?w1\<lparr>entropy := tl (tl (tl (entropy w))),
      work := add_session ?r ?d, committed := add_session ?r ?d, trace := trace w @ [Committed]\<rparr>)"
    using assms(1,6,12)
    by (simp add: assms(4,5) [symmetric] exchange_authorization_code_def create_s256_code_challenge_def bnd_run now_utc_tick tick
        of_option_def ret_def except_sql_app con user stage commit_fine)
  with t show ?thesis by simp
qed

end
