(* ===== verification/OAuth_Props.thy ===== *)
theory OAuth_Props
  imports OAuth_Facts Auth_Sample
begin

text \<open>Properties of the authorization code flow, with their witnesses.\<close>

section \<open>A sample code\<close>

definition sample_verifier :: string where
  "sample_verifier = replicate 43 (CHR ''v'')"

lemma sample_verifier_ascii: "\<exists>bs. ascii_encode sample_verifier = Some bs"
  by (simp add: ascii_encode_def is_ascii_def sample_verifier_def list_all_iff)

definition sample_challenge :: string where
  "sample_challenge = b64url_nopad (sha256 (the (ascii_encode sample_verifier)))"

definition sample_code :: auth_code where
  "sample_code = \<lparr>c_code_hash = hash_secret ''code'', c_user_id = 1,
     c_client_id = oauth2_public_client_id default_settings, c_redirect_uri = ''https://app/cb'',
     c_code_challenge = sample_challenge, c_expires_at = 1000, c_consumed_at = None,
     c_created_at = 50, c_updated_at = 50\<rparr>"

definition code_db :: db where
  "code_db = sample_users_db\<lparr>auth_codes := [sample_code]\<rparr>"

definition sample_token_request :: token_request where
  "sample_token_request = \<lparr>tr_client_id = oauth2_public_client_id default_settings,
     tr_redirect_uri = ''https://app/cb'', tr_code = ''code'', tr_code_verifier = sample_verifier\<rparr>"

lemma code_db_simps [simp]:
  "auth_codes code_db = [sample_code]" "users code_db = users sample_users_db"
  "refresh_sessions code_db = []"
  by (simp_all add: code_db_def sample_users_db_def empty_db_def)

lemma client_id_bounds:
  "oauth2_public_client_id default_settings \<noteq> []" "length (oauth2_public_client_id default_settings) \<le> 128"
  using default_settings_ok by (auto simp: settings_ok_def)

lemma valid_code_db: "valid_db code_db"
  unfolding code_db_def
proof (rule valid_put_codes [OF valid_sample_users_db])
  have len: "length sample_challenge = 43"
    by (simp add: sample_challenge_def length_b64url_nopad_32)
  then show "codes_violation (map u_id (users sample_users_db)) [sample_code] = None"
    using client_id_bounds
    by (simp add: codes_violation_None_iff sample_code_def code_check_consumption_def sample_user_def)
  show "list_all auth_code_fits [sample_code]"
    using len client_id_bounds by (simp add: auth_code_fits_def sample_code_def)
qed

lemma sample_grant:
  "code_grants (hash_secret ''code'') (oauth2_public_client_id default_settings) ''https://app/cb''
     (b64url_nopad (sha256 (the (ascii_encode sample_verifier)))) 100 sample_code"
  by (simp add: code_grants_def sample_code_def sample_challenge_def)

lemma default_ttl: "refresh_session_absolute_ttl default_settings = days 90"
    "refresh_token_expire_days default_settings = 30"
  by (simp_all add: default_settings_def)

lemma sample_expiry: "staged_expiry default_settings 100 = days 30"
  by (simp add: staged_expiry_def refresh_life_def default_ttl whole_seconds_def)

lemma sample_exchange:
  "\<exists>t w'. exchange_authorization_code sample_env default_settings sample_token_request
     (sample_world code_db) = (Inr t, w')"
proof -
  let ?u = "sample_user 1 ''a@example.com''"
  obtain bs where bs: "ascii_encode sample_verifier = Some bs" using sample_verifier_ascii by blast
  have grant: "code_grants (hash_secret ''code'') (oauth2_public_client_id default_settings) ''https://app/cb''
     (b64url_nopad (sha256 bs)) 100 sample_code" using sample_grant bs by simp
  have user: "u_is_active (sample_user 1 e)" "u_id (sample_user 1 e) = 1" for e
    by (simp_all add: sample_user_def)
  have ticks: "ticks (sample_world code_db) = []" by (simp add: sample_world_def)
  have req: "tr_client_id sample_token_request = oauth2_public_client_id default_settings"
    "tr_redirect_uri sample_token_request = ''https://app/cb''" "tr_code sample_token_request = ''code''"
    "tr_code_verifier sample_token_request = sample_verifier"
    by (simp_all add: sample_token_request_def)
  have code: "c_created_at sample_code = 50" "c_user_id sample_code = 1" by (simp_all add: sample_code_def)
  have "\<exists>t w'. exchange_authorization_code sample_env default_settings sample_token_request
       (sample_world code_db) = (Inr t, w') \<and>
     refresh_token t = staged_token sample_env default_settings ?u 100 (sample_world code_db) \<and>
     committed w' = add_session (fresh_session sample_env default_settings ?u 100 (sample_world code_db))
       (put_code (consumed_code 100 (db_now (sample_world code_db)) sample_code) (work (sample_world code_db)))"
    by (rule exchange_runs [where bs = bs and u = "?u"];
        simp add: bs grant user ticks req code sane_time_def default_ttl sample_expiry valid_code_db
         default_settings_ok default_identity_ok sample_env_text sample_env_accepts)
  then show ?thesis by blast
qed

section \<open>Binding and single use\<close>

text \<open>
  C24. A code is worth tokens only to the client that asked for it: an exchange that returns
  tokens, under any faults, has found an unconsumed and unexpired code with the hash, the
  client and the redirect URI of the request, whose challenge is the S256 transform of the
  presented verifier, and whose user is active; the committed database is the old one with
  that code consumed and one new session, for the code's user, that holds the new token.
\<close>

theorem code_exchange_is_bound:
  assumes "exchange_authorization_code env s req w = (Inr t, w')" and "valid_db (work w)"
  shows "tr_client_id req = oauth2_public_client_id s \<and>
     (\<exists>c \<in> set (auth_codes (work w)). \<exists>u \<in> set (users (work w)). \<exists>bs now r.
        ascii_encode (tr_code_verifier req) = Some bs \<and>
        c_code_challenge c = b64url_nopad (sha256 bs) \<and>
        c_code_hash c = hash_secret (tr_code req) \<and> c_client_id c = tr_client_id req \<and>
        c_redirect_uri c = tr_redirect_uri req \<and> c_consumed_at c = None \<and>
        clock w \<le> now \<and> now < c_expires_at c \<and>
        u_id u = c_user_id c \<and> u_is_active u \<and>
        committed w' = add_session r (put_code (consumed_code now (db_now w) c) (work w)) \<and>
        s_user_id r = c_user_id c \<and> s_token_hash r = hash_secret (refresh_token t) \<and>
        s_absolute_expires_at r = now + refresh_session_absolute_ttl s)"
proof -
  obtain c u bs sid exp where
    ok: "tr_client_id req = oauth2_public_client_id s" "ascii_encode (tr_code_verifier req) = Some bs"
      "c \<in> set (auth_codes (work w))"
      "code_grants (hash_secret (tr_code req)) (tr_client_id req) (tr_redirect_uri req)
         (b64url_nopad (sha256 bs)) (clock (tick w)) c"
      "u \<in> set (users (work w))" "u_id u = c_user_id c" "u_is_active u"
      "committed w' = add_session (staged_session u t sid exp
           (clock (tick w) + refresh_session_absolute_ttl s) (clock (tick w)) (db_now w))
         (put_code (consumed_code (clock (tick w)) (db_now w) c) (work w))" "valid_db (committed w')"
    by (rule exchange_success [OF assms])
  have "clock w \<le> clock (tick w)" by (rule clock_tick)
  with ok show ?thesis
    by (intro conjI bexI [of _ c] bexI [of _ u] exI [of _ bs] exI [of _ "clock (tick w)"]
        exI [of _ "staged_session u t sid exp (clock (tick w) + refresh_session_absolute_ttl s)
          (clock (tick w)) (db_now w)"])
      (auto simp: code_grants_def)
qed

theorem code_exchange_is_bound_witness:
  "\<exists>t w'. exchange_authorization_code sample_env default_settings sample_token_request
       (sample_world code_db) = (Inr t, w') \<and>
     (\<exists>r now. committed w' = add_session r (put_code (consumed_code now 99 sample_code) code_db) \<and>
        s_user_id r = 1)"
proof -
  obtain t w' where run: "exchange_authorization_code sample_env default_settings sample_token_request
     (sample_world code_db) = (Inr t, w')" using sample_exchange by blast
  have code: "c_user_id sample_code = 1" by (simp add: sample_code_def)
  from code_exchange_is_bound [OF run] valid_code_db obtain now r where
    "committed w' = add_session r (put_code (consumed_code now 99 sample_code) code_db)" "s_user_id r = 1"
    using code by auto
  with run show ?thesis by blast
qed

lemma exchange_needs_fresh_code:
  assumes "valid_db (work w)"
    and "\<forall>c \<in> set (auth_codes (work w)). c_code_hash c = hash_secret (tr_code req) \<longrightarrow> c_consumed_at c \<noteq> None"
  shows "\<not> succeeds (exchange_authorization_code env s req) w"
proof
  assume "succeeds (exchange_authorization_code env s req) w"
  then obtain t w' where run: "exchange_authorization_code env s req w = (Inr t, w')"
    by (auto simp: succeeds_def)
  obtain c u bs sid exp where "tr_client_id req = oauth2_public_client_id s"
      "ascii_encode (tr_code_verifier req) = Some bs" and c: "c \<in> set (auth_codes (work w))"
      "code_grants (hash_secret (tr_code req)) (tr_client_id req) (tr_redirect_uri req)
         (b64url_nopad (sha256 bs)) (clock (tick w)) c" and
      "u \<in> set (users (work w))" "u_id u = c_user_id c" "u_is_active u"
      "committed w' = add_session (staged_session u t sid exp
           (clock (tick w) + refresh_session_absolute_ttl s) (clock (tick w)) (db_now w))
         (put_code (consumed_code (clock (tick w)) (db_now w) c) (work w))" "valid_db (committed w')"
    by (rule exchange_success [OF run assms(1)])
  with assms(2) show False by (auto simp: code_grants_def)
qed

text \<open>
  A code works once: after an exchange that returned tokens, under any faults, no exchange
  of the same code succeeds from the committed database, whatever its other parameters and
  whatever the settings are by then.
\<close>

lemma code_is_single_use:
  assumes "exchange_authorization_code env s req w = (Inr t, w')" and "valid_db (work w)"
    and "work w2 = committed w'" and "tr_code req2 = tr_code req"
  shows "\<not> succeeds (exchange_authorization_code env2 s2 req2) w2"
proof -
  obtain c u bs sid exp where "tr_client_id req = oauth2_public_client_id s"
      "ascii_encode (tr_code_verifier req) = Some bs" and c: "c \<in> set (auth_codes (work w))"
      "code_grants (hash_secret (tr_code req)) (tr_client_id req) (tr_redirect_uri req)
         (b64url_nopad (sha256 bs)) (clock (tick w)) c" and
      "u \<in> set (users (work w))" "u_id u = c_user_id c" "u_is_active u" and
    com: "committed w' = add_session (staged_session u t sid exp
           (clock (tick w) + refresh_session_absolute_ttl s) (clock (tick w)) (db_now w))
         (put_code (consumed_code (clock (tick w)) (db_now w) c) (work w))" and
    valid: "valid_db (committed w')"
    by (rule exchange_success [OF assms(1,2)])
  let ?c = "consumed_code (clock (tick w)) (db_now w) c"
  have codes: "?c \<in> set (auth_codes (committed w'))"
    unfolding com using set_put_code [OF assms(2) c(1), of ?c] by simp
  have "c_consumed_at x \<noteq> None"
    if "x \<in> set (auth_codes (committed w'))" "c_code_hash x = hash_secret (tr_code req2)" for x
  proof -
    have "c_code_hash x = c_code_hash ?c" using that(2) c(2) assms(4) by (simp add: code_grants_def)
    then have "x = ?c" by (rule key_unique [OF valid_keys(5) [OF valid] that(1) codes])
    then show ?thesis by simp
  qed
  then show ?thesis by (intro exchange_needs_fresh_code) (simp_all add: assms(3) valid)
qed

text \<open>
  C25. A code is never burnt for nothing: whatever the database answers, an exchange that ends
  with an error has committed nothing, so the code is still unconsumed and no session was
  created; and an issuance that ends with an error has stored no code.
\<close>

theorem code_exchange_all_or_nothing:
  "atomic (exchange_authorization_code env s req) \<and>
   atomic (issue_authorization_code env s email password areq)"
proof
  show "atomic (exchange_authorization_code env s req)" by (rule atomic_exchange)
  show "atomic (issue_authorization_code env s email password areq)" by (rule atomic_issue)
qed


definition sample_authorization :: authorization_request where
  "sample_authorization = \<lparr>ar_client_id = oauth2_public_client_id default_settings,
     ar_redirect_uri = ''http://localhost:8000/docs/oauth2-redirect'', ar_state = None,
     ar_code_challenge = sample_challenge, ar_scope = []\<rparr>"

lemma sample_authorization_simps [simp]:
  "ar_client_id sample_authorization = oauth2_public_client_id default_settings"
  "ar_code_challenge sample_authorization = sample_challenge"
  "ar_redirect_uri sample_authorization = ''http://localhost:8000/docs/oauth2-redirect''"
  by (simp_all add: sample_authorization_def)

definition issued_db :: db where
  "issued_db = sample_users_db\<lparr>auth_codes := [issued_code sample_authorization (token_urlsafe []) 1
     (100 + seconds (oauth2_authorization_code_ttl_seconds default_settings)) 99]\<rparr>"

lemma issued_db_simps [simp]: "users issued_db = users sample_users_db" "refresh_sessions issued_db = []"
  by (simp_all add: issued_db_def sample_users_db_def empty_db_def)

lemma default_code_ttl: "30 \<le> oauth2_authorization_code_ttl_seconds default_settings"
  using default_settings_ok by (simp add: settings_ok_def)

lemma valid_issued_db: "valid_db issued_db"
  unfolding issued_db_def
proof (rule valid_put_codes [OF valid_sample_users_db])
  have len: "length sample_challenge = 43"
    by (simp add: sample_challenge_def length_b64url_nopad_32)
  with default_code_ttl client_id_bounds
  show "codes_violation (map u_id (users sample_users_db)) [issued_code sample_authorization
      (token_urlsafe []) 1 (100 + seconds (oauth2_authorization_code_ttl_seconds default_settings)) 99] = None"
    by (simp add: codes_violation_None_iff issued_code_def code_check_consumption_def sample_user_def)
  show "list_all auth_code_fits [issued_code sample_authorization
      (token_urlsafe []) 1 (100 + seconds (oauth2_authorization_code_ttl_seconds default_settings)) 99]"
    using len client_id_bounds by (simp add: auth_code_fits_def issued_code_def)
qed

lemma sample_issue:
  "\<exists>w1. issue_authorization_code sample_env default_settings ''a@example.com'' ''hash'' sample_authorization
     (sample_world sample_users_db) = (Inr (token_urlsafe []), w1) \<and> committed w1 = issued_db"
proof -
  let ?w = "sample_world sample_users_db"
  have "validate_authorization_request default_settings sample_authorization ?w = (Inr (), ?w)"
    by (simp add: validate_authorization_request_def sample_authorization_def default_settings_def ret_def)
  moreover have "authenticate sample_env ''a@example.com'' ''hash'' ?w =
      (Inr (sample_user 1 ''a@example.com''), ?w)" by (rule sample_authenticates) simp
  moreover have "draw ?w = (Inr [], ?w)" by (simp add: draw_def)
  moreover have "now_utc ?w = (Inr 100, ?w)" by (simp add: now_utc_tick)
  moreover have "prune_expired_authorization_codes 100 ?w = (Inr 0, ?w)"
    by (simp add: prune_expired_authorization_codes_def Let_def bnd_run statement_fine read_def edit_def
        ret_def rowcount_def sample_world_def sample_users_db_def empty_db_def)
  moreover have "create_authorization_code (hash_secret (token_urlsafe [])) 1
      (oauth2_public_client_id default_settings) ''http://localhost:8000/docs/oauth2-redirect''
      sample_challenge (100 + seconds (oauth2_authorization_code_ttl_seconds default_settings)) ?w =
      (Inr (issued_code sample_authorization (token_urlsafe []) 1
         (100 + seconds (oauth2_authorization_code_ttl_seconds default_settings)) 99), ?w\<lparr>work := issued_db\<rparr>)"
  proof -
    have "sample_users_db\<lparr>auth_codes := auth_codes sample_users_db @ [issued_code sample_authorization
      (token_urlsafe []) 1 (100 + seconds (oauth2_authorization_code_ttl_seconds default_settings)) 99]\<rparr> =
      issued_db" by (simp add: issued_db_def sample_users_db_def empty_db_def)
    with valid_issued_db show ?thesis
      by (simp add: create_authorization_code_def Let_def bnd_run read_def edit_def ret_def flush_fine
          issued_code_def)
  qed
  moreover have "u_id (sample_user 1 e) = 1" for e by (simp add: sample_user_def)
  ultimately show ?thesis
    using valid_issued_db
    by (simp add: issue_authorization_code_def Let_def bnd_run catch_def except_sql_app commit_fine ret_def)
qed


end
