(* ===== verification/Api_Keys.thy ===== *)
theory Api_Keys
  imports Auth
begin

text \<open>
  API keys and profiles: \<^verbatim>\<open>schemas/api_key.py\<close>, \<^verbatim>\<open>repositories/api_key.py\<close>, \<^verbatim>\<open>services/api_key.py\<close>
  and \<^verbatim>\<open>services/user.py\<close>. A key is shown once and stored as its hash; revoking it and
  deactivating an account are idempotent.
\<close>

section \<open>Schemas\<close>

text \<open>The name of a key is trimmed before its length is checked.\<close>

definition APIKeyCreateSchema :: "string field \<Rightarrow> string list \<Rightarrow> string list + string" where
  "APIKeyCreateSchema name extra =
     (case (case name of
              Given s \<Rightarrow> if length_between 1 100 (trim s) then Some (trim s) else None
            | _ \<Rightarrow> None, extra) of
        (Some n, []) \<Rightarrow> Inr n
      | (n, _) \<Rightarrow> Inl (rejected [(''name'', is_some n)] @ extra))"

record api_key_response =
  kr_id :: int
  kr_name :: string
  kr_is_active :: bool
  kr_created_at :: time

record api_key_created = api_key_response +
  kr_api_key :: string

definition APIKeyResponseSchema :: "api_key \<Rightarrow> api_key_response" where
  "APIKeyResponseSchema k = \<lparr>kr_id = k_id k, kr_name = k_name k, kr_is_active = k_is_active k,
     kr_created_at = k_created_at k\<rparr>"

section \<open>Repository\<close>

definition api_key_row :: "int \<Rightarrow> time \<Rightarrow> int \<Rightarrow> string \<Rightarrow> string \<Rightarrow> api_key" where
  "api_key_row i now user_id name key_hash =
     \<lparr>k_id = i, k_user_id = user_id, k_name = name, k_key_hash = key_hash, k_is_active = True,
      k_created_at = now, k_updated_at = now\<rparr>"

definition create_api_key_record :: "int \<Rightarrow> string \<Rightarrow> string \<Rightarrow> api_key act" where
  "create_api_key_record user_id name key_hash =
     bnd next_api_key_id (\<lambda>i.
     bnd (read db_now) (\<lambda>now.
     (let record = api_key_row i now user_id name key_hash in
      bnd (edit (\<lambda>d. d\<lparr>api_keys := api_keys d @ [record]\<rparr>)) (\<lambda>_.
      bnd flush (\<lambda>_. ret record)))))"

text \<open>The key with its user, which the statement joins.\<close>

definition get_active_api_key_by_hash :: "string \<Rightarrow> (api_key \<times> user option) option act" where
  "get_active_api_key_by_hash key_hash = select (\<lambda>d.
     map_option (\<lambda>k. (k, find (\<lambda>u. u_id u = k_user_id k) (users d)))
       (find (\<lambda>k. k_key_hash k = key_hash \<and> k_is_active k) (api_keys d)))"

text \<open>Newest first, and the larger id first among keys of one instant.\<close>

definition api_key_le :: "api_key \<Rightarrow> api_key \<Rightarrow> bool" where
  "api_key_le a b \<longleftrightarrow> k_created_at b < k_created_at a \<or>
     (k_created_at a = k_created_at b \<and> k_id b \<le> k_id a)"

interpretation key_listing: total_preorder api_key_le
  by unfold_locales (auto simp: api_key_le_def)

definition list_user_api_keys :: "int \<Rightarrow> bool \<Rightarrow> api_key list act" where
  "list_user_api_keys user_id include_revoked = select (\<lambda>d.
     sort_by api_key_le (filter (\<lambda>k. k_user_id k = user_id \<and> (include_revoked \<or> k_is_active k)) (api_keys d)))"

definition get_user_api_key_by_id :: "int \<Rightarrow> int \<Rightarrow> api_key option act" where
  "get_user_api_key_by_id user_id api_key_id =
     bnd (guard (int32 api_key_id) SqlErr) (\<lambda>_.
     select (\<lambda>d. find (\<lambda>k. k_user_id k = user_id \<and> k_id k = api_key_id) (api_keys d)))"

definition touch_api_key :: "time \<Rightarrow> api_key \<Rightarrow> api_key \<Rightarrow> api_key" where
  "touch_api_key now old new = (if new = old then old else new\<lparr>k_updated_at := now\<rparr>)"

definition save_api_key :: "api_key \<Rightarrow> unit act" where
  "save_api_key k = bnd (read db_now) (\<lambda>now.
     edit (\<lambda>d. d\<lparr>api_keys :=
       update_where (\<lambda>r. k_id r = k_id k) (\<lambda>r. touch_api_key now r k) (api_keys d)\<rparr>))"

section \<open>Service\<close>

definition key_error :: "api_key_error \<Rightarrow> exn" where
  "key_error e = AppErr (Api_Key_Error e)"

definition api_key_issue :: "int \<Rightarrow> string \<Rightarrow> api_key_created act" where
  "api_key_issue user_id name =
     bnd generate_api_key (\<lambda>raw_key.
     bnd (except_sql (Api_Key_Error APIKeyCreationUnavailableError)
       (bnd (create_api_key_record user_id name (hash_secret raw_key)) (\<lambda>record.
        bnd commit (\<lambda>_. ret record)))) (\<lambda>record.
     ret \<lparr>kr_id = k_id record, kr_name = k_name record, kr_is_active = k_is_active record,
          kr_created_at = k_created_at record, kr_api_key = raw_key\<rparr>))"

definition api_key_list :: "int \<Rightarrow> bool \<Rightarrow> api_key list act" where
  "api_key_list user_id include_revoked =
     except_sql (Api_Key_Error APIKeyListUnavailableError) (list_user_api_keys user_id include_revoked)"

definition api_key_revoke :: "int \<Rightarrow> int \<Rightarrow> unit act" where
  "api_key_revoke user_id api_key_id =
     except_sql (Api_Key_Error APIKeyRevocationUnavailableError)
       (bnd (get_user_api_key_by_id user_id api_key_id) (\<lambda>found.
        case found of
          None \<Rightarrow> raise (key_error APIKeyNotFoundError)
        | Some record \<Rightarrow>
            if \<not> k_is_active record then ret ()
            else bnd (save_api_key (record\<lparr>k_is_active := False\<rparr>)) (\<lambda>_. commit)))"

section \<open>Profiles\<close>

text \<open>
  \<^verbatim>\<open>UserService\<close>: the user is the object the request's session has loaded; \<^verbatim>\<open>refresh\<close> reads its
  row again and raises when it has gone.
\<close>

definition update_profile :: "user \<Rightarrow> string option \<Rightarrow> user act" where
  "update_profile user full_name =
     (let user = user\<lparr>u_full_name := full_name\<rparr> in
      except_sql (User_Error ProfileUpdateUnavailableError)
        (bnd (save_user user) (\<lambda>_.
         bnd flush (\<lambda>_.
         bnd (select (\<lambda>d. find (\<lambda>u. u_id u = u_id user) (users d))) (\<lambda>found.
         bnd (of_option SqlErr found) (\<lambda>refreshed.
         bnd commit (\<lambda>_. ret refreshed)))))))"

definition deactivate_account :: "user \<Rightarrow> unit act" where
  "deactivate_account user =
     (if \<not> u_is_active user then ret ()
      else except_sql (User_Error AccountDeactivationUnavailableError)
        (bnd (save_user (user\<lparr>u_is_active := False\<rparr>)) (\<lambda>_. commit)))"

end
