(* ===== verification/Deps.thy ===== *)
theory Deps
  imports Api_Keys
begin

text \<open>
  \<^verbatim>\<open>api/deps.py\<close>: who makes a request, and whether a browser may make it. The values that
  FastAPI's security schemes read from a request (a bearer token, basic credentials, the
  access cookie, an API key, the CSRF header) are arguments; the parts of the request that
  the program reads itself are fields of \<open>request\<close>, header names in lower case, with the identifier that
  \<^verbatim>\<open>RequestContextMiddleware\<close> gave it (\<open>rq_id\<close>).
\<close>

record request =
  rq_method :: string
  rq_scheme :: string
  rq_netloc :: string
  rq_headers :: "(string \<times> string) list"
  rq_cookies :: "(string \<times> string) list"
  rq_id :: string

definition header :: "request \<Rightarrow> string \<Rightarrow> string option" where
  "header rq name = map_of (rq_headers rq) name"

definition cookie :: "request \<Rightarrow> string \<Rightarrow> string option" where
  "cookie rq name = map_of (rq_cookies rq) name"

definition ACCESS_COOKIE_NAME :: string where "ACCESS_COOKIE_NAME = ''todo_access_token''"
definition REFRESH_COOKIE_NAME :: string where "REFRESH_COOKIE_NAME = ''todo_refresh_token''"
definition CSRF_COOKIE_NAME :: string where "CSRF_COOKIE_NAME = ''todo_csrf_token''"
definition SAFE_METHODS :: "string list" where "SAFE_METHODS = [''GET'', ''HEAD'', ''OPTIONS'', ''TRACE'']"

definition ACCESS_TOKEN_AUTH :: string where "ACCESS_TOKEN_AUTH = ''access_token''"
definition BASIC_AUTH :: string where "BASIC_AUTH = ''basic''"
definition HEADER_API_KEY_AUTH :: string where "HEADER_API_KEY_AUTH = ''api_key_header''"
definition QUERY_API_KEY_AUTH :: string where "QUERY_API_KEY_AUTH = ''api_key_query''"

section \<open>Authentication\<close>

text \<open>Python's truth of an optional text.\<close>

definition given :: "string option \<Rightarrow> bool" where
  "given v = (case v of None \<Rightarrow> False | Some s \<Rightarrow> s \<noteq> [])"

definition refuse :: "string \<Rightarrow> string \<Rightarrow> exn \<Rightarrow> 'a act" where
  "refuse mechanism outcome e = bnd (emit (AuthAttempt mechanism outcome)) (\<lambda>_. raise e)"

definition require_active_user :: "user \<Rightarrow> string \<Rightarrow> user act" where
  "require_active_user user mechanism =
     (if \<not> u_is_active user then refuse mechanism ''inactive'' (auth_error InactiveUserError)
      else if \<not> is_email_verified user
      then refuse mechanism ''unverified'' (auth_error EmailNotVerifiedError)
      else bnd (emit (AuthAttempt mechanism ''success'')) (\<lambda>_. ret user))"

definition invalid_token_exn :: "exn \<Rightarrow> bool" where
  "invalid_token_exn e = (case e of
      AppErr c \<Rightarrow> isinstance c (Auth_Error InvalidAccessTokenError)
    | ValueErr \<Rightarrow> True | TypeErr \<Rightarrow> True | ValidationErr _ \<Rightarrow> True | _ \<Rightarrow> False)"

definition access_token_user_id :: "env \<Rightarrow> settings \<Rightarrow> string \<Rightarrow> int act" where
  "access_token_user_id env s token =
     catch
       (bnd (decode_access_token env s token) (\<lambda>payload.
        bnd (of_option ValueErr (py_int (cl_sub payload))) (\<lambda>user_id.
        if user_id \<le> 0 then raise ValueErr else ret user_id)))
       (\<lambda>e. if invalid_token_exn e
            then Some (refuse ACCESS_TOKEN_AUTH ''invalid'' (auth_error InvalidAccessTokenError))
            else None)"

text \<open>\<^verbatim>\<open>except SQLAlchemyError\<close> that counts the failure and raises the error of the mechanism.\<close>

definition except_sql_refuse :: "string \<Rightarrow> exn \<Rightarrow> 'a act \<Rightarrow> 'a act" where
  "except_sql_refuse mechanism err m =
     catch m (\<lambda>e. if is_sqlalchemy_error e then Some (refuse mechanism ''error'' err) else None)"

definition authenticate_access_token :: "env \<Rightarrow> settings \<Rightarrow> string \<Rightarrow> user act" where
  "authenticate_access_token env s token =
     bnd (access_token_user_id env s token) (\<lambda>user_id.
     bnd (except_sql_refuse ACCESS_TOKEN_AUTH (auth_error TokenAuthenticationUnavailableError)
            (get_user_by_id user_id)) (\<lambda>found.
     case found of
       None \<Rightarrow> refuse ACCESS_TOKEN_AUTH ''invalid'' (auth_error InvalidAccessTokenError)
     | Some user \<Rightarrow> require_active_user user ACCESS_TOKEN_AUTH))"

definition select_access_token :: "string option \<Rightarrow> string option \<Rightarrow> string act" where
  "select_access_token explicit_token cookie_token =
     (if given explicit_token then ret (the explicit_token)
      else if given cookie_token then ret (the cookie_token)
      else refuse ACCESS_TOKEN_AUTH ''missing'' (auth_error InvalidAccessTokenError))"

text \<open>
  \<^verbatim>\<open>get_current_user\<close>, \<^verbatim>\<open>get_current_authorization_code_user\<close> and \<^verbatim>\<open>get_current_bearer_user\<close> differ
  in the scheme that reads the bearer token from the request.
\<close>

definition get_current_user ::
  "env \<Rightarrow> settings \<Rightarrow> string option \<Rightarrow> string option \<Rightarrow> user act" where
  "get_current_user env s token cookie_token =
     bnd (select_access_token token cookie_token) (\<lambda>selected_token.
     authenticate_access_token env s selected_token)"

definition get_current_basic_user :: "env \<Rightarrow> (string \<times> string) option \<Rightarrow> user act" where
  "get_current_basic_user env credentials =
     (case credentials of
        None \<Rightarrow> refuse BASIC_AUTH ''missing'' (auth_error InvalidBasicCredentialsError)
      | Some (username, password) \<Rightarrow>
          bnd (except_sql_refuse BASIC_AUTH (auth_error BasicAuthenticationUnavailableError)
                 (get_user_by_email (normalize_email username))) (\<lambda>found.
          bnd (catch (verify_password env password
                   (case found of Some user \<Rightarrow> u_hashed_password user | None \<Rightarrow> dummy_password_hash env))
                 (\<lambda>e. if e = UnknownHashErr
                      then Some (refuse BASIC_AUTH ''error'' (auth_error BasicAuthenticationUnavailableError))
                      else None)) (\<lambda>valid_password.
          case found of
            None \<Rightarrow> refuse BASIC_AUTH ''invalid'' (auth_error InvalidBasicCredentialsError)
          | Some user \<Rightarrow>
              if \<not> valid_password
              then refuse BASIC_AUTH ''invalid'' (auth_error InvalidBasicCredentialsError)
              else require_active_user user BASIC_AUTH)))"

text \<open>
  The joined user of a key is \<open>None\<close> only when the foreign key is broken; the code would then
  fail on an attribute of \<^verbatim>\<open>None\<close>.
\<close>

definition authenticate_api_key :: "string option \<Rightarrow> string \<Rightarrow> user act" where
  "authenticate_api_key api_key mechanism =
     (let normalized_key = (if given api_key then strip (the api_key) else []) in
      if normalized_key = [] then refuse mechanism ''missing'' (key_error APIKeyRequiredError)
      else
      bnd (except_sql_refuse mechanism (key_error APIKeyServiceError)
             (get_active_api_key_by_hash (hash_secret normalized_key))) (\<lambda>record.
      case record of
        None \<Rightarrow> refuse mechanism ''invalid'' (key_error InvalidAPIKeyError)
      | Some (_, None) \<Rightarrow> raise TypeErr
      | Some (_, Some user) \<Rightarrow> require_active_user user mechanism))"

definition get_current_header_api_key_user :: "string option \<Rightarrow> user act" where
  "get_current_header_api_key_user api_key = authenticate_api_key api_key HEADER_API_KEY_AUTH"

definition get_current_query_api_key_user :: "string option \<Rightarrow> user act" where
  "get_current_query_api_key_user api_key = authenticate_api_key api_key QUERY_API_KEY_AUTH"

section \<open>Browser protection\<close>

text \<open>The origin of a header value; \<^verbatim>\<open>urlsplit\<close> may raise, and nothing catches it.\<close>

definition extract_origin :: "string option \<Rightarrow> string option act" where
  "extract_origin value =
     (if \<not> given value then ret None
      else bnd (of_option ValueErr (urlsplit (strip (the value)))) (\<lambda>parsed.
        ret (if url_scheme parsed \<notin> {''http'', ''https''} \<or> url_netloc parsed = [] then None
             else Some (lower (url_scheme parsed) @ ''://'' @ lower (url_netloc parsed)))))"

definition uses_browser_session :: "request \<Rightarrow> bool" where
  "uses_browser_session rq \<longleftrightarrow>
     cookie rq ACCESS_COOKIE_NAME \<noteq> None \<or> cookie rq REFRESH_COOKIE_NAME \<noteq> None"

definition allowed_origins :: "settings \<Rightarrow> request \<Rightarrow> string set" where
  "allowed_origins s rq = insert (rq_scheme rq @ ''://'' @ rq_netloc rq) (set (cors_allowed_origins s))"

definition check_origin :: "settings \<Rightarrow> request \<Rightarrow> string option \<Rightarrow> unit act" where
  "check_origin s rq origin =
     (case origin of
        None \<Rightarrow> raise (auth_error RequestOriginNotAllowedError)
      | Some o' \<Rightarrow> if o' \<in> allowed_origins s rq then ret ()
                  else raise (auth_error RequestOriginNotAllowedError))"

definition validate_request_origin :: "settings \<Rightarrow> request \<Rightarrow> unit act" where
  "validate_request_origin s rq =
     (if upper_ascii (rq_method rq) \<in> set SAFE_METHODS then ret ()
      else bnd (extract_origin (header rq ''origin'')) (\<lambda>origin.
        if origin = None then
          if \<not> uses_browser_session rq then ret ()
          else bnd (extract_origin (header rq ''referer'')) (check_origin s rq)
        else check_origin s rq origin))"

definition has_explicit_bearer_token :: "request \<Rightarrow> bool" where
  "has_explicit_bearer_token rq =
     (let authorization = (case header rq ''authorization'' of None \<Rightarrow> [] | Some a \<Rightarrow> a);
          (scheme, _, credential) = partition_char (CHR '' '') authorization
      in casefold scheme = ''bearer'' \<and> strip credential \<noteq> [])"

definition check_csrf :: "request \<Rightarrow> string option \<Rightarrow> unit act" where
  "check_csrf rq csrf_header =
     bnd (of_result (verify_csrf_token csrf_header (cookie rq CSRF_COOKIE_NAME))) (\<lambda>ok.
     if ok then ret () else raise (auth_error InvalidCSRFTokenError))"

definition require_csrf_token :: "request \<Rightarrow> string option \<Rightarrow> unit act" where
  "require_csrf_token rq csrf_header =
     (if has_explicit_bearer_token rq then ret ()
      else if cookie rq ACCESS_COOKIE_NAME = None then ret ()
      else check_csrf rq csrf_header)"

definition require_browser_csrf_token :: "request \<Rightarrow> string option \<Rightarrow> unit act" where
  "require_browser_csrf_token rq csrf_header =
     (if cookie rq ACCESS_COOKIE_NAME = None \<and> cookie rq REFRESH_COOKIE_NAME = None then ret ()
      else check_csrf rq csrf_header)"

end
