(* ===== verification/Deps_Facts.thy ===== *)
theory Deps_Facts
  imports Deps Auth_Facts
begin

text \<open>
  Lemmas on the authenticators and the browser checks. The authenticators share a contract,
  the locale \<open>authenticator\<close>: whoever they return is a stored, active and verified user, they
  write nothing, and they count each attempt once.
\<close>

section \<open>The contract of an authenticator\<close>

locale authenticator =
  fixes auth :: "user act" and mechanism :: string
  assumes sound: "auth w = (Inr u, w') \<Longrightarrow>
      u \<in> set (users (work w)) \<and> u_is_active u \<and> is_email_verified u"
    and writes_nothing: "auth w = (r, w') \<Longrightarrow> work w' = work w \<and> committed w' = committed w"
    and counts_success: "auth w = (Inr u, w') \<Longrightarrow> trace w' = trace w @ [AuthAttempt mechanism ''success'']"
    and counts_failure: "auth w = (Inl (AppErr e), w') \<Longrightarrow>
      \<exists>outcome. outcome \<noteq> ''success'' \<and> trace w' = trace w @ [AuthAttempt mechanism outcome]"
begin

text \<open>An operation behind the authenticator runs for a user of the database, or not at all.\<close>

lemma runs_as_user:
  assumes "bnd auth f w = (Inr x, w')"
  obtains u w1 where "u \<in> set (users (work w))" "u_is_active u" "is_email_verified u"
    "work w1 = work w" "committed w1 = committed w" "f u w1 = (Inr x, w')"
    "trace w1 = trace w @ [AuthAttempt mechanism ''success'']"
proof -
  from assms obtain u w1 where auth: "auth w = (Inr u, w1)" and f: "f u w1 = (Inr x, w')"
    by (auto simp: bnd_ok)
  from sound [OF auth] writes_nothing [OF auth] counts_success [OF auth] f show thesis
    by (intro that [of u w1]) simp_all
qed

lemma no_commit: "no_commit auth"
  unfolding no_commit_def using writes_nothing by (metis prod.collapse)

lemma atomic_behind: "(\<And>u. atomic (f u)) \<Longrightarrow> atomic (bnd auth f)"
  by (rule atomic_bnd [OF no_commit])

lemma no_commit_behind: "(\<And>u. no_commit (f u)) \<Longrightarrow> no_commit (bnd auth f)"
  by (rule no_commit_bnd [OF no_commit])

text \<open>A refused caller leaves no trace but the counted attempt.\<close>

lemma refused_changes_nothing:
  assumes "auth w = (Inl e, w')"
  shows "bnd auth f w = (Inl e, w') \<and> work w' = work w \<and> committed w' = committed w"
  using assms writes_nothing by (auto simp: bnd_def)

end

section \<open>Runs of the dependencies\<close>

lemma refuse_eq: "refuse m out e w = (Inl e, w\<lparr>trace := trace w @ [AuthAttempt m out]\<rparr>)"
  by (simp add: refuse_def bnd_def emit_def raise_def)

lemma require_active_eq:
  "require_active_user u m w =
    (if \<not> u_is_active u then (Inl (auth_error InactiveUserError), w\<lparr>trace := trace w @ [AuthAttempt m ''inactive'']\<rparr>)
     else if \<not> is_email_verified u
     then (Inl (auth_error EmailNotVerifiedError), w\<lparr>trace := trace w @ [AuthAttempt m ''unverified'']\<rparr>)
     else (Inr u, w\<lparr>trace := trace w @ [AuthAttempt m ''success'']\<rparr>))"
  by (simp add: require_active_user_def refuse_eq bnd_def emit_def ret_def)

lemma get_user_by_id_cases:
  "get_user_by_id i w = (r, w') \<Longrightarrow>
     work w' = work w \<and> committed w' = committed w \<and> trace w' = trace w \<and> db_now w' = db_now w \<and>
     (\<forall>x. r = Inr x \<longrightarrow> x = find (\<lambda>u. u_id u = i) (users (work w))) \<and>
     (\<forall>e. r = Inl e \<longrightarrow> is_sqlalchemy_error e)"
  by (auto simp: get_user_by_id_def bnd_def guard_def ret_def raise_def select_def statement_def
      next_fault_def read_def is_sqlalchemy_error_def
      split: if_splits list.splits fault.splits prod.splits sum.splits)

lemma select_cases:
  "select q w = (r, w') \<Longrightarrow>
     work w' = work w \<and> committed w' = committed w \<and> trace w' = trace w \<and> db_now w' = db_now w \<and>
     (\<forall>x. r = Inr x \<longrightarrow> x = q (work w)) \<and> (\<forall>e. r = Inl e \<longrightarrow> is_sqlalchemy_error e)"
  by (auto simp: bnd_def ret_def raise_def select_def statement_def
      next_fault_def read_def is_sqlalchemy_error_def
      split: if_splits list.splits fault.splits prod.splits sum.splits)

lemma isinstance_refl [simp]: "isinstance c c"
  by (simp add: isinstance_def mro_def eval_nat_numeral)

lemma access_token_user_id_eq:
  "access_token_user_id env s tok w =
    (case access_verdict env s (clock (tick w)) tok of
       Some c \<Rightarrow> (case py_int (cl_sub c) of
           Some i \<Rightarrow> if 0 < i then (Inr i, tick w)
             else (Inl (auth_error InvalidAccessTokenError), (tick w)\<lparr>trace := trace w @ [AuthAttempt ACCESS_TOKEN_AUTH ''invalid'']\<rparr>)
         | None \<Rightarrow> (Inl (auth_error InvalidAccessTokenError), (tick w)\<lparr>trace := trace w @ [AuthAttempt ACCESS_TOKEN_AUTH ''invalid'']\<rparr>))
     | None \<Rightarrow> (Inl (auth_error InvalidAccessTokenError), (tick w)\<lparr>trace := trace w @ [AuthAttempt ACCESS_TOKEN_AUTH ''invalid'']\<rparr>))"
  by (auto simp: access_token_user_id_def catch_def bnd_def decode_access_eq invalid_token_exn_def
      auth_error_def refuse_eq of_option_def ret_def raise_def split: option.splits)

section \<open>The outcome of an authentication\<close>

definition auth_outcome ::
  "string \<Rightarrow> (user \<Rightarrow> bool) \<Rightarrow> world \<Rightarrow> (exn + user) \<times> world \<Rightarrow> bool" where
  "auth_outcome m P w out \<longleftrightarrow> work (snd out) = work w \<and> committed (snd out) = committed w \<and>
     (case fst out of
        Inr u \<Rightarrow> P u \<and> u_is_active u \<and> is_email_verified u \<and>
          trace (snd out) = trace w @ [AuthAttempt m ''success'']
      | Inl e \<Rightarrow> (\<forall>a. e = AppErr a \<longrightarrow>
          (\<exists>outcome. outcome \<noteq> ''success'' \<and> trace (snd out) = trace w @ [AuthAttempt m outcome])))"

definition same_rows :: "world \<Rightarrow> world \<Rightarrow> bool" where
  "same_rows w w1 \<longleftrightarrow> work w1 = work w \<and> committed w1 = committed w \<and> trace w1 = trace w"

lemma same_rows_refl [simp]: "same_rows w w" "same_rows w (tick w)"
  by (simp_all add: same_rows_def)

lemma outcome_refuse:
  "same_rows w w1 \<Longrightarrow> outcome \<noteq> ''success'' \<Longrightarrow> auth_outcome m P w (refuse m outcome e w1)"
  by (auto simp: auth_outcome_def refuse_eq same_rows_def)

lemma outcome_active: "same_rows w w1 \<Longrightarrow> P u \<Longrightarrow> auth_outcome m P w (require_active_user u m w1)"
  by (auto simp: auth_outcome_def require_active_eq same_rows_def)

text \<open>A read whose failure is refused: what comes after it sees the same rows.\<close>

lemma outcome_read:
  assumes "\<And>r w2. q w1 = (r, w2) \<Longrightarrow> same_rows w w2 \<and>
      (\<forall>x. r = Inr x \<longrightarrow> Q x) \<and> (\<forall>e. r = Inl e \<longrightarrow> is_sqlalchemy_error e)"
    and "\<And>x w2. same_rows w w2 \<Longrightarrow> Q x \<Longrightarrow> auth_outcome m P w (f x w2)"
  shows "auth_outcome m P w (bnd (except_sql_refuse m err q) f w1)"
proof -
  obtain r w2 where q: "q w1 = (r, w2)" by fastforce
  note ok = assms(1) [OF q]
  show ?thesis
  proof (cases r)
    case (Inl e)
    with q ok have "bnd (except_sql_refuse m err q) f w1 = (Inl err, w2\<lparr>trace := trace w2 @ [AuthAttempt m ''error'']\<rparr>)"
      by (simp add: bnd_def except_sql_refuse_def catch_def refuse_eq)
    moreover have "auth_outcome m P w (Inl err, w2\<lparr>trace := trace w2 @ [AuthAttempt m ''error'']\<rparr>)"
      using ok by (auto simp: auth_outcome_def same_rows_def)
    ultimately show ?thesis by simp
  next
    case (Inr x)
    with q have "bnd (except_sql_refuse m err q) f w1 = f x w2"
      by (simp add: bnd_def except_sql_refuse_def catch_def)
    with ok Inr assms(2) [of w2 x] show ?thesis by simp
  qed
qed

lemma find_hit: "find P xs = Some x \<Longrightarrow> x \<in> set xs \<and> P x"
  by (auto dest: find_SomeD)

text \<open>An access token: the subject is the id of a stored user.\<close>

definition names_user :: "env \<Rightarrow> settings \<Rightarrow> string \<Rightarrow> world \<Rightarrow> user \<Rightarrow> bool" where
  "names_user env s tok w u \<longleftrightarrow> u \<in> set (users (work w)) \<and>
     (\<exists>c. access_verdict env s (clock (tick w)) tok = Some c \<and> py_int (cl_sub c) = Some (u_id u) \<and> 0 < u_id u)"

lemma access_token_outcome:
  "auth_outcome ACCESS_TOKEN_AUTH (names_user env s tok w) w (authenticate_access_token env s tok w)"
proof (cases "access_token_user_id env s tok w")
  case (Pair r w1)
  show ?thesis
  proof (cases r)
    case (Inl e)
    with Pair have "authenticate_access_token env s tok w =
        refuse ACCESS_TOKEN_AUTH ''invalid'' (auth_error InvalidAccessTokenError) (tick w)"
      by (auto simp: authenticate_access_token_def bnd_def access_token_user_id_eq refuse_eq
          split: option.splits if_splits)
    then show ?thesis by (simp add: outcome_refuse)
  next
    case (Inr i)
    with Pair have w1: "w1 = tick w" and v: "\<exists>c. access_verdict env s (clock (tick w)) tok = Some c \<and>
        py_int (cl_sub c) = Some i \<and> 0 < i"
      by (auto simp: access_token_user_id_eq split: option.splits if_splits)
    let ?f = "\<lambda>found. case found of
        None \<Rightarrow> refuse ACCESS_TOKEN_AUTH ''invalid'' (auth_error InvalidAccessTokenError)
      | Some user \<Rightarrow> require_active_user user ACCESS_TOKEN_AUTH"
    have "auth_outcome ACCESS_TOKEN_AUTH (names_user env s tok w) w (?f x w2)"
      if "same_rows w w2" "x = find (\<lambda>u. u_id u = i) (users (work w))" for x w2
    proof (cases x)
      case None
      with that(1) show ?thesis by (simp add: outcome_refuse)
    next
      case (Some u)
      with that(2) v have "names_user env s tok w u" by (auto simp: names_user_def dest: find_hit [OF sym])
      with that(1) Some show ?thesis by (simp add: outcome_active)
    qed
    then have "auth_outcome ACCESS_TOKEN_AUTH (names_user env s tok w) w
        (bnd (except_sql_refuse ACCESS_TOKEN_AUTH (auth_error TokenAuthenticationUnavailableError)
          (get_user_by_id i)) ?f (tick w))"
      by (rule outcome_read [rotated, where Q = "\<lambda>x. x = find (\<lambda>u. u_id u = i) (users (work w))"])
        (auto simp: same_rows_def dest!: get_user_by_id_cases)
    with Pair Inr w1 show ?thesis by (simp add: authenticate_access_token_def bnd_def)
  qed
qed

text \<open>The current user: an explicit token wins over the cookie.\<close>

definition selected_token :: "string option \<Rightarrow> string option \<Rightarrow> string option" where
  "selected_token t ck = (if given t then t else if given ck then ck else None)"

definition token_user :: "env \<Rightarrow> settings \<Rightarrow> string option \<Rightarrow> string option \<Rightarrow> world \<Rightarrow> user \<Rightarrow> bool" where
  "token_user env s t ck w u \<longleftrightarrow> (\<exists>tok. selected_token t ck = Some tok \<and> names_user env s tok w u)"

lemma current_user_outcome:
  "auth_outcome ACCESS_TOKEN_AUTH (token_user env s t ck w) w (get_current_user env s t ck w)"
proof (cases "selected_token t ck")
  case None
  then have "\<not> given t" "\<not> given ck" by (auto simp: selected_token_def given_def split: if_splits option.splits)
  then have "get_current_user env s t ck w =
      refuse ACCESS_TOKEN_AUTH ''missing'' (auth_error InvalidAccessTokenError) w"
    by (simp add: get_current_user_def select_access_token_def bnd_def refuse_eq)
  then show ?thesis by (simp add: outcome_refuse)
next
  case (Some tok)
  then have "get_current_user env s t ck w = authenticate_access_token env s tok w"
    by (auto simp: get_current_user_def select_access_token_def selected_token_def bnd_def ret_def
        split: if_splits)
  with access_token_outcome [of env s tok w] Some show ?thesis
    by (auto simp: auth_outcome_def token_user_def split: sum.splits)
qed

text \<open>Every outcome of this form is an instance of the contract.\<close>

lemma authenticator_of_outcome:
  assumes "\<And>w. auth_outcome m (P w) w (auth w)" and "\<And>w u. P w u \<Longrightarrow> u \<in> set (users (work w))"
  shows "authenticator auth m"
proof
  fix w u w' r e
  note out = assms(1) [of w, unfolded auth_outcome_def]
  show "auth w = (Inr u, w') \<Longrightarrow> u \<in> set (users (work w)) \<and> u_is_active u \<and> is_email_verified u"
    using out assms(2) by auto
  show "auth w = (r, w') \<Longrightarrow> work w' = work w \<and> committed w' = committed w" using out by auto
  show "auth w = (Inr u, w') \<Longrightarrow> trace w' = trace w @ [AuthAttempt m ''success'']" using out by auto
  show "auth w = (Inl (AppErr e), w') \<Longrightarrow>
      \<exists>outcome. outcome \<noteq> ''success'' \<and> trace w' = trace w @ [AuthAttempt m outcome]" using out by auto
qed

interpretation token_auth: authenticator "get_current_user env s t ck" ACCESS_TOKEN_AUTH for env s t ck
  by (rule authenticator_of_outcome [OF current_user_outcome]) (auto simp: token_user_def names_user_def)

text \<open>Basic credentials: the address and the password of a stored user.\<close>

definition basic_user :: "env \<Rightarrow> (string \<times> string) option \<Rightarrow> world \<Rightarrow> user \<Rightarrow> bool" where
  "basic_user env cred w u \<longleftrightarrow> u \<in> set (users (work w)) \<and>
     (\<exists>name pw. cred = Some (name, pw) \<and> u_email u = normalize_email name \<and>
        password_verify env pw (u_hashed_password u) = Some True)"

lemma basic_user_outcome: "auth_outcome BASIC_AUTH (basic_user env cred w) w (get_current_basic_user env cred w)"
proof (cases cred)
  case None
  then show ?thesis by (simp add: get_current_basic_user_def outcome_refuse)
next
  case (Some np)
  obtain name pw where np: "np = (name, pw)" by fastforce
  let ?stored = "\<lambda>found. case found of Some user \<Rightarrow> u_hashed_password user | None \<Rightarrow> dummy_password_hash env"
  let ?finish = "\<lambda>found ok. case found of
      None \<Rightarrow> refuse BASIC_AUTH ''invalid'' (auth_error InvalidBasicCredentialsError)
    | Some user \<Rightarrow> if \<not> ok then refuse BASIC_AUTH ''invalid'' (auth_error InvalidBasicCredentialsError)
        else require_active_user user BASIC_AUTH"
  let ?f = "\<lambda>found. bnd (catch (verify_password env pw (?stored found))
       (\<lambda>e. if e = UnknownHashErr
            then Some (refuse BASIC_AUTH ''error'' (auth_error BasicAuthenticationUnavailableError))
            else None)) (?finish found)"
  have "auth_outcome BASIC_AUTH (basic_user env cred w) w (?f x w2)"
    if rows: "same_rows w w2" and x: "x = find (\<lambda>u. u_email u = normalize_email name) (users (work w))" for x w2
  proof (cases "password_verify env pw (?stored x)")
    case None
    then have "?f x w2 = refuse BASIC_AUTH ''error'' (auth_error BasicAuthenticationUnavailableError) w2"
      by (simp add: verify_password_def of_option_def raise_def catch_def bnd_def refuse_eq)
    with rows show ?thesis by (simp add: outcome_refuse)
  next
    case (Some ok)
    then have f: "?f x w2 = ?finish x ok w2"
      by (simp add: verify_password_def of_option_def ret_def catch_def bnd_def)
    show ?thesis
    proof (cases x)
      case None
      with f rows show ?thesis by (simp add: outcome_refuse)
    next
      case (Some u)
      with x have u: "u \<in> set (users (work w)) \<and> u_email u = normalize_email name"
        by (intro find_hit) simp
      show ?thesis
      proof (cases ok)
        case True
        with u Some \<open>password_verify env pw (?stored x) = Some ok\<close> np \<open>cred = Some np\<close>
        have "basic_user env cred w u" by (simp add: basic_user_def)
        with f rows Some True show ?thesis by (simp add: outcome_active)
      next
        case False
        with f rows Some show ?thesis by (simp add: outcome_refuse)
      qed
    qed
  qed
  then have "auth_outcome BASIC_AUTH (basic_user env cred w) w
      (bnd (except_sql_refuse BASIC_AUTH (auth_error BasicAuthenticationUnavailableError)
        (get_user_by_email (normalize_email name))) ?f w)"
    by (rule outcome_read [rotated, where Q = "\<lambda>x. x = find (\<lambda>u. u_email u = normalize_email name) (users (work w))"])
      (auto simp: same_rows_def get_user_by_email_def dest!: select_cases)
  then show ?thesis by (simp add: get_current_basic_user_def Some np)
qed

interpretation basic_auth: authenticator "get_current_basic_user env cred" BASIC_AUTH for env cred
  by (rule authenticator_of_outcome [OF basic_user_outcome]) (simp add: basic_user_def)

text \<open>API keys: the hash of the stripped key is that of an active key of the user.\<close>

definition key_user :: "string option \<Rightarrow> world \<Rightarrow> user \<Rightarrow> bool" where
  "key_user key w u \<longleftrightarrow> u \<in> set (users (work w)) \<and>
     (\<exists>raw. key = Some raw \<and> strip raw \<noteq> [] \<and> (\<exists>k \<in> set (api_keys (work w)). k_is_active k \<and>
        k_key_hash k = hash_secret (strip raw) \<and> k_user_id k = u_id u))"

lemma key_user_outcome: "auth_outcome m (key_user key w) w (authenticate_api_key key m w)"
proof (cases "given key \<and> strip (the key) \<noteq> []")
  case False
  then have "authenticate_api_key key m w = refuse m ''missing'' (key_error APIKeyRequiredError) w"
    by (auto simp: authenticate_api_key_def)
  then show ?thesis by (simp add: outcome_refuse)
next
  case True
  then obtain raw where raw: "key = Some raw" "strip raw \<noteq> []" by (cases key) (auto simp: given_def)
  let ?h = "hash_secret (strip raw)"
  let ?q = "\<lambda>d. map_option (\<lambda>k. (k, find (\<lambda>u. u_id u = k_user_id k) (users d)))
       (find (\<lambda>k. k_key_hash k = ?h \<and> k_is_active k) (api_keys d))"
  let ?f = "\<lambda>record. case record of
        None \<Rightarrow> refuse m ''invalid'' (key_error InvalidAPIKeyError)
      | Some (_, None) \<Rightarrow> raise TypeErr
      | Some (_, Some user) \<Rightarrow> require_active_user user m"
  have "auth_outcome m (key_user key w) w (?f x w2)"
    if rows: "same_rows w w2" and x: "x = ?q (work w)" for x w2
  proof (cases x)
    case None
    with rows show ?thesis by (simp add: outcome_refuse)
  next
    case (Some kf)
    obtain k f where kf: "kf = (k, f)" by fastforce
    with Some x have k: "find (\<lambda>k. k_key_hash k = ?h \<and> k_is_active k) (api_keys (work w)) = Some k"
      and f: "f = find (\<lambda>u. u_id u = k_user_id k) (users (work w))" by auto
    show ?thesis
    proof (cases f)
      case None
      with Some kf rows show ?thesis by (auto simp: auth_outcome_def raise_def same_rows_def)
    next
      case (Some u)
      with f have "u \<in> set (users (work w)) \<and> u_id u = k_user_id k" by (intro find_hit) simp
      with find_hit [OF k] raw have "key_user key w u" by (auto simp: key_user_def)
      with Some kf \<open>x = Some kf\<close> rows show ?thesis by (simp add: outcome_active)
    qed
  qed
  then have "auth_outcome m (key_user key w) w (bnd (except_sql_refuse m (key_error APIKeyServiceError)
        (get_active_api_key_by_hash ?h)) ?f w)"
    by (rule outcome_read [rotated, where Q = "\<lambda>x. x = ?q (work w)"])
      (auto simp: same_rows_def get_active_api_key_by_hash_def dest!: select_cases)
  moreover have "raw \<noteq> []" using raw(2) by auto
  ultimately show ?thesis using raw by (simp add: authenticate_api_key_def given_def)
qed

interpretation key_auth: authenticator "authenticate_api_key key m" m for key m
  by (rule authenticator_of_outcome [OF key_user_outcome]) (simp add: key_user_def)

section \<open>Browser checks\<close>

lemma no_commit_checks [keeps]:
  "no_commit (validate_request_origin s rq)" "no_commit (require_csrf_token rq h)"
  "no_commit (require_browser_csrf_token rq h)"
  unfolding validate_request_origin_def extract_origin_def check_origin_def require_csrf_token_def
    require_browser_csrf_token_def check_csrf_def of_result_def
  by (auto intro!: keeps split: option.splits sum.splits)

lemma extract_origin_ok:
  "extract_origin v w = (Inr x, w') \<longleftrightarrow> w' = w \<and>
     (if \<not> given v then x = None
      else \<exists>p. urlsplit (strip (the v)) = Some p \<and>
        x = (if url_scheme p \<notin> {''http'', ''https''} \<or> url_netloc p = [] then None
             else Some (lower (url_scheme p) @ ''://'' @ lower (url_netloc p))))"
  by (auto simp: extract_origin_def run_ok)

lemma check_origin_ok:
  "check_origin s rq x w = (Inr (), w') \<longleftrightarrow> w' = w \<and> (\<exists>og. x = Some og \<and> og \<in> allowed_origins s rq)"
  by (auto simp: check_origin_def run_ok split: option.splits)

lemma check_csrf_ok:
  "check_csrf rq h w = (Inr (), w') \<longleftrightarrow> w' = w \<and>
     (\<exists>tok. h = Some tok \<and> cookie rq CSRF_COOKIE_NAME = Some tok \<and> tok \<noteq> [] \<and> is_ascii tok)"
  by (auto simp: check_csrf_def run_ok verify_csrf_token_def compare_digest_def of_result_def
      split: option.splits if_splits)

end
