(* ===== verification/Key_Facts.thy ===== *)
theory Key_Facts
  imports Api_Keys Auth_Facts
begin

text \<open>Lemmas on API keys and profiles.\<close>

lemma no_commit_keys [keeps]:
  "no_commit (create_api_key_record i n h)" "no_commit (get_active_api_key_by_hash h)"
  "no_commit (list_user_api_keys i b)" "no_commit (get_user_api_key_by_id i j)" "no_commit (save_api_key k)"
  unfolding create_api_key_record_def get_active_api_key_by_hash_def list_user_api_keys_def
    get_user_api_key_by_id_def save_api_key_def Let_def by (intro keeps)+

lemma no_commit_api_key_list [keeps]: "no_commit (api_key_list i b)"
  unfolding api_key_list_def by (intro keeps)

section \<open>Writing back a key\<close>

definition put_api_key :: "api_key \<Rightarrow> db \<Rightarrow> db" where
  "put_api_key k d = d\<lparr>api_keys := update_where (\<lambda>r. k_id r = k_id k) (\<lambda>_. k) (api_keys d)\<rparr>"

lemma put_api_key_others [simp]:
  "users (put_api_key k d) = users d" "refresh_sessions (put_api_key k d) = refresh_sessions d"
  "auth_codes (put_api_key k d) = auth_codes d" "todos (put_api_key k d) = todos d"
  by (simp_all add: put_api_key_def)

lemma set_put_api_key:
  assumes "valid_db d" and "k \<in> set (api_keys d)" and "k_id k' = k_id k"
  shows "set (api_keys (put_api_key k' d)) = insert k' (set (api_keys d) - {k})"
  using set_replace [OF valid_keys(6) [OF assms(1)] assms(2), of k'] assms(3)
  by (simp add: put_api_key_def)

lemma save_api_key_eq:
  assumes "valid_db (work w)" and "k \<in> set (api_keys (work w))" and "k_id k' = k_id k"
  shows "save_api_key k' w = (Inr (), w\<lparr>work := put_api_key (touch_api_key (db_now w) k k') (work w)\<rparr>)"
  using update_where_const [OF valid_keys(6) [OF assms(1)] assms(2), of "\<lambda>r. touch_api_key (db_now w) r k'"]
    assms(3)
  by (simp add: save_api_key_def bnd_def read_def edit_def put_api_key_def touch_api_key_def)

section \<open>Issuing\<close>

lemma api_key_issue_success:
  assumes "api_key_issue user_id name w = (Inr r, w')"
  shows "committed w' = (work w)\<lparr>api_keys := api_keys (work w) @
      [api_key_row (api_key_seq w) (db_now w) user_id name (hash_secret (kr_api_key r))]\<rparr> \<and>
    valid_db (committed w') \<and> kr_api_key r = ''todo_'' @ token_urlsafe (drawn w) \<and>
    kr_id r = api_key_seq w \<and> kr_name r = name \<and> kr_is_active r"
proof -
  let ?raw = "''todo_'' @ token_urlsafe (drawn w)"
  let ?w1 = "w\<lparr>entropy := tl (entropy w)\<rparr>"
  from assms obtain k w2 w3 u1 u2 where
    cr: "create_api_key_record user_id name (hash_secret ?raw) ?w1 = (Inr k, w2)" and
    com: "commit w2 = (Inr u1, w3)" and w3: "w' = w3" and
    r: "r = \<lparr>kr_id = k_id k, kr_name = k_name k, kr_is_active = k_is_active k,
          kr_created_at = k_created_at k, kr_api_key = ?raw\<rparr>"
    unfolding api_key_issue_def generate_api_key_def run_ok by blast
  from cr have k: "k = api_key_row (api_key_seq w) (db_now w) user_id name (hash_secret ?raw)"
    and w2: "work w2 = (work w)\<lparr>api_keys := api_keys (work w) @ [k]\<rparr>"
    unfolding create_api_key_record_def Let_def next_api_key_id_def
    by (auto simp: bnd_ok read_ok edit_ok ret_ok dest!: flush_ok)
  from commit_ok [OF com] w3 w2 k r show ?thesis by (simp add: api_key_row_def)
qed

lemma atomic_api_key_issue: "atomic (api_key_issue i n)"
  unfolding api_key_issue_def generate_api_key_def
  by (intro atomic_bnd [OF no_commit_bnd [OF no_commit_prim(10)]] no_commit_prim atomic_bnd_ret
      atomic_except_sql atomic_bnd [OF no_commit_keys(1)] atomic_commit_ret)

section \<open>Revoking\<close>

lemma api_key_revoke_success:
  assumes "api_key_revoke user_id key_id w = (Inr (), w')" and "valid_db (work w)" "work w = committed w"
  obtains k k' where "k \<in> set (api_keys (work w))" "k_user_id k = user_id" "k_id k = key_id"
    "k' = k\<lparr>k_is_active := False, k_updated_at := k_updated_at k'\<rparr>"
    "committed w' = put_api_key k' (work w)" "valid_db (committed w')"
proof -
  from assms(1) obtain f w1 where
    get: "get_user_api_key_by_id user_id key_id w = (Inr f, w1)" and
    rest: "(case f of None \<Rightarrow> raise (key_error APIKeyNotFoundError)
        | Some record \<Rightarrow> if \<not> k_is_active record then ret ()
            else bnd (save_api_key (record\<lparr>k_is_active := False\<rparr>)) (\<lambda>_. commit)) w1 = (Inr (), w')"
    unfolding api_key_revoke_def catch_reraise_ok bnd_ok by blast
  from get have w1: "work w1 = work w" "committed w1 = committed w" "db_now w1 = db_now w"
    and f: "f = find (\<lambda>k. k_user_id k = user_id \<and> k_id k = key_id) (api_keys (work w))"
    by (auto simp: get_user_api_key_by_id_def run_ok dest!: select_ok)
  from rest obtain k where k: "f = Some k" by (cases f) (auto simp: raise_ok)
  with f have in_k: "k \<in> set (api_keys (work w))" "k_user_id k = user_id" "k_id k = key_id"
    by (auto dest: find_SomeD [OF sym])
  show thesis
  proof (cases "k_is_active k")
    case False
    then have same: "k = k\<lparr>k_is_active := False, k_updated_at := k_updated_at k\<rparr>" by (cases k) simp
    have "committed w' = work w" using rest k False w1 assms(3) by (simp add: ret_ok)
    moreover have "put_api_key k (work w) = work w"
    proof -
      have "update_where (\<lambda>r. k_id r = k_id k) (\<lambda>_. k) (api_keys (work w)) =
          update_where (\<lambda>r. k_id r = k_id k) (\<lambda>r. r) (api_keys (work w))"
        using update_where_const [OF valid_keys(6) [OF assms(2)] in_k(1), of "\<lambda>r. r"] by simp
      also have "\<dots> = api_keys (work w)" by (simp add: update_where_def)
      finally show ?thesis by (simp add: put_api_key_def)
    qed
    ultimately show thesis using that [OF in_k same] assms(2) by simp
  next
    case True
    let ?k = "touch_api_key (db_now w) k (k\<lparr>k_is_active := False\<rparr>)"
    have k': "?k = k\<lparr>k_is_active := False, k_updated_at := k_updated_at ?k\<rparr>"
      by (cases k) (simp add: touch_api_key_def)
    from rest k True obtain w2 where save: "save_api_key (k\<lparr>k_is_active := False\<rparr>) w1 = (Inr (), w2)"
      and com: "commit w2 = (Inr (), w')" by (auto simp: bnd_ok)
    have "save_api_key (k\<lparr>k_is_active := False\<rparr>) w1 = (Inr (), w1\<lparr>work := put_api_key ?k (work w)\<rparr>)"
      using save_api_key_eq [of w1 k] assms(2) in_k w1 by simp
    with save have "work w2 = put_api_key ?k (work w)" by auto
    with commit_ok [OF com] show thesis using that [OF in_k k'] by simp
  qed
qed

lemma atomic_api_key_revoke: "atomic (api_key_revoke i j)"
  unfolding api_key_revoke_def by (intro keeps)

section \<open>Profiles\<close>

lemma atomic_profile: "atomic (update_profile u n)" "atomic (deactivate_account u)"
  unfolding update_profile_def deactivate_account_def Let_def by (intro keeps)+

end
