(* ===== verification/Access_Props.thy ===== *)
theory Access_Props
  imports Deps_Facts Key_Facts Login_Facts Auth_Sample
begin

text \<open>Properties of the authenticators, API keys and browser checks, with their witnesses.\<close>

section \<open>Access tokens\<close>

text \<open>
  C27. Whoever a request's access token authenticates is real: under any faults, the caller is
  the stored, active and verified user whose id is the subject of a token that verifies now
  (the explicit bearer token if there is one, else the cookie); nothing was written, and
  exactly one successful attempt was counted.
\<close>

theorem token_authentication_is_sound:
  assumes "get_current_user env s t ck w = (Inr u, w')"
  shows "u \<in> set (users (work w)) \<and> u_is_active u \<and> is_email_verified u \<and>
     (\<exists>tok c. (if given t then t = Some tok else ck = Some tok) \<and>
        access_verdict env s (clock (tick w)) tok = Some c \<and>
        py_int (cl_sub c) = Some (u_id u) \<and> 0 < u_id u) \<and>
     work w' = work w \<and> committed w' = committed w \<and>
     trace w' = trace w @ [AuthAttempt ''access_token'' ''success'']"
  using current_user_outcome [of env s t ck w] assms
  by (auto simp: auth_outcome_def token_user_def selected_token_def names_user_def ACCESS_TOKEN_AUTH_def
      split: if_splits)

definition sample_access :: string where
  "sample_access = encode_payload sample_env default_settings
     (access_claims default_settings ''1'' (days 1) 0 sample_sid)"

lemma sample_access_verdict:
  "\<exists>c. access_verdict sample_env default_settings 100 sample_access = Some c \<and> py_int (cl_sub c) = Some 1"
proof -
  have "access_verdict sample_env default_settings 100 sample_access =
      Some (on_wire (access_claims default_settings ''1'' (days 1) 0 sample_sid))"
    unfolding sample_access_def
    by (rule access_verdict_own [OF sample_env_accepts default_identity_ok])
       (simp_all add: sane_time_def whole_seconds_def strip_one)
  moreover have "py_int ''1'' = Some 1"
    by (simp add: py_int_def strip_one parse_unsigned_def digit_of_def max_str_digits_def)
  ultimately show ?thesis by (simp add: on_wire_def access_claims_def strip_one)
qed

lemma sample_current_user:
  assumes "users d = users sample_users_db"
  shows "\<exists>w'. get_current_user sample_env default_settings (Some sample_access) ck (sample_world d) =
     (Inr (sample_user 1 ''a@example.com''), w')"
proof -
  let ?w = "sample_world d" and ?u = "sample_user 1 ''a@example.com''"
  obtain c where c: "access_verdict sample_env default_settings 100 sample_access = Some c"
    "py_int (cl_sub c) = Some 1" using sample_access_verdict by blast
  have ne: "sample_access \<noteq> []"
    using sample_env_text by (simp add: sample_access_def encode_payload_def jwt_text_def)
  have id: "access_token_user_id sample_env default_settings sample_access ?w = (Inr 1, ?w)"
    using c by (simp add: access_token_user_id_eq)
  have user: "get_user_by_id 1 ?w = (Inr (Some ?u), ?w)"
    by (simp add: get_user_by_id_def guard_simps act_simps select_fine int32_def assms)
       (simp add: sample_user_def)
  have "u_is_active ?u" "is_email_verified ?u" by (simp_all add: sample_user_def is_email_verified_def)
  with ne show ?thesis
    by (simp add: get_current_user_def select_access_token_def given_def bnd_run ret_def
        authenticate_access_token_def id except_sql_refuse_def catch_def user require_active_eq split: list.split)
qed

theorem token_authentication_is_sound_witness:
  "\<exists>u w'. get_current_user sample_env default_settings (Some sample_access) None (sample_world sample_db) =
      (Inr u, w') \<and> u \<in> set (users sample_db) \<and> u_is_active u"
proof -
  have "users sample_db = users sample_users_db" by simp
  from sample_current_user [OF this] obtain w' where
    run: "get_current_user sample_env default_settings (Some sample_access) None (sample_world sample_db) =
     (Inr (sample_user 1 ''a@example.com''), w')" by blast
  from token_authentication_is_sound [OF run] run show ?thesis by auto
qed

section \<open>Basic credentials and login\<close>

text \<open>What pwdlib documents of its two verifications: they agree on the verdict.\<close>

definition verdicts_agree :: "env \<Rightarrow> bool" where
  "verdicts_agree env \<longleftrightarrow> (\<forall>salt p h v.
     password_verify env p h = Some v \<longleftrightarrow> (\<exists>r. password_verify_and_update env salt p h = Verdict v r))"

lemma basic_runs:
  assumes "faults w = []"
  shows "(\<exists>w'. get_current_basic_user env (Some (name, pw)) w = (Inr u, w')) \<longleftrightarrow>
    find (\<lambda>u. u_email u = normalize_email name) (users (work w)) = Some u \<and>
    password_verify env pw (u_hashed_password u) = Some True \<and> u_is_active u \<and> is_email_verified u"
proof -
  have get: "get_user_by_email e w = (Inr (find (\<lambda>u. u_email u = e) (users (work w))), w)" for e
    using assms by (simp add: get_user_by_email_def select_fine)
  show ?thesis
    by (cases "find (\<lambda>u. u_email u = normalize_email name) (users (work w))")
      (auto simp: get_current_basic_user_def bnd_def except_sql_refuse_def catch_def get refuse_eq
        verify_password_def of_option_def ret_def raise_def require_active_eq split: option.splits)
qed

lemma authenticate_runs:
  assumes "faults w = []" "valid_db (work w)"
  shows "(\<exists>u w'. authenticate env name pw w = (Inr u, w') \<and> u_id u = i) \<longleftrightarrow>
    (\<exists>u r. find (\<lambda>u. u_email u = normalize_email name) (users (work w)) = Some u \<and> u_id u = i \<and>
      password_verify_and_update env (drawn w) pw (u_hashed_password u) = Verdict True r \<and>
      u_is_active u \<and> is_email_verified u)"
proof -
  have get: "get_user_by_email e w = (Inr (find (\<lambda>u. u_email u = e) (users (work w))), w)" for e
    using assms by (simp add: get_user_by_email_def select_fine)
  show ?thesis
  proof (cases "find (\<lambda>u. u_email u = normalize_email name) (users (work w))")
    case None
    then show ?thesis
      by (auto simp: authenticate_def bnd_def except_sql_app catch_def get raise_def
          verify_and_update_password_def draw_eq ret_def split: password_verdict.splits)
  next
    case (Some u)
    show ?thesis
    proof (cases "password_verify_and_update env (drawn w) pw (u_hashed_password u)")
      case (Verdict v r)
      show ?thesis using Some Verdict
        by (cases r) (auto simp: authenticate_def bnd_def except_sql_app catch_def get raise_def
            verify_and_update_password_def draw_eq ret_def Let_def save_user_def read_def edit_def)
    qed (use Some in \<open>auto simp: authenticate_def bnd_def except_sql_app catch_def get raise_def
          verify_and_update_password_def draw_eq ret_def\<close>)
  qed
qed

text \<open>
  HTTP Basic and the login form accept the same credentials for the same users: without
  faults, the one authenticates a user exactly when the other does, given that the two
  verifications of the password hasher agree.
\<close>

lemma basic_and_login_agree:
  assumes "faults w = []" "valid_db (work w)" "verdicts_agree env"
  shows "(\<exists>u w'. get_current_basic_user env (Some (name, pw)) w = (Inr u, w') \<and> u_id u = i) \<longleftrightarrow>
     (\<exists>u w'. authenticate env name pw w = (Inr u, w') \<and> u_id u = i)"
proof -
  have "password_verify env pw h = Some True \<longleftrightarrow>
      (\<exists>r. password_verify_and_update env (drawn w) pw h = Verdict True r)" for h
    using assms(3) unfolding verdicts_agree_def by simp
  note agree = this
  have "(\<exists>u w'. get_current_basic_user env (Some (name, pw)) w = (Inr u, w') \<and> u_id u = i) \<longleftrightarrow>
      (\<exists>u. (\<exists>w'. get_current_basic_user env (Some (name, pw)) w = (Inr u, w')) \<and> u_id u = i)" by blast
  then show ?thesis
    unfolding authenticate_runs [OF assms(1,2), of env name pw i] basic_runs [OF assms(1)] agree by blast
qed

section \<open>API keys\<close>

lemma key_auth_runs:
  assumes "faults w = []" "valid_db (work w)" "strip raw \<noteq> []"
    and "k \<in> set (api_keys (work w))" "k_is_active k" "k_key_hash k = hash_secret (strip raw)"
    and "u \<in> set (users (work w))" "u_id u = k_user_id k" "u_is_active u" "is_email_verified u"
  shows "\<exists>w'. authenticate_api_key (Some raw) m w = (Inr u, w')"
proof -
  let ?P = "\<lambda>k. k_key_hash k = hash_secret (strip raw) \<and> k_is_active k"
  have find: "find ?P (api_keys (work w)) = Some k"
  proof (cases "find ?P (api_keys (work w))")
    case None
    with assms(4-6) show ?thesis by (auto simp: find_None_iff)
  next
    case (Some x)
    then have "x \<in> set (api_keys (work w))" "?P x" by (auto dest: find_SomeD)
    with key_unique [OF valid_keys(7) [OF assms(2)] _ assms(4), of x] assms(6) Some show ?thesis by simp
  qed
  have user: "find (\<lambda>v. u_id v = k_user_id k) (users (work w)) = Some u"
    using find_user [OF assms(2,7)] assms(8) by simp
  have "raw \<noteq> []" using assms(3) by auto
  with assms(1,3,9,10) find user show ?thesis
    by (simp add: authenticate_api_key_def given_def bnd_run except_sql_refuse_def catch_def
        get_active_api_key_by_hash_def select_fine require_active_eq split: list.split)
qed

lemma issued_key_strip: "strip (''todo_'' @ token_urlsafe bs) = ''todo_'' @ token_urlsafe bs"
proof (rule strip_no_space)
  have "\<forall>c \<in> set (token_urlsafe bs). \<not> is_space c"
    using token_urlsafe_alphabet [of bs] alphabet_not_space by (auto simp: list_all_iff)
  moreover have "\<forall>c \<in> set ''todo_''. \<not> is_space c" by (simp add: is_space_def)
  ultimately show "\<forall>c \<in> set (''todo_'' @ token_urlsafe bs). \<not> is_space c" by auto
qed

text \<open>
  C28. An issued key works: after an issuance that returned, under any faults, the returned
  secret authenticates its owner, as long as the owner is active and verified and the
  database answers; the database holds the hash of the secret, under the returned id.
\<close>

theorem issued_api_key_authenticates:
  assumes "api_key_issue user_id name w = (Inr r, w')"
    and "work w2 = committed w'" "faults w2 = []"
    and "u \<in> set (users (work w2))" "u_id u = user_id" "u_is_active u" "is_email_verified u"
  shows "(\<exists>w3. authenticate_api_key (Some (kr_api_key r)) m w2 = (Inr u, w3)) \<and>
     (\<exists>k \<in> set (api_keys (committed w')). k_id k = kr_id r \<and> k_user_id k = user_id \<and> k_name k = name \<and>
        k_key_hash k = hash_secret (kr_api_key r))"
proof -
  let ?k = "api_key_row (api_key_seq w) (db_now w) user_id name (hash_secret (kr_api_key r))"
  note ok = api_key_issue_success [OF assms(1)]
  have in_k: "?k \<in> set (api_keys (work w2))" using ok assms(2) by simp
  have raw: "strip (kr_api_key r) = kr_api_key r" "kr_api_key r \<noteq> []"
    using ok issued_key_strip by simp_all
  have valid: "valid_db (work w2)" unfolding assms(2) by (rule ok [THEN conjunct2, THEN conjunct1])
  have row: "k_is_active ?k" "k_user_id ?k = user_id" "k_key_hash ?k = hash_secret (strip (kr_api_key r))"
    using raw(1) by (simp_all add: api_key_row_def)
  have "u_id u = k_user_id ?k" using row(2) assms(5) by simp
  then have "\<exists>w3. authenticate_api_key (Some (kr_api_key r)) m w2 = (Inr u, w3)"
    using raw by (intro key_auth_runs [OF assms(3) valid _ in_k row(1,3) assms(4) _ assms(6,7)]) simp_all
  moreover have "?k \<in> set (api_keys (committed w'))" using ok by simp
  ultimately show ?thesis using ok by (intro conjI bexI [of _ ?k]) (simp_all add: api_key_row_def)
qed

definition key_db :: db where
  "key_db = sample_users_db\<lparr>api_keys := [api_key_row 1 99 1 ''cli'' (hash_secret (''todo_'' @ token_urlsafe []))]\<rparr>"

lemma key_db_simps [simp]: "users key_db = users sample_users_db"
  "api_keys key_db = [api_key_row 1 99 1 ''cli'' (hash_secret (''todo_'' @ token_urlsafe []))]"
  by (simp_all add: key_db_def sample_users_db_def empty_db_def)

lemma valid_key_db: "valid_db key_db"
  unfolding key_db_def
  by (rule valid_put_api_keys [OF valid_sample_users_db])
     (simp_all add: api_keys_violation_None_iff api_key_row_def sample_user_def api_key_fits_def int32_def)

lemma sample_key_issue:
  "\<exists>r w'. api_key_issue 1 ''cli'' (sample_world sample_users_db) = (Inr r, w') \<and> committed w' = key_db"
proof -
  let ?w = "sample_world sample_users_db" and ?h = "hash_secret (''todo_'' @ token_urlsafe [])"
  have row: "sample_users_db\<lparr>api_keys := api_keys sample_users_db @ [api_key_row 1 99 1 ''cli'' ?h]\<rparr> = key_db"
    by (simp add: key_db_def sample_users_db_def empty_db_def)
  have "create_api_key_record 1 ''cli'' ?h ?w =
      (Inr (api_key_row 1 99 1 ''cli'' ?h), ?w\<lparr>api_key_seq := 2, work := key_db\<rparr>)"
    using valid_key_db row
    by (simp add: create_api_key_record_def Let_def bnd_run next_api_key_id_def read_def edit_def ret_def
        flush_fine)
  moreover have "draw ?w = (Inr [], ?w)" by (simp add: draw_def)
  ultimately show ?thesis
    using valid_key_db
    by (simp add: api_key_issue_def generate_api_key_def bnd_run ret_def except_sql_app commit_fine)
qed

theorem issued_api_key_authenticates_witness:
  "\<exists>r w' w3. api_key_issue 1 ''cli'' (sample_world sample_users_db) = (Inr r, w') \<and>
     authenticate_api_key (Some (kr_api_key r)) ''api_key_header'' (sample_world (committed w')) =
       (Inr (sample_user 1 ''a@example.com''), w3)"
proof -
  let ?u = "sample_user 1 ''a@example.com''"
  obtain r w' where run: "api_key_issue 1 ''cli'' (sample_world sample_users_db) = (Inr r, w')"
    and com: "committed w' = key_db" using sample_key_issue by blast
  have u: "?u \<in> set (users (work (sample_world (committed w'))))" "u_id ?u = 1" "u_is_active ?u"
    "is_email_verified ?u"
    by (simp_all add: com) (simp_all add: sample_user_def is_email_verified_def)
  from issued_api_key_authenticates [OF run _ _ u] run show ?thesis by auto
qed

text \<open>
  C29. A revoked key is dead: after a revocation that returned, under any faults, no secret
  whose hash is the key's authenticates anybody, by either transport; every other row of the
  database is as it was.
\<close>

theorem revoked_api_key_is_dead:
  assumes "api_key_revoke user_id key_id w = (Inr (), w')" and "valid_db (work w)" "work w = committed w"
  shows "\<exists>k \<in> set (api_keys (work w)). k_id k = key_id \<and> k_user_id k = user_id \<and>
     (\<forall>raw m w2. work w2 = committed w' \<and> hash_secret (strip raw) = k_key_hash k \<longrightarrow>
        \<not> succeeds (authenticate_api_key (Some raw) m) w2) \<and>
     set (api_keys (work w)) - {k} \<subseteq> set (api_keys (committed w')) \<and>
     users (committed w') = users (work w) \<and> todos (committed w') = todos (work w) \<and>
     refresh_sessions (committed w') = refresh_sessions (work w) \<and>
     auth_codes (committed w') = auth_codes (work w)"
proof -
  obtain k k' where k: "k \<in> set (api_keys (work w))" "k_user_id k = user_id" "k_id k = key_id" and
    k': "k' = k\<lparr>k_is_active := False, k_updated_at := k_updated_at k'\<rparr>" and
    com: "committed w' = put_api_key k' (work w)" and valid: "valid_db (committed w')"
    by (rule api_key_revoke_success [OF assms])
  have same: "k_id k' = k_id k" "k_key_hash k' = k_key_hash k" "\<not> k_is_active k'"
    by (subst k', simp)+
  have keys: "set (api_keys (committed w')) = insert k' (set (api_keys (work w)) - {k})"
    unfolding com by (rule set_put_api_key [OF assms(2) k(1) same(1)])
  have dead: "\<not> succeeds (authenticate_api_key (Some raw) m) w2"
    if w2: "work w2 = committed w'" and h: "hash_secret (strip raw) = k_key_hash k" for raw m w2
  proof
    assume "succeeds (authenticate_api_key (Some raw) m) w2"
    then obtain u w3 where "authenticate_api_key (Some raw) m w2 = (Inr u, w3)" by (auto simp: succeeds_def)
    with key_user_outcome [of m "Some raw" w2] obtain x where
      x: "x \<in> set (api_keys (committed w'))" "k_is_active x" "k_key_hash x = hash_secret (strip raw)"
      by (auto simp: auth_outcome_def key_user_def w2)
    have "k' \<in> set (api_keys (committed w'))" by (simp add: keys)
    moreover have "k_key_hash x = k_key_hash k'" using x(3) h same(2) by simp
    ultimately have "x = k'" using key_unique [OF valid_keys(7) [OF valid] x(1)] by blast
    with x(2) same(3) show False by simp
  qed
  with k keys show ?thesis by (intro bexI [of _ k]) (auto simp: com)
qed

theorem revoked_api_key_is_dead_witness:
  "\<exists>w'. api_key_revoke 1 1 (sample_world key_db) = (Inr (), w') \<and>
     \<not> succeeds (authenticate_api_key (Some (''todo_'' @ token_urlsafe [])) ''api_key_header'')
        (sample_world (committed w'))"
proof -
  let ?w = "sample_world key_db"
  let ?k = "api_key_row 1 99 1 ''cli'' (hash_secret (''todo_'' @ token_urlsafe []))"
  let ?d = "put_api_key (touch_api_key 99 ?k (?k\<lparr>k_is_active := False\<rparr>)) key_db"
  have get: "get_user_api_key_by_id 1 1 ?w = (Inr (Some ?k), ?w)"
    by (simp add: get_user_api_key_by_id_def guard_simps act_simps select_fine int32_def api_key_row_def)
  have save: "save_api_key (?k\<lparr>k_is_active := False\<rparr>) ?w = (Inr (), ?w\<lparr>work := ?d\<rparr>)"
    using save_api_key_eq [of ?w ?k "?k\<lparr>k_is_active := False\<rparr>"] valid_key_db by simp
  have "valid_db ?d"
    unfolding put_api_key_def
    using valid_replace_api_key [OF valid_key_db, of ?k "touch_api_key 99 ?k (?k\<lparr>k_is_active := False\<rparr>)"]
      valid_api_key [OF valid_key_db, of ?k]
    by (simp add: touch_api_key_def api_key_row_def api_key_fits_def)
  then obtain w' where run: "api_key_revoke 1 1 ?w = (Inr (), w')"
    using get save
    by (simp add: api_key_revoke_def bnd_run except_sql_app commit_fine api_key_row_def)
  have active: "hash_secret (strip (''todo_'' @ token_urlsafe [])) = k_key_hash ?k"
    by (simp only: issued_key_strip) (simp add: api_key_row_def)
  have only: "x = ?k" if "x \<in> set (api_keys (work ?w))" for x using that by simp
  from revoked_api_key_is_dead [OF run] valid_key_db
  obtain k where "k \<in> set (api_keys (work ?w))" and
    "\<forall>raw m w2. work w2 = committed w' \<and> hash_secret (strip raw) = k_key_hash k \<longrightarrow>
        \<not> succeeds (authenticate_api_key (Some raw) m) w2" by auto
  with only active have "\<not> succeeds (authenticate_api_key (Some (''todo_'' @ token_urlsafe []))
      ''api_key_header'') (sample_world (committed w'))" by (metis sample_world_simps(2))
  with run show ?thesis by blast
qed

section \<open>Browser requests\<close>

text \<open>
  What FastAPI documents of its bearer schemes: an authorization header whose scheme is
  bearer, in any case, yields its credential, up to outer whitespace.
\<close>

definition reads_bearer :: "(string option \<Rightarrow> string option) \<Rightarrow> bool" where
  "reads_bearer bearer \<longleftrightarrow> (\<forall>a scheme found credential.
     partition_char (CHR '' '') a = (scheme, found, credential) \<and> lower scheme = ''bearer'' \<longrightarrow>
     (\<exists>p. bearer (Some a) = Some p \<and> strip p = strip credential))"

definition read_bearer :: "string option \<Rightarrow> string option" where
  "read_bearer authorization = (case authorization of
      None \<Rightarrow> None
    | Some a \<Rightarrow> (case partition_char (CHR '' '') a of
        (scheme, _, credential) \<Rightarrow> if lower scheme = ''bearer'' then Some credential else None))"

lemma read_bearer_reads: "reads_bearer read_bearer"
  by (simp add: reads_bearer_def read_bearer_def)

lemma casefold_lower: "CHR ''s'' \<notin> set t \<Longrightarrow> casefold x = t \<Longrightarrow> lower x = t"
proof (induction x arbitrary: t)
  case Nil
  then show ?case by (simp add: lower_def)
next
  case (Cons c x)
  then have "fold_char c @ casefold x = t" by (simp add: casefold_Cons)
  moreover have "c \<noteq> CHR 0xDF" using calculation Cons.prems(1) by (auto simp: fold_char_def)
  ultimately have t: "t = lower_char c # casefold x" by (simp add: fold_char_def)
  with Cons.IH [of "casefold x"] Cons.prems(1) show ?case by (simp add: lower_def)
qed

lemma explicit_is_given:
  assumes "has_explicit_bearer_token rq" "reads_bearer bearer"
  shows "given (bearer (header rq ''authorization''))"
proof -
  obtain a scheme found credential where a: "header rq ''authorization'' = Some a"
    "partition_char (CHR '' '') a = (scheme, found, credential)"
    "casefold scheme = ''bearer''" "strip credential \<noteq> []"
    using assms(1)
    by (auto simp: has_explicit_bearer_token_def casefold_Cons Let_def split: option.splits prod.splits)
  have "lower scheme = ''bearer''" by (rule casefold_lower [OF _ a(3)]) simp
  with assms(2) a obtain p where "bearer (Some a) = Some p" "strip p \<noteq> []"
    unfolding reads_bearer_def by metis
  with a(1) show ?thesis by (cases p) (auto simp: given_def)
qed

definition browser_request :: request where
  "browser_request = \<lparr>rq_method = ''POST'', rq_scheme = ''http'', rq_netloc = ''api'',
     rq_headers = [(''origin'', ''http://api'')],
     rq_cookies = [(ACCESS_COOKIE_NAME, sample_access), (CSRF_COOKIE_NAME, ''c'')], rq_id = ''1''\<rparr>"

lemma browser_request_simps [simp]:
  "header browser_request ''authorization'' = None" "cookie browser_request ACCESS_COOKIE_NAME = Some sample_access"
  "cookie browser_request CSRF_COOKIE_NAME = Some ''c''" "header browser_request ''origin'' = Some ''http://api''"
  "rq_method browser_request = ''POST''" "uses_browser_session browser_request"
  by (simp_all add: browser_request_def header_def cookie_def ACCESS_COOKIE_NAME_def CSRF_COOKIE_NAME_def
      uses_browser_session_def)

lemma browser_request_csrf:
  "require_csrf_token browser_request (Some ''c'') w = (Inr (), w)"
  by (simp add: require_csrf_token_def has_explicit_bearer_token_def check_csrf_ok is_ascii_def)

lemma browser_request_user:
  "\<exists>w3. get_current_user sample_env default_settings None (Some sample_access) (sample_world sample_db) =
     (Inr (sample_user 1 ''a@example.com''), w3)"
proof -
  have "users sample_db = users sample_users_db" by simp
  from sample_current_user [OF this, of None] show ?thesis
    by (auto simp: get_current_user_def select_access_token_def given_def bnd_def refuse_eq split: list.splits)
qed

definition names_origin :: "request \<Rightarrow> string \<Rightarrow> string \<Rightarrow> bool" where
  "names_origin rq name og \<longleftrightarrow> (\<exists>v p. header rq name = Some v \<and> v \<noteq> [] \<and> urlsplit (strip v) = Some p \<and>
     url_scheme p \<in> {''http'', ''https''} \<and> url_netloc p \<noteq> [] \<and>
     og = lower (url_scheme p) @ ''://'' @ lower (url_netloc p))"

lemma extract_names: "extract_origin (header rq name) w = (Inr x, w') \<Longrightarrow>
    (\<forall>og. x = Some og \<longleftrightarrow> names_origin rq name og)"
  by (auto simp: extract_origin_ok names_origin_def given_def split: option.splits if_splits)

text \<open>
  A browser session writes only from an allowed page: an unsafe request that carries a
  session cookie and passes the origin check names, in its Origin header or else in its
  Referer, an http(s) page whose origin is the request's own or one of the configured ones;
  an Origin header that names another page is refused even without cookies.
\<close>

lemma browser_writes_from_allowed_origin:
  assumes "validate_request_origin s rq w = (Inr (), w')" and "upper_ascii (rq_method rq) \<notin> set SAFE_METHODS"
  shows "(\<forall>og. names_origin rq ''origin'' og \<longrightarrow> og \<in> allowed_origins s rq) \<and>
     (uses_browser_session rq \<longrightarrow>
        (\<exists>name \<in> {''origin'', ''referer''}. \<exists>og. names_origin rq name og \<and> og \<in> allowed_origins s rq))"
proof -
  from assms obtain x w1 where x: "extract_origin (header rq ''origin'') w = (Inr x, w1)" and
    rest: "(if x = None then
          if \<not> uses_browser_session rq then ret ()
          else bnd (extract_origin (header rq ''referer'')) (check_origin s rq)
        else check_origin s rq x) w1 = (Inr (), w')"
    by (auto simp: validate_request_origin_def bnd_ok)
  note og = extract_names [OF x]
  show ?thesis
  proof (cases x)
    case (Some o1)
    with rest have "o1 \<in> allowed_origins s rq" by (auto simp: check_origin_ok)
    moreover have "names_origin rq ''origin'' o1" by (rule og [THEN spec, THEN iffD1, OF Some])
    moreover have "og = o1" if "names_origin rq ''origin'' og" for og
      using og [rule_format, of og] that Some by simp
    ultimately show ?thesis by blast
  next
    case None
    then have none: "\<not> names_origin rq ''origin'' og" for og using og [rule_format, of og] by simp
    show ?thesis
    proof (cases "uses_browser_session rq")
      case False
      with none show ?thesis by blast
    next
      case True
      with None rest obtain y w2 where y: "extract_origin (header rq ''referer'') w1 = (Inr y, w2)"
        and "check_origin s rq y w2 = (Inr (), w')" by (auto simp: bnd_ok)
      then obtain o2 where "y = Some o2" "o2 \<in> allowed_origins s rq" by (auto simp: check_origin_ok)
      then have "names_origin rq ''referer'' o2" using extract_names [OF y, rule_format, of o2] by simp
      with \<open>o2 \<in> allowed_origins s rq\<close> none show ?thesis by blast
    qed
  qed
qed

lemma browser_request_origin:
  "validate_request_origin default_settings browser_request w = (Inr (), w)"
proof -
  have "extract_origin (Some ''http://api'') w = (Inr (Some ''http://api''), w)" for w
    by code_simp
  moreover have "''http://api'' \<in> allowed_origins default_settings browser_request"
    by (simp add: allowed_origins_def browser_request_def)
  moreover have "upper_ascii ''POST'' \<notin> set SAFE_METHODS" by code_simp
  ultimately show ?thesis
    by (simp add: validate_request_origin_def bnd_run check_origin_def ret_def)
qed

section \<open>From login to request\<close>

text \<open>
  C31. A login works: the access token of a login that returned, under any faults,
  authenticates the user on later requests until the last second of its lifetime, as long as
  the user stays active and verified and the database answers.
\<close>

theorem login_token_authenticates:
  assumes "create_login_session env s u w = (Inr t, w')"
    and "u \<in> set (users (work w))" "u_is_active u" "is_email_verified u" "0 < u_id u"
    and "work w2 = committed w'" "faults w2 = []" "now = clock (tick w2)"
    and "clock (tick w) \<le> now"
    and "now + 1000000 \<le> clock (tick w) + access_life s (refresh_session_absolute_ttl s)"
    and "sane_time (clock (tick w))" "sane_time (clock (tick w) + access_life s (refresh_session_absolute_ttl s))"
    and "jwt_accepts_own env" "jwt_text env" "identity_ok s"
  shows "\<exists>w3. get_current_user env s (Some (access_token t)) ck w2 = (Inr u, w3)"
proof -
  from assms(1) obtain w1 where stage: "stage_login_session env s u None w = (Inr t, w1)"
    and com: "commit w1 = (Inr (), w')"
    by (auto simp: create_login_session_def catch_reraise_ok bnd_ok ret_ok)
  obtain issued sid exp c where issued: "issued = (case (None :: time option) of Some i \<Rightarrow> i | None \<Rightarrow> clock (tick w))" and
    "clock w \<le> clock w1" and
    pair: "create_token_pair env s (py_str (u_id u)) sid issued (Some (issued + refresh_session_absolute_ttl s))
       ((case (None :: time option) of Some i \<Rightarrow> w | None \<Rightarrow> tick w)\<lparr>entropy := tl (entropy w)\<rparr>) = (Inr t, c)" and
    db: "work w1 = add_session (staged_session u t sid exp (issued + refresh_session_absolute_ttl s) issued (db_now w))
       (work w)" and
    "committed w1 = committed w" "faults w1 = faults w" "db_now w1 = db_now w"
    by (rule stage_login_success [OF stage]) (rule that)
  let ?exp = "issued + access_life s (refresh_session_absolute_ttl s)"
  have i: "issued = clock (tick w)" using issued by simp
  note valid = commit_ok [OF com]
  have w2: "work w2 = work w1" "valid_db (work w2)" using valid assms(6) by simp_all
  have user: "u \<in> set (users (work w2))" using assms(2) by (simp add: w2(1) db)
  have int: "int32 (u_id u)" using valid_user [OF w2(2) user] by (simp add: user_fits_def)
  then have pyint: "py_int (py_str (u_id u)) = Some (u_id u)"
    by (intro py_int_py_str id_below_max_str_digits) (auto simp: int32_def)
  obtain jti where tok: "access_token t = encode_payload env s
      (access_claims s (py_str (u_id u)) ?exp issued (token_hex jti))"
    using token_pair_success(1) [OF pair] by auto
  have "access_verdict env s (clock (tick w2)) (access_token t) =
      Some (on_wire (access_claims s (py_str (u_id u)) ?exp issued (token_hex jti)))"
    unfolding tok using assms(8-12) whole_seconds_le [of issued] whole_seconds_gt [of ?exp]
    by (intro access_verdict_own [OF assms(13,15)]) (simp_all add: i)
  then have id: "access_token_user_id env s (access_token t) w2 = (Inr (u_id u), tick w2)"
    using pyint assms(5) by (simp add: access_token_user_id_eq on_wire_def access_claims_def)
  have get: "get_user_by_id (u_id u) (tick w2) = (Inr (Some u), tick w2)"
    using find_user [OF w2(2) user] int assms(7)
    by (simp add: get_user_by_id_def guard_simps act_simps select_fine)
  have "access_token t \<noteq> []" using assms(14) by (simp add: tok encode_payload_def jwt_text_def)
  then show ?thesis using assms(3,4)
    by (simp add: get_current_user_def select_access_token_def given_def bnd_run ret_def
        authenticate_access_token_def id except_sql_refuse_def catch_def get require_active_eq split: list.split)
qed

lemma stage_login_now: "ticks w = [] \<Longrightarrow> stage_login_session env s u None w = stage_login_session env s u (Some (clock w)) w"
proof -
  assume "ticks w = []"
  then have "tick w = w" by (simp add: tick_def)
  then show ?thesis by (simp add: stage_login_session_def bnd_run now_utc_tick ret_def)
qed

lemma sample_login:
  "\<exists>t w'. create_login_session sample_env default_settings (sample_user 1 ''a@example.com'')
      (sample_world sample_users_db) = (Inr t, w') \<and> valid_db (committed w') \<and>
     users (committed w') = users sample_users_db"
proof -
  let ?w = "sample_world sample_users_db" and ?u = "sample_user 1 ''a@example.com''"
  let ?d = "add_session (fresh_session sample_env default_settings ?u 100 ?w) sample_users_db"
  have ticks: "ticks ?w = []" by (simp add: sample_world_def)
  have ttl: "refresh_session_absolute_ttl default_settings = days 90" "refresh_token_expire_days default_settings = 30"
    by (simp_all add: default_settings_def)
  have exp: "staged_expiry default_settings 100 = days 30"
    by (simp add: staged_expiry_def refresh_life_def ttl whole_seconds_def)
  have "\<exists>t. stage_login_session sample_env default_settings ?u (Some 100) ?w = (Inr t,
      ?w\<lparr>entropy := tl (tl (tl (entropy ?w))),
         work := add_session (fresh_session sample_env default_settings ?u 100 ?w) (work ?w)\<rparr>) \<and>
    refresh_token t = staged_token sample_env default_settings ?u 100 ?w"
    using ticks by (intro stage_login_runs)
      (simp_all add: default_settings_ok default_identity_ok sample_env_text sample_env_accepts sane_time_def ttl exp)
  then obtain t where "stage_login_session sample_env default_settings ?u (Some 100) ?w = (Inr t,
      ?w\<lparr>entropy := tl (tl (tl (entropy ?w))), work := ?d\<rparr>)" by auto
  then have stage: "stage_login_session sample_env default_settings ?u None ?w = (Inr t,
      ?w\<lparr>entropy := tl (tl (tl (entropy ?w))), work := ?d\<rparr>)"
    using stage_login_now [OF ticks, of sample_env default_settings ?u] by simp
  have none: "refresh_sessions sample_users_db = []" by (simp add: sample_users_db_def empty_db_def)
  have "valid_db ?d"
    by (rule valid_add_fresh [OF valid_sample_users_db]) (simp_all add: exp none)
  with stage show ?thesis
    by (simp add: create_login_session_def except_sql_app bnd_run commit_fine ret_def)
qed

theorem login_token_authenticates_witness:
  "\<exists>t w' w3. create_login_session sample_env default_settings (sample_user 1 ''a@example.com'')
      (sample_world sample_users_db) = (Inr t, w') \<and>
     get_current_user sample_env default_settings (Some (access_token t)) None (sample_world (committed w')) =
       (Inr (sample_user 1 ''a@example.com''), w3)"
proof -
  let ?u = "sample_user 1 ''a@example.com''" and ?w = "sample_world sample_users_db"
  obtain t w' where run: "create_login_session sample_env default_settings ?u ?w = (Inr t, w')"
    using sample_login by blast
  have tick: "tick (sample_world d) = sample_world d" for d by (simp add: tick_def sample_world_def)
  have life: "access_life default_settings (refresh_session_absolute_ttl default_settings) = minutes 15"
    by (simp add: access_life_def default_settings_def)
  have user: "u_is_active ?u" "is_email_verified ?u" "0 < u_id ?u"
    by (simp_all add: sample_user_def is_email_verified_def)
  have "\<exists>w3. get_current_user sample_env default_settings (Some (access_token t)) None
      (sample_world (committed w')) = (Inr ?u, w3)"
    by (rule login_token_authenticates [OF run _ user, where now = 100]; simp add: tick life sane_time_def
        default_identity_ok sample_env_text sample_env_accepts)
  with run show ?thesis by blast
qed

end
