(* ===== verification/Cookies.thy ===== *)
theory Cookies
  imports Deps_Facts
begin

text \<open>
  \<^verbatim>\<open>core/cookies.py\<close>: the three cookies of a browser session. A cookie that a response sets is
  a record with the attributes the program gives; deleting one is setting it, with the same
  scope, to an empty value that has expired.
\<close>

definition API_COOKIE_PATH :: string where "API_COOKIE_PATH = ''/api/v1''"
definition BROWSER_AUTH_COOKIE_PATH :: string where "BROWSER_AUTH_COOKIE_PATH = ''/api/v1/auth/browser''"
definition CSRF_COOKIE_PATH :: string where "CSRF_COOKIE_PATH = ''/''"

record set_cookie =
  ck_name :: string
  ck_value :: string
  ck_max_age :: int
  ck_expires :: "time option"
  ck_path :: string
  ck_secure :: bool
  ck_httponly :: bool
  ck_samesite :: same_site

definition remaining_seconds :: "time \<Rightarrow> int act" where
  "remaining_seconds expires_at =
     bnd now_utc (\<lambda>now. ret (max 1 (total_seconds_int (expires_at - now))))"

definition access_cookie :: "settings \<Rightarrow> string \<Rightarrow> int \<Rightarrow> set_cookie" where
  "access_cookie s value max_age =
     \<lparr>ck_name = ACCESS_COOKIE_NAME, ck_value = value, ck_max_age = max_age, ck_expires = None,
      ck_path = API_COOKIE_PATH, ck_secure = auth_cookie_secure s, ck_httponly = True,
      ck_samesite = auth_cookie_samesite s\<rparr>"

definition refresh_cookie :: "settings \<Rightarrow> string \<Rightarrow> int \<Rightarrow> time option \<Rightarrow> set_cookie" where
  "refresh_cookie s value max_age expires =
     \<lparr>ck_name = REFRESH_COOKIE_NAME, ck_value = value, ck_max_age = max_age, ck_expires = expires,
      ck_path = BROWSER_AUTH_COOKIE_PATH, ck_secure = auth_cookie_secure s, ck_httponly = True,
      ck_samesite = auth_cookie_samesite s\<rparr>"

definition csrf_cookie :: "settings \<Rightarrow> string \<Rightarrow> int \<Rightarrow> time option \<Rightarrow> set_cookie" where
  "csrf_cookie s value max_age expires =
     \<lparr>ck_name = CSRF_COOKIE_NAME, ck_value = value, ck_max_age = max_age, ck_expires = expires,
      ck_path = CSRF_COOKIE_PATH, ck_secure = auth_cookie_secure s, ck_httponly = False,
      ck_samesite = auth_cookie_samesite s\<rparr>"

definition set_browser_session_cookies ::
  "env \<Rightarrow> settings \<Rightarrow> token_response \<Rightarrow> set_cookie list act" where
  "set_browser_session_cookies env s tokens =
     bnd (decode_refresh_token env s (refresh_token tokens)) (\<lambda>payload.
     (let refresh_expires_at = cl_exp payload in
      bnd (remaining_seconds refresh_expires_at) (\<lambda>refresh_max_age.
      bnd draw (\<lambda>bs.
      ret [access_cookie s (access_token tokens) (expires_in tokens),
           refresh_cookie s (refresh_token tokens) refresh_max_age (Some refresh_expires_at),
           csrf_cookie s (token_urlsafe bs) refresh_max_age (Some refresh_expires_at)]))))"

text \<open>\<^verbatim>\<open>delete_cookie\<close> of Starlette: the empty value, \<^verbatim>\<open>max_age=0\<close>, \<^verbatim>\<open>expires=0\<close> (the epoch here).\<close>

definition clear_browser_session_cookies :: "settings \<Rightarrow> set_cookie list" where
  "clear_browser_session_cookies s =
     [access_cookie s [] 0 \<lparr>ck_expires := Some 0\<rparr>, refresh_cookie s [] 0 (Some 0), csrf_cookie s [] 0 (Some 0)]"

section \<open>The cookie jar of a browser\<close>

text \<open>
  What RFC 6265 says a browser does with them: a cookie is stored under its name and path, in
  place of an older one, and dropped when its \<^verbatim>\<open>max_age\<close> is not positive; it is sent to the
  paths below its own. The jar holds the values; the model has no clock here.
\<close>

type_synonym jar = "(string \<times> string) \<Rightarrow> string option"

definition store_cookie :: "jar \<Rightarrow> set_cookie \<Rightarrow> jar" where
  "store_cookie jar c = jar((ck_name c, ck_path c) := if 0 < ck_max_age c then Some (ck_value c) else None)"

definition store_cookies :: "jar \<Rightarrow> set_cookie list \<Rightarrow> jar" where
  "store_cookies = foldl store_cookie"

definition path_matches :: "string \<Rightarrow> string \<Rightarrow> bool" where
  "path_matches cookie_path request_path \<longleftrightarrow> cookie_path = request_path \<or>
     (prefix cookie_path request_path \<and> cookie_path \<noteq> [] \<and>
       (last cookie_path = CHR ''/'' \<or> request_path ! length cookie_path = CHR ''/''))"

lemmas cookie_consts = ACCESS_COOKIE_NAME_def REFRESH_COOKIE_NAME_def CSRF_COOKIE_NAME_def
  API_COOKIE_PATH_def BROWSER_AUTH_COOKIE_PATH_def CSRF_COOKIE_PATH_def

text \<open>Logging out removes what logging in stored.\<close>

lemma cleared_jar:
  "store_cookies jar (clear_browser_session_cookies s) = jar
     ((ACCESS_COOKIE_NAME, API_COOKIE_PATH) := None,
      (REFRESH_COOKIE_NAME, BROWSER_AUTH_COOKIE_PATH) := None, (CSRF_COOKIE_NAME, CSRF_COOKIE_PATH) := None)"
  by (simp add: store_cookies_def store_cookie_def clear_browser_session_cookies_def access_cookie_def
      refresh_cookie_def csrf_cookie_def)

lemma set_cookies_success:
  assumes "set_browser_session_cookies env s t w = (Inr cs, w')"
  shows "\<exists>m e csrf. cs = [access_cookie s (access_token t) (expires_in t),
      refresh_cookie s (refresh_token t) m (Some e), csrf_cookie s csrf m (Some e)] \<and>
    1 \<le> m \<and> csrf \<noteq> [] \<and> work w' = work w \<and> committed w' = committed w \<and> trace w' = trace w"
  using assms
  by (auto simp: set_browser_session_cookies_def remaining_seconds_def Let_def run_ok decode_refresh_eq
      split: option.splits)
    (intro exI conjI; (rule refl)?; simp)

end
