(* ===== verification/Http.thy ===== *)
theory Http
  imports Cookies Todo_Schema OAuth
begin

text \<open>
  What the routes answer with, and what becomes of an exception that leaves a route: the
  handlers of \<^verbatim>\<open>api/exception_handlers.py\<close> for the classes of the program, a plain 500 for any
  other. \<^verbatim>\<open>api/responses.py\<close> documents the answers of a route in the OpenAPI description.
\<close>

section \<open>Responses\<close>

datatype body =
    NoContent
  | RegistrationJson user_response bool bool \<comment> \<open>queued, sent\<close>
  | AcceptedJson
  | VerifiedJson
  | TokensJson token_response
  | SessionJson int
  | UserJson user_response
  | KeyJson api_key_created
  | KeysJson "api_key_response list"
  | TodoJson todo_response
  | TodosJson todo_list_response
  | SmtpJson string
  | DeliveryJson string string
  | HealthJson string
  | ErrorJson "(string \<times> string) list"
  | InvalidJson "string list" \<comment> \<open>the fields of a request that FastAPI refuses\<close>
  | Html string
  | ServerFailure

record reply =
  rp_status :: int
  rp_headers :: "(string \<times> string) list"
  rp_cookies :: "set_cookie list"
  rp_body :: body

definition respond :: "int \<Rightarrow> body \<Rightarrow> reply" where
  "respond status b = \<lparr>rp_status = status, rp_headers = [], rp_cookies = [], rp_body = b\<rparr>"

definition with_headers :: "(string \<times> string) list \<Rightarrow> reply \<Rightarrow> reply" where
  "with_headers hs r = r\<lparr>rp_headers := rp_headers r @ hs\<rparr>"

definition with_cookies :: "set_cookie list \<Rightarrow> reply \<Rightarrow> reply" where
  "with_cookies cs r = r\<lparr>rp_cookies := rp_cookies r @ cs\<rparr>"

definition no_store_headers :: "(string \<times> string) list" where
  "no_store_headers = [(''Cache-Control'', ''no-store''), (''Pragma'', ''no-cache'')]"

text \<open>FastAPI validates path, query, form and body once all dependencies have run: 422.\<close>

definition validated :: "string list + 'a \<Rightarrow> ('a \<Rightarrow> reply act) \<Rightarrow> reply act" where
  "validated payload endpoint = (case payload of
      Inl fields' \<Rightarrow> ret (respond 422 (InvalidJson fields'))
    | Inr x \<Rightarrow> endpoint x)"

section \<open>From exceptions to responses\<close>

definition error_reply :: "error_response \<Rightarrow> reply" where
  "error_reply e = \<lparr>rp_status = er_status e, rp_headers = er_headers e, rp_cookies = [],
     rp_body = ErrorJson (er_body e)\<rparr>"

definition has_authorization :: "request \<Rightarrow> bool" where
  "has_authorization rq \<longleftrightarrow> given (header rq ''authorization'')"

text \<open>
  A request from the open session to the response: an exception has rolled the session back;
  the handler counts the outcome of a registration. Only classes of the program have a
  handler; anything else is Starlette's 500.
\<close>

definition answer :: "request \<Rightarrow> string \<Rightarrow> reply act \<Rightarrow> reply act" where
  "answer rq path route = catch (get_session route) (\<lambda>e. Some (case e of
      AppErr c \<Rightarrow>
        (let r = handle_error path (has_authorization rq) c in
         bnd (case er_registration r of None \<Rightarrow> ret () | Some o' \<Rightarrow> emit (Registration o'))
           (\<lambda>_. ret (error_reply r)))
    | _ \<Rightarrow> ret (respond 500 ServerFailure)))"

lemma answer_total: "\<exists>r w'. answer rq path m w = (Inr r, w')"
proof -
  obtain x w1 where m: "get_session m w = (x, w1)" by fastforce
  show ?thesis
  proof (cases x)
    case (Inr r)
    with m show ?thesis by (simp add: answer_def catch_def)
  next
    case (Inl e)
    with m show ?thesis
      by (cases e)
        (auto simp: answer_def catch_def bnd_def ret_def emit_def Let_def split: option.splits)
  qed
qed

lemma answer_rolled_back: "answer rq path m w = (r, w') \<Longrightarrow> work w' = committed w'"
  by (auto simp: answer_def catch_def get_session_def bnd_def ret_def emit_def Let_def
      split: prod.splits sum.splits exn.splits option.splits)

lemma answer_committed:
  "committed (snd (answer rq path m w)) = committed (snd (m (w\<lparr>work := committed w\<rparr>)))"
  by (auto simp: answer_def catch_def get_session_def bnd_def ret_def emit_def Let_def
      split: prod.splits sum.splits exn.splits option.splits)

section \<open>The documentation of the responses\<close>

text \<open>
  \<^verbatim>\<open>error_response\<close>: description, examples (one per class, under its code, with its message),
  and the header that names the authentication scheme.
\<close>

record openapi_response =
  oa_description :: string
  oa_examples :: "(string \<times> string) list"
  oa_authenticate :: "string option"

definition doc_error_response :: "error_class list \<Rightarrow> string \<Rightarrow> string option \<Rightarrow> openapi_response" where
  "doc_error_response errors description auth_scheme =
     \<lparr>oa_description = description,
      oa_examples = map (\<lambda>e. (error_code e, public_message e)) errors,
      oa_authenticate = (case auth_scheme of Some a \<Rightarrow> if a = [] then None else Some a | None \<Rightarrow> None)\<rparr>"

text \<open>
  A row of a route's \<^verbatim>\<open>responses\<close>: the status, the classes documented under it, the scheme.
\<close>

type_synonym doc_row = "int \<times> error_class list \<times> string option"

text \<open>A row is true when every class it names is answered with its status and its scheme.\<close>

definition row_true :: "string \<Rightarrow> doc_row \<Rightarrow> bool" where
  "row_true path row = (case row of (status, errors, auth_scheme) \<Rightarrow>
     list_all (\<lambda>c. er_status (handle_error path False c) = status \<and>
       (case auth_scheme of None \<Rightarrow> True
        | Some a \<Rightarrow> (''WWW-Authenticate'', a) \<in> set (er_headers (handle_error path False c))))
       errors)"

end
