(* ===== verification/Web_Text.thy ===== *)
theory Web_Text
  imports Url
begin

text \<open>
  The text functions of the standard library that build links and pages: \<^verbatim>\<open>html.escape\<close>, and
  \<^verbatim>\<open>quote_plus\<close>, \<^verbatim>\<open>unquote\<close>, \<^verbatim>\<open>urlencode\<close>, \<^verbatim>\<open>parse_qsl\<close>, \<^verbatim>\<open>urlunsplit\<close> of \<^verbatim>\<open>urllib.parse\<close> (Python
  3.11). A percent-encoded text may decode to any Unicode text, so decoded texts are lists of
  code points; octets are numbers below 256.
\<close>

section \<open>Escaping for HTML\<close>

definition escape_char :: "char \<Rightarrow> string" where
  "escape_char c =
     (if c = CHR ''&'' then ''&amp;'' else if c = CHR ''<'' then ''&lt;''
      else if c = CHR ''>'' then ''&gt;'' else if c = CHR 0x22 then ''&quot;''
      else if c = CHR 0x27 then ''&#x27;'' else [c])"

definition escape_html :: "string \<Rightarrow> string" where
  "escape_html s = concat (map escape_char s)"

lemma escape_html_safe:
  "c \<in> set (escape_html s) \<Longrightarrow> c \<notin> {CHR ''<'', CHR ''>'', CHR 0x22, CHR 0x27}"
  by (auto simp: escape_html_def escape_char_def split: if_splits)

text \<open>Escaping loses nothing: the first character of a text can be read off its escape.\<close>

lemma escape_html_inj: "escape_html s = escape_html t \<longleftrightarrow> s = t"
proof (induction s arbitrary: t)
  case Nil
  have "escape_char c \<noteq> []" for c by (simp add: escape_char_def)
  then show ?case by (cases t) (auto simp: escape_html_def)
next
  case (Cons c s)
  show ?case
  proof (cases t)
    case Nil
    have "escape_char c \<noteq> []" by (simp add: escape_char_def)
    with Nil show ?thesis by (simp add: escape_html_def)
  next
    case (Cons d t')
    have "escape_char c @ x = escape_char d @ y \<longleftrightarrow> c = d \<and> x = y" for x y
      by (auto simp: escape_char_def)
    with Cons.IH [of t'] Cons show ?thesis by (simp add: escape_html_def)
  qed
qed

section \<open>UTF-8\<close>

type_synonym octets = "nat list"
type_synonym code_points = "nat list"

definition code_points :: "string \<Rightarrow> code_points" where
  "code_points s = map of_char s"

definition utf8_octets :: "nat \<Rightarrow> octets" where
  "utf8_octets n =
     (if n < 128 then [n]
      else if n < 2048 then [192 + n div 64, 128 + n mod 64]
      else if n < 65536 then [224 + n div 4096, 128 + n div 64 mod 64, 128 + n mod 64]
      else [240 + n div 262144, 128 + n div 4096 mod 64, 128 + n div 64 mod 64, 128 + n mod 64])"

definition is_tail :: "nat \<Rightarrow> bool" where
  "is_tail b \<longleftrightarrow> 128 \<le> b \<and> b < 192"

definition second_of_three :: "nat \<Rightarrow> nat \<Rightarrow> bool" where
  "second_of_three a b \<longleftrightarrow> (if a = 224 then 160 \<le> b \<and> b < 192
     else if a = 237 then 128 \<le> b \<and> b < 160 else is_tail b)"

definition second_of_four :: "nat \<Rightarrow> nat \<Rightarrow> bool" where
  "second_of_four a b \<longleftrightarrow> (if a = 240 then 144 \<le> b \<and> b < 192
     else if a = 244 then 128 \<le> b \<and> b < 144 else is_tail b)"

text \<open>
  \<^verbatim>\<open>bytes.decode('utf-8', 'replace')\<close>: a sequence that breaks off gives one U+FFFD, and decoding
  goes on at the octet that broke it.
\<close>

fun utf8_decode :: "octets \<Rightarrow> code_points" where
  "utf8_decode [] = []"
| "utf8_decode (a # bs) =
     (if a < 128 then a # utf8_decode bs
      else if 194 \<le> a \<and> a < 224 then
        (case bs of
           b # cs \<Rightarrow> if is_tail b then (64 * (a - 192) + (b - 128)) # utf8_decode cs
                    else 65533 # utf8_decode bs
         | [] \<Rightarrow> [65533])
      else if 224 \<le> a \<and> a < 240 then
        (case bs of
           b # c # ds \<Rightarrow>
             if \<not> second_of_three a b then 65533 # utf8_decode bs
             else if \<not> is_tail c then 65533 # utf8_decode (c # ds)
             else (4096 * (a - 224) + 64 * (b - 128) + (c - 128)) # utf8_decode ds
         | [b] \<Rightarrow> if second_of_three a b then [65533] else 65533 # utf8_decode bs
         | [] \<Rightarrow> [65533])
      else if 240 \<le> a \<and> a < 245 then
        (case bs of
           b # c # d # es \<Rightarrow>
             if \<not> second_of_four a b then 65533 # utf8_decode bs
             else if \<not> is_tail c then 65533 # utf8_decode (c # d # es)
             else if \<not> is_tail d then 65533 # utf8_decode (d # es)
             else (262144 * (a - 240) + 4096 * (b - 128) + 64 * (c - 128) + (d - 128)) # utf8_decode es
         | [b, c] \<Rightarrow>
             if \<not> second_of_four a b then 65533 # utf8_decode bs
             else if \<not> is_tail c then 65533 # utf8_decode [c]
             else [65533]
         | [b] \<Rightarrow> if second_of_four a b then [65533] else 65533 # utf8_decode bs
         | [] \<Rightarrow> [65533])
      else 65533 # utf8_decode bs)"

definition is_scalar :: "nat \<Rightarrow> bool" where
  "is_scalar n \<longleftrightarrow> n < 55296 \<or> (57344 \<le> n \<and> n < 1114112)"

lemma utf8_decode_octets:
  assumes "is_scalar n"
  shows "utf8_decode (utf8_octets n @ bs) = n # utf8_decode bs"
proof -
  consider "n < 128" | "128 \<le> n" "n < 2048" | "2048 \<le> n" "n < 65536" | "65536 \<le> n" by linarith
  then show ?thesis
  proof cases
    case 1
    then show ?thesis by (simp add: utf8_octets_def)
  next
    case 2
    then have "2 \<le> n div 64" "n div 64 < 32" by simp_all
    moreover have "64 * (n div 64) + n mod 64 = n" by simp
    ultimately show ?thesis using 2 by (simp add: utf8_octets_def is_tail_def)
  next
    case 3
    let ?a = "n div 4096" and ?b = "n div 64 mod 64" and ?c = "n mod 64"
    have sum: "4096 * ?a + 64 * ?b + ?c = n"
      by (metis (no_types, opaque_lifting) div_mult2_eq mod_mult2_eq mult_div_mod_eq numeral_times_numeral
          semiring_norm(13,12,11,14) add.assoc add.commute mult.assoc mult.commute)
    have "?a < 16" using 3 by simp
    have "second_of_three (224 + ?a) (128 + ?b)"
    proof -
      have "?b < 64" by simp
      moreover have "32 \<le> ?b" if "?a = 0"
        using that 3 sum by (simp add: div_less_iff_less_mult)
      moreover have "?b < 32" if "?a = 13" using that sum assms by (auto simp: is_scalar_def)
      ultimately show ?thesis by (auto simp: second_of_three_def is_tail_def)
    qed
    with 3 \<open>?a < 16\<close> sum show ?thesis by (simp add: utf8_octets_def is_tail_def)
  next
    case 4
    let ?a = "n div 262144" and ?b = "n div 4096 mod 64" and ?c = "n div 64 mod 64" and ?d = "n mod 64"
    have "n div 64 div 64 = n div 4096" "n div 4096 div 64 = n div 262144" by (simp_all add: div_mult2_eq [symmetric])
    then have "64 * (n div 4096) + ?c = n div 64" "64 * ?a + ?b = n div 4096"
      using mult_div_mod_eq [of 64 "n div 64"] mult_div_mod_eq [of 64 "n div 4096"] by simp_all
    moreover have "64 * (n div 64) + ?d = n" by simp
    ultimately have sum: "262144 * ?a + 4096 * ?b + 64 * ?c + ?d = n" by linarith
    have small: "?b < 64" "?c < 64" "?d < 64" by simp_all
    have "n < 1114112" using assms 4 by (simp add: is_scalar_def)
    then have "?a < 5" by simp
    have "second_of_four (240 + ?a) (128 + ?b)"
    proof -
      have "16 \<le> ?b" if "?a = 0" using that 4 sum small by linarith
      moreover have "?b < 16" if "?a = 4" using that sum \<open>n < 1114112\<close> by linarith
      ultimately show ?thesis using small by (auto simp: second_of_four_def is_tail_def)
    qed
    with 4 \<open>?a < 5\<close> sum small show ?thesis by (simp add: utf8_octets_def is_tail_def)
  qed
qed

lemma utf8_decode_encode: "list_all is_scalar t \<Longrightarrow> utf8_decode (concat (map utf8_octets t)) = t"
  by (induction t) (simp_all add: utf8_decode_octets)

lemma utf8_octets_bound: "is_scalar n \<Longrightarrow> b \<in> set (utf8_octets n) \<Longrightarrow> b < 256"
proof -
  assume "is_scalar n" "b \<in> set (utf8_octets n)"
  moreover have "n div 262144 < 16" if "n < 1114112" using that by simp
  moreover have "n div 4096 < 16" if "n < 65536" using that by simp
  moreover have "n div 64 < 32" if "n < 2048" using that by simp
  ultimately show ?thesis
    by (auto simp: utf8_octets_def is_scalar_def split: if_splits)
qed

section \<open>Percent-encoding\<close>

definition is_unreserved :: "nat \<Rightarrow> bool" where
  "is_unreserved b \<longleftrightarrow> (48 \<le> b \<and> b \<le> 57) \<or> (65 \<le> b \<and> b \<le> 90) \<or> (97 \<le> b \<and> b \<le> 122) \<or>
     b = 95 \<or> b = 46 \<or> b = 45 \<or> b = 126"

definition upper_hex :: "nat \<Rightarrow> nat" where
  "upper_hex n = (if n < 10 then 48 + n else 55 + n)"

definition hex_of :: "nat \<Rightarrow> nat option" where
  "hex_of c = (if 48 \<le> c \<and> c \<le> 57 then Some (c - 48)
     else if 65 \<le> c \<and> c \<le> 70 then Some (c - 55)
     else if 97 \<le> c \<and> c \<le> 102 then Some (c - 87) else None)"

definition quote_octet :: "nat \<Rightarrow> code_points" where
  "quote_octet b = (if is_unreserved b then [b] else if b = 32 then [43]
     else [37, upper_hex (b div 16), upper_hex (b mod 16)])"

definition quote_plus :: "code_points \<Rightarrow> code_points" where
  "quote_plus t = concat (map quote_octet (concat (map utf8_octets t)))"

text \<open>\<^verbatim>\<open>unquote_to_bytes\<close> on a run of ASCII characters: a percent sign without two digits stays.\<close>

fun unquote_octets :: "code_points \<Rightarrow> octets" where
  "unquote_octets (p # a # b # rest) =
     (if p = 37 then (case (hex_of a, hex_of b) of
          (Some x, Some y) \<Rightarrow> (16 * x + y) # unquote_octets rest
        | _ \<Rightarrow> p # unquote_octets (a # b # rest))
      else p # unquote_octets (a # b # rest))"
| "unquote_octets t = t"

text \<open>\<^verbatim>\<open>unquote\<close>: the runs of ASCII characters are decoded, the others stay.\<close>

fun unquote_from :: "code_points \<Rightarrow> code_points \<Rightarrow> code_points" where
  "unquote_from run [] = utf8_decode (unquote_octets (rev run))"
| "unquote_from run (c # cs) =
     (if c < 128 then unquote_from (c # run) cs
      else utf8_decode (unquote_octets (rev run)) @ c # unquote_from [] cs)"

definition unquote :: "code_points \<Rightarrow> code_points" where
  "unquote t = unquote_from [] t"

definition plus_to_space :: "nat \<Rightarrow> nat" where
  "plus_to_space c = (if c = 43 then 32 else c)"

definition unquote_plus :: "code_points \<Rightarrow> code_points" where
  "unquote_plus t = unquote (map plus_to_space t)"

section \<open>Queries\<close>

fun split_at_char :: "nat \<Rightarrow> code_points \<Rightarrow> code_points list" where
  "split_at_char x [] = [[]]"
| "split_at_char x (c # cs) = (if c = x then [] # split_at_char x cs
     else (case split_at_char x cs of [] \<Rightarrow> [[c]] | p # ps \<Rightarrow> (c # p) # ps))"

definition query_pair :: "code_points \<Rightarrow> code_points \<times> code_points" where
  "query_pair nv = (unquote_plus (takeWhile (\<lambda>c. c \<noteq> 61) nv), unquote_plus (tl (dropWhile (\<lambda>c. c \<noteq> 61) nv)))"

text \<open>\<^verbatim>\<open>parse_qsl(query, keep_blank_values=True)\<close>.\<close>

definition parse_qsl :: "code_points \<Rightarrow> (code_points \<times> code_points) list" where
  "parse_qsl query = map query_pair (filter (\<lambda>nv. nv \<noteq> []) (split_at_char 38 query))"

fun join_with :: "nat \<Rightarrow> code_points list \<Rightarrow> code_points" where
  "join_with x [] = []"
| "join_with x [p] = p"
| "join_with x (p # q # ps) = p @ x # join_with x (q # ps)"

definition urlencode :: "(code_points \<times> code_points) list \<Rightarrow> code_points" where
  "urlencode kvs = join_with 38 (map (\<lambda>(k, v). quote_plus k @ 61 # quote_plus v) kvs)"

definition uses_netloc :: "string list" where
  "uses_netloc = [[], ''ftp'', ''http'', ''gopher'', ''nntp'', ''telnet'', ''imap'', ''wais'', ''file'',
     ''mms'', ''https'', ''shttp'', ''snews'', ''prospero'', ''rtsp'', ''rtspu'', ''rsync'', ''svn'',
     ''svn+ssh'', ''sftp'', ''nfs'', ''git'', ''git+ssh'', ''ws'', ''wss'']"

text \<open>\<^verbatim>\<open>urlunsplit\<close>; a query that \<^verbatim>\<open>urlencode\<close> made is ASCII.\<close>

definition urlunsplit :: "url \<Rightarrow> string" where
  "urlunsplit u =
     (let path = url_path u;
          located = (if url_netloc u \<noteq> [] \<or>
               (url_scheme u \<noteq> [] \<and> url_scheme u \<in> set uses_netloc \<and> take 2 path \<noteq> ''//'')
             then ''//'' @ url_netloc u @ (if path \<noteq> [] \<and> hd path \<noteq> CHR ''/'' then CHR ''/'' # path else path)
             else path);
          schemed = (if url_scheme u \<noteq> [] then url_scheme u @ CHR '':'' # located else located);
          queried = (if url_query u \<noteq> [] then schemed @ CHR ''?'' # url_query u else schemed)
      in if url_fragment u \<noteq> [] then queried @ CHR ''#'' # url_fragment u else queried)"

definition ascii_text :: "code_points \<Rightarrow> string" where
  "ascii_text t = map char_of t"

section \<open>Encoding and parsing a query\<close>

lemma hex_of_upper: "n < 16 \<Longrightarrow> hex_of (upper_hex n) = Some n"
  by (simp add: hex_of_def upper_hex_def)

lemma quote_octet_ascii: "b < 256 \<Longrightarrow> c \<in> set (quote_octet b) \<Longrightarrow>
    c < 128 \<and> c \<noteq> 38 \<and> c \<noteq> 61 \<and> c \<noteq> 35 \<and> c \<noteq> 32"
proof -
  assume b: "b < 256" and c: "c \<in> set (quote_octet b)"
  have "48 \<le> upper_hex n \<and> upper_hex n \<le> 57 \<or> 65 \<le> upper_hex n \<and> upper_hex n \<le> 70" if "n < 16" for n
    using that by (cases "n < 10") (auto simp: upper_hex_def)
  then have hex: "upper_hex n < 128 \<and> upper_hex n \<noteq> 38 \<and> upper_hex n \<noteq> 61 \<and> upper_hex n \<noteq> 35 \<and> upper_hex n \<noteq> 32"
    if "n < 16" for n using that by fastforce
  from c consider "is_unreserved b" "c = b" | "c = 43" | "c = 37" | "c = upper_hex (b div 16)" | "c = upper_hex (b mod 16)"
    by (auto simp: quote_octet_def split: if_splits)
  then show ?thesis
  proof cases
    case 1
    then show ?thesis unfolding is_unreserved_def by (elim disjE conjE) simp_all
  qed (use b hex in simp_all)
qed

lemma unquote_octets_other: "p \<noteq> 37 \<Longrightarrow> unquote_octets (p # t) = p # unquote_octets t"
proof (cases t)
  case (Cons a s)
  then show "p \<noteq> 37 \<Longrightarrow> ?thesis" by (cases s) simp_all
qed simp

lemma unquote_octets_quote:
  "b < 256 \<Longrightarrow> unquote_octets (map plus_to_space (quote_octet b) @ t) = b # unquote_octets t"
proof -
  assume "b < 256"
  then have hex: "hex_of (upper_hex (b div 16)) = Some (b div 16)" "hex_of (upper_hex (b mod 16)) = Some (b mod 16)"
    by (simp_all add: hex_of_upper)
  have plain: "plus_to_space (upper_hex n) = upper_hex n" for n
    by (simp add: plus_to_space_def upper_hex_def)
  consider "is_unreserved b" | "\<not> is_unreserved b" "b = 32" | "\<not> is_unreserved b" "b \<noteq> 32" by blast
  then show ?thesis
  proof cases
    case 1
    then have "b \<noteq> 37" "plus_to_space b = b" by (auto simp: is_unreserved_def plus_to_space_def)
    with 1 show ?thesis by (simp add: quote_octet_def unquote_octets_other)
  next
    case 2
    then show ?thesis by (simp add: quote_octet_def plus_to_space_def unquote_octets_other)
  next
    case 3
    then show ?thesis using hex plain by (simp add: quote_octet_def plus_to_space_def [of 37])
  qed
qed

lemma unquote_from_ascii: "list_all (\<lambda>c. c < 128) t \<Longrightarrow>
    unquote_from run t = utf8_decode (unquote_octets (rev run @ t))"
  by (induction t arbitrary: run) simp_all

lemma quote_plus_ascii:
  assumes "list_all is_scalar t" "c \<in> set (quote_plus t)"
  shows "c < 128 \<and> c \<noteq> 38 \<and> c \<noteq> 61 \<and> c \<noteq> 35 \<and> c \<noteq> 32"
  using assms quote_octet_ascii utf8_octets_bound by (fastforce simp: quote_plus_def list_all_iff)

lemma unquote_octets_quotes:
  "list_all (\<lambda>b. b < 256) bs \<Longrightarrow> unquote_octets (map plus_to_space (concat (map quote_octet bs))) = bs"
  by (induction bs) (simp_all add: unquote_octets_quote)

lemma unquote_quote_plus: "list_all is_scalar t \<Longrightarrow> unquote_plus (quote_plus t) = t"
proof -
  assume t: "list_all is_scalar t"
  let ?bs = "concat (map utf8_octets t)"
  have "list_all (\<lambda>b. b < 256) ?bs"
    using t utf8_octets_bound by (auto simp: list_all_iff)
  then have "unquote_octets (map plus_to_space (quote_plus t)) = ?bs"
    unfolding quote_plus_def by (rule unquote_octets_quotes)
  moreover have "list_all (\<lambda>c. c < 128) (map plus_to_space (quote_plus t))"
    using quote_plus_ascii [OF t] by (auto simp: list_all_iff plus_to_space_def)
  ultimately show ?thesis
    using utf8_decode_encode [OF t] by (simp add: unquote_plus_def unquote_def unquote_from_ascii)
qed

lemma split_join: "ps \<noteq> [] \<Longrightarrow> \<forall>p \<in> set ps. x \<notin> set p \<Longrightarrow> split_at_char x (join_with x ps) = ps"
proof (induction x ps rule: join_with.induct)
  case (2 x p)
  then have "x \<notin> set p" by simp
  then show ?case by (induction p) auto
next
  case (3 x p q ps)
  then have "x \<notin> set p" "split_at_char x (join_with x (q # ps)) = q # ps" by simp_all
  then have "split_at_char x (p @ x # join_with x (q # ps)) = p # q # ps" by (induction p) auto
  then show ?case by simp
qed simp

definition sound_pairs :: "(code_points \<times> code_points) list \<Rightarrow> bool" where
  "sound_pairs kvs \<longleftrightarrow> list_all (\<lambda>(k, v). list_all is_scalar k \<and> list_all is_scalar v) kvs"

lemma takeWhile_eq: "x \<notin> set a \<Longrightarrow> takeWhile (\<lambda>c. c \<noteq> x) (a @ x # b) = a"
  "x \<notin> set a \<Longrightarrow> tl (dropWhile (\<lambda>c. c \<noteq> x) (a @ x # b)) = b"
  by (induction a) auto

lemma query_pair_encoded:
  assumes "list_all is_scalar k" "list_all is_scalar v"
  shows "query_pair (quote_plus k @ 61 # quote_plus v) = (k, v)"
proof -
  have "61 \<notin> set (quote_plus k)" using quote_plus_ascii [OF assms(1)] by blast
  then show ?thesis using assms by (simp add: query_pair_def takeWhile_eq unquote_quote_plus)
qed

lemma parse_urlencode: "sound_pairs kvs \<Longrightarrow> parse_qsl (urlencode kvs) = kvs"
proof (cases "kvs = []")
  case True
  then show ?thesis by (simp add: urlencode_def parse_qsl_def)
next
  case False
  assume sound: "sound_pairs kvs"
  let ?p = "\<lambda>(k, v). quote_plus k @ 61 # quote_plus v"
  have "38 \<notin> set (?p kv)" if "kv \<in> set kvs" for kv
    using sound that quote_plus_ascii by (fastforce simp: sound_pairs_def list_all_iff split: prod.splits)
  then have "split_at_char 38 (urlencode kvs) = map ?p kvs"
    unfolding urlencode_def using False by (intro split_join) auto
  moreover have "filter (\<lambda>nv. nv \<noteq> []) (map ?p kvs) = map ?p kvs"
    by (rule filter_True) (auto split: prod.splits)
  moreover have "map (query_pair \<circ> ?p) kvs = kvs"
    using sound by (intro map_idI) (auto simp: sound_pairs_def list_all_iff query_pair_encoded)
  ultimately show ?thesis by (simp add: parse_qsl_def)
qed

lemma code_points_scalar: "list_all is_scalar (code_points s)"
proof -
  have "is_scalar (of_char c)" for c :: char
  proof -
    have "(of_char c :: nat) < 256" by (metis nat_of_char_less_256)
    then show ?thesis unfolding is_scalar_def by linarith
  qed
  then show ?thesis by (simp add: code_points_def list_all_iff)
qed

end
