(* ===== verification/Mail.thy ===== *)
theory Mail
  imports Http Web_Text
begin

text \<open>
  Messages: their texts (\<^verbatim>\<open>utils/email.py\<close>), their delivery (\<^verbatim>\<open>services/email.py\<close>,
  \<^verbatim>\<open>background/tasks/email.py\<close>), the hand-over to the queue (\<^verbatim>\<open>background/dispatch.py\<close>) and the
  two routes of \<^verbatim>\<open>routes/email.py\<close>. The SMTP client and the broker of the queue are parameters:
  what they answer is an argument.
\<close>

section \<open>Texts\<close>

fun join_lines :: "string list \<Rightarrow> string" where
  "join_lines [] = []"
| "join_lines [l] = l"
| "join_lines (l # l' # ls) = l @ CHR 0x0A # join_lines (l' # ls)"

record email_content =
  subject :: string
  html_body :: string
  plain_body :: string

definition greeting_name :: "string option \<Rightarrow> string" where
  "greeting_name full_name = (if given full_name then the full_name else ''there'')"

definition verification_url :: "settings \<Rightarrow> string \<Rightarrow> string" where
  "verification_url s token = email_verification_url s @ ''?'' @
     ascii_text (urlencode [(code_points ''token'', code_points token)])"

text \<open>\<open>hours\<close> is the text Python prints for a duration in hours (\<^verbatim>\<open>:g\<close> on a float).\<close>

definition create_verification_email ::
  "(time \<Rightarrow> string) \<Rightarrow> settings \<Rightarrow> string \<Rightarrow> string option \<Rightarrow> email_content" where
  "create_verification_email hours s token full_name =
     (let url = verification_url s token;
          safe_name = escape_html (greeting_name full_name);
          safe_url = escape_html url;
          ttl_label = hours (email_verification_token_ttl s) @ '' hours''
      in \<lparr>subject = ''Verify your '' @ app_name s @ '' email'',
          html_body = strip (join_lines
            [[],
             ''    <div style=\"font-family: sans-serif; line-height: 1.5; color: #1f2937\">'',
             ''      <h2>Verify your email</h2>'',
             ''      <p>Hello '' @ safe_name @ '',</p>'',
             ''      <p>Confirm your email address to finish setting up your '' @ escape_html (app_name s) @ '' account.</p>'',
             ''      <p>'',
             ''        <a href=\"'' @ safe_url @ ''\"'',
             ''           style=\"display: inline-block; padding: 10px 16px; color: white; background: #2563eb; text-decoration: none; border-radius: 6px\">'',
             ''          Verify email'',
             ''        </a>'',
             ''      </p>'',
             ''      <p>This single-use link expires in '' @ ttl_label @ ''.</p>'',
             ''      <p>If you did not create this account, you can ignore this email.</p>'',
             ''    </div>'',
             ''    '']),
          plain_body = join_lines
            [''Hello '' @ greeting_name full_name @ '','', [],
             ''Verify your email address for '' @ app_name s @ '' by opening this link:'',
             url, [],
             ''This single-use link expires in '' @ ttl_label @
             ''. If you did not create this account, you can ignore this email.'']\<rparr>)"

definition create_welcome_email :: "settings \<Rightarrow> string option \<Rightarrow> email_content" where
  "create_welcome_email s full_name =
     (let safe_name = escape_html (greeting_name full_name);
          safe_app_name = escape_html (app_name s)
      in \<lparr>subject = ''Welcome to '' @ app_name s,
          html_body = ''<div style=\"font-family: sans-serif; line-height: 1.5; color: #1f2937\">'' @
            ''<h2>Welcome to '' @ safe_app_name @ ''</h2>'' @
            ''<p>Hello '' @ safe_name @ '',</p>'' @
            ''<p>Your '' @ safe_app_name @ '' account is ready. You can now sign in and start '' @
            ''organizing your todos.</p>'' @
            ''<p>Thanks for joining us.</p>'' @
            ''</div>'',
          plain_body = join_lines
            [''Hello '' @ greeting_name full_name @ '','', [],
             ''Your '' @ app_name s @ '' account is ready. You can now sign in and start organizing your todos.'',
             [], ''Thanks for joining us.'']\<rparr>)"

section \<open>Delivery\<close>

datatype message_type = Plain | HtmlText

record message =
  mm_subject :: string
  mm_recipient :: string
  mm_body :: string
  mm_type :: message_type
  mm_alternative :: "string option"

text \<open>
  What the SMTP client ends with: fine, one of the errors that the service catches (of the
  connection, SMTP, the system, a timeout), or any other exception.
\<close>

datatype smtp_outcome = SmtpFine | SmtpDown | SmtpBroken exn

record mailer =
  deliver :: "message \<Rightarrow> smtp_outcome"
  connection :: smtp_outcome

definition smtp :: "smtp_outcome \<Rightarrow> unit act" where
  "smtp outcome = (case outcome of
      SmtpFine \<Rightarrow> ret ()
    | SmtpDown \<Rightarrow> raise (AppErr (Email_Error EmailServiceUnavailableError))
    | SmtpBroken e \<Rightarrow> raise e)"

definition suppresses_delivery :: "settings \<Rightarrow> bool" where
  "suppresses_delivery s = mail_suppress_send s"

definition send_mail ::
  "mailer \<Rightarrow> settings \<Rightarrow> string \<Rightarrow> string \<Rightarrow> string \<Rightarrow> message_type \<Rightarrow> string option \<Rightarrow> bool act" where
  "send_mail m s recipient subject' body' subtype alternative =
     bnd (smtp (deliver m \<lparr>mm_subject = subject', mm_recipient = recipient, mm_body = body',
                           mm_type = subtype, mm_alternative = alternative\<rparr>)) (\<lambda>_.
     ret (\<not> suppresses_delivery s))"

definition check_connection :: "mailer \<Rightarrow> settings \<Rightarrow> bool act" where
  "check_connection m s =
     (if suppresses_delivery s then ret False
      else bnd (smtp (connection m)) (\<lambda>_. ret True))"

definition send_message :: "mailer \<Rightarrow> settings \<Rightarrow> string \<Rightarrow> email_content \<Rightarrow> bool act" where
  "send_message m s recipient content =
     send_mail m s recipient (subject content) (html_body content) HtmlText (Some (plain_body content))"

text \<open>The two tasks return whether the message was delivered, and its kind.\<close>

definition send_registration_verification_email ::
  "mailer \<Rightarrow> (time \<Rightarrow> string) \<Rightarrow> settings \<Rightarrow> string \<Rightarrow> string \<Rightarrow> string option \<Rightarrow> (bool \<times> string) act" where
  "send_registration_verification_email m hours s recipient token full_name =
     bnd (send_message m s recipient (create_verification_email hours s token full_name)) (\<lambda>delivered.
     ret (delivered, ''registration_verification''))"

definition send_registration_welcome_email ::
  "mailer \<Rightarrow> settings \<Rightarrow> string \<Rightarrow> string option \<Rightarrow> (bool \<times> string) act" where
  "send_registration_welcome_email m s recipient full_name =
     bnd (send_message m s recipient (create_welcome_email s full_name)) (\<lambda>delivered.
     ret (delivered, ''registration_welcome''))"

section \<open>The queue\<close>

type_synonym task_args = "(string \<times> string option) list"

text \<open>Whether \<^verbatim>\<open>apply_async\<close> returns: any exception of it is logged and swallowed.\<close>

type_synonym broker = "string \<Rightarrow> task_args \<Rightarrow> bool"

definition VERIFICATION_TASK :: string where
  "VERIFICATION_TASK = ''todo_api.email.send_registration_verification_email''"

definition WELCOME_TASK :: string where
  "WELCOME_TASK = ''todo_api.email.send_registration_welcome_email''"

definition publish :: "broker \<Rightarrow> string \<Rightarrow> task_args \<Rightarrow> string \<Rightarrow> time option \<Rightarrow> bool act" where
  "publish broker task kwargs request_id expires =
     (if broker task kwargs
      then bnd (emit (Published task kwargs request_id expires)) (\<lambda>_. ret True)
      else ret False)"

definition enqueue_registration_verification_email ::
  "broker \<Rightarrow> string \<Rightarrow> string \<Rightarrow> string option \<Rightarrow> string \<Rightarrow> time \<Rightarrow> bool act" where
  "enqueue_registration_verification_email broker recipient token full_name request_id expires_at =
     publish broker VERIFICATION_TASK
       [(''recipient'', Some recipient), (''token'', Some token), (''full_name'', full_name)]
       request_id (Some expires_at)"

definition enqueue_registration_welcome_email ::
  "broker \<Rightarrow> string \<Rightarrow> string option \<Rightarrow> string \<Rightarrow> bool act" where
  "enqueue_registration_welcome_email broker recipient full_name request_id =
     publish broker WELCOME_TASK
       [(''recipient'', Some recipient), (''full_name'', full_name)] request_id None"

text \<open>\<^verbatim>\<open>record_activity\<close>, which runs after the response; only its event and user are kept.\<close>

definition record_activity :: "string \<Rightarrow> int \<Rightarrow> unit act" where
  "record_activity event' user_id = emit (Activity event' user_id)"

section \<open>The routes\<close>

record email_test =
  et_subject :: string
  et_body :: string
  et_subtype :: message_type

definition text_or :: "string \<Rightarrow> string field \<Rightarrow> string option" where
  "text_or fallback f = (case f of Absent \<Rightarrow> Some fallback | Null \<Rightarrow> None | Given s \<Rightarrow> Some s)"

definition EmailTestRequestSchema :: "string field \<Rightarrow> string field \<Rightarrow> string field \<Rightarrow> string list + email_test" where
  "EmailTestRequestSchema subject' body' subtype =
     (let sub = (case text_or ''Todo API SMTP test'' subject' of
            Some s \<Rightarrow> if is_absent subject' then Some s
              else if length_between 1 200 s \<and> strip s \<noteq> [] then Some (strip s) else None
          | None \<Rightarrow> None);
          bod = (case text_or ''If you can read this in smtp4dev, email delivery is configured correctly.'' body' of
            Some s \<Rightarrow> if length_between 1 20000 s then Some s else None
          | None \<Rightarrow> None);
          typ = (case text_or ''plain'' subtype of
            Some s \<Rightarrow> if s = ''plain'' then Some Plain else if s = ''html'' then Some HtmlText else None
          | None \<Rightarrow> None)
      in case (sub, bod, typ) of
           (Some a, Some b, Some c) \<Rightarrow> Inr \<lparr>et_subject = a, et_body = b, et_subtype = c\<rparr>
         | (a, b, c) \<Rightarrow> Inl (rejected [(''subject'', is_some a), (''body'', is_some b), (''subtype'', is_some c)]))"

definition check_smtp_connection ::
  "mailer \<Rightarrow> env \<Rightarrow> settings \<Rightarrow> request \<Rightarrow> string option \<Rightarrow> reply act" where
  "check_smtp_connection m env s rq bearer =
     bnd (get_current_user env s bearer (cookie rq ACCESS_COOKIE_NAME)) (\<lambda>_.
     bnd (check_connection m s) (\<lambda>connected.
     ret (respond 200 (SmtpJson (if connected then ''ok'' else ''suppressed'')))))"

definition send_test_email ::
  "mailer \<Rightarrow> env \<Rightarrow> settings \<Rightarrow> request \<Rightarrow> string option \<Rightarrow> string option \<Rightarrow>
   (string list + email_test) \<Rightarrow> reply act" where
  "send_test_email m env s rq bearer csrf payload =
     bnd (validate_request_origin s rq) (\<lambda>_.
     bnd (require_csrf_token rq csrf) (\<lambda>_.
     bnd (get_current_user env s bearer (cookie rq ACCESS_COOKIE_NAME)) (\<lambda>user.
     validated payload (\<lambda>p.
     bnd (send_mail m s (u_email user) (et_subject p) (et_body p) (et_subtype p) None) (\<lambda>delivered.
     ret (respond 200 (DeliveryJson (if delivered then ''sent'' else ''suppressed'') (u_email user))))))))"

text \<open>The documented answers of the two routes.\<close>

definition EMAIL_UNAUTHORIZED :: doc_row where
  "EMAIL_UNAUTHORIZED = (401, [Auth_Error InvalidAccessTokenError], Some ''Bearer'')"

definition EMAIL_UNAVAILABLE_RESPONSE :: doc_row where
  "EMAIL_UNAVAILABLE_RESPONSE = (503, [Email_Error EmailServiceUnavailableError], None)"

definition check_smtp_responses :: "doc_row list" where
  "check_smtp_responses =
     [EMAIL_UNAUTHORIZED, (403, [Auth_Error InactiveUserError], None), EMAIL_UNAVAILABLE_RESPONSE]"

definition send_test_responses :: "doc_row list" where
  "send_test_responses =
     [EMAIL_UNAUTHORIZED,
      (403, [Auth_Error InactiveUserError, Auth_Error InvalidCSRFTokenError,
             Auth_Error RequestOriginNotAllowedError], None),
      EMAIL_UNAVAILABLE_RESPONSE]"

end
