(* ===== verification/Routes_Auth.thy ===== *)
theory Routes_Auth
  imports Mail
begin

text \<open>
  \<^verbatim>\<open>routes/auth.py\<close>: registration, email verification, login, refresh and logout, for API
  clients (tokens in the body) and for browsers (tokens in cookies). Each route is an action
  from the validated parts of the request to the reply; after it, the rows of \<^verbatim>\<open>responses=\<close>.
\<close>

section \<open>Schemas of the bodies\<close>

text \<open>\<^verbatim>\<open>RefreshTokenRequestSchema\<close> trims the token.\<close>

definition RefreshTokenRequestSchema :: "string field \<Rightarrow> string list \<Rightarrow> string list + string" where
  "RefreshTokenRequestSchema token extra =
     (case (case token of Given t \<Rightarrow> if trim t \<noteq> [] then Some (trim t) else None | _ \<Rightarrow> None, extra) of
        (Some t, []) \<Rightarrow> Inr t
      | (t, _) \<Rightarrow> Inl (rejected [(''refresh_token'', is_some t)] @ extra))"

definition BrowserSessionResponseSchema :: "int \<Rightarrow> string list + int" where
  "BrowserSessionResponseSchema n = (if 0 < n then Inr n else Inl [''expires_in''])"

text \<open>The query parameter of the confirmation link: 32 to 256 characters.\<close>

definition confirmation_token :: "string option \<Rightarrow> string list + string" where
  "confirmation_token token = (case token of
      Some t \<Rightarrow> if length_between 32 256 t then Inr t else Inl [''token'']
    | None \<Rightarrow> Inl [''token''])"

section \<open>Counted failures\<close>

definition authentication_failure_outcome :: "error_class \<Rightarrow> string" where
  "authentication_failure_outcome c =
     (if isinstance c (Auth_Error InactiveUserError) then ''inactive''
      else if isinstance c (Auth_Error EmailNotVerifiedError) then ''unverified''
      else if isinstance c (Auth_Error InvalidCredentialsError) \<or>
              isinstance c (Auth_Error InvalidRefreshTokenError) then ''invalid''
      else ''error'')"

text \<open>\<^verbatim>\<open>except AuthServiceError as exc: record_auth_attempt(...); raise\<close>.\<close>

definition counting_failures :: "string \<Rightarrow> 'a act \<Rightarrow> 'a act" where
  "counting_failures mechanism m = catch m (\<lambda>e. case e of
      AppErr c \<Rightarrow>
        if isinstance c (Auth_Error AuthServiceError)
        then Some (bnd (emit (AuthAttempt mechanism (authentication_failure_outcome c))) (\<lambda>_. raise e))
        else None
    | _ \<Rightarrow> None)"

section \<open>Registration and verification\<close>

definition register :: "broker \<Rightarrow> env \<Rightarrow> settings \<Rightarrow> request \<Rightarrow> (string list + user_create) \<Rightarrow> reply act" where
  "register broker env s rq payload = validated payload (\<lambda>p.
     bnd (register_pending_verification env s p) (\<lambda>pending.
     (let user = pv_user pending in
      bnd (enqueue_registration_verification_email broker (u_email user) (pv_token pending)
             (u_full_name user) (rq_id rq) (pv_expires_at pending)) (\<lambda>email_queued.
      bnd (emit (Registration ''success'')) (\<lambda>_.
      bnd (record_activity ''user.registered'' (u_id user)) (\<lambda>_.
      ret (respond 201 (RegistrationJson (UserResponseSchema user) email_queued email_queued))))))))"

definition register_responses :: "doc_row list" where
  "register_responses =
     [(409, [Auth_Error EmailAlreadyRegisteredError], None),
      (503, [Auth_Error RegistrationUnavailableError], None)]"

definition resend_email_verification ::
  "broker \<Rightarrow> settings \<Rightarrow> request \<Rightarrow> (string list + string) \<Rightarrow> reply act" where
  "resend_email_verification broker s rq payload = validated payload (\<lambda>email.
     bnd (request_email_verification s email) (\<lambda>found.
     bnd (case found of
            None \<Rightarrow> ret False
          | Some pending \<Rightarrow>
              enqueue_registration_verification_email broker (u_email (pv_user pending)) (pv_token pending)
                (u_full_name (pv_user pending)) (rq_id rq) (pv_expires_at pending)) (\<lambda>_.
     ret (respond 202 AcceptedJson))))"

definition resend_responses :: "doc_row list" where
  "resend_responses = [(503, [Auth_Error EmailVerificationUnavailableError], None)]"

definition confirm_email_verification :: "broker \<Rightarrow> request \<Rightarrow> (string list + string) \<Rightarrow> reply act" where
  "confirm_email_verification broker rq payload = validated payload (\<lambda>token.
     bnd (verify_email token) (\<lambda>user.
     bnd (enqueue_registration_welcome_email broker (u_email user) (u_full_name user) (rq_id rq)) (\<lambda>_.
     bnd (record_activity ''user.email_verified'' (u_id user)) (\<lambda>_.
     ret (with_headers (no_store_headers @ [(''Referrer-Policy'', ''no-referrer'')]) (respond 200 VerifiedJson))))))"

definition confirm_responses :: "doc_row list" where
  "confirm_responses =
     [(400, [Auth_Error InvalidEmailVerificationTokenError], None),
      (503, [Auth_Error EmailVerificationUnavailableError], None)]"

section \<open>Login\<close>

definition password_login :: "env \<Rightarrow> settings \<Rightarrow> string \<Rightarrow> string \<times> string \<Rightarrow> token_response act" where
  "password_login env s mechanism form = counting_failures mechanism
     (bnd (authenticate env (fst form) (snd form)) (\<lambda>user. create_login_session env s user))"

definition login :: "env \<Rightarrow> settings \<Rightarrow> (string list + string \<times> string) \<Rightarrow> reply act" where
  "login env s form = validated form (\<lambda>form.
     bnd (password_login env s ''password'' form) (\<lambda>tokens.
     bnd (emit (AuthAttempt ''password'' ''success'')) (\<lambda>_.
     ret (respond 200 (TokensJson tokens)))))"

definition login_responses :: "doc_row list" where
  "login_responses =
     [(401, [Auth_Error InvalidCredentialsError], Some ''Bearer''),
      (403, [Auth_Error InactiveUserError, Auth_Error EmailNotVerifiedError], None),
      (503, [Auth_Error LoginSessionUnavailableError], None)]"

definition session_reply :: "env \<Rightarrow> settings \<Rightarrow> string \<Rightarrow> token_response \<Rightarrow> reply act" where
  "session_reply env s mechanism tokens =
     bnd (set_browser_session_cookies env s tokens) (\<lambda>cookies.
     bnd (emit (AuthAttempt mechanism ''success'')) (\<lambda>_.
     bnd (of_valid (BrowserSessionResponseSchema (expires_in tokens))) (\<lambda>n.
     ret (with_headers no_store_headers (with_cookies cookies (respond 200 (SessionJson n)))))))"

definition browser_login :: "env \<Rightarrow> settings \<Rightarrow> (string list + string \<times> string) \<Rightarrow> reply act" where
  "browser_login env s form = validated form (\<lambda>form.
     bnd (password_login env s ''password_cookie'' form) (\<lambda>tokens.
     session_reply env s ''password_cookie'' tokens))"

definition browser_login_responses :: "doc_row list" where
  "browser_login_responses =
     [(401, [Auth_Error InvalidCredentialsError], Some ''Bearer''),
      (403, [Auth_Error InactiveUserError, Auth_Error EmailNotVerifiedError], None),
      (503, [Auth_Error LoginSessionUnavailableError], None)]"

section \<open>Refresh\<close>

definition refresh :: "env \<Rightarrow> settings \<Rightarrow> (string list + string) \<Rightarrow> reply act" where
  "refresh env s payload = validated payload (\<lambda>token.
     bnd (counting_failures ''refresh'' (refresh_login_session env s token)) (\<lambda>tokens.
     bnd (emit (AuthAttempt ''refresh'' ''success'')) (\<lambda>_.
     ret (respond 200 (TokensJson tokens)))))"

definition refresh_responses :: "doc_row list" where
  "refresh_responses =
     [(401, [Auth_Error InvalidRefreshTokenError], Some ''Bearer''),
      (403, [Auth_Error InactiveUserError, Auth_Error EmailNotVerifiedError], None),
      (503, [Auth_Error TokenRefreshUnavailableError], None)]"

definition refresh_browser_session ::
  "env \<Rightarrow> settings \<Rightarrow> request \<Rightarrow> string option \<Rightarrow> reply act" where
  "refresh_browser_session env s rq csrf =
     bnd (require_browser_csrf_token rq csrf) (\<lambda>_.
     (let refresh_token = cookie rq REFRESH_COOKIE_NAME in
      if \<not> given refresh_token then raise (auth_error InvalidRefreshTokenError)
      else
        bnd (counting_failures ''refresh_cookie'' (refresh_login_session env s (the refresh_token))) (\<lambda>tokens.
        session_reply env s ''refresh_cookie'' tokens)))"

definition refresh_browser_responses :: "doc_row list" where
  "refresh_browser_responses =
     [(401, [Auth_Error InvalidRefreshTokenError], Some ''Bearer''),
      (403, [Auth_Error InactiveUserError, Auth_Error EmailNotVerifiedError,
             Auth_Error InvalidCSRFTokenError], None),
      (503, [Auth_Error TokenRefreshUnavailableError], None)]"

section \<open>Logout\<close>

definition logout :: "env \<Rightarrow> settings \<Rightarrow> (string list + string) \<Rightarrow> reply act" where
  "logout env s payload = validated payload (\<lambda>token.
     bnd (revoke_refresh_session env s token) (\<lambda>_. ret (respond 204 NoContent)))"

definition logout_responses :: "doc_row list" where
  "logout_responses = [(503, [Auth_Error LogoutUnavailableError], None)]"

definition logout_browser_session ::
  "env \<Rightarrow> settings \<Rightarrow> request \<Rightarrow> string option \<Rightarrow> reply act" where
  "logout_browser_session env s rq csrf =
     bnd (require_browser_csrf_token rq csrf) (\<lambda>_.
     (let refresh_token = cookie rq REFRESH_COOKIE_NAME in
      bnd (if given refresh_token then revoke_refresh_session env s (the refresh_token) else ret ()) (\<lambda>_.
      ret (with_cookies (clear_browser_session_cookies s)
            (with_headers no_store_headers (respond 204 NoContent))))))"

definition logout_browser_responses :: "doc_row list" where
  "logout_browser_responses =
     [(403, [Auth_Error InvalidCSRFTokenError], None),
      (503, [Auth_Error LogoutUnavailableError], None)]"

end
