(* ===== verification/Routes_User.thy ===== *)
theory Routes_User
  imports Mail
begin

text \<open>\<^verbatim>\<open>routes/users.py\<close>, \<^verbatim>\<open>routes/api_key.py\<close> and \<^verbatim>\<open>routes/health.py\<close>: profiles and API keys.\<close>

section \<open>Profiles\<close>

definition user_reply :: "user \<Rightarrow> reply" where
  "user_reply u = respond 200 (UserJson (UserResponseSchema u))"

definition me :: "env \<Rightarrow> settings \<Rightarrow> request \<Rightarrow> string option \<Rightarrow> reply act" where
  "me env s rq token =
     bnd (get_current_user env s token (cookie rq ACCESS_COOKIE_NAME)) (\<lambda>current_user.
     ret (user_reply current_user))"

definition update_current_user ::
  "env \<Rightarrow> settings \<Rightarrow> request \<Rightarrow> string option \<Rightarrow> (string list + string option) \<Rightarrow> reply act" where
  "update_current_user env s rq token payload =
     bnd (get_current_user env s token (cookie rq ACCESS_COOKIE_NAME)) (\<lambda>current_user.
     validated payload (\<lambda>full_name.
     bnd (update_profile current_user full_name) (\<lambda>updated_user.
     ret (user_reply updated_user))))"

definition update_responses :: "doc_row list" where
  "update_responses = [(503, [User_Error ProfileUpdateUnavailableError], None)]"

definition deactivate_current_user :: "env \<Rightarrow> settings \<Rightarrow> request \<Rightarrow> string option \<Rightarrow> reply act" where
  "deactivate_current_user env s rq token =
     bnd (get_current_user env s token (cookie rq ACCESS_COOKIE_NAME)) (\<lambda>current_user.
     bnd (deactivate_account current_user) (\<lambda>_.
     bnd (record_activity ''user.deactivated'' (u_id current_user)) (\<lambda>_.
     ret (respond 204 NoContent))))"

definition deactivate_responses :: "doc_row list" where
  "deactivate_responses = [(503, [User_Error AccountDeactivationUnavailableError], None)]"

definition me_by_api_key :: "string option \<Rightarrow> reply act" where
  "me_by_api_key api_key =
     bnd (get_current_header_api_key_user api_key) (\<lambda>current_user. ret (user_reply current_user))"

definition me_by_basic :: "env \<Rightarrow> (string \<times> string) option \<Rightarrow> reply act" where
  "me_by_basic env credentials =
     bnd (get_current_basic_user env credentials) (\<lambda>current_user. ret (user_reply current_user))"

definition me_by_query_api_key :: "string option \<Rightarrow> reply act" where
  "me_by_query_api_key api_key =
     bnd (get_current_query_api_key_user api_key) (\<lambda>current_user. ret (user_reply current_user))"

section \<open>API keys\<close>

definition create_api_key ::
  "env \<Rightarrow> settings \<Rightarrow> request \<Rightarrow> string option \<Rightarrow> (string list + string) \<Rightarrow> reply act" where
  "create_api_key env s rq token payload =
     bnd (get_current_user env s token (cookie rq ACCESS_COOKIE_NAME)) (\<lambda>current_user.
     validated payload (\<lambda>name.
     bnd (api_key_issue (u_id current_user) name) (\<lambda>created.
     ret (respond 201 (KeyJson created)))))"

definition create_key_responses :: "doc_row list" where
  "create_key_responses = [(503, [Api_Key_Error APIKeyCreationUnavailableError], None)]"

text \<open>\<open>include_revoked\<close> as FastAPI reads it: absent is \<^verbatim>\<open>False\<close>, a text that is no truth value is refused.\<close>

definition get_api_keys ::
  "env \<Rightarrow> settings \<Rightarrow> request \<Rightarrow> string option \<Rightarrow> (string list + bool) \<Rightarrow> reply act" where
  "get_api_keys env s rq token include_revoked =
     bnd (get_current_user env s token (cookie rq ACCESS_COOKIE_NAME)) (\<lambda>current_user.
     validated include_revoked (\<lambda>revoked.
     bnd (api_key_list (u_id current_user) revoked) (\<lambda>keys.
     ret (respond 200 (KeysJson (map APIKeyResponseSchema keys))))))"

definition list_key_responses :: "doc_row list" where
  "list_key_responses = [(503, [Api_Key_Error APIKeyListUnavailableError], None)]"

text \<open>\<^verbatim>\<open>Path(gt=0)\<close>; \<open>None\<close> is a path segment that is no integer.\<close>

definition positive_id :: "string \<Rightarrow> int option \<Rightarrow> string list + int" where
  "positive_id name i = (case i of None \<Rightarrow> Inl [name] | Some n \<Rightarrow> if 0 < n then Inr n else Inl [name])"

definition delete_api_key ::
  "env \<Rightarrow> settings \<Rightarrow> request \<Rightarrow> string option \<Rightarrow> int option \<Rightarrow> reply act" where
  "delete_api_key env s rq token api_key_id =
     bnd (get_current_user env s token (cookie rq ACCESS_COOKIE_NAME)) (\<lambda>current_user.
     validated (positive_id ''api_key_id'' api_key_id) (\<lambda>i.
     bnd (api_key_revoke (u_id current_user) i) (\<lambda>_.
     bnd (record_activity ''api_key.revoked'' (u_id current_user)) (\<lambda>_.
     ret (respond 204 NoContent)))))"

definition delete_key_responses :: "doc_row list" where
  "delete_key_responses =
     [(404, [Api_Key_Error APIKeyNotFoundError], None),
      (503, [Api_Key_Error APIKeyRevocationUnavailableError], None)]"

definition health_check :: "reply act" where
  "health_check = ret (respond 200 (HealthJson ''ok''))"

end
