(* ===== verification/Cache.thy ===== *)
theory Cache
  imports Http Todos
begin

text \<open>
  \<^verbatim>\<open>core/cache.py\<close>: the keys under which reads of todos are cached, their invalidation by owner,
  and the headers that keep cached answers out of shared caches. The cache itself
  (fastapi-cache2) is a parameter of the routes.
\<close>

section \<open>JSON as json.dumps prints it\<close>

datatype json = JNull | JBool bool | JNumber int | JText string | JObject "(string \<times> json) list"

text \<open>\<^verbatim>\<open>ensure_ascii\<close>: everything but printable ASCII is escaped, so are quote and backslash.\<close>

definition json_escape :: "char \<Rightarrow> string" where
  "json_escape c = (let n = (of_char c :: nat) in
     if c = CHR 0x22 then [CHR 0x5C, CHR 0x22] else if c = CHR 0x5C then [CHR 0x5C, CHR 0x5C]
     else if c = CHR 0x0A then [CHR 0x5C, CHR ''n''] else if c = CHR 0x0D then [CHR 0x5C, CHR ''r'']
     else if c = CHR 0x09 then [CHR 0x5C, CHR ''t''] else if c = CHR 0x0C then [CHR 0x5C, CHR ''f'']
     else if c = CHR 0x08 then [CHR 0x5C, CHR ''b'']
     else if 32 \<le> n \<and> n \<le> 126 then [c]
     else CHR 0x5C # ''u00'' @ [hex_digit (n div 16), hex_digit (n mod 16)])"

definition json_string :: "string \<Rightarrow> string" where
  "json_string s = CHR 0x22 # concat (map json_escape s) @ [CHR 0x22]"

text \<open>\<^verbatim>\<open>separators=(",", ":")\<close>; the members come in the order of their keys (\<^verbatim>\<open>sort_keys\<close>).\<close>

fun json_dumps :: "json \<Rightarrow> string" and json_members :: "(string \<times> json) list \<Rightarrow> string" where
  "json_dumps JNull = ''null''"
| "json_dumps (JBool b) = (if b then ''true'' else ''false'')"
| "json_dumps (JNumber i) = py_str i"
| "json_dumps (JText s) = json_string s"
| "json_dumps (JObject kvs) = CHR ''{'' # json_members kvs @ ''}''"
| "json_members [] = []"
| "json_members ((k, v) # kvs) = json_string k @ CHR '':'' # json_dumps v @
     (if kvs = [] then [] else CHR '','' # json_members kvs)"

section \<open>Keys\<close>

definition CACHE_STATUS_HEADER :: string where "CACHE_STATUS_HEADER = ''X-FastAPI-Cache''"
definition TODO_CACHE_NAMESPACE :: string where "TODO_CACHE_NAMESPACE = ''todos''"

definition status_value :: "todo_status \<Rightarrow> string" where
  "status_value x = (case x of TODO \<Rightarrow> ''todo'' | IN_PROGRESS \<Rightarrow> ''in_progress''
     | DONE \<Rightarrow> ''done'' | CANCELLED \<Rightarrow> ''cancelled'')"

definition priority_value :: "todo_priority \<Rightarrow> string" where
  "priority_value x = (case x of LOW \<Rightarrow> ''low'' | MEDIUM \<Rightarrow> ''medium'' | HIGH \<Rightarrow> ''high'' | URGENT \<Rightarrow> ''urgent'')"

definition sort_field_value :: "todo_sort_field \<Rightarrow> string" where
  "sort_field_value x = (case x of CREATED_AT \<Rightarrow> ''created_at'' | UPDATED_AT \<Rightarrow> ''updated_at''
     | DUE_AT \<Rightarrow> ''due_at'' | TITLE \<Rightarrow> ''title'')"

definition direction_value :: "sort_direction \<Rightarrow> string" where
  "direction_value x = (case x of ASC \<Rightarrow> ''asc'' | DESC \<Rightarrow> ''desc'')"

definition json_option :: "string option \<Rightarrow> json" where
  "json_option x = (case x of None \<Rightarrow> JNull | Some s \<Rightarrow> JText s)"

text \<open>
  \<^verbatim>\<open>query.model_dump(mode="json")\<close>. The texts of the two instants carry the offset they were
  sent with, which the model of a query does not have, so they come with the query.
\<close>

record dumped_query =
  dq_query :: todo_query
  dq_due_from :: "string option"
  dq_due_to :: "string option"

definition query_json :: "dumped_query \<Rightarrow> json" where
  "query_json d = (let q = dq_query d in JObject
     [(''due_from'', json_option (dq_due_from d)), (''due_to'', json_option (dq_due_to d)),
      (''is_archived'', JBool (q_is_archived q)), (''limit'', JNumber (q_limit q)),
      (''offset'', JNumber (q_offset q)),
      (''priority'', json_option (map_option priority_value (q_priority q))),
      (''q'', json_option (q_text q)),
      (''sort_by'', JText (sort_field_value (q_sort_by q))),
      (''sort_direction'', JText (direction_value (q_sort_direction q))),
      (''status'', json_option (map_option status_value (q_status q)))])"

definition key_data :: "string \<Rightarrow> dumped_query option \<Rightarrow> int option \<Rightarrow> json" where
  "key_data endpoint query todo_id = JObject
     [(''endpoint'', JText endpoint),
      (''query'', (case query of None \<Rightarrow> JNull | Some d \<Rightarrow> query_json d)),
      (''todo_id'', (case todo_id of None \<Rightarrow> JNull | Some i \<Rightarrow> JNumber i))]"

definition user_namespace :: "string \<Rightarrow> int \<Rightarrow> string" where
  "user_namespace namespace user_id = namespace @ '':user:'' @ py_str user_id"

text \<open>\<^verbatim>\<open>todo_cache_key_builder\<close>; \<open>None\<close> is its \<^verbatim>\<open>ValueError\<close>.\<close>

definition todo_cache_key_builder ::
  "string \<Rightarrow> string \<Rightarrow> int option \<Rightarrow> dumped_query option \<Rightarrow> int option \<Rightarrow> string option" where
  "todo_cache_key_builder namespace endpoint user_id query todo_id =
     (case user_id of
        None \<Rightarrow> None
      | Some i \<Rightarrow>
          if i \<le> 0 then None
          else Some (user_namespace namespace i @ '':'' @
                 hash_secret (json_dumps (key_data endpoint query todo_id))))"

text \<open>
  \<^verbatim>\<open>FastAPICache.clear(namespace=...)\<close> on the backend: the prefix of the keys it drops. A failure
  is logged and swallowed.
\<close>

definition invalidate_todo_cache :: "int \<Rightarrow> unit act" where
  "invalidate_todo_cache user_id = emit (CacheCleared user_id)"

definition cleared_namespace :: "settings \<Rightarrow> int \<Rightarrow> string" where
  "cleared_namespace s user_id = cache_prefix s @ '':'' @ user_namespace TODO_CACHE_NAMESPACE user_id"

section \<open>Private headers\<close>

text \<open>Header operations of Starlette's \<^verbatim>\<open>MutableHeaders\<close>; names compare without case.\<close>

definition get_header :: "string \<Rightarrow> (string \<times> string) list \<Rightarrow> string option" where
  "get_header name hs = map_option snd (find (\<lambda>h. lower (fst h) = lower name) hs)"

definition del_header :: "string \<Rightarrow> (string \<times> string) list \<Rightarrow> (string \<times> string) list" where
  "del_header name hs = filter (\<lambda>h. lower (fst h) \<noteq> lower name) hs"

definition set_header :: "string \<Rightarrow> string \<Rightarrow> (string \<times> string) list \<Rightarrow> (string \<times> string) list" where
  "set_header name value hs =
     (if get_header name hs = None then hs @ [(lower name, value)]
      else takeWhile (\<lambda>h. lower (fst h) \<noteq> lower name) hs @ [(lower name, value)] @
           del_header name (dropWhile (\<lambda>h. lower (fst h) \<noteq> lower name) hs))"

definition add_vary_header :: "string \<Rightarrow> (string \<times> string) list \<Rightarrow> (string \<times> string) list" where
  "add_vary_header v hs = set_header ''vary''
     (case get_header ''vary'' hs of None \<Rightarrow> v | Some e \<Rightarrow> e @ '', '' @ v) hs"

definition private_cache_headers :: "(string \<times> string) list \<Rightarrow> (string \<times> string) list" where
  "private_cache_headers hs =
     (if get_header CACHE_STATUS_HEADER hs = None then hs
      else add_vary_header ''Cookie'' (add_vary_header ''Authorization''
             (del_header ''ETag'' (set_header ''Cache-Control'' ''private, no-store'' hs))))"

end
