(* ===== verification/Routes_Todo.thy ===== *)
theory Routes_Todo
  imports Mail Cache
begin

text \<open>
  \<^verbatim>\<open>routes/todos.py\<close>: the writes check origin and CSRF token first, run as the owner, drop the
  owner's cached reads and record an activity; the reads go through the cache.
\<close>

section \<open>The guards\<close>

text \<open>\<^verbatim>\<open>_BROWSER_WRITE_DEPENDENCIES\<close>, then the user of the bearer token or the cookie.\<close>

definition browser_write :: "env \<Rightarrow> settings \<Rightarrow> request \<Rightarrow> string option \<Rightarrow> string option \<Rightarrow> user act" where
  "browser_write env s rq bearer csrf =
     bnd (validate_request_origin s rq) (\<lambda>_.
     bnd (require_csrf_token rq csrf) (\<lambda>_.
     get_current_user env s bearer (cookie rq ACCESS_COOKIE_NAME)))"

definition todo_path_id :: "int option \<Rightarrow> string list + int" where
  "todo_path_id i = (case i of None \<Rightarrow> Inl [''todo_id''] | Some n \<Rightarrow> if 0 < n then Inr n else Inl [''todo_id''])"

text \<open>FastAPI collects the refused fields of the path and of the body.\<close>

definition both_valid :: "string list + 'a \<Rightarrow> string list + 'b \<Rightarrow> string list + 'a \<times> 'b" where
  "both_valid a b = (case (a, b) of
      (Inr x, Inr y) \<Rightarrow> Inr (x, y)
    | (Inl e, Inl f) \<Rightarrow> Inl (e @ f)
    | (Inl e, _) \<Rightarrow> Inl e
    | (_, Inl f) \<Rightarrow> Inl f)"

section \<open>Documented answers\<close>

definition UNAUTHORIZED_RESPONSE :: doc_row where
  "UNAUTHORIZED_RESPONSE = (401, [Auth_Error InvalidAccessTokenError], Some ''Bearer'')"

definition AUTH_RESPONSES :: "doc_row list" where
  "AUTH_RESPONSES = [UNAUTHORIZED_RESPONSE, (403, [Auth_Error InactiveUserError], None)]"

definition BROWSER_WRITE_AUTH_RESPONSES :: "doc_row list" where
  "BROWSER_WRITE_AUTH_RESPONSES =
     [UNAUTHORIZED_RESPONSE,
      (403, [Auth_Error InactiveUserError, Auth_Error InvalidCSRFTokenError,
             Auth_Error RequestOriginNotAllowedError], None)]"

definition UNAVAILABLE_RESPONSE :: doc_row where
  "UNAVAILABLE_RESPONSE = (503, [Todo_Error TodoServiceUnavailableError], None)"

definition NOT_FOUND_RESPONSE :: doc_row where
  "NOT_FOUND_RESPONSE = (404, [Todo_Error TodoNotFoundError], None)"

section \<open>Writes\<close>

definition create_todo_route ::
  "env \<Rightarrow> settings \<Rightarrow> request \<Rightarrow> string option \<Rightarrow> string option \<Rightarrow> (string list + todo_create) \<Rightarrow> reply act" where
  "create_todo_route env s rq bearer csrf payload =
     bnd (browser_write env s rq bearer csrf) (\<lambda>current_user.
     validated payload (\<lambda>p.
     bnd (todo_create_op (u_id current_user) p) (\<lambda>todo.
     bnd (invalidate_todo_cache (u_id current_user)) (\<lambda>_.
     bnd (record_activity ''todo.created'' (u_id current_user)) (\<lambda>_.
     ret (respond 201 (TodoJson (TodoResponseSchema todo))))))))"

definition create_todo_responses :: "doc_row list" where
  "create_todo_responses = BROWSER_WRITE_AUTH_RESPONSES @ [UNAVAILABLE_RESPONSE]"

definition update_todo_route ::
  "env \<Rightarrow> settings \<Rightarrow> request \<Rightarrow> string option \<Rightarrow> string option \<Rightarrow> int option \<Rightarrow>
   (string list + todo_update) \<Rightarrow> reply act" where
  "update_todo_route env s rq bearer csrf todo_id payload =
     bnd (browser_write env s rq bearer csrf) (\<lambda>current_user.
     validated (both_valid (todo_path_id todo_id) payload) (\<lambda>(i, p).
     bnd (todo_update_op (u_id current_user) i p) (\<lambda>todo.
     bnd (invalidate_todo_cache (u_id current_user)) (\<lambda>_.
     bnd (record_activity ''todo.updated'' (u_id current_user)) (\<lambda>_.
     ret (respond 200 (TodoJson (TodoResponseSchema todo))))))))"

definition update_todo_responses :: "doc_row list" where
  "update_todo_responses = BROWSER_WRITE_AUTH_RESPONSES @
     [NOT_FOUND_RESPONSE, (409, [Todo_Error TodoStateConflictError], None), UNAVAILABLE_RESPONSE]"

definition remove_todo_route ::
  "env \<Rightarrow> settings \<Rightarrow> request \<Rightarrow> string option \<Rightarrow> string option \<Rightarrow> int option \<Rightarrow> reply act" where
  "remove_todo_route env s rq bearer csrf todo_id =
     bnd (browser_write env s rq bearer csrf) (\<lambda>current_user.
     validated (todo_path_id todo_id) (\<lambda>i.
     bnd (todo_delete (u_id current_user) i) (\<lambda>_.
     bnd (invalidate_todo_cache (u_id current_user)) (\<lambda>_.
     bnd (record_activity ''todo.deleted'' (u_id current_user)) (\<lambda>_.
     ret (respond 204 NoContent))))))"

definition remove_todo_responses :: "doc_row list" where
  "remove_todo_responses = BROWSER_WRITE_AUTH_RESPONSES @ [NOT_FOUND_RESPONSE, UNAVAILABLE_RESPONSE]"

section \<open>Reads\<close>

text \<open>
  The decorator \<^verbatim>\<open>cache\<close> is a parameter: given the key, it runs the endpoint or serves what it
  stored under the key. The key builder gets the namespace behind the configured prefix.
\<close>

type_synonym cache = "string \<Rightarrow> reply act \<Rightarrow> reply act"

definition cached_read ::
  "cache \<Rightarrow> settings \<Rightarrow> string \<Rightarrow> int \<Rightarrow> dumped_query option \<Rightarrow> int option \<Rightarrow> reply act \<Rightarrow> reply act" where
  "cached_read cache s endpoint user_id query todo_id endpoint_act =
     bnd (of_option ValueErr (todo_cache_key_builder (cache_prefix s @ '':'' @ TODO_CACHE_NAMESPACE)
            endpoint (Some user_id) query todo_id)) (\<lambda>key. cache key endpoint_act)"

definition list_todos_route ::
  "cache \<Rightarrow> env \<Rightarrow> settings \<Rightarrow> request \<Rightarrow> string option \<Rightarrow> (string list + dumped_query) \<Rightarrow> reply act" where
  "list_todos_route cache env s rq token query =
     bnd (get_current_user env s token (cookie rq ACCESS_COOKIE_NAME)) (\<lambda>current_user.
     validated query (\<lambda>d.
     cached_read cache s ''todo_api.api.v1.routes.todos.list_todos'' (u_id current_user) (Some d) None
       (bnd (todo_list env (u_id current_user) (dq_query d)) (\<lambda>listing.
        ret (respond 200 (TodosJson listing))))))"

definition list_todos_responses :: "doc_row list" where
  "list_todos_responses = AUTH_RESPONSES @ [UNAVAILABLE_RESPONSE]"

definition get_todo_route ::
  "cache \<Rightarrow> env \<Rightarrow> settings \<Rightarrow> request \<Rightarrow> string option \<Rightarrow> string option \<Rightarrow> int option \<Rightarrow> reply act" where
  "get_todo_route cache env s rq bearer csrf todo_id =
     bnd (require_csrf_token rq csrf) (\<lambda>_.
     bnd (get_current_user env s bearer (cookie rq ACCESS_COOKIE_NAME)) (\<lambda>current_user.
     validated (todo_path_id todo_id) (\<lambda>i.
     cached_read cache s ''todo_api.api.v1.routes.todos.get_todo'' (u_id current_user) None (Some i)
       (bnd (todo_get (u_id current_user) i) (\<lambda>todo.
        ret (respond 200 (TodoJson (TodoResponseSchema todo))))))))"

definition get_todo_responses :: "doc_row list" where
  "get_todo_responses = AUTH_RESPONSES @ [NOT_FOUND_RESPONSE, UNAVAILABLE_RESPONSE]"

end
