(* ===== verification/Cache_Facts.thy ===== *)
theory Cache_Facts
  imports Cache "HOL-Library.Sublist"
begin

text \<open>
  Keys of the cache can be told apart: the text that \<^verbatim>\<open>json.dumps\<close> prints determines the
  value, and the owner's id stands in the key in clear.
\<close>

section \<open>Printing JSON is injective\<close>

definition hex_pair :: "char \<Rightarrow> string" where
  "hex_pair c = [hex_digit (of_char c div 16), hex_digit (of_char c mod 16)]"

lemma hex_pair_inj: "hex_pair c @ a = hex_pair d @ b \<longleftrightarrow> c = d \<and> a = b"
proof -
  have "(of_char x :: nat) < 256" for x :: char by (metis nat_of_char_less_256)
  then have small: "of_char x div 16 < (16::nat)" for x :: char by (simp add: div_less_iff_less_mult)
  have "c = d" if "of_char c div 16 = (of_char d div 16 :: nat)" "of_char c mod 16 = (of_char d mod 16 :: nat)"
  proof -
    from that have "(of_char c :: nat) = of_char d" by (metis div_mult_mod_eq)
    then show ?thesis by simp
  qed
  then show ?thesis by (auto simp: hex_pair_def hex_digit_inj small)
qed

definition escape_letter :: "char \<Rightarrow> char option" where
  "escape_letter c = (if c = CHR 0x22 then Some (CHR 0x22) else if c = CHR 0x5C then Some (CHR 0x5C)
     else if c = CHR 0x0A then Some (CHR ''n'') else if c = CHR 0x0D then Some (CHR ''r'')
     else if c = CHR 0x09 then Some (CHR ''t'') else if c = CHR 0x0C then Some (CHR ''f'')
     else if c = CHR 0x08 then Some (CHR ''b'') else None)"

lemma json_escape_cases:
  "json_escape c = (case escape_letter c of Some l \<Rightarrow> [CHR 0x5C, l]
     | None \<Rightarrow> if 32 \<le> (of_char c :: nat) \<and> (of_char c :: nat) \<le> 126 then [c] else CHR 0x5C # ''u00'' @ hex_pair c)"
  by (simp add: json_escape_def escape_letter_def hex_pair_def Let_def)

lemma escape_letter_inj: "escape_letter c = Some l \<Longrightarrow> escape_letter d = Some l \<Longrightarrow> c = d"
  by (auto simp: escape_letter_def split: if_splits)

lemma escape_letter_not:
  "escape_letter c \<noteq> Some (CHR ''u'')" "escape_letter c = None \<Longrightarrow> c \<noteq> CHR 0x5C \<and> c \<noteq> CHR 0x22"
  by (auto simp: escape_letter_def)

lemma json_escape_prefix: "json_escape c @ a = json_escape d @ b \<longleftrightarrow> c = d \<and> a = b"
proof
  assume "json_escape c @ a = json_escape d @ b"
  then show "c = d \<and> a = b"
    using escape_letter_not [of c] escape_letter_not [of d] escape_letter_inj [of c _ d]
    by (auto simp: json_escape_cases hex_pair_inj split: option.splits if_splits)
qed simp

lemma json_escape_quote: "json_escape c @ a \<noteq> CHR 0x22 # b"
  by (simp add: json_escape_def Let_def)

lemma json_string_prefix: "json_string s @ a = json_string t @ b \<longleftrightarrow> s = t \<and> a = b"
proof -
  have "concat (map json_escape s) @ CHR 0x22 # a = concat (map json_escape t) @ CHR 0x22 # b \<longleftrightarrow> s = t \<and> a = b"
  proof (induction s arbitrary: t)
    case Nil
    then show ?case using json_escape_quote by (cases t) (auto, metis)
  next
    case (Cons c s)
    then show ?case using json_escape_quote by (cases t) (auto simp: json_escape_prefix)
  qed
  then show ?thesis by (simp add: json_string_def)
qed

text \<open>What may follow a value: not a digit.\<close>

definition stops :: "string \<Rightarrow> bool" where
  "stops a \<longleftrightarrow> a = [] \<or> digit_of (hd a) = None"

lemma str_nat_inj: "str_nat m = str_nat n \<longleftrightarrow> m = n"
  by (metis parse_digits_str_nat of_nat_eq_iff option.inject)

lemma str_nat_prefix: "stops a \<Longrightarrow> stops b \<Longrightarrow> str_nat m @ a = str_nat n @ b \<longleftrightarrow> m = n \<and> a = b"
proof -
  assume stop: "stops a" "stops b"
  have take: "takeWhile (\<lambda>c. digit_of c \<noteq> None) (str_nat k @ x) = str_nat k" if "stops x" for k x
    using that digit_of_str_nat [of _ k] by (cases x) (simp_all add: takeWhile_append stops_def)
  show ?thesis using take [OF stop(1), of m] take [OF stop(2), of n] str_nat_inj by fastforce
qed

lemma str_nat_not_minus: "str_nat m @ a \<noteq> CHR ''-'' # b"
  using hd_str_nat_not_sign [of m] by (cases "str_nat m") auto

lemma py_str_prefix: "stops a \<Longrightarrow> stops b \<Longrightarrow> py_str i @ a = py_str j @ b \<longleftrightarrow> i = j \<and> a = b"
  using str_nat_not_minus str_nat_not_minus [symmetric]
  by (auto simp: py_str_def str_nat_prefix)

lemma py_str_hd: "hd (py_str i @ a) = CHR ''-'' \<or> digit_of (hd (py_str i @ a)) \<noteq> None"
proof -
  have "digit_of (hd (str_nat n)) \<noteq> None" for n by (rule digit_of_str_nat [where n = n]) simp
  then show ?thesis by (simp add: py_str_def)
qed

lemma stops_simps [simp]: "stops []" "stops (CHR '','' # a)" "stops (CHR ''}'' # a)" "stops (CHR '':'' # a)"
  by (simp_all add: stops_def digit_of_def Let_def)

text \<open>
  The first character tells which kind of value follows, and the rest is read off from there.
\<close>

lemma json_heads:
  "json_dumps JNull @ a = CHR ''n'' # ''ull'' @ a" "json_dumps (JText s) @ a = json_string s @ a"
  "json_string s @ a = CHR 0x22 # concat (map json_escape s) @ CHR 0x22 # a"
  by (simp_all add: json_string_def)

lemma number_head: "py_str i @ a = c # b \<Longrightarrow> c \<notin> {CHR ''n'', CHR ''t'', CHR ''f'', CHR 0x22, CHR ''{'', CHR ''}''}"
  using py_str_hd [of i a] by (auto simp: digit_of_def Let_def)

lemma json_number_other:
  "py_str i @ a \<noteq> CHR ''n'' # b" "py_str i @ a \<noteq> CHR ''t'' # b" "py_str i @ a \<noteq> CHR ''f'' # b"
  "py_str i @ a \<noteq> CHR 0x22 # b" "py_str i @ a \<noteq> CHR ''{'' # b"
  using number_head [of i a] by blast+

definition value_head :: "json \<Rightarrow> char set" where
  "value_head v = (case v of JNull \<Rightarrow> {CHR ''n''} | JBool b \<Rightarrow> {if b then CHR ''t'' else CHR ''f''}
     | JNumber i \<Rightarrow> - {CHR ''n'', CHR ''t'', CHR ''f'', CHR 0x22, CHR ''{'', CHR ''}''}
     | JText s \<Rightarrow> {CHR 0x22} | JObject kvs \<Rightarrow> {CHR ''{''})"

lemma value_head: "json_dumps v @ a \<noteq> [] \<and> hd (json_dumps v @ a) \<in> value_head v"
proof (cases v)
  case (JNumber i)
  then show ?thesis using number_head [of i a "hd (py_str i @ a)" "tl (py_str i @ a)"]
    by (simp add: value_head_def)
qed (simp_all add: value_head_def json_string_def)

text \<open>So two values that print alike, with whatever follows, are of one kind.\<close>

lemma same_kind:
  assumes "json_dumps v @ a = json_dumps v' @ b"
  shows "(v = JNull \<and> v' = JNull) \<or> (\<exists>x. v = JBool x \<and> v' = JBool x) \<or>
     (\<exists>i j. v = JNumber i \<and> v' = JNumber j) \<or> (\<exists>s t. v = JText s \<and> v' = JText t) \<or>
     (\<exists>s t. v = JObject s \<and> v' = JObject t)"
proof -
  have "value_head v \<inter> value_head v' \<noteq> {}"
    using value_head [of v a] value_head [of v' b] assms by auto
  then show ?thesis by (cases v; cases v') (auto simp: value_head_def split: if_splits)
qed

lemma json_dumps_prefix:
  "stops a \<Longrightarrow> stops b \<Longrightarrow> json_dumps v @ a = json_dumps v' @ b \<Longrightarrow> v = v' \<and> a = b"
  "json_members kvs @ CHR ''}'' # a = json_members kvs' @ CHR ''}'' # b \<Longrightarrow> kvs = kvs' \<and> a = b"
proof (induction v and kvs arbitrary: v' a b and kvs' a b rule: json_dumps_json_members.induct)
  case 1
  from same_kind [OF 1(3)] 1 show ?case by auto
next
  case (2 x)
  from same_kind [OF 2(3)] 2 show ?case by auto
next
  case (3 i)
  from same_kind [OF 3(3)] obtain j where "v' = JNumber j" by auto
  with 3 show ?case by (simp add: py_str_prefix)
next
  case (4 s)
  from same_kind [OF 4(3)] obtain t where "v' = JText t" by auto
  with 4 show ?case by (simp add: json_string_prefix)
next
  case (5 kvs)
  from same_kind [OF 5(4)] obtain kvs' where "v' = JObject kvs'" by auto
  with 5 show ?case by simp
next
  case 6
  then show ?case by (cases kvs') (auto simp: json_string_def)
next
  case (7 k v kvs)
  show ?case
  proof (cases kvs')
    case Nil
    with 7 show ?thesis by (simp add: json_string_def)
  next
    case (Cons kv ks)
    obtain k' v' where kv: "kv = (k', v')" by fastforce
    let ?t = "(if kvs = [] then [] else CHR '','' # json_members kvs) @ CHR ''}'' # a"
    let ?t' = "(if ks = [] then [] else CHR '','' # json_members ks) @ CHR ''}'' # b"
    have "k = k'" and v: "json_dumps v @ ?t = json_dumps v' @ ?t'"
      using 7(3) by (simp_all add: Cons kv json_string_prefix)
    have "stops ?t" "stops ?t'" by simp_all
    from 7(1) [OF this v] have "v = v'" "?t = ?t'" by simp_all
    moreover from this have "kvs = ks \<and> a = b"
      using 7(2) [of a ks b] by (auto split: if_splits)
    ultimately show ?thesis using \<open>k = k'\<close> by (simp add: Cons kv)
  qed
qed

lemma json_dumps_inj: "json_dumps v = json_dumps v' \<longleftrightarrow> v = v'"
  using json_dumps_prefix(1) [of "[]" "[]" v v'] by auto

section \<open>Keys\<close>

lemma json_option_inj: "json_option x = json_option y \<longleftrightarrow> x = y"
  by (cases x; cases y) (simp_all add: json_option_def)

lemma key_data_inj:
  "key_data e q i = key_data e' q' i' \<longleftrightarrow> e = e' \<and> map_option query_json q = map_option query_json q' \<and> i = i'"
  by (cases q; cases q'; cases i; cases i') (simp_all add: key_data_def query_json_def Let_def)

text \<open>A key of one user is not below the namespace of another.\<close>

lemma py_str_colon: "py_str i @ CHR '':'' # a = py_str j @ CHR '':'' # b \<longleftrightarrow> i = j \<and> a = b"
  by (simp add: py_str_prefix)

lemma key_builder_eq:
  "todo_cache_key_builder ns e (Some u) q i = Some key \<longleftrightarrow>
     0 < u \<and> key = user_namespace ns u @ '':'' @ hash_secret (json_dumps (key_data e q i))"
  by (auto simp: todo_cache_key_builder_def)

lemma key_below_namespace:
  assumes "todo_cache_key_builder (cache_prefix s @ '':'' @ TODO_CACHE_NAMESPACE) e (Some v) q i = Some key"
  shows "prefix (cleared_namespace s u @ '':'') key \<longleftrightarrow> u = v"
proof -
  have "prefix (cleared_namespace s u @ '':'') key \<longleftrightarrow>
      (\<exists>r. py_str v @ CHR '':'' # hash_secret (json_dumps (key_data e q i)) = py_str u @ CHR '':'' # r)"
    using assms by (auto simp: key_builder_eq cleared_namespace_def user_namespace_def TODO_CACHE_NAMESPACE_def prefix_def)
  then show ?thesis by (auto simp: py_str_colon)
qed

lemma same_key:
  assumes "todo_cache_key_builder ns e (Some u) q i = Some key"
    and "todo_cache_key_builder ns e' (Some u') q' i' = Some key"
  shows "u = u' \<and> hash_secret (json_dumps (key_data e q i)) = hash_secret (json_dumps (key_data e' q' i'))"
  using assms by (auto simp: key_builder_eq user_namespace_def py_str_colon)

end
