(* ===== verification/Routes_OAuth.thy ===== *)
theory Routes_OAuth
  imports Mail
begin

text \<open>
  \<^verbatim>\<open>routes/oauth.py\<close>: the authorization page, the form that answers it, and the token endpoint.
  Errors of the protocol go back to the client by a redirect, but only to a redirect URI that
  is registered for the client; otherwise they are shown to the user.
\<close>

section \<open>Headers\<close>

definition html_headers :: "(string \<times> string) list" where
  "html_headers = no_store_headers @
     [(''Content-Security-Policy'',
       ''default-src 'none'; style-src 'unsafe-inline'; form-action 'self'; frame-ancestors 'none'' @ [CHR 0x27]),
      (''Referrer-Policy'', ''no-referrer''),
      (''X-Content-Type-Options'', ''nosniff''),
      (''X-Frame-Options'', ''DENY'')]"

section \<open>Redirects\<close>

text \<open>The given values go behind the parameters that the URI has.\<close>

definition present_pairs :: "(string \<times> string option) list \<Rightarrow> (code_points \<times> code_points) list" where
  "present_pairs values = concat (map (\<lambda>(k, v). case v of
      None \<Rightarrow> [] | Some x \<Rightarrow> [(code_points k, code_points x)]) values)"

definition append_query :: "string \<Rightarrow> (string \<times> string option) list \<Rightarrow> string option" where
  "append_query uri values = map_option (\<lambda>parts. urlunsplit (parts\<lparr>url_query := ascii_text
       (urlencode (parse_qsl (code_points (url_query parts)) @ present_pairs values))\<rparr>)) (urlsplit uri)"

text \<open>
  Starlette's \<^verbatim>\<open>RedirectResponse\<close> quotes its URL, all but the characters that are safe in URLs.
\<close>

definition url_safe :: "char \<Rightarrow> bool" where
  "url_safe c \<longleftrightarrow> is_unreserved (of_char c) \<or> c \<in> set '':/%#?=@[]!$&()*+,;'' \<or> c = CHR 0x27"

definition quote_url :: "string \<Rightarrow> string" where
  "quote_url url = concat (map (\<lambda>c. if url_safe c then [c]
     else ascii_text (concat (map (\<lambda>b. [37, upper_hex (b div 16), upper_hex (b mod 16)]) (utf8_octets (of_char c))))) url)"

lemma quote_url_safe: "list_all url_safe url \<Longrightarrow> quote_url url = url"
  by (induction url) (simp_all add: quote_url_def)

definition redirect_reply :: "int \<Rightarrow> string \<Rightarrow> reply" where
  "redirect_reply status url =
     with_headers ((''location'', quote_url url) # no_store_headers) (respond status NoContent)"

definition has_trusted_redirect :: "settings \<Rightarrow> string option \<Rightarrow> string option \<Rightarrow> bool" where
  "has_trusted_redirect s client_id redirect_uri \<longleftrightarrow> client_id = Some (oauth2_public_client_id s) \<and>
     (case redirect_uri of None \<Rightarrow> False | Some uri \<Rightarrow> uri \<in> set (oauth2_redirect_uris s))"

definition redirect_authorization_error :: "settings \<Rightarrow> oauth_error \<Rightarrow> authorization_params \<Rightarrow> reply act" where
  "redirect_authorization_error s e p =
     (if \<not> has_trusted_redirect s (ap_client_id p) (ap_redirect_uri p) then raise (oauth_exn e)
      else bnd (of_option ValueErr (append_query (the (ap_redirect_uri p))
             [(''error'', Some (oauth_error_name e)),
              (''error_description'', Some (public_message (OAuth_Error e))),
              (''state'', ap_state p)])) (\<lambda>location.
        ret (redirect_reply 302 location)))"

text \<open>\<^verbatim>\<open>except\<close> clauses of the routes, by class.\<close>

definition on_oauth_error :: "(oauth_error \<Rightarrow> bool) \<Rightarrow> 'a act \<Rightarrow> (oauth_error \<Rightarrow> 'a act) \<Rightarrow> 'a act" where
  "on_oauth_error caught m handler = catch m (\<lambda>e. case e of
      AppErr (OAuth_Error o') \<Rightarrow> if caught o' then Some (handler o') else None
    | _ \<Rightarrow> None)"

definition is_protocol_error :: "oauth_error \<Rightarrow> bool" where
  "is_protocol_error e = isinstance (OAuth_Error e) (OAuth_Error OAuthProtocolError)"

definition is_issuance_error :: "oauth_error \<Rightarrow> bool" where
  "is_issuance_error e \<longleftrightarrow> is_protocol_error e \<or>
     isinstance (OAuth_Error e) (OAuth_Error AuthorizationCodeIssuanceUnavailableError)"

section \<open>The login page\<close>

definition hidden_fields :: "authorization_request \<Rightarrow> (string \<times> string option) list" where
  "hidden_fields r =
     [(''response_type'', Some ''code''), (''client_id'', Some (ar_client_id r)),
      (''redirect_uri'', Some (ar_redirect_uri r)), (''state'', ar_state r),
      (''code_challenge'', Some (ar_code_challenge r)), (''code_challenge_method'', Some ''S256''),
      (''scope'', Some (ar_scope r))]"

definition hidden_input :: "string \<times> string option \<Rightarrow> string" where
  "hidden_input field = (case field of
      (_, None) \<Rightarrow> []
    | (name, Some value) \<Rightarrow>
        ''<input type=\"hidden\" name=\"'' @ name @ ''\" value=\"'' @ escape_html value @ ''\">'')"

definition login_page_html :: "authorization_request \<Rightarrow> string \<Rightarrow> string" where
  "login_page_html r error = join_lines
     [''<!doctype html>'',
      ''        <html lang=\"en\">'',
      ''        <head>'',
      ''            <meta charset=\"utf-8\">'',
      ''            <meta name=\"viewport\" content=\"width=device-width, initial-scale=1\">'',
      ''            <title>Authorize Todo API</title>'',
      ''            <style>'',
      ''                body { font-family: system-ui, sans-serif; max-width: 420px; margin: 8vh auto; padding: 24px; }'',
      ''                form, label { display: grid; gap: 14px; }'',
      ''                label { gap: 6px; }'',
      ''                input, button { box-sizing: border-box; width: 100%; padding: 11px; font: inherit; }'',
      ''                button { cursor: pointer; }'',
      ''                .error { color: #b00020; }'',
      ''            </style>'',
      ''        </head>'',
      ''        <body>'',
      ''            <h1>Todo API</h1>'',
      ''            <p>Sign in to authorize <strong>'' @ escape_html (ar_client_id r) @ ''</strong>.</p>'',
      ''            '' @ (if error = [] then [] else ''<p class=\"error\">'' @ escape_html error @ ''</p>''),
      ''            <form method=\"post\" action=\"/api/v1/auth/authorize\" autocomplete=\"on\">'',
      ''                '' @ concat (map hidden_input (hidden_fields r)),
      ''                <label>'',
      ''                    Email'',
      ''                    <input name=\"email\" type=\"email\" autocomplete=\"username\" required>'',
      ''                </label>'',
      ''                <label>'',
      ''                    Password'',
      ''                    <input name=\"password\" type=\"password\" autocomplete=\"current-password\" required>'',
      ''                </label>'',
      ''                <button type=\"submit\">Authorize</button>'',
      ''            </form>'',
      ''        </body>'',
      ''        </html>'',
      ''    '']"

definition login_page :: "authorization_request \<Rightarrow> string \<Rightarrow> reply" where
  "login_page r error = with_headers html_headers (respond 200 (Html (login_page_html r error)))"

section \<open>The endpoints\<close>

definition of_oauth :: "oauth_error + 'a \<Rightarrow> 'a act" where
  "of_oauth r = (case r of Inl e \<Rightarrow> raise (oauth_exn e) | Inr x \<Rightarrow> ret x)"

definition authorization_page :: "settings \<Rightarrow> authorization_params \<Rightarrow> reply act" where
  "authorization_page s p =
     on_oauth_error is_protocol_error
       (bnd (of_oauth (authorization_request_of p)) (\<lambda>request.
        bnd (validate_authorization_request s request) (\<lambda>_.
        ret (login_page request []))))
       (\<lambda>e. redirect_authorization_error s e p)"

text \<open>The three failures of a login are one message.\<close>

definition is_login_failure :: "exn \<Rightarrow> bool" where
  "is_login_failure e \<longleftrightarrow> is_auth_error InvalidCredentialsError e \<or> is_auth_error InactiveUserError e \<or>
     is_auth_error EmailNotVerifiedError e"

definition authorize ::
  "env \<Rightarrow> settings \<Rightarrow> (string list + string \<times> string) \<Rightarrow> authorization_params \<Rightarrow> reply act" where
  "authorize env s credentials p = validated credentials (\<lambda>(email, password).
     (case authorization_request_of p of
        Inl e \<Rightarrow>
          if is_protocol_error e then redirect_authorization_error s e p else raise (oauth_exn e)
      | Inr request \<Rightarrow>
          bnd (on_oauth_error is_issuance_error
                (catch
                  (bnd (issue_authorization_code env s email password request) (\<lambda>code. ret (Inr code)))
                  (\<lambda>e. if is_login_failure e
                       then Some (ret (Inl (login_page request ''Invalid email or password.''))) else None))
                (\<lambda>e. bnd (redirect_authorization_error s e p) (\<lambda>r. ret (Inl r)))) (\<lambda>issued.
          case issued of
            Inl shown \<Rightarrow> ret shown
          | Inr code \<Rightarrow>
              bnd (of_option ValueErr (append_query (ar_redirect_uri request)
                     [(''code'', Some code), (''state'', ar_state request)])) (\<lambda>location.
              ret (redirect_reply 303 location)))))"

text \<open>The token endpoint takes no client authentication: a header that tries one is refused.\<close>

definition exchange_code :: "env \<Rightarrow> settings \<Rightarrow> request \<Rightarrow> token_params \<Rightarrow> reply act" where
  "exchange_code env s rq p =
     (if has_authorization rq then raise (oauth_exn InvalidOAuthClientError)
      else
        bnd (of_oauth (token_request_of p)) (\<lambda>request.
        bnd (exchange_authorization_code env s request) (\<lambda>tokens.
        ret (with_headers no_store_headers (respond 200 (TokensJson tokens))))))"

end
