(* ===== verification/Redirect_Facts.thy ===== *)
theory Redirect_Facts
  imports Routes_OAuth OAuth_Facts
begin

text \<open>
  What stands in the redirects of \<^verbatim>\<open>routes/oauth.py\<close>: a parser of the link reads back the
  parameters of the registered URI and then the values that were added.
\<close>

section \<open>Parsed texts are sequences of Unicode scalars\<close>

lemma scalar_two: "194 \<le> a \<Longrightarrow> a < 224 \<Longrightarrow> is_tail b \<Longrightarrow> is_scalar (64 * (a - 192) + (b - 128))"
  unfolding is_tail_def is_scalar_def by linarith

lemma scalar_three:
  assumes a: "224 \<le> a" "a < 240" and b: "second_of_three a b" and c: "is_tail c"
  shows "is_scalar (4096 * (a - 224) + 64 * (b - 128) + (c - 128))"
proof -
  from b have "128 \<le> b" "b < 192" by (auto simp: second_of_three_def is_tail_def split: if_splits)
  with a c obtain x y z where xyz: "a = 224 + x" "b = 128 + y" "c = 128 + z" "x < 16" "y < 64" "z < 64"
    by (auto simp: is_tail_def le_iff_add)
  have "x = 13 \<Longrightarrow> y < 32" using b xyz by (simp add: second_of_three_def)
  with xyz have "4096 * x + 64 * y + z < 55296 \<or> (57344 \<le> 4096 * x + 64 * y + z \<and> 4096 * x + 64 * y + z < 65536)"
    by (cases x "13 :: nat" rule: linorder_cases) auto
  then show ?thesis by (auto simp: xyz is_scalar_def)
qed

lemma scalar_four:
  assumes a: "240 \<le> a" "a < 245" and b: "second_of_four a b" and cd: "is_tail c" "is_tail d"
  shows "is_scalar (262144 * (a - 240) + 4096 * (b - 128) + 64 * (c - 128) + (d - 128))"
proof -
  from b have "128 \<le> b" "b < 192" by (auto simp: second_of_four_def is_tail_def split: if_splits)
  with a cd obtain x y z u where xyz: "a = 240 + x" "b = 128 + y" "c = 128 + z" "d = 128 + u"
      "x < 5" "y < 64" "z < 64" "u < 64"
    by (auto simp: is_tail_def le_iff_add)
  have "x = 0 \<Longrightarrow> 16 \<le> y" "x = 4 \<Longrightarrow> y < 16" using b xyz by (simp_all add: second_of_four_def)
  with xyz have "65536 \<le> 262144 * x + 4096 * y + 64 * z + u \<and> 262144 * x + 4096 * y + 64 * z + u < 1114112"
    by (cases "x = 0"; cases "x = 4") auto
  then show ?thesis by (simp add: xyz is_scalar_def)
qed

lemma scalar_replacement: "is_scalar 65533"
  by (simp add: is_scalar_def)

lemma utf8_decode_scalar: "list_all is_scalar (utf8_decode bs)"
proof (induction bs rule: utf8_decode.induct)
  case (2 a bs)
  have "is_scalar a" if "a < 128" using that by (simp add: is_scalar_def)
  with 2 show ?case
    by (simp add: scalar_two scalar_three scalar_four scalar_replacement split: list.splits)
qed simp

lemma unquote_from_scalar:
  "list_all is_scalar t \<Longrightarrow> list_all is_scalar (unquote_from run t)"
  by (induction run t rule: unquote_from.induct) (simp_all add: utf8_decode_scalar)

lemma unquote_plus_scalar: "list_all is_scalar t \<Longrightarrow> list_all is_scalar (unquote_plus t)"
  unfolding unquote_plus_def unquote_def
  by (rule unquote_from_scalar) (auto simp: list_all_iff plus_to_space_def is_scalar_def)

lemma split_at_char_sub: "\<forall>p \<in> set (split_at_char x t). set p \<subseteq> set t"
proof (induction t)
  case (Cons c t)
  then show ?case
    by (cases "split_at_char x t") (auto simp del: subset_code)
qed simp

lemma parse_qsl_sound: "list_all is_scalar t \<Longrightarrow> sound_pairs (parse_qsl t)"
proof -
  assume t: "list_all is_scalar t"
  have "list_all is_scalar (fst (query_pair p)) \<and> list_all is_scalar (snd (query_pair p))"
    if "p \<in> set (split_at_char 38 t)" for p
  proof -
    from split_at_char_sub that have "set p \<subseteq> set t" by (rule bspec)
    with t have p: "list_all is_scalar p" by (auto simp: list_all_iff)
    have "set (tl (dropWhile (\<lambda>c. c \<noteq> 61) p)) \<subseteq> set p"
    proof
      fix c assume "c \<in> set (tl (dropWhile (\<lambda>c. c \<noteq> 61) p))"
      then have "c \<in> set (dropWhile (\<lambda>c. c \<noteq> 61) p)" by (cases "dropWhile (\<lambda>c. c \<noteq> 61) p") simp_all
      then show "c \<in> set p" by (rule set_dropWhileD)
    qed
    with p have "list_all is_scalar (tl (dropWhile (\<lambda>c. c \<noteq> 61) p))" by (auto simp: list_all_iff)
    moreover have "list_all is_scalar (takeWhile (\<lambda>c. c \<noteq> 61) p)"
      using p set_takeWhileD by (fastforce simp: list_all_iff)
    ultimately show ?thesis by (simp add: query_pair_def unquote_plus_scalar)
  qed
  then show ?thesis by (auto simp: sound_pairs_def parse_qsl_def list_all_iff split_beta)
qed

lemma present_pairs_sound: "sound_pairs (present_pairs values)"
  using code_points_scalar
  by (auto simp: sound_pairs_def present_pairs_def list_all_iff split: option.splits)

section \<open>The link\<close>

lemma urlencode_ascii: "sound_pairs kvs \<Longrightarrow> c \<in> set (urlencode kvs) \<Longrightarrow> c < 128"
proof -
  assume sound: "sound_pairs kvs" and c: "c \<in> set (urlencode kvs)"
  have join: "c \<in> set (join_with 38 ps) \<Longrightarrow> c = 38 \<or> (\<exists>p \<in> set ps. c \<in> set p)" for ps
    by (induction "38 :: nat" ps rule: join_with.induct) auto
  from join [OF c [unfolded urlencode_def]] show ?thesis
    using sound quote_plus_ascii by (fastforce simp: sound_pairs_def list_all_iff)
qed

lemma code_points_ascii: "list_all (\<lambda>c. c < 128) t \<Longrightarrow> code_points (ascii_text t) = t"
  by (induction t) (simp_all add: code_points_def ascii_text_def of_char_of)

lemma append_query_parses:
  assumes "append_query uri values = Some url"
  obtains parts query where "urlsplit uri = Some parts" "url = urlunsplit (parts\<lparr>url_query := query\<rparr>)"
    "parse_qsl (code_points query) = parse_qsl (code_points (url_query parts)) @ present_pairs values"
proof -
  from assms obtain parts where parts: "urlsplit uri = Some parts" "url = urlunsplit (parts\<lparr>url_query :=
      ascii_text (urlencode (parse_qsl (code_points (url_query parts)) @ present_pairs values))\<rparr>)"
    by (auto simp: append_query_def)
  let ?kvs = "parse_qsl (code_points (url_query parts)) @ present_pairs values"
  have "sound_pairs ?kvs"
    using parse_qsl_sound [OF code_points_scalar] present_pairs_sound by (simp add: sound_pairs_def)
  then have "parse_qsl (code_points (ascii_text (urlencode ?kvs))) = ?kvs"
    using urlencode_ascii by (simp add: code_points_ascii list_all_iff parse_urlencode)
  with parts that show thesis by blast
qed

section \<open>Who is redirected where\<close>

text \<open>
  A redirect of the program: to a registered URI of the public client, which the request
  named, extended by the given values.
\<close>

definition registered_redirect :: "settings \<Rightarrow> authorization_params \<Rightarrow> (string \<times> string option) list \<Rightarrow> reply \<Rightarrow> bool" where
  "registered_redirect s p values r \<longleftrightarrow> ap_client_id p = Some (oauth2_public_client_id s) \<and>
     (\<exists>uri url parts query. uri \<in> set (oauth2_redirect_uris s) \<and> ap_redirect_uri p = Some uri \<and>
        urlsplit uri = Some parts \<and> (''location'', quote_url url) \<in> set (rp_headers r) \<and>
        url = urlunsplit (parts\<lparr>url_query := query\<rparr>) \<and>
        parse_qsl (code_points query) = parse_qsl (code_points (url_query parts)) @ present_pairs values)"

lemma redirect_reply_simps [simp]:
  "rp_status (redirect_reply n url) = n" "(''location'', quote_url url) \<in> set (rp_headers (redirect_reply n url))"
  by (simp_all add: redirect_reply_def with_headers_def respond_def)

lemma login_page_simps [simp]: "rp_status (login_page r e) = 200"
  by (simp add: login_page_def with_headers_def respond_def)

lemma registered_redirectI:
  assumes "append_query uri values = Some url" "uri \<in> set (oauth2_redirect_uris s)"
    "ap_redirect_uri p = Some uri" "ap_client_id p = Some (oauth2_public_client_id s)"
  shows "registered_redirect s p values (redirect_reply n url)"
proof -
  from assms(1) obtain parts query where "urlsplit uri = Some parts" "url = urlunsplit (parts\<lparr>url_query := query\<rparr>)"
    "parse_qsl (code_points query) = parse_qsl (code_points (url_query parts)) @ present_pairs values"
    by (rule append_query_parses)
  with assms(2-4) show ?thesis unfolding registered_redirect_def
    by (intro conjI exI [of _ uri] exI [of _ url] exI [of _ parts] exI [of _ query]) simp_all
qed

definition error_values :: "oauth_error \<Rightarrow> authorization_params \<Rightarrow> (string \<times> string option) list" where
  "error_values e p = [(''error'', Some (oauth_error_name e)),
     (''error_description'', Some (public_message (OAuth_Error e))), (''state'', ap_state p)]"

lemma error_redirect:
  assumes "redirect_authorization_error s e p w = (Inr r, w')"
  shows "rp_status r = 302 \<and> registered_redirect s p (error_values e p) r \<and> w' = w"
proof -
  from assms obtain url where t: "has_trusted_redirect s (ap_client_id p) (ap_redirect_uri p)"
    and url: "append_query (the (ap_redirect_uri p)) (error_values e p) = Some url"
    and r: "r = redirect_reply 302 url" "w' = w"
    by (auto simp: redirect_authorization_error_def run_ok error_values_def split: if_splits)
  from t obtain uri where "ap_redirect_uri p = Some uri" "uri \<in> set (oauth2_redirect_uris s)"
    "ap_client_id p = Some (oauth2_public_client_id s)"
    by (auto simp: has_trusted_redirect_def split: option.splits)
  with url r show ?thesis by (auto intro: registered_redirectI)
qed

text \<open>The schema keeps client, redirect URI and state as they were sent.\<close>

lemma authorization_request_same:
  "authorization_request_of p = Inr req \<Longrightarrow> ap_client_id p = Some (ar_client_id req) \<and>
     ap_redirect_uri p = Some (ar_redirect_uri req) \<and> ap_state p = ar_state req"
  by (cases "ap_client_id p"; cases "ap_redirect_uri p")
    (auto simp: authorization_request_of_def OAuthAuthorizationRequestSchema_def Let_def rejected_def
      bounded_def valid_redirect_uri_def split: if_splits sum.splits option.splits)

lemma catch_returns:
  "catch m h w = (Inr x, w') \<Longrightarrow> m w = (Inr x, w') \<or>
     (\<exists>e w1 m'. m w = (Inl e, w1) \<and> h e = Some m' \<and> m' w1 = (Inr x, w'))"
  by (auto simp: catch_def split: prod.splits sum.splits option.splits)

lemma on_oauth_error_returns:
  "on_oauth_error caught m h w = (Inr x, w') \<Longrightarrow> m w = (Inr x, w') \<or>
     (\<exists>e w1. m w = (Inl (AppErr (OAuth_Error e)), w1) \<and> caught e \<and> h e w1 = (Inr x, w'))"
proof -
  assume run: "on_oauth_error caught m h w = (Inr x, w')"
  from catch_returns [OF run [unfolded on_oauth_error_def]] show ?thesis
  proof (elim disjE exE conjE)
    fix e w1 m'
    assume m: "m w = (Inl e, w1)" and m': "m' w1 = (Inr x, w')"
      and h: "(case e of AppErr (OAuth_Error o') \<Rightarrow> if caught o' then Some (h o') else None | _ \<Rightarrow> None) = Some m'"
    from h obtain o' where o': "e = AppErr (OAuth_Error o')" "caught o'" "m' = h o'"
      by (cases e) (auto split: error_class.splits if_splits)
    with m m' show ?thesis by auto
  qed simp
qed

lemma authorization_page_redirects:
  assumes "authorization_page s p w = (Inr r, w')" and "rp_status r \<noteq> 200"
  shows "rp_status r = 302 \<and> (\<exists>e. registered_redirect s p (error_values e p) r) \<and> committed w' = committed w"
proof -
  have "no_commit (bnd (of_oauth (authorization_request_of p)) (\<lambda>request.
      bnd (validate_authorization_request s request) (\<lambda>_. ret (login_page request []))))"
    unfolding of_oauth_def validate_authorization_request_def
    by (intro keeps) (auto split: sum.splits intro!: keeps)
  note same = no_commitD [OF this]
  from on_oauth_error_returns [OF assms(1) [unfolded authorization_page_def]] assms(2)
  obtain e w1 where "committed w1 = committed w" "redirect_authorization_error s e p w1 = (Inr r, w')"
    using same by (fastforce simp: run_ok)
  with error_redirect [of s e p w1 r w'] show ?thesis by auto
qed

text \<open>What the form ends with, besides a page: an error or a code goes to the client.\<close>

definition code_values :: "string \<Rightarrow> authorization_params \<Rightarrow> (string \<times> string option) list" where
  "code_values code p = [(''code'', Some code), (''state'', ap_state p)]"

lemma atomic_issue_caught:
  "atomic (catch (bnd (issue_authorization_code env s email password request) (\<lambda>code. ret (Inr code)))
     (\<lambda>e. if is_login_failure e then Some (ret (Inl (login_page request msg))) else None))"
  by (rule atomic_catch, rule atomic_bnd_ret, rule atomic_issue) (auto split: if_splits intro: keeps)

lemma authorize_redirects:
  assumes "authorize env s credentials p w = (Inr r, w')" and "valid_db (work w)" and "rp_status r \<notin> {200, 422}"
  shows "(rp_status r = 302 \<and> (\<exists>e. registered_redirect s p (error_values e p) r) \<and> committed w' = committed w) \<or>
     (rp_status r = 303 \<and> (\<exists>code c. registered_redirect s p (code_values code p) r \<and>
        c \<in> set (auth_codes (committed w')) \<and> c_code_hash c = hash_secret code \<and>
        Some (c_client_id c) = ap_client_id p \<and> Some (c_redirect_uri c) = ap_redirect_uri p \<and> c_consumed_at c = None))"
proof -
  from assms(1,3) obtain email password where cred: "credentials = Inr (email, password)"
    by (cases credentials) (auto simp: authorize_def validated_def run_ok respond_def)
  note run = assms(1) [unfolded authorize_def cred validated_def, simplified]
  show ?thesis
  proof (cases "authorization_request_of p")
    case (Inl e)
    with run have "redirect_authorization_error s e p w = (Inr r, w')"
      by (auto simp: run_ok split: if_splits)
    from error_redirect [OF this] show ?thesis by auto
  next
    case (Inr req)
    let ?issue = "bnd (issue_authorization_code env s email password req) (\<lambda>code. ret (Inr code :: reply + string))"
    let ?attempt = "catch ?issue (\<lambda>e. if is_login_failure e
        then Some (ret (Inl (login_page req ''Invalid email or password.''))) else None)"
    note same = authorization_request_same [OF Inr]
    from run Inr obtain issued w1 where
      iss: "on_oauth_error is_issuance_error ?attempt (\<lambda>e. bnd (redirect_authorization_error s e p) (\<lambda>r. ret (Inl r))) w
        = (Inr issued, w1)" and
      rest: "(case issued of Inl shown \<Rightarrow> ret shown | Inr code \<Rightarrow>
          bnd (of_option ValueErr (append_query (ar_redirect_uri req)
             [(''code'', Some code), (''state'', ar_state req)])) (\<lambda>location. ret (redirect_reply 303 location))) w1 = (Inr r, w')"
    proof -
      from run Inr have "bnd (on_oauth_error is_issuance_error ?attempt
          (\<lambda>e. bnd (redirect_authorization_error s e p) (\<lambda>r. ret (Inl r)))) (\<lambda>issued.
          case issued of Inl shown \<Rightarrow> ret shown | Inr code \<Rightarrow>
            bnd (of_option ValueErr (append_query (ar_redirect_uri req)
               [(''code'', Some code), (''state'', ar_state req)])) (\<lambda>location. ret (redirect_reply 303 location))) w
        = (Inr r, w')" by simp
      then show thesis unfolding bnd_ok [of "on_oauth_error _ _ _"] using that by blast
    qed
    from on_oauth_error_returns [OF iss] show ?thesis
    proof (elim disjE exE conjE)
      assume "?attempt w = (Inr issued, w1)"
      from catch_returns [OF this] show ?thesis
      proof (elim disjE exE conjE)
        assume "?issue w = (Inr issued, w1)"
        then obtain code where code: "issue_authorization_code env s email password req w = (Inr code, w1)"
          "issued = Inr code" by (auto simp: run_ok)
        from rest code(2) obtain url where
          url: "append_query (ar_redirect_uri req) (code_values code p) = Some url"
          "r = redirect_reply 303 url" "w' = w1" by (auto simp: run_ok code_values_def same)
        show ?thesis
        proof (rule issue_success [OF code(1) assms(2)])
          fix u now
          assume reg: "ar_client_id req = oauth2_public_client_id s" "ar_redirect_uri req \<in> set (oauth2_redirect_uris s)"
            and codes: "auth_codes (committed w1) = delete_where (\<lambda>c. c_expires_at c \<le> now) (auth_codes (work w)) @
              [issued_code req code (u_id u) (now + seconds (oauth2_authorization_code_ttl_seconds s)) (db_now w)]"
          let ?c = "issued_code req code (u_id u) (now + seconds (oauth2_authorization_code_ttl_seconds s)) (db_now w)"
          have "registered_redirect s p (code_values code p) r"
            unfolding url(2) by (rule registered_redirectI [OF url(1)]) (simp_all add: same reg)
          moreover have "?c \<in> set (auth_codes (committed w'))" using codes url(3) by simp
          ultimately show ?thesis using url(2) same by (intro disjI2 conjI exI [of _ code] exI [of _ ?c])
              (simp_all add: issued_code_def)
        qed
      next
        fix e w2 m'
        assume "(if is_login_failure e then Some (ret (Inl (login_page req ''Invalid email or password.''))) else None) = Some m'"
          "m' w2 = (Inr issued, w1)"
        with rest assms(3) show ?thesis by (auto simp: run_ok split: if_splits)
      qed
    next
      fix e w2
      assume failed: "?attempt w = (Inl (AppErr (OAuth_Error e)), w2)"
        and h: "bnd (redirect_authorization_error s e p) (\<lambda>r. ret (Inl r)) w2 = (Inr issued, w1)"
      from atomicD [OF atomic_issue_caught failed] have "committed w2 = committed w" .
      moreover from h rest have "redirect_authorization_error s e p w2 = (Inr r, w')" by (auto simp: run_ok)
      ultimately show ?thesis using error_redirect [of s e p w2 r w'] by auto
    qed
  qed
qed

end
