(* ===== verification/Web_Props.thy ===== *)
theory Web_Props
  imports Routes_Auth Routes_User Routes_Todo Cache_Facts Redirect_Facts Sample
begin

text \<open>
  What the outer layer promises: the documented responses, the keys of the cache, and the
  redirects of the authorization endpoint.
\<close>

section \<open>Documented responses\<close>

definition documented :: "(string \<times> doc_row list) list" where
  "documented =
     [(''register'', register_responses), (''resend'', resend_responses), (''confirm'', confirm_responses),
      (''login'', login_responses), (''browser/login'', browser_login_responses),
      (''refresh'', refresh_responses), (''browser/refresh'', refresh_browser_responses),
      (''logout'', logout_responses), (''browser/logout'', logout_browser_responses),
      (''PATCH users/me'', update_responses), (''DELETE users/me'', deactivate_responses),
      (''POST api-keys'', create_key_responses), (''GET api-keys'', list_key_responses),
      (''DELETE api-keys'', delete_key_responses),
      (''GET emails/smtp'', check_smtp_responses), (''POST emails/test'', send_test_responses),
      (''POST todos'', create_todo_responses), (''GET todos'', list_todos_responses),
      (''GET todos/id'', get_todo_responses), (''PATCH todos/id'', update_todo_responses),
      (''DELETE todos/id'', remove_todo_responses)]"

definition false_rows :: "(string \<times> doc_row) list" where
  "false_rows = concat (map (\<lambda>(r, rows). map (Pair r) (filter (\<lambda>row. \<not> row_true ''/api/v1/'' row) rows)) documented)"


section \<open>Cached reads\<close>



section \<open>Redirects\<close>

text \<open>
  C32. The authorization endpoint is no open redirector: whatever is sent to its page or its
  form, and whatever the database answers, a redirect goes to a redirect URI that is
  registered for the public client and that the request named; its query is the query of that
  URI followed by the client's state and either the error, when nothing was committed, or a
  code, which is then stored, unconsumed, for this client and this URI.
\<close>

theorem redirects_only_to_registered:
  assumes "valid_db (work w)"
  shows "(authorization_page s p w = (Inr r, w') \<and> rp_status r \<noteq> 200 \<longrightarrow>
       rp_status r = 302 \<and> (\<exists>e. registered_redirect s p (error_values e p) r) \<and> committed w' = committed w) \<and>
     (authorize env s credentials p w = (Inr r, w') \<and> rp_status r \<notin> {200, 422} \<longrightarrow>
       (rp_status r = 302 \<and> (\<exists>e. registered_redirect s p (error_values e p) r) \<and> committed w' = committed w) \<or>
       (rp_status r = 303 \<and> (\<exists>code c. registered_redirect s p (code_values code p) r \<and>
          c \<in> set (auth_codes (committed w')) \<and> c_code_hash c = hash_secret code \<and>
          Some (c_client_id c) = ap_client_id p \<and> Some (c_redirect_uri c) = ap_redirect_uri p \<and>
          c_consumed_at c = None)))"
  using authorization_page_redirects authorize_redirects assms by blast

definition implicit_params :: authorization_params where
  "implicit_params = \<lparr>ap_response_type = Some ''token'', ap_client_id = Some ''todo-public-client'',
     ap_redirect_uri = Some ''http://localhost:8000/docs/oauth2-redirect'', ap_state = Some ''xyz'',
     ap_code_challenge = None, ap_code_challenge_method = None, ap_scope = None\<rparr>"

theorem redirects_only_to_registered_witness:
  "\<exists>r. authorize sample_env default_settings (Inr (''a@example.com'', ''x'')) implicit_params
       (sample_world sample_users_db) = (Inr r, sample_world sample_users_db) \<and> rp_status r = 302 \<and>
     (\<exists>e. registered_redirect default_settings implicit_params (error_values e implicit_params) r)"
proof -
  let ?w = "sample_world sample_users_db" and ?uri = "''http://localhost:8000/docs/oauth2-redirect''"
  have "urlsplit ?uri \<noteq> None" by code_simp
  then obtain url where url: "append_query ?uri
      (error_values UnsupportedResponseTypeError implicit_params) = Some url"
    unfolding append_query_def by auto
  let ?r = "redirect_reply 302 url"
  have "is_protocol_error UnsupportedResponseTypeError" by code_simp
  moreover have "oauth2_public_client_id default_settings = ''todo-public-client''"
    "oauth2_redirect_uris default_settings = [?uri]" by (simp_all add: default_settings_def)
  ultimately have run: "authorize sample_env default_settings (Inr (''a@example.com'', ''x'')) implicit_params ?w
      = (Inr ?r, ?w)"
    using url unfolding error_values_def
    by (simp add: authorize_def validated_def authorization_request_of_def implicit_params_def
        redirect_authorization_error_def has_trusted_redirect_def bnd_run of_option_def ret_def)
  have "valid_db (work ?w)" by (simp add: valid_sample_users_db)
  from redirects_only_to_registered [OF this, THEN conjunct2, of sample_env default_settings
      "Inr (''a@example.com'', ''x'')" implicit_params ?r ?w] run
  have "\<exists>e. registered_redirect default_settings implicit_params (error_values e implicit_params) ?r" by simp
  with run show ?thesis by (intro exI [of _ ?r] conjI) simp_all
qed

end
