(* ===== verification/Maintenance.thy ===== *)
theory Maintenance
  imports Auth_Facts OAuth Todos
begin

text \<open>
  \<^verbatim>\<open>background/maintenance.py\<close>: the four jobs that clean up, each one statement in a transaction
  of its own. They share a contract, the locale \<open>sweep\<close>: what is due at a cutoff is settled,
  everything else stays as it is, and the job returns how many rows it settled.
\<close>

section \<open>Jobs\<close>

text \<open>\<^verbatim>\<open>async with session_factory() as session, session.begin()\<close>: commit at the end, else roll back.\<close>

definition in_transaction :: "'a act \<Rightarrow> 'a act" where
  "in_transaction m = get_session (bnd m (\<lambda>x. bnd commit (\<lambda>_. ret x)))"

definition prune_oauth_authorization_codes :: "int act" where
  "prune_oauth_authorization_codes =
     bnd now_utc (\<lambda>now. in_transaction (prune_expired_authorization_codes now))"

definition prune_refresh_sessions :: "int act" where
  "prune_refresh_sessions =
     bnd now_utc (\<lambda>now. in_transaction (prune_expired_refresh_sessions now))"

definition clear_expired_verification_tokens :: "int act" where
  "clear_expired_verification_tokens =
     bnd now_utc (\<lambda>now. in_transaction (clear_expired_email_verification_tokens now))"

text \<open>Zero days turn the job off.\<close>

definition auto_archive_completed_todos :: "int \<Rightarrow> int act" where
  "auto_archive_completed_todos after_days =
     (if after_days = 0 then ret 0
      else bnd now_utc (\<lambda>now. in_transaction (archive_completed_todos (now - days after_days))))"

section \<open>The contract of a sweep\<close>

definition settle :: "('r \<Rightarrow> bool) \<Rightarrow> ('r \<Rightarrow> 'r list) \<Rightarrow> 'r list \<Rightarrow> 'r list" where
  "settle due f rs = concat (map (\<lambda>r. if due r then f r else [r]) rs)"

lemma settle_delete: "settle due (\<lambda>_. []) rs = delete_where due rs"
  by (induction rs) (simp_all add: settle_def delete_where_def)

lemma settle_update: "settle due (\<lambda>r. [g r]) rs = update_where due g rs"
  by (induction rs) (simp_all add: settle_def update_where_def)

lemma set_settle: "set (settle due f rs) = {r \<in> set rs. \<not> due r} \<union> (\<Union>r \<in> {r \<in> set rs. due r}. set (f r))"
  by (auto simp: settle_def split: if_splits)

locale sweep =
  fixes job :: "int act" and rows :: "db \<Rightarrow> 'r list" and rest :: "db \<Rightarrow> db"
    and due :: "time \<Rightarrow> 'r \<Rightarrow> bool" and settled :: "time \<Rightarrow> 'r \<Rightarrow> 'r list"
    and cutoff :: "time \<Rightarrow> time"
  assumes success: "job w = (Inr n, w') \<Longrightarrow>
      rows (committed w') = settle (due (cutoff (clock (tick w)))) (settled (db_now w)) (rows (committed w)) \<and>
      n = rowcount (due (cutoff (clock (tick w)))) (rows (committed w)) \<and>
      rest (committed w') = rest (committed w)"
    and finished: "r' \<in> set (settled t r) \<Longrightarrow> due c r \<Longrightarrow> \<not> due c r'"
    and failure: "atomic job"
begin

text \<open>Nothing that was due at the cutoff is left.\<close>

lemma nothing_due:
  assumes "job w = (Inr n, w')" and "r \<in> set (rows (committed w'))"
  shows "\<not> due (cutoff (clock (tick w))) r"
  using success [OF assms(1)] assms(2) finished by (auto simp: set_settle)

text \<open>What was not due is untouched, in its place.\<close>

lemma others_stay:
  assumes "job w = (Inr n, w')" and "\<not> due (cutoff (clock (tick w))) r"
  shows "r \<in> set (rows (committed w)) \<Longrightarrow> r \<in> set (rows (committed w'))"
  using success [OF assms(1)] assms(2) by (auto simp: set_settle)

lemma count_bounds:
  assumes "job w = (Inr n, w')"
  shows "0 \<le> n" "n \<le> int (length (rows (committed w)))"
  using success [OF assms] by (auto simp: rowcount_def)

text \<open>A sweep that settles nothing changes nothing, so sweeping again at once is idle.\<close>

lemma settle_none: "\<forall>r \<in> set rs. \<not> P r \<Longrightarrow> settle P f rs = rs"
  by (induction rs) (simp_all add: settle_def)

lemma idle:
  assumes "job w = (Inr 0, w')"
  shows "rows (committed w') = rows (committed w)"
proof -
  from success [OF assms] have "\<forall>r \<in> set (rows (committed w)). \<not> due (cutoff (clock (tick w))) r"
    by (auto simp: rowcount_def filter_empty_conv)
  with success [OF assms] show ?thesis by (simp add: settle_none)
qed

lemma second_sweep_idle:
  assumes "job w = (Inr n, w')" and "job w2 = (Inr n2, w3)"
    and "committed w2 = committed w'" and "cutoff (clock (tick w2)) = cutoff (clock (tick w))"
  shows "n2 = 0 \<and> rows (committed w3) = rows (committed w')"
proof -
  from nothing_due [OF assms(1)] have "\<forall>r \<in> set (rows (committed w2)). \<not> due (cutoff (clock (tick w2))) r"
    by (simp add: assms(3,4))
  then have "rowcount (due (cutoff (clock (tick w2)))) (rows (committed w2)) = 0"
    by (simp add: rowcount_def)
  with success [OF assms(2)] have "n2 = 0" by simp
  with idle assms(2,3) show ?thesis by auto
qed

end

section \<open>The four instances\<close>

lemma in_transaction_success:
  assumes "in_transaction m w = (Inr x, w')"
  obtains w1 where "m (w\<lparr>work := committed w\<rparr>) = (Inr x, w1)" "committed w' = work w1" "valid_db (work w1)"
proof -
  from assms obtain w2 where run: "bnd m (\<lambda>x. bnd commit (\<lambda>_. ret x)) (w\<lparr>work := committed w\<rparr>) = (Inr x, w2)"
    and w': "w' = w2\<lparr>work := committed w2\<rparr>"
    by (auto simp: in_transaction_def get_session_def split: prod.splits)
  from run obtain w1 u where "m (w\<lparr>work := committed w\<rparr>) = (Inr x, w1)" "commit w1 = (Inr u, w2)"
    unfolding run_ok by blast
  with w' show thesis by (auto intro!: that dest!: commit_ok)
qed

lemma atomic_in_transaction: "no_commit m \<Longrightarrow> atomic (in_transaction m)"
  unfolding in_transaction_def by (intro atomic_get_session atomic_bnd atomic_commit_ret)

lemma atomic_job: "(\<And>now. no_commit (m now)) \<Longrightarrow> atomic (bnd now_utc (\<lambda>now. in_transaction (m now)))"
  by (intro atomic_bnd no_commit_prim atomic_in_transaction)

lemma job_success:
  assumes "bnd now_utc (\<lambda>now. in_transaction (m now)) w = (Inr n, w')"
  obtains w1 where "m (clock (tick w)) ((tick w)\<lparr>work := committed w\<rparr>) = (Inr n, w1)"
    "committed w' = work w1" "valid_db (work w1)"
proof -
  from assms have "in_transaction (m (clock (tick w))) (tick w) = (Inr n, w')"
    by (simp add: bnd_def now_utc_tick)
  then obtain w1 where "m (clock (tick w)) ((tick w)\<lparr>work := committed (tick w)\<rparr>) = (Inr n, w1)"
    "committed w' = work w1" "valid_db (work w1)" by (rule in_transaction_success)
  then show thesis by (intro that [of w1]) simp_all
qed

lemma no_commit_sweeps [keeps]:
  "no_commit (prune_expired_authorization_codes t)" "no_commit (prune_expired_refresh_sessions t)"
  "no_commit (clear_expired_email_verification_tokens t)" "no_commit (archive_completed_todos t)"
  unfolding prune_expired_authorization_codes_def prune_expired_refresh_sessions_def
    clear_expired_email_verification_tokens_def archive_completed_todos_def Let_def
  by (intro keeps)+

text \<open>What each statement counts and writes.\<close>

lemma check_rows_same: "check_rows w = (Inr u, w') \<Longrightarrow> w' = w"
  by (auto simp: check_rows_def split: if_splits option.splits)

lemma prune_codes_run:
  "prune_expired_authorization_codes t w = (Inr n, w') \<Longrightarrow>
     n = rowcount (\<lambda>c. c_expires_at c \<le> t) (auth_codes (work w)) \<and>
     work w' = (work w)\<lparr>auth_codes := delete_where (\<lambda>c. c_expires_at c \<le> t) (auth_codes (work w))\<rparr>"
  by (auto simp: prune_expired_authorization_codes_def Let_def run_ok dest!: statement_ok)

lemma prune_sessions_run:
  "prune_expired_refresh_sessions t w = (Inr n, w') \<Longrightarrow>
     n = rowcount (\<lambda>c. s_expires_at c \<le> t) (refresh_sessions (work w)) \<and>
     work w' = (work w)\<lparr>refresh_sessions := delete_where (\<lambda>c. s_expires_at c \<le> t) (refresh_sessions (work w))\<rparr>"
  by (auto simp: prune_expired_refresh_sessions_def Let_def run_ok dest!: statement_ok)

definition cleared_user :: "time \<Rightarrow> user \<Rightarrow> user" where
  "cleared_user now u = u\<lparr>u_email_verification_token_hash := None, u_email_verification_expires_at := None,
     u_email_verification_requested_at := None, u_updated_at := now\<rparr>"

lemma clear_tokens_run:
  "clear_expired_email_verification_tokens t w = (Inr n, w') \<Longrightarrow>
     n = rowcount (token_is_stale t) (users (work w)) \<and>
     work w' = (work w)\<lparr>users := update_where (token_is_stale t) (cleared_user (db_now w)) (users (work w))\<rparr>"
  by (auto simp: clear_expired_email_verification_tokens_def cleared_user_def [abs_def] Let_def run_ok
      dest!: statement_ok check_rows_same)

lemma cleared_not_stale: "\<not> token_is_stale c (cleared_user t u)"
  by (simp add: token_is_stale_def cleared_user_def)

definition archive_due :: "time \<Rightarrow> todo \<Rightarrow> bool" where
  "archive_due completed_before t \<longleftrightarrow> t_status t = DONE \<and> \<not> t_is_archived t \<and>
     (case t_completed_at t of None \<Rightarrow> False | Some c \<Rightarrow> c \<le> completed_before)"

definition archived_todo :: "time \<Rightarrow> todo \<Rightarrow> todo" where
  "archived_todo now t = t\<lparr>t_is_archived := True, t_updated_at := now\<rparr>"

lemma archived_not_due: "\<not> archive_due c (archived_todo t r)"
  by (simp add: archive_due_def archived_todo_def)

lemma archive_run:
  "archive_completed_todos c w = (Inr n, w') \<Longrightarrow>
     n = rowcount (archive_due c) (todos (work w)) \<and>
     work w' = (work w)\<lparr>todos := update_where (archive_due c) (archived_todo (db_now w)) (todos (work w))\<rparr>"
  by (auto simp: archive_completed_todos_def archive_due_def [abs_def] archived_todo_def [abs_def] Let_def run_ok
      dest!: statement_ok check_rows_same)

interpretation code_sweep: sweep prune_oauth_authorization_codes auth_codes
  "\<lambda>d. d\<lparr>auth_codes := []\<rparr>" "\<lambda>t c. c_expires_at c \<le> t" "\<lambda>_ _. []" "\<lambda>t. t"
  by unfold_locales
    (auto simp: prune_oauth_authorization_codes_def atomic_job no_commit_sweeps settle_delete
      elim!: job_success dest!: prune_codes_run)

interpretation session_sweep: sweep prune_refresh_sessions refresh_sessions
  "\<lambda>d. d\<lparr>refresh_sessions := []\<rparr>" "\<lambda>t s. s_expires_at s \<le> t" "\<lambda>_ _. []" "\<lambda>t. t"
  by unfold_locales
    (auto simp: prune_refresh_sessions_def atomic_job no_commit_sweeps settle_delete
      elim!: job_success dest!: prune_sessions_run)

interpretation token_sweep: sweep clear_expired_verification_tokens users
  "\<lambda>d. d\<lparr>users := []\<rparr>" token_is_stale "\<lambda>now u. [cleared_user now u]" "\<lambda>t. t"
  by unfold_locales
    (auto simp: clear_expired_verification_tokens_def atomic_job no_commit_sweeps settle_update
      cleared_not_stale elim!: job_success dest!: clear_tokens_run)

lemma update_never: "update_where (\<lambda>_. False) f rs = rs"
  by (induction rs) simp_all

interpretation archive_sweep: sweep "auto_archive_completed_todos after_days" todos
  "\<lambda>d. d\<lparr>todos := []\<rparr>" "\<lambda>t r. after_days \<noteq> 0 \<and> archive_due t r"
  "\<lambda>now t. [archived_todo now t]" "\<lambda>t. t - days after_days" for after_days
  by unfold_locales
    (auto simp: auto_archive_completed_todos_def atomic_job no_commit_sweeps settle_update update_never
      rowcount_def ret_def archived_not_due no_commit_atomic no_commit_prim split: if_splits
      elim!: job_success dest!: archive_run)

section \<open>The jobs\<close>

text \<open>The jobs that the scheduler and the queue start.\<close>

datatype job = PruneCodes | PruneSessions | ClearTokens | ArchiveTodos int

definition run_job :: "job \<Rightarrow> int act" where
  "run_job j = (case j of PruneCodes \<Rightarrow> prune_oauth_authorization_codes
     | PruneSessions \<Rightarrow> prune_refresh_sessions
     | ClearTokens \<Rightarrow> clear_expired_verification_tokens
     | ArchiveTodos after_days \<Rightarrow> auto_archive_completed_todos after_days)"

end
