(* ===== verification/Worker.thy ===== *)
theory Worker
  imports Session
begin

text \<open>
  \<^verbatim>\<open>background/maintenance_runtime.py\<close>: the event loop and the database that a Celery worker
  process owns, as a state machine whose log says what became of every loop and every
  database, and the abstract life cycle that it refines. The slot of
  \<^verbatim>\<open>background/scheduler.py\<close>, which holds the database of the running application, ends the
  theory.
\<close>

section \<open>The runtime\<close>

text \<open>Loops and databases are numbered in the order of their creation.\<close>

datatype life_event =
    LoopOpened nat
  | DatabaseCreated nat nat \<comment> \<open>the database, and the loop it is created on\<close>
  | OperationRun nat nat
  | DatabaseDisposed nat nat
  | LoopClosed nat

record runtime =
  rt_runner :: "nat option"
  rt_database :: "nat option"
  rt_loops :: nat
  rt_databases :: nat
  rt_log :: "life_event list"

type_synonym 'a outcome = "(exn + 'a) \<times> runtime"

definition new_runtime :: runtime where
  "new_runtime = \<lparr>rt_runner = None, rt_database = None, rt_loops = 0, rt_databases = 0, rt_log = []\<rparr>"

definition log_life :: "life_event \<Rightarrow> runtime \<Rightarrow> runtime" where
  "log_life e st = st\<lparr>rt_log := rt_log st @ [e]\<rparr>"

definition initialize :: "runtime \<Rightarrow> runtime" where
  "initialize st =
     (if rt_runner st \<noteq> None then st
      else log_life (LoopOpened (rt_loops st)) (st\<lparr>rt_runner := Some (rt_loops st), rt_loops := Suc (rt_loops st)\<rparr>))"

text \<open>
  What the factory and the operation end with is given: an exception or, for the operation,
  the count it returns.
\<close>

definition execute :: "nat \<Rightarrow> exn option \<Rightarrow> (exn + int) \<Rightarrow> runtime \<Rightarrow> int outcome" where
  "execute loop factory operation st =
     (case rt_database st of
        Some d \<Rightarrow> (operation, log_life (OperationRun d loop) st)
      | None \<Rightarrow>
          (case factory of
             Some e \<Rightarrow> (Inl e, st)
           | None \<Rightarrow>
               (let d = rt_databases st;
                    st = log_life (DatabaseCreated d loop) (st\<lparr>rt_database := Some d, rt_databases := Suc d\<rparr>)
                in (operation, log_life (OperationRun d loop) st))))"

definition run :: "exn option \<Rightarrow> (exn + int) \<Rightarrow> runtime \<Rightarrow> int outcome" where
  "run factory operation st =
     (let st = initialize st in
      case rt_runner st of
        None \<Rightarrow> (Inl RuntimeErr, st)
      | Some loop \<Rightarrow> execute loop factory operation st)"

text \<open>\<open>disposal\<close> is the exception of \<^verbatim>\<open>database.dispose()\<close>, if any; the loop is closed all the same.\<close>

definition shutdown :: "exn option \<Rightarrow> runtime \<Rightarrow> unit outcome" where
  "shutdown disposal st =
     (let runner = rt_runner st; database = rt_database st;
          st = st\<lparr>rt_runner := None, rt_database := None\<rparr>
      in case runner of
           None \<Rightarrow> (Inr (), st)
         | Some loop \<Rightarrow>
             (case database of
                None \<Rightarrow> (Inr (), log_life (LoopClosed loop) st)
              | Some d \<Rightarrow>
                  ((case disposal of None \<Rightarrow> Inr () | Some e \<Rightarrow> Inl e),
                   log_life (LoopClosed loop) (log_life (DatabaseDisposed d loop) st))))"

section \<open>The abstract life cycle\<close>

text \<open>
  A worker is stopped, runs a loop, or runs a loop with a database. The machine allows a
  database only on the loop it was created on, and closes a loop only once its database is
  disposed.
\<close>

datatype life = Stopped | Looping nat | Serving nat nat

fun life_step :: "life \<Rightarrow> life_event \<Rightarrow> life option" where
  "life_step Stopped (LoopOpened l) = Some (Looping l)"
| "life_step (Looping l) (DatabaseCreated d l') = (if l' = l then Some (Serving l d) else None)"
| "life_step (Looping l) (LoopClosed l') = (if l' = l then Some Stopped else None)"
| "life_step (Serving l d) (OperationRun d' l') = (if d' = d \<and> l' = l then Some (Serving l d) else None)"
| "life_step (Serving l d) (DatabaseDisposed d' l') = (if d' = d \<and> l' = l then Some (Looping l) else None)"
| "life_step _ _ = None"

fun life_run :: "life \<Rightarrow> life_event list \<Rightarrow> life option" where
  "life_run a [] = Some a"
| "life_run a (e # es) = (case life_step a e of None \<Rightarrow> None | Some b \<Rightarrow> life_run b es)"

lemma life_run_append: "life_run a (es @ fs) = (case life_run a es of None \<Rightarrow> None | Some b \<Rightarrow> life_run b fs)"
  by (induction es arbitrary: a) (auto split: option.splits)

definition abs_life :: "runtime \<Rightarrow> life" where
  "abs_life st = (case rt_runner st of
      None \<Rightarrow> Stopped
    | Some l \<Rightarrow> (case rt_database st of None \<Rightarrow> Looping l | Some d \<Rightarrow> Serving l d))"

section \<open>Reachable runtimes\<close>

inductive worker_step :: "runtime \<Rightarrow> runtime \<Rightarrow> bool" where
  Init: "worker_step st (initialize st)"
| Run: "worker_step st (snd (run factory operation st))"
| Shutdown: "worker_step st (snd (shutdown disposal st))"

inductive worker_reach :: "runtime \<Rightarrow> bool" where
  Start: "worker_reach new_runtime"
| Step: "worker_reach st \<Longrightarrow> worker_step st st' \<Longrightarrow> worker_reach st'"

inductive_cases worker_stepE: "worker_step st st'"

text \<open>
  The simulation: the log is a run of the abstract machine to the abstraction of the state, a
  database is only there with a loop, and every number is below its counter.
\<close>

definition sim :: "runtime \<Rightarrow> bool" where
  "sim st \<longleftrightarrow> life_run Stopped (rt_log st) = Some (abs_life st) \<and>
     (rt_runner st = None \<longrightarrow> rt_database st = None)"

lemma sim_new: "sim new_runtime"
  by (simp add: sim_def new_runtime_def abs_life_def)

lemma sim_initialize: "sim st \<Longrightarrow> sim (initialize st)"
  by (auto simp: sim_def initialize_def log_life_def abs_life_def life_run_append split: option.splits)

lemma initialize_runner: "\<exists>l. rt_runner (initialize st) = Some l"
  by (auto simp: initialize_def log_life_def)

lemma sim_execute: "sim st \<Longrightarrow> rt_runner st = Some l \<Longrightarrow> sim (snd (execute l f op st))"
  by (auto simp: sim_def execute_def log_life_def abs_life_def life_run_append Let_def split: option.splits)

lemma sim_run: "sim st \<Longrightarrow> sim (snd (run f op st))"
  using initialize_runner [of st] sim_execute [OF sim_initialize] by (auto simp: run_def Let_def)

lemma sim_shutdown: "sim st \<Longrightarrow> sim (snd (shutdown e st))"
  by (auto simp: sim_def shutdown_def log_life_def abs_life_def life_run_append Let_def split: option.splits)

lemma reach_sim: "worker_reach st \<Longrightarrow> sim st"
  by (induction rule: worker_reach.induct)
    (auto simp: sim_new elim!: worker_stepE intro: sim_initialize sim_run sim_shutdown)

section \<open>The scheduler's database\<close>

text \<open>The module variable \<^verbatim>\<open>_database\<close>; databases are numbered as above.\<close>

type_synonym slot = "nat option"

definition get_scheduler_database :: "slot \<Rightarrow> exn + nat" where
  "get_scheduler_database slot = (case slot of None \<Rightarrow> Inl RuntimeErr | Some d \<Rightarrow> Inr d)"

definition create_scheduler :: "nat \<Rightarrow> slot \<Rightarrow> slot" where
  "create_scheduler database slot = Some database"

definition release_scheduler_database :: "nat \<Rightarrow> slot \<Rightarrow> slot" where
  "release_scheduler_database database slot = (if slot = Some database then None else slot)"

lemma release_own: "release_scheduler_database d (create_scheduler d slot) = None"
  by (simp add: release_scheduler_database_def create_scheduler_def)

end
