(* ===== verification/Background_Props.thy ===== *)
theory Background_Props
  imports Maintenance Worker Auth_Sample
begin

text \<open>Properties of the worker's runtime and of the maintenance jobs, with their witnesses.\<close>

section \<open>The runtime refines the life cycle\<close>

text \<open>What a run of the abstract machine leaves open is what its last state holds.\<close>

definition holds_loop :: "life \<Rightarrow> nat \<Rightarrow> nat" where
  "holds_loop a l = (case a of Stopped \<Rightarrow> 0 | Looping m \<Rightarrow> if m = l then 1 else 0 | Serving m d \<Rightarrow> if m = l then 1 else 0)"

definition holds_database :: "life \<Rightarrow> nat \<Rightarrow> nat \<Rightarrow> nat" where
  "holds_database a d l = (case a of Serving m e \<Rightarrow> if m = l \<and> e = d then 1 else 0 | _ \<Rightarrow> 0)"

lemma life_step_balance:
  "life_step a e = Some b \<Longrightarrow>
     count_list [e] (LoopOpened l) + holds_loop a l = count_list [e] (LoopClosed l) + holds_loop b l \<and>
     count_list [e] (DatabaseCreated d l) + holds_database a d l =
       count_list [e] (DatabaseDisposed d l) + holds_database b d l"
  by (cases a; cases e) (auto simp: holds_loop_def holds_database_def split: if_splits)

lemma life_run_balance:
  "life_run a es = Some b \<Longrightarrow>
     count_list es (LoopOpened l) + holds_loop a l = count_list es (LoopClosed l) + holds_loop b l \<and>
     count_list es (DatabaseCreated d l) + holds_database a d l =
       count_list es (DatabaseDisposed d l) + holds_database b d l"
proof (induction es arbitrary: a)
  case (Cons e es)
  then obtain c where c: "life_step a e = Some c" "life_run c es = Some b" by (auto split: option.splits)
  from life_step_balance [OF c(1), of l d] Cons.IH [OF c(2)] show ?case by (simp split: if_splits)
qed simp

lemma shutdown_stops: "rt_runner (snd (shutdown e st)) = None"
  by (auto simp: shutdown_def log_life_def Let_def split: option.splits)

text \<open>
  C37. The worker's runtime refines the life cycle of one loop with one database: after any
  sequence of initialisations, runs and shutdowns, whatever factories, operations and
  disposals raise, the log is a run of the abstract machine, which allows a database only on
  the loop it was created on and closes a loop only after its database is disposed, and it
  ends in the abstraction of the state. A shutdown stops it: then every loop is closed as
  often as it was opened, every database disposed on its own loop as often as created.
\<close>

theorem worker_refines_life_cycle:
  assumes "worker_reach st"
  shows "life_run Stopped (rt_log st) = Some (abs_life st) \<and>
     (\<forall>disposal. let log = rt_log (snd (shutdown disposal st)) in
        life_run Stopped log = Some Stopped \<and>
        (\<forall>l. count_list log (LoopOpened l) = count_list log (LoopClosed l)) \<and>
        (\<forall>d l. count_list log (DatabaseCreated d l) = count_list log (DatabaseDisposed d l)))"
proof -
  have stop: "life_run Stopped (rt_log (snd (shutdown e st))) = Some Stopped" for e
    using sim_shutdown [OF reach_sim [OF assms], of e] shutdown_stops [of e st]
    by (simp add: sim_def abs_life_def)
  have "count_list (rt_log (snd (shutdown e st))) (LoopOpened l) =
      count_list (rt_log (snd (shutdown e st))) (LoopClosed l) \<and>
    count_list (rt_log (snd (shutdown e st))) (DatabaseCreated d l) =
      count_list (rt_log (snd (shutdown e st))) (DatabaseDisposed d l)" for e l d
    using life_run_balance [OF stop, of e l d] by (simp add: holds_loop_def holds_database_def)
  with stop reach_sim [OF assms] show ?thesis by (simp add: sim_def Let_def)
qed

theorem worker_refines_life_cycle_witness:
  "\<exists>st. worker_reach st \<and> rt_log st = [LoopOpened 0, DatabaseCreated 0 0, OperationRun 0 0] \<and>
     rt_log (snd (shutdown (Some SqlErr) st)) =
       rt_log st @ [DatabaseDisposed 0 0, LoopClosed 0] \<and>
     count_list (rt_log (snd (shutdown (Some SqlErr) st))) (LoopOpened 0) =
       count_list (rt_log (snd (shutdown (Some SqlErr) st))) (LoopClosed 0)"
proof -
  let ?st = "snd (run None (Inr 3) new_runtime)"
  have reach: "worker_reach ?st" by (intro worker_reach.Step [OF worker_reach.Start] worker_step.Run)
  from worker_refines_life_cycle [OF reach]
  have "count_list (rt_log (snd (shutdown (Some SqlErr) ?st))) (LoopOpened 0) =
      count_list (rt_log (snd (shutdown (Some SqlErr) ?st))) (LoopClosed 0)"
    by (simp only: Let_def)
  moreover have "rt_log ?st = [LoopOpened 0, DatabaseCreated 0 0, OperationRun 0 0]"
    "rt_log (snd (shutdown (Some SqlErr) ?st)) = rt_log ?st @ [DatabaseDisposed 0 0, LoopClosed 0]"
    by (simp_all add: run_def execute_def initialize_def shutdown_def new_runtime_def log_life_def Let_def)
  ultimately show ?thesis using reach by blast
qed

section \<open>Maintenance\<close>

lemma atomic_run_job: "atomic (run_job j)"
  using code_sweep.failure session_sweep.failure token_sweep.failure archive_sweep.failure
  by (cases j) (simp_all add: run_job_def)

lemma settle_kept: "r \<in> set rs \<Longrightarrow> due r \<Longrightarrow> f r = [r'] \<Longrightarrow> r' \<in> set (settle due f rs)"
  by (force simp: set_settle)

text \<open>What is worth keeping of a database at a time.\<close>

definition usable_token :: "time \<Rightarrow> user \<Rightarrow> bool" where
  "usable_token now u \<longleftrightarrow> \<not> token_is_stale now u"

definition spares :: "time \<Rightarrow> db \<Rightarrow> db \<Rightarrow> bool" where
  "spares now d d' \<longleftrightarrow>
     (\<forall>s \<in> set (refresh_sessions d). session_is_active s now \<longrightarrow> s \<in> set (refresh_sessions d')) \<and>
     (\<forall>c \<in> set (auth_codes d). now < c_expires_at c \<longrightarrow> c \<in> set (auth_codes d')) \<and>
     (\<forall>u \<in> set (users d). (usable_token now u \<longrightarrow> u \<in> set (users d')) \<and>
        (\<exists>t. u \<in> set (users d') \<or> cleared_user t u \<in> set (users d'))) \<and>
     (\<forall>t \<in> set (todos d). (t_status t \<noteq> DONE \<longrightarrow> t \<in> set (todos d')) \<and>
        (\<exists>a. t \<in> set (todos d') \<or> archived_todo a t \<in> set (todos d'))) \<and>
     api_keys d' = api_keys d"

lemma spares_refl: "spares now d d"
  by (simp add: spares_def)

lemma other_tables:
  "d'\<lparr>auth_codes := []\<rparr> = d\<lparr>auth_codes := []\<rparr> \<longleftrightarrow>
     users d' = users d \<and> refresh_sessions d' = refresh_sessions d \<and> api_keys d' = api_keys d \<and> todos d' = todos d"
  "d'\<lparr>refresh_sessions := []\<rparr> = d\<lparr>refresh_sessions := []\<rparr> \<longleftrightarrow>
     users d' = users d \<and> auth_codes d' = auth_codes d \<and> api_keys d' = api_keys d \<and> todos d' = todos d"
  "d'\<lparr>users := []\<rparr> = d\<lparr>users := []\<rparr> \<longleftrightarrow>
     refresh_sessions d' = refresh_sessions d \<and> auth_codes d' = auth_codes d \<and> api_keys d' = api_keys d \<and> todos d' = todos d"
  "d'\<lparr>todos := []\<rparr> = d\<lparr>todos := []\<rparr> \<longleftrightarrow>
     users d' = users d \<and> refresh_sessions d' = refresh_sessions d \<and> auth_codes d' = auth_codes d \<and> api_keys d' = api_keys d"
  for d d' :: db
  by (cases d; cases d'; auto)+

lemma job_spares:
  assumes "run_job j w = (Inr n, w')"
  shows "spares (clock (tick w)) (committed w) (committed w')"
proof (cases j)
  case PruneCodes
  with assms have run: "prune_oauth_authorization_codes w = (Inr n, w')" by (simp add: run_job_def)
  from code_sweep.success [OF run] code_sweep.others_stay [OF run] show ?thesis
    by (auto simp: spares_def other_tables)
next
  case PruneSessions
  with assms have run: "prune_refresh_sessions w = (Inr n, w')" by (simp add: run_job_def)
  from session_sweep.success [OF run] session_sweep.others_stay [OF run] show ?thesis
    by (auto simp: spares_def other_tables session_is_active_def)
next
  case ClearTokens
  with assms have run: "clear_expired_verification_tokens w = (Inr n, w')" by (simp add: run_job_def)
  note s = token_sweep.success [OF run] and o' = token_sweep.others_stay [OF run]
  have "u \<in> set (users (committed w')) \<or> cleared_user (db_now w) u \<in> set (users (committed w'))"
    if "u \<in> set (users (committed w))" for u
  proof (cases "token_is_stale (clock (tick w)) u")
    case True
    then show ?thesis using s that settle_kept [OF that, of "token_is_stale (clock (tick w))"] by simp
  next
    case False
    then show ?thesis using o' that by simp
  qed
  with s o' show ?thesis by (auto simp: spares_def other_tables usable_token_def)
next
  case (ArchiveTodos k)
  with assms have run: "auto_archive_completed_todos k w = (Inr n, w')" by (simp add: run_job_def)
  let ?due = "\<lambda>r. k \<noteq> 0 \<and> archive_due (clock (tick w) - days k) r"
  note s = archive_sweep.success [OF run] and o' = archive_sweep.others_stay [OF run]
  have "t \<in> set (todos (committed w')) \<or> archived_todo (db_now w) t \<in> set (todos (committed w'))"
    if "t \<in> set (todos (committed w))" for t
  proof (cases "?due t")
    case True
    then show ?thesis using s that settle_kept [OF that, of ?due "\<lambda>t. [archived_todo (db_now w) t]"] by simp
  next
    case False
    then show ?thesis using o' that by simp
  qed
  moreover have "\<not> ?due t" if "t_status t \<noteq> DONE" for t using that by (simp add: archive_due_def)
  ultimately show ?thesis using s o' by (auto simp: spares_def other_tables)
qed

text \<open>What is left of the rows that a job is for.\<close>

definition swept :: "job \<Rightarrow> time \<Rightarrow> db \<Rightarrow> bool" where
  "swept j now d \<longleftrightarrow> (case j of
       PruneCodes \<Rightarrow> \<forall>c \<in> set (auth_codes d). now < c_expires_at c
     | PruneSessions \<Rightarrow> \<forall>s \<in> set (refresh_sessions d). now < s_expires_at s
     | ClearTokens \<Rightarrow> \<forall>u \<in> set (users d). usable_token now u
     | ArchiveTodos k \<Rightarrow> k \<noteq> 0 \<longrightarrow> (\<forall>t \<in> set (todos d). \<not> archive_due (now - days k) t))"

lemma job_sweeps:
  assumes "run_job j w = (Inr n, w')"
  shows "swept j (clock (tick w)) (committed w')"
proof (cases j)
  case (ArchiveTodos k)
  with assms have "auto_archive_completed_todos k w = (Inr n, w')" by (simp add: run_job_def)
  from archive_sweep.nothing_due [OF this]
  have "k \<noteq> 0 \<longrightarrow> (\<forall>t \<in> set (todos (committed w')). \<not> archive_due (clock (tick w) - days k) t)" by blast
  with ArchiveTodos show ?thesis by (simp add: swept_def)
qed (use assms code_sweep.nothing_due [of w n w'] session_sweep.nothing_due [of w n w']
       token_sweep.nothing_due [of w n w'] in
     \<open>simp_all add: run_job_def swept_def usable_token_def not_le [symmetric]\<close>)



end
