(* ===== verification/Observability.thy ===== *)
theory Observability
  imports Session Py_Str "HOL-Library.AList"
begin

text \<open>
  \<^verbatim>\<open>observability/\<close>: request identifiers (\<^verbatim>\<open>request_context.py\<close>), the HTTP metrics of requests
  that run at the same time (\<^verbatim>\<open>middleware.py\<close>), and the metrics of statements and pooled
  connections (\<^verbatim>\<open>database.py\<close>). A Prometheus counter or histogram is the list of the label
  values it was called with (with the observed size, not the time), a gauge is a number.
\<close>

section \<open>Request identifiers\<close>

text \<open>Python's \<^verbatim>\<open>int(text, 16)\<close>: outer whitespace, a sign, a prefix, digits with single underscores.\<close>

definition hex_value :: "char \<Rightarrow> nat option" where
  "hex_value c = (let n = (of_char c :: nat) in
     if 48 \<le> n \<and> n \<le> 57 then Some (n - 48)
     else if 65 \<le> n \<and> n \<le> 70 then Some (n - 55)
     else if 97 \<le> n \<and> n \<le> 102 then Some (n - 87) else None)"

text \<open>\<open>prev\<close>: whether the character before was a digit (or the prefix), so that an underscore may follow.\<close>

fun hex_digits :: "bool \<Rightarrow> nat \<Rightarrow> string \<Rightarrow> nat option" where
  "hex_digits prev acc [] = (if prev then Some acc else None)"
| "hex_digits prev acc (c # cs) =
     (if c = CHR ''_'' then (if prev then (if cs = [] then None else hex_digits False acc cs) else None)
      else (case hex_value c of None \<Rightarrow> None | Some d \<Rightarrow> hex_digits True (16 * acc + d) cs))"

definition hex_number :: "string \<Rightarrow> nat option" where
  "hex_number t =
     (if length t > 2 \<and> (take 2 t = ''0x'' \<or> take 2 t = ''0X'') then hex_digits True 0 (drop 2 t)
      else hex_digits False 0 t)"

definition int_base16 :: "string \<Rightarrow> nat option" where
  "int_base16 text = (let t = strip text in
     hex_number (if t \<noteq> [] \<and> hd t = CHR ''+'' then tl t else t))"

text \<open>\<^verbatim>\<open>str.replace\<close> by the empty text, and \<^verbatim>\<open>strip('{}')\<close>.\<close>

fun remove_all :: "string \<Rightarrow> string \<Rightarrow> string" where
  "remove_all pat [] = []"
| "remove_all pat (c # cs) =
     (if pat \<noteq> [] \<and> take (length pat) (c # cs) = pat then remove_all pat (drop (length pat) (c # cs))
      else c # remove_all pat cs)"

definition strip_braces :: "string \<Rightarrow> string" where
  "strip_braces s = (let brace = (\<lambda>c. c = CHR ''{'' \<or> c = CHR ''}'') in
     rev (dropWhile brace (rev (dropWhile brace s))))"

definition hex_char :: "nat \<Rightarrow> char" where
  "hex_char n = char_of (if n < 10 then 48 + n else 87 + n)"

fun hex_text :: "nat \<Rightarrow> nat \<Rightarrow> string" where
  "hex_text 0 n = []"
| "hex_text (Suc k) n = hex_text k (n div 16) @ [hex_char (n mod 16)]"

definition uuid_text :: "nat \<Rightarrow> string" where
  "uuid_text n = (let h = hex_text 32 n in
     take 8 h @ ''-'' @ take 4 (drop 8 h) @ ''-'' @ take 4 (drop 12 h) @ ''-'' @
     take 4 (drop 16 h) @ ''-'' @ drop 20 h)"

text \<open>\<^verbatim>\<open>UUID(value)\<close>; \<open>None\<close> is its \<^verbatim>\<open>ValueError\<close>.\<close>

definition parse_uuid :: "string \<Rightarrow> nat option" where
  "parse_uuid value =
     (let hex = filter (\<lambda>c. c \<noteq> CHR ''-'') (strip_braces (remove_all ''uuid:'' (remove_all ''urn:'' value)))
      in if length hex \<noteq> 32 then None else int_base16 hex)"

text \<open>\<open>fresh\<close> is the number that \<^verbatim>\<open>uuid4\<close> draws.\<close>

definition resolve_request_id :: "nat \<Rightarrow> string option \<Rightarrow> string" where
  "resolve_request_id fresh value = (case value of
      None \<Rightarrow> uuid_text fresh
    | Some v \<Rightarrow> (case parse_uuid v of Some n \<Rightarrow> uuid_text n | None \<Rightarrow> uuid_text fresh))"

section \<open>HTTP metrics\<close>

record scope =
  sc_type :: string
  sc_path :: string
  sc_method :: "string option"
  sc_route :: "string option"
  sc_root_path :: string

fun rstrip_slash :: "string \<Rightarrow> string" where
  "rstrip_slash s = (if s \<noteq> [] \<and> last s = CHR ''/'' then rstrip_slash (butlast s) else s)"

declare rstrip_slash.simps [simp del]

definition route_template :: "scope \<Rightarrow> string" where
  "route_template sc = (case sc_route sc of
      None \<Rightarrow> ''__unmatched__''
    | Some path \<Rightarrow> if path = [] then ''__unmatched__'' else rstrip_slash (sc_root_path sc) @ path)"

datatype message =
    RequestBody nat
  | ResponseStart int
  | ResponseBody nat
  | OtherMessage

record http_metrics =
  hm_in_progress :: "string \<Rightarrow> int"
  hm_requests :: "(string \<times> string \<times> string) list"
  hm_durations :: "(string \<times> string) list"
  hm_request_sizes :: "(string \<times> string \<times> nat) list"
  hm_response_sizes :: "(string \<times> string \<times> nat) list"
  hm_exceptions :: "(string \<times> string \<times> string) list"

text \<open>The local variables of one call of the middleware.\<close>

record call =
  ca_method :: string
  ca_status :: int
  ca_request_size :: nat
  ca_response_size :: nat

definition is_measured :: "string \<Rightarrow> scope \<Rightarrow> bool" where
  "is_measured metrics_path sc \<longleftrightarrow> \<not> (sc_type sc \<noteq> ''http'' \<or> sc_path sc = metrics_path)"

definition begin_call :: "scope \<Rightarrow> http_metrics \<Rightarrow> call \<times> http_metrics" where
  "begin_call sc m =
     (let method = upper_ascii (case sc_method sc of None \<Rightarrow> ''UNKNOWN'' | Some t \<Rightarrow> t)
      in (\<lparr>ca_method = method, ca_status = 500, ca_request_size = 0, ca_response_size = 0\<rparr>,
          m\<lparr>hm_in_progress := (hm_in_progress m)(method := hm_in_progress m method + 1)\<rparr>))"

definition receive_with_size :: "message \<Rightarrow> call \<Rightarrow> call" where
  "receive_with_size msg c = (case msg of
      RequestBody n \<Rightarrow> c\<lparr>ca_request_size := ca_request_size c + n\<rparr> | _ \<Rightarrow> c)"

definition send_with_size :: "message \<Rightarrow> call \<Rightarrow> call" where
  "send_with_size msg c = (case msg of
      ResponseStart status \<Rightarrow> c\<lparr>ca_status := status\<rparr>
    | ResponseBody n \<Rightarrow> c\<lparr>ca_response_size := ca_response_size c + n\<rparr>
    | _ \<Rightarrow> c)"

text \<open>\<open>failure\<close> is the type of an \<^verbatim>\<open>Exception\<close> that escapes; a cancellation is counted like a return.\<close>

definition finish_call :: "scope \<Rightarrow> string option \<Rightarrow> call \<Rightarrow> http_metrics \<Rightarrow> http_metrics" where
  "finish_call sc failure c m =
     (let method = ca_method c; route = route_template sc;
          m = (case failure of None \<Rightarrow> m
               | Some t \<Rightarrow> m\<lparr>hm_exceptions := hm_exceptions m @ [(method, route, t)]\<rparr>)
      in m\<lparr>hm_in_progress := (hm_in_progress m)(method := hm_in_progress m method - 1),
           hm_requests := hm_requests m @ [(method, route, py_str (ca_status c))],
           hm_durations := hm_durations m @ [(method, route)],
           hm_request_sizes := hm_request_sizes m @ [(method, route, ca_request_size c)],
           hm_response_sizes := hm_response_sizes m @ [(method, route, ca_response_size c)]\<rparr>)"

section \<open>Statement metrics\<close>

definition KNOWN_OPERATIONS :: "string list" where
  "KNOWN_OPERATIONS = [''SELECT'', ''INSERT'', ''UPDATE'', ''DELETE'', ''MERGE'', ''DDL'']"

text \<open>The first word of the statement; the compiled statement may have a visit name.\<close>

definition first_word :: "string \<Rightarrow> string" where
  "first_word sql = upper_ascii (takeWhile (\<lambda>c. \<not> is_space c) (dropWhile is_space sql))"

definition operation_of :: "string \<Rightarrow> string \<Rightarrow> string" where
  "operation_of sql visit_name =
     (if upper_ascii visit_name \<in> set KNOWN_OPERATIONS then upper_ascii visit_name
      else if first_word sql \<in> set KNOWN_OPERATIONS then first_word sql
      else if first_word sql \<in> {''CREATE'', ''ALTER'', ''DROP'', ''TRUNCATE''} then ''DDL''
      else ''OTHER'')"

text \<open>\<open>timers\<close> is the stack that a connection keeps (the youngest first).\<close>

record db_metrics =
  dm_in_progress :: "string \<Rightarrow> int"
  dm_total :: "(string \<times> string) list"
  dm_durations :: "string list"

definition before_cursor_execute :: "string \<Rightarrow> string \<Rightarrow> string list \<times> db_metrics \<Rightarrow> string list \<times> db_metrics" where
  "before_cursor_execute sql visit_name cm = (case cm of (timers, m) \<Rightarrow>
     let operation = operation_of sql visit_name in
     (operation # timers,
      m\<lparr>dm_in_progress := (dm_in_progress m)(operation := dm_in_progress m operation + 1)\<rparr>))"

definition settle_timer :: "string \<Rightarrow> string list \<times> db_metrics \<Rightarrow> string list \<times> db_metrics" where
  "settle_timer result cm = (case cm of
      ([], m) \<Rightarrow> ([], m)
    | (operation # timers, m) \<Rightarrow>
        (timers,
         m\<lparr>dm_in_progress := (dm_in_progress m)(operation := dm_in_progress m operation - 1),
           dm_total := dm_total m @ [(operation, result)],
           dm_durations := dm_durations m @ [operation]\<rparr>))"

definition after_cursor_execute :: "string list \<times> db_metrics \<Rightarrow> string list \<times> db_metrics" where
  "after_cursor_execute = settle_timer ''success''"

text \<open>An error without a connection is not counted.\<close>

definition handle_statement_error :: "bool \<Rightarrow> string list \<times> db_metrics \<Rightarrow> string list \<times> db_metrics" where
  "handle_statement_error has_connection cm = (if has_connection then settle_timer ''error'' cm else cm)"

datatype pool_event = Connect | Close | Checkout | Checkin | Invalidate

record pool_metrics =
  pm_events :: "pool_event list"
  pm_open :: int
  pm_checked_out :: int

definition record_pool_event :: "pool_event \<Rightarrow> pool_metrics \<Rightarrow> pool_metrics" where
  "record_pool_event e m = (let m = m\<lparr>pm_events := pm_events m @ [e]\<rparr> in
     case e of
       Connect \<Rightarrow> m\<lparr>pm_open := pm_open m + 1\<rparr>
     | Close \<Rightarrow> m\<lparr>pm_open := pm_open m - 1\<rparr>
     | Checkout \<Rightarrow> m\<lparr>pm_checked_out := pm_checked_out m + 1\<rparr>
     | Checkin \<Rightarrow> m\<lparr>pm_checked_out := pm_checked_out m - 1\<rparr>
     | Invalidate \<Rightarrow> m)"

section \<open>Requests and statements that overlap\<close>

record monitor =
  mo_http :: http_metrics
  mo_calls :: "(nat \<times> call) list"
  mo_db :: db_metrics
  mo_timers :: "string list list" \<comment> \<open>the stack of each connection\<close>

definition new_monitor :: "nat \<Rightarrow> monitor" where
  "new_monitor connections =
     \<lparr>mo_http = \<lparr>hm_in_progress = (\<lambda>_. 0), hm_requests = [], hm_durations = [], hm_request_sizes = [],
        hm_response_sizes = [], hm_exceptions = []\<rparr>,
      mo_calls = [], mo_db = \<lparr>dm_in_progress = (\<lambda>_. 0), dm_total = [], dm_durations = []\<rparr>,
      mo_timers = replicate connections []\<rparr>"

definition on_timers ::
  "nat \<Rightarrow> (string list \<times> db_metrics \<Rightarrow> string list \<times> db_metrics) \<Rightarrow> monitor \<Rightarrow> monitor" where
  "on_timers i f mo = (case f (mo_timers mo ! i, mo_db mo) of
      (timers, m) \<Rightarrow> mo\<lparr>mo_timers := (mo_timers mo)[i := timers], mo_db := m\<rparr>)"

inductive monitor_step :: "monitor \<Rightarrow> monitor \<Rightarrow> bool" where
  Begin: "is_measured path sc \<Longrightarrow> i \<notin> fst ` set (mo_calls mo) \<Longrightarrow> begin_call sc (mo_http mo) = (c, m) \<Longrightarrow>
    monitor_step mo (mo\<lparr>mo_http := m, mo_calls := (i, c) # mo_calls mo\<rparr>)"
| Receive: "monitor_step mo (mo\<lparr>mo_calls := AList.map_entry i (receive_with_size msg) (mo_calls mo)\<rparr>)"
| Send: "monitor_step mo (mo\<lparr>mo_calls := AList.map_entry i (send_with_size msg) (mo_calls mo)\<rparr>)"
| Finish: "map_of (mo_calls mo) i = Some c \<Longrightarrow>
    monitor_step mo (mo\<lparr>mo_http := finish_call sc failure c (mo_http mo),
                        mo_calls := filter (\<lambda>e. fst e \<noteq> i) (mo_calls mo)\<rparr>)"
| Before: "i < length (mo_timers mo) \<Longrightarrow> monitor_step mo (on_timers i (before_cursor_execute st v) mo)"
| After: "i < length (mo_timers mo) \<Longrightarrow> monitor_step mo (on_timers i after_cursor_execute mo)"
| Fail: "i < length (mo_timers mo) \<Longrightarrow> monitor_step mo (on_timers i (handle_statement_error b) mo)"

inductive monitor_reach :: "nat \<Rightarrow> monitor \<Rightarrow> bool" for n where
  Start: "monitor_reach n (new_monitor n)"
| Step: "monitor_reach n mo \<Longrightarrow> monitor_step mo mo' \<Longrightarrow> monitor_reach n mo'"

inductive_cases monitor_stepE: "monitor_step mo mo'"

end
