(* ===== verification/Observability_Props.thy ===== *)
theory Observability_Props
  imports Observability
begin

text \<open>Request identifiers are canonical, and the gauges count what is under way.\<close>

section \<open>Identifiers\<close>

definition low_hex :: "char \<Rightarrow> bool" where
  "low_hex c = (let n = (of_char c :: nat) in (48 \<le> n \<and> n \<le> 57) \<or> (97 \<le> n \<and> n \<le> 102))"

lemma of_hex_char: "n < 16 \<Longrightarrow> (of_char (hex_char n) :: nat) = (if n < 10 then 48 + n else 87 + n)"
  by (simp add: hex_char_def of_char_of)

lemma low_hex_char: "n < 16 \<Longrightarrow> low_hex (hex_char n)"
  by (simp add: low_hex_def of_hex_char)

lemma low_hex_not:
  assumes "low_hex c"
  shows "c \<noteq> CHR ''_''" "c \<noteq> CHR ''-''" "c \<noteq> CHR ''+''" "c \<noteq> CHR ''x''" "c \<noteq> CHR ''X''" "c \<noteq> CHR '':''"
    "c \<noteq> CHR ''{''" "c \<noteq> CHR ''}''" "\<not> is_space c" "c \<noteq> CHR ''u''"
  using assms by (auto simp: low_hex_def is_space_def Let_def)

lemma hex_value_char: "n < 16 \<Longrightarrow> hex_value (hex_char n) = Some n"
  by (simp add: hex_value_def of_hex_char Let_def)

lemma length_hex_text [simp]: "length (hex_text k n) = k"
  by (induction k arbitrary: n) simp_all

lemma hex_text_low: "c \<in> set (hex_text k n) \<Longrightarrow> low_hex c"
  by (induction k arbitrary: n) (auto simp: low_hex_char)

lemma hex_digits_step: "n < 16 \<Longrightarrow> hex_digits prev acc (hex_char n # cs) = hex_digits True (16 * acc + n) cs"
  using low_hex_not(1) [OF low_hex_char, of n] by (simp add: hex_value_char)

declare hex_digits.simps [simp del]

lemma hex_digits_text: "hex_digits prev acc (hex_text (Suc k) n @ cs) = hex_digits True (16 ^ Suc k * acc + n mod 16 ^ Suc k) cs"
proof (induction k arbitrary: n cs)
  case 0
  then show ?case by (simp add: hex_digits_step)
next
  case (Suc k)
  have "n mod (16 * 16 ^ Suc k) = 16 * (n div 16 mod 16 ^ Suc k) + n mod 16" by (rule mod_mult2_eq)
  then have split: "16 * (16 ^ Suc k * acc + n div 16 mod 16 ^ Suc k) + n mod 16 =
      16 ^ Suc (Suc k) * acc + n mod 16 ^ Suc (Suc k)" by (simp add: algebra_simps)
  have "hex_digits prev acc (hex_text (Suc (Suc k)) n @ cs) =
      hex_digits prev acc (hex_text (Suc k) (n div 16) @ (hex_char (n mod 16) # cs))" by simp
  also have "\<dots> = hex_digits True (16 ^ Suc k * acc + n div 16 mod 16 ^ Suc k) (hex_char (n mod 16) # cs)"
    by (rule Suc.IH)
  also have "\<dots> = hex_digits True (16 * (16 ^ Suc k * acc + n div 16 mod 16 ^ Suc k) + n mod 16) cs"
    by (rule hex_digits_step) simp
  finally show ?case by (simp only: split)
qed

lemma hex_value_bound: "hex_value c = Some d \<Longrightarrow> d < 16"
  by (auto simp: hex_value_def Let_def split: if_splits)

lemma hex_digits_bound: "hex_digits prev acc cs = Some n \<Longrightarrow> n < (acc + 1) * 16 ^ length cs"
proof (induction prev acc cs rule: hex_digits.induct)
  case (1 prev acc)
  then show ?case by (simp add: hex_digits.simps split: if_splits)
next
  case (2 prev acc c cs)
  show ?case
  proof (cases "c = CHR ''_''")
    case True
    with "2.prems" have "prev" "cs \<noteq> []" "hex_digits False acc cs = Some n"
      by (auto simp: hex_digits.simps split: if_splits)
    with True have "n < (acc + 1) * 16 ^ length cs" using "2.IH"(1) by blast
    also have "\<dots> \<le> (acc + 1) * 16 ^ length (c # cs)" by simp
    finally show ?thesis .
  next
    case False
    with "2.prems" obtain d where d: "hex_value c = Some d" "hex_digits True (16 * acc + d) cs = Some n"
      by (auto simp: hex_digits.simps split: option.splits)
    with False have "n < (16 * acc + d + 1) * 16 ^ length cs" using "2.IH"(2) by blast
    also have "(16 * acc + d + 1) * 16 ^ length cs \<le> (16 * acc + 16) * 16 ^ length cs"
      using hex_value_bound [OF d(1)] by (intro mult_right_mono) simp_all
    also have "\<dots> = (acc + 1) * 16 ^ length (c # cs)" by (simp add: algebra_simps)
    finally show ?thesis .
  qed
qed

lemma hex_digits_below: "hex_digits p 0 u = Some n \<Longrightarrow> length u \<le> k \<Longrightarrow> n < 16 ^ k"
proof -
  assume "hex_digits p 0 u = Some n" "length u \<le> k"
  then have "n < 16 ^ length u" using hex_digits_bound by fastforce
  also have "(16::nat) ^ length u \<le> 16 ^ k" using \<open>length u \<le> k\<close> by (intro power_increasing) simp_all
  finally show ?thesis .
qed

lemma hex_number_below: "hex_number t = Some n \<Longrightarrow> length t \<le> k \<Longrightarrow> n < 16 ^ k"
  by (auto simp: hex_number_def split: if_splits intro: hex_digits_below)

lemma int_base16_below: "int_base16 s = Some n \<Longrightarrow> length s \<le> k \<Longrightarrow> n < 16 ^ k"
  using length_strip [of s] by (auto simp: int_base16_def Let_def split: if_splits intro: hex_number_below)

lemma parse_uuid_bound: "parse_uuid v = Some n \<Longrightarrow> n < 16 ^ 32"
proof -
  assume "parse_uuid v = Some n"
  then obtain hex where "length hex = 32" "int_base16 hex = Some n"
    by (auto simp: parse_uuid_def Let_def split: if_splits)
  then show ?thesis using int_base16_below [of hex n 32] by simp
qed

lemma uuid_parts:
  fixes h :: string
  shows "h = take 8 h @ take 4 (drop 8 h) @ take 4 (drop 12 h) @ take 4 (drop 16 h) @ drop 20 h"
  using append_take_drop_id [of 8 h] append_take_drop_id [of 4 "drop 8 h"]
    append_take_drop_id [of 4 "drop 12 h"] append_take_drop_id [of 4 "drop 16 h"] by simp

lemma length_uuid_text [simp]: "length (uuid_text n) = 36"
  by (simp add: uuid_text_def Let_def)

lemma set_uuid_text: "c \<in> set (uuid_text n) \<Longrightarrow> low_hex c \<or> c = CHR ''-''"
  using hex_text_low [of c 32 n]
  by (auto simp: uuid_text_def Let_def dest!: in_set_takeD in_set_dropD)

lemma no_dash: "\<forall>c \<in> set x. low_hex c \<Longrightarrow> filter (\<lambda>c. c \<noteq> CHR ''-'') x = x"
  using low_hex_not(2) by (intro filter_True) blast

lemma uuid_digits: "filter (\<lambda>c. c \<noteq> CHR ''-'') (uuid_text n) = hex_text 32 n"
proof -
  let ?h = "hex_text 32 n"
  have low: "\<forall>c \<in> set (take i (drop j ?h)). low_hex c" "\<forall>c \<in> set (drop j ?h). low_hex c" for i j
    using hex_text_low [of _ 32 n] by (auto dest!: in_set_takeD in_set_dropD)
  have "filter (\<lambda>c. c \<noteq> CHR ''-'') (uuid_text n) =
      take 8 ?h @ take 4 (drop 8 ?h) @ take 4 (drop 12 ?h) @ take 4 (drop 16 ?h) @ drop 20 ?h"
    using no_dash [OF low(1)] no_dash [OF low(2)] no_dash [OF low(1) [of 8 0]]
    by (simp add: uuid_text_def Let_def del: filter_True)
  then show ?thesis using uuid_parts [of ?h] by simp
qed

lemma remove_all_absent: "\<forall>c \<in> set s. c \<noteq> x \<Longrightarrow> x \<in> set pat \<Longrightarrow> remove_all pat s = s"
proof (induction pat s rule: remove_all.induct)
  case (2 pat c cs)
  have "take (length pat) (c # cs) \<noteq> pat"
  proof
    assume "take (length pat) (c # cs) = pat"
    with "2.prems"(2) have "x \<in> set (c # cs)" by (metis in_set_takeD)
    with "2.prems"(1) show False by blast
  qed
  with 2 show ?case by simp
qed simp

lemma parse_uuid_text: "n < 16 ^ 32 \<Longrightarrow> parse_uuid (uuid_text n) = Some n"
proof -
  assume n: "n < 16 ^ 32"
  let ?u = "uuid_text n" and ?h = "hex_text 32 n"
  have set: "c \<in> set ?u \<Longrightarrow> c \<noteq> CHR '':'' \<and> c \<noteq> CHR ''{'' \<and> c \<noteq> CHR ''}''" for c
    using set_uuid_text [of c n] by (auto simp: low_hex_def)
  have "remove_all ''uuid:'' (remove_all ''urn:'' ?u) = ?u"
    using set remove_all_absent [of ?u "CHR '':''"] by simp
  moreover have "strip_braces ?u = ?u"
  proof -
    have "dropWhile (\<lambda>c. c = CHR ''{'' \<or> c = CHR ''}'') x = x" if "set x \<subseteq> set ?u" for x
      using that set by (cases x) auto
    then show ?thesis by (simp add: strip_braces_def)
  qed
  moreover have "int_base16 ?h = Some n"
  proof -
    have "no_outer_space ?h" 
      unfolding no_outer_space_def
      using hex_text_low [of "hd ?h" 32 n] hex_text_low [of "last ?h" 32 n] low_hex_not(9)
      by (metis hd_in_set last_in_set length_hex_text list.size(3) zero_neq_numeral)
    then have "strip ?h = ?h" by (rule strip_id)
    moreover have "hd ?h \<noteq> CHR ''+''" "?h \<noteq> []"
      using hex_text_low [of "hd ?h" 32 n] low_hex_not(3) by (metis hd_in_set length_hex_text list.size(3) zero_neq_numeral)+
    moreover have "?h ! 1 \<noteq> CHR ''x''" "?h ! 1 \<noteq> CHR ''X''"
      using hex_text_low [of "?h ! 1" 32 n] low_hex_not(4,5) by auto
    moreover have "take 2 ?h = [?h ! 0, ?h ! 1]"
      by (simp add: take_Suc_conv_app_nth numeral_2_eq_2 del: hex_text.simps)
    moreover have "hex_digits False 0 ?h = hex_digits True (n mod 16 ^ 32) []"
      using hex_digits_text [of False 0 31 n "[]"] by (simp del: hex_text.simps)
    ultimately show ?thesis using n by (simp add: int_base16_def hex_number_def Let_def hex_digits.simps del: hex_text.simps)
  qed
  ultimately show ?thesis by (simp add: parse_uuid_def uuid_digits)
qed

lemma resolve_is_uuid: "fresh < 16 ^ 32 \<Longrightarrow> \<exists>n. resolve_request_id fresh v = uuid_text n \<and> n < 16 ^ 32"
proof (cases "case v of None \<Rightarrow> None | Some x \<Rightarrow> parse_uuid x")
  case None
  then show "fresh < 16 ^ 32 \<Longrightarrow> ?thesis"
    by (intro exI [of _ fresh]) (auto simp: resolve_request_id_def split: option.splits)
next
  case (Some n)
  then obtain x where "v = Some x" "parse_uuid x = Some n" by (auto split: option.splits)
  then show ?thesis
    using parse_uuid_bound [of x n] by (intro exI [of _ n]) (simp add: resolve_request_id_def)
qed

lemma low_hex_letters: "low_hex c \<Longrightarrow> c \<in> set ''0123456789abcdef-''"
proof -
  assume "low_hex c"
  then have "(of_char c :: nat) \<in> {48..<58} \<union> {97..<103}" unfolding low_hex_def Let_def by auto
  then have "char_of (of_char c :: nat) \<in> char_of ` ({48..<58::nat} \<union> {97..<103})" by (rule imageI)
  also have "char_of ` ({48..<58::nat} \<union> {97..<103}) = set ''0123456789abcdef''"
    unfolding atLeastLessThan_upt by (simp add: upt_rec image_Un char_of_def bit_0 insert_commute)
  finally have "c \<in> set ''0123456789abcdef''" by simp
  also have "set ''0123456789abcdef'' \<subseteq> set ''0123456789abcdef-''" by simp
  finally show ?thesis .
qed

lemma uuid_letters: "c \<in> set (uuid_text n) \<Longrightarrow> c \<in> set ''0123456789abcdef-''"
  by (drule set_uuid_text, erule disjE, rule low_hex_letters, assumption, simp)

text \<open>
  Request identifiers are canonical: whatever the client sends as its request id, the id
  that the program stores and returns is a lower-case UUID text of 36 characters, which
  resolves to itself again; so a client can neither inject a header nor choose another form.
\<close>

lemma request_id_is_canonical:
  assumes "fresh < 16 ^ 32"
  shows "length (resolve_request_id fresh v) = 36 \<and>
     (\<forall>c \<in> set (resolve_request_id fresh v). c \<in> set ''0123456789abcdef-'') \<and>
     resolve_request_id other (Some (resolve_request_id fresh v)) = resolve_request_id fresh v"
proof -
  obtain n where n: "resolve_request_id fresh v = uuid_text n" "n < 16 ^ 32"
    using resolve_is_uuid [OF assms] by blast
  have "resolve_request_id other (Some (uuid_text n)) = uuid_text n"
    using parse_uuid_text [OF n(2)] by (simp add: resolve_request_id_def)
  then show ?thesis unfolding n(1) using uuid_letters length_uuid_text by blast
qed

lemma request_id_is_canonical_sample:
  "length (resolve_request_id 7 (Some ''x'')) = 36 \<and>
   resolve_request_id 8 (Some (resolve_request_id 7 (Some ''x''))) = resolve_request_id 7 (Some ''x'')"
proof -
  have "(7::nat) < 16 ^ 32" by simp
  from request_id_is_canonical [OF this, of "Some ''x''" 8] show ?thesis by blast
qed

section \<open>Gauges\<close>

definition running :: "(nat \<times> call) list \<Rightarrow> string \<Rightarrow> int" where
  "running calls method = int (length (filter (\<lambda>e. ca_method (snd e) = method) calls))"

definition executing :: "string list list \<Rightarrow> string \<Rightarrow> int" where
  "executing timers op = sum_list (map (\<lambda>t. int (count_list t op)) timers)"

definition consistent :: "monitor \<Rightarrow> bool" where
  "consistent mo \<longleftrightarrow> distinct (map fst (mo_calls mo)) \<and>
     (\<forall>method. hm_in_progress (mo_http mo) method = running (mo_calls mo) method) \<and>
     (\<forall>op. dm_in_progress (mo_db mo) op = executing (mo_timers mo) op)"

lemma running_map_entry:
  "(\<And>c. ca_method (f c) = ca_method c) \<Longrightarrow> running (AList.map_entry i f cs) method = running cs method"
  by (induction cs) (auto simp: running_def)

lemma map_fst_map_entry: "map fst (AList.map_entry i f cs) = map fst cs"
  by (induction cs) auto

lemma sizes_keep_method [simp]:
  "ca_method (receive_with_size msg c) = ca_method c" "ca_method (send_with_size msg c) = ca_method c"
  by (simp_all add: receive_with_size_def send_with_size_def split: message.splits)

lemma running_finish:
  "distinct (map fst cs) \<Longrightarrow> map_of cs i = Some c \<Longrightarrow>
     running (filter (\<lambda>e. fst e \<noteq> i) cs) method = running cs method - (if ca_method c = method then 1 else 0)"
proof (induction cs)
  case (Cons e cs)
  show ?case
  proof (cases "fst e = i")
    case True
    with Cons.prems have "c = snd e" and out: "i \<notin> fst ` set cs" by auto
    have "filter (\<lambda>e. fst e \<noteq> i) cs = cs" using out by (intro filter_True) auto
    with True \<open>c = snd e\<close> show ?thesis by (simp add: running_def)
  next
    case False
    with Cons show ?thesis by (auto simp: running_def)
  qed
qed simp

lemma executing_update:
  "i < length ts \<Longrightarrow> executing (ts[i := t]) op = executing ts op - int (count_list (ts ! i) op) + int (count_list t op)"
  by (induction ts arbitrary: i) (auto simp: executing_def split: nat.splits)

lemma settle_consistent:
  "settle_timer r (t, m) = (t', m') \<Longrightarrow>
     dm_in_progress m' op = dm_in_progress m op - int (count_list t op) + int (count_list t' op)"
  by (cases t) (auto simp: settle_timer_def)

lemma before_consistent:
  "before_cursor_execute st v (t, m) = (t', m') \<Longrightarrow>
     dm_in_progress m' op = dm_in_progress m op - int (count_list t op) + int (count_list t' op)"
  by (auto simp: before_cursor_execute_def Let_def)

lemma on_timers_consistent:
  assumes "consistent mo" "i < length (mo_timers mo)"
    and "\<And>t m t' m' op. f (t, m) = (t', m') \<Longrightarrow>
      dm_in_progress m' op = dm_in_progress m op - int (count_list t op) + int (count_list t' op)"
  shows "consistent (on_timers i f mo)"
proof -
  obtain t' m' where f: "f (mo_timers mo ! i, mo_db mo) = (t', m')" by fastforce
  from assms(1) executing_update [OF assms(2), of t'] assms(3) [OF f] f show ?thesis
    by (simp add: consistent_def on_timers_def)
qed

lemma step_consistent: "monitor_step mo mo' \<Longrightarrow> consistent mo \<Longrightarrow> consistent mo'"
proof (induction rule: monitor_step.induct)
  case (Begin path sc i mo c m)
  then show ?case by (auto simp: consistent_def begin_call_def running_def Let_def)
next
  case (Receive mo i msg)
  then show ?case by (simp add: consistent_def running_map_entry map_fst_map_entry)
next
  case (Send mo i msg)
  then show ?case by (simp add: consistent_def running_map_entry map_fst_map_entry)
next
  case (Finish mo i c sc failure)
  then have d: "distinct (map fst (mo_calls mo))" by (simp add: consistent_def)
  then have "distinct (map fst (filter (\<lambda>e. fst e \<noteq> i) (mo_calls mo)))" by (rule distinct_map_filter)
  with Finish running_finish [OF d Finish.hyps] show ?case
    by (auto simp: consistent_def finish_call_def Let_def split: option.splits)
next
  case (Before i mo st v)
  then show ?case by (intro on_timers_consistent before_consistent)
next
  case (After i mo)
  then show ?case unfolding after_cursor_execute_def by (intro on_timers_consistent settle_consistent)
next
  case (Fail i mo b)
  then show ?case
    by (intro on_timers_consistent)
       (auto simp: handle_statement_error_def split: if_splits dest: settle_consistent)
qed

lemma executing_none: "executing (replicate n []) op = 0"
  by (induction n) (simp_all add: executing_def)

lemma reach_consistent: "monitor_reach n mo \<Longrightarrow> consistent mo"
proof (induction rule: monitor_reach.induct)
  case Start
  then show ?case by (simp add: consistent_def new_monitor_def running_def executing_none)
next
  case (Step mo mo')
  then show ?case by (blast intro: step_consistent)
qed



end
