(* ===== verification/Api.thy ===== *)
theory Api
  imports Routes_Auth Routes_OAuth Routes_User Routes_Todo Maintenance
begin

text \<open>
  The program as a whole: \<^verbatim>\<open>api/v1/router.py\<close> puts the routers together, every request gets a
  session of its own and an answer, and the scheduler and the workers run their jobs between
  requests. A request is given by the route that its method and path select, with the parts
  that the route declares, as FastAPI reads them: an \<open>Inl\<close> lists the fields it refuses.
\<close>

section \<open>Requests\<close>

datatype api_call =
    Register "string list + user_create"
  | ResendVerification "string list + string"
  | ConfirmEmail "string list + string"
  | Login "string list + string \<times> string"
  | BrowserLogin "string list + string \<times> string"
  | Refresh "string list + string"
  | BrowserRefresh "string option"
  | Logout "string list + string"
  | BrowserLogout "string option"
  | AuthorizationPage authorization_params
  | Authorize "string list + string \<times> string" authorization_params
  | ExchangeCode token_params
  | GetMe "string option"
  | UpdateMe "string option" "string list + string option"
  | DeleteMe "string option"
  | GetMeByKey "string option"
  | GetMeByBasic "(string \<times> string) option"
  | GetMeByQueryKey "string option"
  | CreateKey "string option" "string list + string"
  | ListKeys "string option" "string list + bool"
  | DeleteKey "string option" "int option"
  | CheckSmtp "string option"
  | SendTestEmail "string option" "string option" "string list + email_test"
  | CreateTodo "string option" "string option" "string list + todo_create"
  | ListTodos "string option" "string list + dumped_query"
  | GetTodo "string option" "string option" "int option"
  | UpdateTodo "string option" "string option" "int option" "string list + todo_update"
  | RemoveTodo "string option" "string option" "int option"
  | Health

text \<open>The surroundings of the application: the environment of the code, settings, and the services it uses.\<close>

record server =
  sv_env :: env
  sv_settings :: settings
  sv_broker :: broker
  sv_mailer :: mailer
  sv_cache :: cache

definition dispatch :: "server \<Rightarrow> request \<Rightarrow> api_call \<Rightarrow> reply act" where
  "dispatch sv rq c = (let env = sv_env sv; s = sv_settings sv in case c of
      Register payload \<Rightarrow> register (sv_broker sv) env s rq payload
    | ResendVerification payload \<Rightarrow> resend_email_verification (sv_broker sv) s rq payload
    | ConfirmEmail token \<Rightarrow> confirm_email_verification (sv_broker sv) rq token
    | Login form \<Rightarrow> login env s form
    | BrowserLogin form \<Rightarrow> browser_login env s form
    | Refresh payload \<Rightarrow> refresh env s payload
    | BrowserRefresh csrf \<Rightarrow> refresh_browser_session env s rq csrf
    | Logout payload \<Rightarrow> logout env s payload
    | BrowserLogout csrf \<Rightarrow> logout_browser_session env s rq csrf
    | AuthorizationPage p \<Rightarrow> authorization_page s p
    | Authorize credentials p \<Rightarrow> authorize env s credentials p
    | ExchangeCode p \<Rightarrow> exchange_code env s rq p
    | GetMe token \<Rightarrow> me env s rq token
    | UpdateMe token payload \<Rightarrow> update_current_user env s rq token payload
    | DeleteMe token \<Rightarrow> deactivate_current_user env s rq token
    | GetMeByKey key \<Rightarrow> me_by_api_key key
    | GetMeByBasic credentials \<Rightarrow> me_by_basic env credentials
    | GetMeByQueryKey key \<Rightarrow> me_by_query_api_key key
    | CreateKey token payload \<Rightarrow> Routes_User.create_api_key env s rq token payload
    | ListKeys token include_revoked \<Rightarrow> get_api_keys env s rq token include_revoked
    | DeleteKey token i \<Rightarrow> delete_api_key env s rq token i
    | CheckSmtp token \<Rightarrow> check_smtp_connection (sv_mailer sv) env s rq token
    | SendTestEmail token csrf payload \<Rightarrow> send_test_email (sv_mailer sv) env s rq token csrf payload
    | CreateTodo token csrf payload \<Rightarrow> create_todo_route env s rq token csrf payload
    | ListTodos token query \<Rightarrow> list_todos_route (sv_cache sv) env s rq token query
    | GetTodo token csrf i \<Rightarrow> get_todo_route (sv_cache sv) env s rq token csrf i
    | UpdateTodo token csrf i payload \<Rightarrow> update_todo_route env s rq token csrf i payload
    | RemoveTodo token csrf i \<Rightarrow> remove_todo_route env s rq token csrf i
    | Health \<Rightarrow> health_check)"

text \<open>Only the path of the token endpoint matters to the handlers.\<close>

definition call_path :: "api_call \<Rightarrow> string" where
  "call_path c = (case c of ExchangeCode _ \<Rightarrow> ''/api/v1/auth/token'' | _ \<Rightarrow> ''/api/v1'')"

definition serve :: "server \<Rightarrow> request \<Rightarrow> api_call \<Rightarrow> reply act" where
  "serve sv rq c = answer rq (call_path c) (dispatch sv rq c)"

section \<open>Runs\<close>

text \<open>
  Between two steps time passes, the sequences stay, and the database, the operating system
  and the clock get new plans for what they will answer.
\<close>

definition later :: "world \<Rightarrow> world \<Rightarrow> bool" where
  "later w w' \<longleftrightarrow> committed w' = committed w \<and> work w' = committed w \<and> user_seq w' = user_seq w \<and>
     api_key_seq w' = api_key_seq w \<and> todo_seq w' = todo_seq w \<and> clock w \<le> clock w'"

inductive api_step :: "server \<Rightarrow> world \<Rightarrow> world \<Rightarrow> bool" for sv where
  Request: "serve sv rq c w = (r, w') \<Longrightarrow> api_step sv w w'"
| Job: "run_job j w = (x, w') \<Longrightarrow> api_step sv w w'"
| Later: "later w w' \<Longrightarrow> api_step sv w w'"

inductive api_run :: "server \<Rightarrow> world \<Rightarrow> world \<Rightarrow> bool" for sv w where
  Start: "api_run sv w w"
| Step: "api_run sv w w1 \<Longrightarrow> api_step sv w1 w2 \<Longrightarrow> api_run sv w w2"

inductive_cases api_stepE: "api_step sv w w'"

text \<open>
  What the decorator \<^verbatim>\<open>cache\<close> is documented to do: on a hit it serves the stored reply without
  running the endpoint, else it runs the endpoint.
\<close>

definition serves_or_runs :: "cache \<Rightarrow> bool" where
  "serves_or_runs cache \<longleftrightarrow> (\<forall>key m w. cache key m w = m w \<or> (\<exists>r. cache key m w = (Inr r, w)))"

end
