(* ===== verification/User_Policy.thy ===== *)
theory User_Policy
  imports Routes_Auth Routes_OAuth Routes_User Routes_Todo Maintenance
begin

text \<open>
  A contract for everything that touches accounts. A policy says which rows of users may
  exist (\<open>ok\<close>) and which ids the sequence may give out (\<open>fresh\<close>); it is kept by an operation
  when the rows of both the transaction and the committed database stay within it, and what
  is committed stays valid. The locale asks for two things only: a registered account is ok,
  and a row that keeps its id and gains no power stays ok.
\<close>

named_theorems safe \<comment> \<open>operations that keep a policy\<close>

section \<open>Policies and operations that keep them\<close>

definition policy :: "(user \<Rightarrow> bool) \<Rightarrow> (int \<Rightarrow> bool) \<Rightarrow> world \<Rightarrow> bool" where
  "policy ok fresh w \<longleftrightarrow> fresh (user_seq w) \<and> list_all ok (users (work w)) \<and>
     list_all ok (users (committed w)) \<and> valid_db (committed w)"

definition within :: "(world \<Rightarrow> bool) \<Rightarrow> ('a \<Rightarrow> bool) \<Rightarrow> 'a act \<Rightarrow> bool" where
  "within P Q m \<longleftrightarrow> (\<forall>w. P w \<longrightarrow> P (snd (m w)) \<and> (\<forall>x. fst (m w) = Inr x \<longrightarrow> Q x))"

abbreviation keeping :: "(world \<Rightarrow> bool) \<Rightarrow> 'a act \<Rightarrow> bool" where
  "keeping P \<equiv> within P (\<lambda>_. True)"

lemma withinD: "within P Q m \<Longrightarrow> P w \<Longrightarrow> m w = (r, w') \<Longrightarrow> P w' \<and> (\<forall>x. r = Inr x \<longrightarrow> Q x)"
  unfolding within_def by (metis fst_conv snd_conv)

lemma within_weaken: "within P Q m \<Longrightarrow> (\<And>x. Q x \<Longrightarrow> R x) \<Longrightarrow> within P R m"
  by (simp add: within_def)

lemma keeping_weaken: "within P Q m \<Longrightarrow> keeping P m"
  by (simp add: within_def)

lemma within_bnd_by:
  assumes "within P Q m" and "\<And>x. Q x \<Longrightarrow> within P R (f x)"
  shows "within P R (bnd m f)"
  unfolding within_def
proof (intro allI impI)
  fix w assume w: "P w"
  obtain r w1 where m: "m w = (r, w1)" by fastforce
  note m1 = withinD [OF assms(1) w m]
  show "P (snd (bnd m f w)) \<and> (\<forall>x. fst (bnd m f w) = Inr x \<longrightarrow> R x)"
  proof (cases r)
    case (Inl e)
    with m m1 show ?thesis by (simp add: bnd_def)
  next
    case (Inr x)
    with m m1 assms(2) [of x] show ?thesis by (auto simp: bnd_def within_def)
  qed
qed

lemma within_bnd [safe]: "keeping P m \<Longrightarrow> (\<And>x. within P R (f x)) \<Longrightarrow> within P R (bnd m f)"
  by (rule within_bnd_by)

lemma within_catch [safe]:
  assumes "within P Q m" and "\<And>e m'. h e = Some m' \<Longrightarrow> within P Q m'"
  shows "within P Q (catch m h)"
  unfolding within_def
proof (intro allI impI)
  fix w assume w: "P w"
  obtain r w1 where m: "m w = (r, w1)" by fastforce
  note m1 = withinD [OF assms(1) w m]
  show "P (snd (catch m h w)) \<and> (\<forall>x. fst (catch m h w) = Inr x \<longrightarrow> Q x)"
    using m m1 assms(2)
    by (cases r) (auto simp: catch_def within_def split: option.splits)
qed

lemma within_ret [safe]: "Q x \<Longrightarrow> within P Q (ret x)"
  by (simp add: within_def ret_def)

lemma within_raise [safe]: "within P Q (raise e)"
  by (simp add: within_def raise_def)

lemma keeping_pure [safe]: "keeping P (guard b e)" "keeping P (of_option e y)" "keeping P (read f)"
  by (auto simp: within_def guard_def of_option_def read_def ret_def raise_def split: option.splits)

lemma within_of_option: "(\<And>x. y = Some x \<Longrightarrow> Q x) \<Longrightarrow> within P Q (of_option e y)"
  by (auto simp: within_def of_option_def ret_def raise_def split: option.splits)

lemma within_if [safe]: "(b \<Longrightarrow> within P Q m) \<Longrightarrow> (\<not> b \<Longrightarrow> within P Q m') \<Longrightarrow> within P Q (if b then m else m')"
  by simp

lemma within_option [safe]:
  "(x = None \<Longrightarrow> within P Q m) \<Longrightarrow> (\<And>a. x = Some a \<Longrightarrow> within P Q (f a)) \<Longrightarrow>
     within P Q (case x of None \<Rightarrow> m | Some a \<Rightarrow> f a)"
  by (cases x) simp_all

lemma within_sum [safe]:
  "(\<And>a. x = Inl a \<Longrightarrow> within P Q (f a)) \<Longrightarrow> (\<And>b. x = Inr b \<Longrightarrow> within P Q (g b)) \<Longrightarrow>
     within P Q (case x of Inl a \<Rightarrow> f a | Inr b \<Rightarrow> g b)"
  by (cases x) simp_all

lemma within_prod [safe]: "(\<And>a b. within P Q (f a b)) \<Longrightarrow> within P Q (case p of (a, b) \<Rightarrow> f a b)"
  by (cases p) simp

lemma within_except_sql [safe]: "within P Q m \<Longrightarrow> within P Q (except_sql c m)"
  unfolding except_sql_def by (rule within_catch) (auto split: if_splits intro: safe)

text \<open>The primitives: only a commit, an edit of users and the user sequence concern a policy.\<close>

lemma keeping_prim [safe]:
  "keeping (policy ok fresh) statement" "keeping (policy ok fresh) check_rows"
  "keeping (policy ok fresh) now_utc" "keeping (policy ok fresh) draw" "keeping (policy ok fresh) (emit ev)"
  "keeping (policy ok fresh) next_api_key_id" "keeping (policy ok fresh) next_todo_id"
  by (auto simp: within_def policy_def statement_def next_fault_def check_rows_def now_utc_tick draw_eq
      emit_def next_api_key_id_def next_todo_id_def split: list.splits fault.splits option.splits)

lemma keeping_edit:
  "(\<And>d. list_all ok (users d) \<Longrightarrow> list_all ok (users (f d))) \<Longrightarrow> keeping (policy ok fresh) (edit f)"
  by (auto simp: within_def policy_def edit_def)

lemma keeping_edit_others [safe]: "(\<And>d. users (f d) = users d) \<Longrightarrow> keeping (policy ok fresh) (edit f)"
  by (rule keeping_edit) simp

lemma within_select:
  "(\<And>d. list_all ok (users d) \<Longrightarrow> Q (q d)) \<Longrightarrow> within (policy ok fresh) Q (select q)"
  unfolding select_def
  by (rule within_bnd, rule keeping_prim) (auto simp: within_def policy_def read_def)

lemma keeping_select [safe]: "keeping (policy ok fresh) (select q)"
  by (rule within_select) simp

lemma keeping_flush [safe]: "keeping (policy ok fresh) flush"
  unfolding flush_def by (intro safe)

lemma keeping_commit [safe]: "keeping (policy ok fresh) commit"
  unfolding within_def
proof (intro allI impI conjI TrueI)
  fix w assume w: "policy ok fresh w"
  show "policy ok fresh (snd (commit w))"
  proof (cases "commit w")
    case (Pair r w')
    show ?thesis
    proof (cases r)
      case (Inr u)
      with Pair have "commit w = (Inr u, w')" by simp
      from commit_ok [OF this] w Pair show ?thesis by (simp add: policy_def)
    next
      case (Inl e)
      obtain x w1 where f: "flush w = (x, w1)" by fastforce
      with keeping_flush w have w1: "policy ok fresh w1" by (blast dest: withinD)
      show ?thesis
      proof (cases x)
        case (Inl e')
        with f w1 show ?thesis by (simp add: commit_def bnd_def)
      next
        case (Inr v)
        obtain y w2 where st: "statement w1 = (y, w2)" by fastforce
        with keeping_prim(1) w1 have "policy ok fresh w2" by (blast dest: withinD)
        moreover have "y = Inl e" using f Inr st Pair \<open>r = Inl e\<close>
          by (cases y) (simp_all add: commit_def bnd_def)
        ultimately show ?thesis using f Inr st by (simp add: commit_def bnd_def)
      qed
    qed
  qed
qed

lemma within_get_session [safe]:
  assumes "within (policy ok fresh) Q m"
  shows "within (policy ok fresh) Q (get_session m)"
  unfolding within_def
proof (intro allI impI)
  fix w assume w: "policy ok fresh w"
  obtain r w1 where m: "m (w\<lparr>work := committed w\<rparr>) = (r, w1)" by fastforce
  have "policy ok fresh (w\<lparr>work := committed w\<rparr>)" using w by (simp add: policy_def)
  from withinD [OF assms this m] m show
    "policy ok fresh (snd (get_session m w)) \<and> (\<forall>x. fst (get_session m w) = Inr x \<longrightarrow> Q x)"
    by (simp add: get_session_def policy_def)
qed

section \<open>Operations away from the users\<close>

lemma keeping_texts [safe]:
  "keeping (policy ok fresh) generate_api_key" "keeping (policy ok fresh) generate_token_id"
  "keeping (policy ok fresh) generate_email_verification_token"
  "keeping (policy ok fresh) (hash_password env p)" "keeping (policy ok fresh) (verify_password env p h)"
  "keeping (policy ok fresh) (verify_and_update_password env p h)"
  unfolding generate_api_key_def generate_token_id_def generate_email_verification_token_def
    hash_password_def verify_password_def verify_and_update_password_def
  by (intro safe TrueI; auto split: password_verdict.splits intro!: safe)+

lemma keeping_tokens [safe]:
  "keeping (policy ok fresh) (of_valid r)" "keeping (policy ok fresh) (create_token_pair env s sub sid t a)"
  "keeping (policy ok fresh) (decode_access_token env s token)"
  "keeping (policy ok fresh) (decode_refresh_token env s token)"
proof -
  show valid: "keeping (policy ok fresh) (of_valid r)" for r :: "string list + 'b"
    unfolding of_valid_def by (intro safe TrueI)
  show "keeping (policy ok fresh) (create_token_pair env s sub sid t a)"
    unfolding create_token_pair_def access_token_lifetime_def refresh_token_lifetime_def lifetime_of_def
      bounded_lifetime_def create_access_token_def create_refresh_token_def required_def Let_def
    by (intro safe TrueI valid)
  have "keeping (policy ok fresh) (decode_token env s aud cs model sid err token)" for aud cs model sid err
    unfolding decode_token_def by (intro safe TrueI)
  then show "keeping (policy ok fresh) (decode_access_token env s token)"
    "keeping (policy ok fresh) (decode_refresh_token env s token)"
    unfolding decode_access_token_def decode_refresh_token_def by simp_all
qed

lemma keeping_todos [safe]:
  "keeping (policy ok fresh) (todo_create_op u p)" "keeping (policy ok fresh) (todo_get u i)"
  "keeping (policy ok fresh) (todo_list env u q)" "keeping (policy ok fresh) (todo_update_op u i c)"
  "keeping (policy ok fresh) (todo_delete u i)" "keeping (policy ok fresh) (archive_completed_todos t)"
proof -
  have own: "keeping (policy ok fresh) (get_owned_todo u i)" unfolding get_owned_todo_def by (intro safe)
  have step: "keeping (policy ok fresh) (transition t x)" for t x
    unfolding transition_def by (cases x) (simp_all, (intro safe TrueI impI conjI)+)
  have save: "keeping (policy ok fresh) (save_todo t)" for t
    unfolding save_todo_def by (intro safe) simp
  show "keeping (policy ok fresh) (todo_create_op u p)"
    unfolding todo_create_op_def create_todo_def Let_def by (intro safe TrueI) simp
  show "keeping (policy ok fresh) (todo_get u i)" unfolding todo_get_def by (intro safe own)
  show "keeping (policy ok fresh) (todo_list env u q)"
    unfolding todo_list_def list_owned_todos_def by (intro safe TrueI)
  show "keeping (policy ok fresh) (todo_update_op u i c)"
    unfolding todo_update_op_def by (intro safe TrueI own step save)
  show "keeping (policy ok fresh) (todo_delete u i)"
    unfolding todo_delete_def delete_todo_def by (intro safe own) simp
  show "keeping (policy ok fresh) (archive_completed_todos t)"
    unfolding archive_completed_todos_def Let_def by (intro safe TrueI) simp
qed

lemma keeping_keys [safe]:
  "keeping (policy ok fresh) (api_key_issue u n)" "keeping (policy ok fresh) (api_key_list u b)"
  "keeping (policy ok fresh) (api_key_revoke u i)"
  unfolding api_key_issue_def create_api_key_record_def api_key_list_def list_user_api_keys_def
    api_key_revoke_def get_user_api_key_by_id_def save_api_key_def Let_def
  by (intro safe TrueI; simp)+

lemma keeping_sessions [safe]:
  "keeping (policy ok fresh) (save_session r)" "keeping (policy ok fresh) (stage_login_session env s u t)"
  "keeping (policy ok fresh) (prune_expired_refresh_sessions x)"
  "keeping (policy ok fresh) (prune_expired_authorization_codes x)"
  "keeping (policy ok fresh) (consume_authorization_code h c uri ch x)"
  "keeping (policy ok fresh) (create_authorization_code h i c uri ch x)"
  unfolding save_session_def stage_login_session_def prune_expired_refresh_sessions_def
    prune_expired_authorization_codes_def consume_authorization_code_def create_authorization_code_def Let_def
  by (intro safe TrueI; simp)+

lemma keeping_small [safe]:
  "keeping (policy ok fresh) (of_result r)" "keeping (policy ok fresh) (matches_token a b)"
  "keeping (policy ok fresh) (is_recoverable_previous_token s rec h t)"
  "keeping (policy ok fresh) (create_login_session env s u)"
  unfolding of_result_def matches_token_def is_recoverable_previous_token_def create_login_session_def Let_def
  by (intro safe TrueI)+

text \<open>Loading a user gives a row within the policy.\<close>

definition ok_option :: "(user \<Rightarrow> bool) \<Rightarrow> user option \<Rightarrow> bool" where
  "ok_option ok x \<longleftrightarrow> (\<forall>u. x = Some u \<longrightarrow> ok u)"

lemma ok_found: "list_all ok us \<Longrightarrow> ok_option ok (find P us)"
  by (auto simp: ok_option_def list_all_iff dest: find_SomeD)

lemma within_find: "within (policy ok fresh) (ok_option ok) (select (\<lambda>d. find P (users d)))"
  by (rule within_select) (rule ok_found)

lemma within_lookups:
  "within (policy ok fresh) (ok_option ok) (get_user_by_id i)"
  "within (policy ok fresh) (ok_option ok) (get_user_by_email e)"
  unfolding get_user_by_id_def get_user_by_email_def
  by (intro safe within_select ok_found; assumption)+

lemma within_emit: "within (policy ok fresh) Q m \<Longrightarrow> within (policy ok fresh) Q (bnd (emit e) (\<lambda>_. m))"
  by (intro safe)

lemma within_refuse [safe]: "within (policy ok fresh) Q (refuse mechanism outcome e)"
  unfolding refuse_def by (intro safe)

lemma within_except_sql_refuse [safe]:
  "within (policy ok fresh) Q m \<Longrightarrow> within (policy ok fresh) Q (except_sql_refuse mechanism err m)"
  unfolding except_sql_refuse_def by (rule within_catch) (auto split: if_splits intro: safe)

lemma within_require_active: "ok u \<Longrightarrow> within (policy ok fresh) ok (require_active_user u mechanism)"
  unfolding require_active_user_def by (intro safe)

lemma within_current_user: "within (policy ok fresh) ok (get_current_user env s token c)"
proof -
  have "keeping (policy ok fresh) (select_access_token token c)"
    unfolding select_access_token_def by (intro safe TrueI)
  moreover have "keeping (policy ok fresh) (access_token_user_id env s t)" for t
    unfolding access_token_user_id_def by (intro safe TrueI) (auto split: if_splits intro: safe)
  moreover have "within (policy ok fresh) ok (case found of
      None \<Rightarrow> refuse ACCESS_TOKEN_AUTH ''invalid'' (auth_error InvalidAccessTokenError)
    | Some user \<Rightarrow> require_active_user user ACCESS_TOKEN_AUTH)" if "ok_option ok found" for found
    using that by (intro safe within_require_active) (simp add: ok_option_def)
  ultimately show ?thesis
    unfolding get_current_user_def authenticate_access_token_def
    by (blast intro: within_bnd within_bnd_by [OF within_except_sql_refuse [OF within_lookups(1)]])
qed

lemmas keeping_current_user [safe] = within_current_user [THEN keeping_weaken]

lemma keeping_other_users [safe]:
  "keeping (policy ok fresh) (get_current_basic_user env c)"
  "keeping (policy ok fresh) (authenticate_api_key k m)"
proof -
  have need: "keeping (policy ok fresh) (require_active_user u m)" for u m
    unfolding require_active_user_def by (intro safe TrueI)
  show "keeping (policy ok fresh) (get_current_basic_user env c)"
    unfolding get_current_basic_user_def
    by (intro safe need within_lookups [THEN keeping_weaken]) (auto split: if_splits intro: safe)
  show "keeping (policy ok fresh) (authenticate_api_key k m)"
    unfolding authenticate_api_key_def get_active_api_key_by_hash_def Let_def
    by (intro safe need)
qed

lemma keeping_guards [safe]:
  "keeping (policy ok fresh) (validate_request_origin s rq)" "keeping (policy ok fresh) (require_csrf_token rq t)"
  "keeping (policy ok fresh) (require_browser_csrf_token rq t)"
  unfolding validate_request_origin_def extract_origin_def check_origin_def require_csrf_token_def
    require_browser_csrf_token_def check_csrf_def
  by (intro safe TrueI)+

lemma keeping_replies [safe]:
  "keeping (policy ok fresh) (publish b t k i x)" "keeping (policy ok fresh) (record_activity e u)"
  "keeping (policy ok fresh) (invalidate_todo_cache u)"
  "keeping (policy ok fresh) (set_browser_session_cookies env s tokens)"
  unfolding publish_def record_activity_def invalidate_todo_cache_def set_browser_session_cookies_def
    remaining_seconds_def Let_def
  by (intro safe TrueI)+

lemma keeping_smtp [safe]: "keeping (policy ok fresh) (smtp o')"
  unfolding smtp_def by (cases o') (simp_all add: within_ret within_raise)

lemma keeping_validated [safe]: "(\<And>x. keeping P (f x)) \<Longrightarrow> keeping P (validated v f)"
  unfolding validated_def by (intro safe TrueI)

section \<open>The contract\<close>

text \<open>No more power: the same id, no new privilege, no reactivation.\<close>

definition no_gain :: "user \<Rightarrow> user \<Rightarrow> bool" where
  "no_gain u u' \<longleftrightarrow> u_id u' = u_id u \<and> (u_is_superuser u' \<longrightarrow> u_is_superuser u) \<and>
     (u_is_active u' \<longrightarrow> u_is_active u)"

lemma no_gain_updates [simp]:
  "no_gain u (u\<lparr>u_full_name := a\<rparr>)" "no_gain u (u\<lparr>u_hashed_password := h\<rparr>)" "no_gain u (u\<lparr>u_is_active := False\<rparr>)"
  "no_gain u (u\<lparr>u_email_verification_token_hash := b, u_email_verification_expires_at := c\<rparr>)"
  "no_gain u (u\<lparr>u_email_verification_token_hash := b, u_email_verification_expires_at := c,
     u_email_verification_requested_at := d\<rparr>)"
  "no_gain u (u\<lparr>u_email_verified_at := e, u_email_verification_token_hash := b,
     u_email_verification_expires_at := c, u_email_verification_requested_at := d\<rparr>)"
  "no_gain u (cleared_user t u)" "no_gain u (touch_user t u u)" "no_gain u (u\<lparr>u_updated_at := t\<rparr>)"
  by (simp_all add: no_gain_def cleared_user_def touch_user_def)

locale user_policy =
  fixes ok :: "user \<Rightarrow> bool" and fresh :: "int \<Rightarrow> bool"
  assumes fresh_next: "fresh i \<Longrightarrow> fresh (i + 1)"
    and registered: "fresh i \<Longrightarrow> \<not> nu_is_superuser n \<Longrightarrow> ok (user_row i t n)"
    and no_gain_ok: "ok u \<Longrightarrow> no_gain u u' \<Longrightarrow> ok u'"
begin

lemma within_next_user_id: "within (policy ok fresh) fresh next_user_id"
  by (simp add: within_def policy_def next_user_id_def fresh_next)

lemma keeping_save_user: "ok u \<Longrightarrow> keeping (policy ok fresh) (save_user u)"
proof -
  assume u: "ok u"
  have "ok (touch_user t r u)" if "ok r" for t r
  proof (cases "u = r")
    case True
    with that show ?thesis by (simp add: touch_user_def)
  next
    case False
    have "no_gain u (u\<lparr>u_updated_at := t\<rparr>)" by simp
    with u no_gain_ok have "ok (u\<lparr>u_updated_at := t\<rparr>)" by blast
    with False show ?thesis by (simp add: touch_user_def)
  qed
  then show ?thesis unfolding save_user_def
    by (intro safe keeping_edit) (auto simp: list_all_iff set_update_where)
qed

lemma keeping_create_user: "\<not> nu_is_superuser n \<Longrightarrow> within (policy ok fresh) ok (create_user n)"
  unfolding create_user_def Let_def
  by (rule within_bnd_by [OF within_next_user_id])
    (intro safe keeping_edit; simp add: registered)

lemma keeping_clear_tokens: "keeping (policy ok fresh) (clear_expired_email_verification_tokens t)"
proof -
  have "ok (u\<lparr>u_email_verification_token_hash := None, u_email_verification_expires_at := None,
      u_email_verification_requested_at := None, u_updated_at := now\<rparr>)" if "ok u" for u now
    using no_gain_ok [OF that no_gain_updates(7), of now] by (simp add: cleared_user_def)
  then show ?thesis unfolding clear_expired_email_verification_tokens_def
    by (intro safe TrueI keeping_edit) (auto simp: list_all_iff set_update_where)
qed

lemma keeping_register:
  "\<not> rg_is_superuser r \<Longrightarrow> keeping (policy ok fresh) (register_user env p r)"
  unfolding register_user_def
  by (intro safe TrueI within_lookups [THEN keeping_weaken] keeping_create_user [THEN keeping_weaken])
    (auto split: if_splits intro: safe)

lemma keeping_verification:
  "keeping (policy ok fresh) (request_email_verification s e)" "keeping (policy ok fresh) (verify_email token)"
proof -
  show "keeping (policy ok fresh) (request_email_verification s e)"
    unfolding request_email_verification_def Let_def
    by (intro safe TrueI within_bnd_by [OF within_lookups(2)] keeping_save_user)
      (auto simp: ok_option_def intro: no_gain_ok)
  show "keeping (policy ok fresh) (verify_email token)"
    unfolding verify_email_def Let_def
    by (intro safe TrueI within_bnd_by [OF within_find] keeping_save_user)
      (auto simp: ok_option_def intro: no_gain_ok)
qed

lemma within_authenticate: "within (policy ok fresh) ok (authenticate env e p)"
  unfolding authenticate_def Let_def
  by (rule within_bnd_by [OF within_except_sql [OF within_lookups(2)]], intro safe keeping_save_user)
    (auto simp: ok_option_def split: if_splits intro: safe no_gain_ok)

lemma keeping_profile:
  "ok u \<Longrightarrow> keeping (policy ok fresh) (update_profile u n)"
  "ok u \<Longrightarrow> keeping (policy ok fresh) (deactivate_account u)"
  unfolding update_profile_def deactivate_account_def Let_def
  by (intro safe TrueI keeping_save_user; auto intro: no_gain_ok)+

lemma keeping_refresh:
  "keeping (policy ok fresh) (refresh_login_session env s t)"
  "keeping (policy ok fresh) (revoke_refresh_session env s t)"
proof -
  have "keeping (policy ok fresh) (rotate_session env s u r now)" for u r now
    unfolding rotate_session_def by (intro safe TrueI)
  moreover from this have "keeping (policy ok fresh) (refresh_with_record env s i h now r)" for i h now r
    unfolding refresh_with_record_def
    by (intro safe TrueI within_lookups [THEN keeping_weaken])
  ultimately show "keeping (policy ok fresh) (refresh_login_session env s t)"
    unfolding refresh_login_session_def by (intro safe TrueI)
  show "keeping (policy ok fresh) (revoke_refresh_session env s t)"
    unfolding revoke_refresh_session_def
    by (intro safe TrueI) (auto split: if_splits intro: safe)
qed

lemma keeping_codes:
  "keeping (policy ok fresh) (issue_authorization_code env s e p req)"
  "keeping (policy ok fresh) (exchange_authorization_code env s treq)"
proof -
  have "keeping (policy ok fresh) (validate_authorization_request s req)"
    unfolding validate_authorization_request_def by (intro safe TrueI)
  then show "keeping (policy ok fresh) (issue_authorization_code env s e p req)"
    unfolding issue_authorization_code_def Let_def
    by (intro safe TrueI within_authenticate [THEN keeping_weaken]) (auto split: if_splits intro: safe)
  have "keeping (policy ok fresh) (create_s256_code_challenge v)" for v
    unfolding create_s256_code_challenge_def by (intro safe TrueI)
  then show "keeping (policy ok fresh) (exchange_authorization_code env s treq)"
    unfolding exchange_authorization_code_def
    by (intro safe TrueI within_lookups [THEN keeping_weaken])
qed

end

end
