(* ===== verification/Api_Facts.thy ===== *)
theory Api_Facts
  imports Api User_Policy
begin

text \<open>Every route and every job keeps a policy on users; so does every run of the program.\<close>

section \<open>Routes\<close>

lemma within_of_oauth [safe]: "keeping (policy ok fresh) (of_oauth x)"
  unfolding of_oauth_def by (intro safe TrueI)

lemma keeping_on_oauth_error [safe]:
  assumes "keeping P m" and "\<And>e. keeping P (h e)"
  shows "keeping P (on_oauth_error caught m h)"
  unfolding on_oauth_error_def
  by (rule within_catch [OF assms(1)]) (auto split: exn.splits error_class.splits if_splits intro: assms(2))

lemma keeping_redirect_error [safe]: "keeping (policy ok fresh) (redirect_authorization_error s e p)"
  unfolding redirect_authorization_error_def by (intro safe TrueI)

lemma keeping_counting [safe]:
  "within (policy ok fresh) Q m \<Longrightarrow> within (policy ok fresh) Q (counting_failures mechanism m)"
  unfolding counting_failures_def
  by (rule within_catch, assumption) (auto split: exn.splits if_splits intro: safe)

lemma keeping_session_reply [safe]: "keeping (policy ok fresh) (session_reply env s m t)"
  unfolding session_reply_def by (intro safe TrueI)

lemma keeping_mail [safe]:
  "keeping (policy ok fresh) (send_mail m s a b c d e')" "keeping (policy ok fresh) (check_connection m s)"
  "keeping (policy ok fresh) (enqueue_registration_verification_email br a b n i x)"
  "keeping (policy ok fresh) (enqueue_registration_welcome_email br a n i)"
  unfolding send_mail_def check_connection_def enqueue_registration_verification_email_def
    enqueue_registration_welcome_email_def
  by (intro safe TrueI)+

lemma keeping_write_guard [safe]: "keeping (policy ok fresh) (browser_write env s rq b c)"
  unfolding browser_write_def by (intro safe)

lemma keeping_cache:
  assumes "serves_or_runs cache" and "keeping P m"
  shows "keeping P (cache key m)"
  unfolding within_def
proof (intro allI impI conjI TrueI)
  fix w assume w: "P w"
  from assms(1) have "cache key m w = m w \<or> (\<exists>r. cache key m w = (Inr r, w))"
    unfolding serves_or_runs_def by (elim allE)
  then show "P (snd (cache key m w))"
  proof (elim disjE exE)
    assume "cache key m w = m w"
    with assms(2) w show ?thesis by (simp add: within_def)
  next
    fix r assume "cache key m w = (Inr r, w)"
    with w show ?thesis by simp
  qed
qed

lemma keeping_cached_read:
  "serves_or_runs cache \<Longrightarrow> keeping (policy ok fresh) m \<Longrightarrow>
     keeping (policy ok fresh) (cached_read cache s e u q i m)"
  unfolding cached_read_def by (rule within_bnd [OF keeping_pure(2)]) (rule keeping_cache)

context user_policy
begin

lemma keeping_password_login: "keeping (policy ok fresh) (password_login env s m form)"
  unfolding password_login_def
  by (intro safe within_authenticate [THEN keeping_weaken])

lemmas keeping_users =
  keeping_register keeping_verification within_authenticate [THEN keeping_weaken] keeping_password_login
  keeping_refresh keeping_codes

lemma keeping_auth_routes:
  "keeping (policy ok fresh) (register br env s rq p)"
  "keeping (policy ok fresh) (resend_email_verification br s rq q)"
  "keeping (policy ok fresh) (confirm_email_verification br rq q)"
  "keeping (policy ok fresh) (login env s form)" "keeping (policy ok fresh) (browser_login env s form)"
  "keeping (policy ok fresh) (refresh env s q)" "keeping (policy ok fresh) (refresh_browser_session env s rq c)"
  "keeping (policy ok fresh) (logout env s q)" "keeping (policy ok fresh) (logout_browser_session env s rq c)"
  unfolding register_def register_pending_verification_def resend_email_verification_def
    confirm_email_verification_def login_def browser_login_def refresh_def refresh_browser_session_def
    logout_def logout_browser_session_def Let_def
  by (intro safe TrueI keeping_users; simp)+

lemma keeping_oauth_routes:
  "keeping (policy ok fresh) (authorization_page s p)" "keeping (policy ok fresh) (authorize env s cred p)"
  "keeping (policy ok fresh) (exchange_code env s rq tp)"
  unfolding authorization_page_def validate_authorization_request_def authorize_def exchange_code_def
  by (intro safe TrueI keeping_users; (auto split: if_splits intro: safe)?)+

lemma keeping_user_routes:
  "keeping (policy ok fresh) (me env s rq t)" "keeping (policy ok fresh) (update_current_user env s rq t q)"
  "keeping (policy ok fresh) (deactivate_current_user env s rq t)"
  "keeping (policy ok fresh) (me_by_api_key k)" "keeping (policy ok fresh) (me_by_basic env c)"
  "keeping (policy ok fresh) (me_by_query_api_key k)"
  "keeping (policy ok fresh) (Routes_User.create_api_key env s rq t n)"
  "keeping (policy ok fresh) (get_api_keys env s rq t b)" "keeping (policy ok fresh) (delete_api_key env s rq t i)"
  "keeping (policy ok fresh) health_check"
  unfolding me_def update_current_user_def deactivate_current_user_def me_by_api_key_def me_by_basic_def
    me_by_query_api_key_def get_current_header_api_key_user_def get_current_query_api_key_user_def
    Routes_User.create_api_key_def get_api_keys_def delete_api_key_def health_check_def
  by (intro within_bnd_by [OF within_current_user] keeping_profile safe TrueI; assumption?)+

lemma keeping_mail_routes:
  "keeping (policy ok fresh) (check_smtp_connection m env s rq t)"
  "keeping (policy ok fresh) (send_test_email m env s rq t c p)"
  unfolding check_smtp_connection_def send_test_email_def by (intro safe TrueI)+

lemma keeping_todo_routes:
  "keeping (policy ok fresh) (create_todo_route env s rq b c p)"
  "keeping (policy ok fresh) (update_todo_route env s rq b c i u)"
  "keeping (policy ok fresh) (remove_todo_route env s rq b c i)"
  "serves_or_runs cache \<Longrightarrow> keeping (policy ok fresh) (list_todos_route cache env s rq b q)"
  "serves_or_runs cache \<Longrightarrow> keeping (policy ok fresh) (get_todo_route cache env s rq b c i)"
  unfolding create_todo_route_def update_todo_route_def remove_todo_route_def list_todos_route_def
    get_todo_route_def
  by (intro safe TrueI keeping_cached_read; assumption)+

text \<open>The whole program.\<close>

lemma keeping_dispatch:
  "serves_or_runs (sv_cache sv) \<Longrightarrow> keeping (policy ok fresh) (dispatch sv rq c)"
  unfolding dispatch_def Let_def
  by (cases c)
    (simp_all add: keeping_auth_routes keeping_oauth_routes keeping_user_routes keeping_mail_routes keeping_todo_routes)

lemma keeping_serve:
  assumes "serves_or_runs (sv_cache sv)"
  shows "keeping (policy ok fresh) (serve sv rq c)"
  unfolding serve_def answer_def
proof (rule within_catch)
  show "keeping (policy ok fresh) (get_session (dispatch sv rq c))"
    by (rule within_get_session [OF keeping_dispatch [OF assms]])
  fix e m'
  assume "Some (case e of
      AppErr c' \<Rightarrow> (let r = handle_error (call_path c) (has_authorization rq) c' in
         bnd (case er_registration r of None \<Rightarrow> ret () | Some o' \<Rightarrow> emit (Registration o')) (\<lambda>_. ret (error_reply r)))
    | _ \<Rightarrow> ret (respond 500 ServerFailure)) = Some m'"
  then show "keeping (policy ok fresh) m'"
    by (cases e) (auto simp: Let_def intro!: safe)
qed

lemma keeping_job: "keeping (policy ok fresh) (run_job j)"
proof -
  have transaction: "keeping (policy ok fresh) m \<Longrightarrow> keeping (policy ok fresh) (in_transaction m)" for m :: "int act"
    unfolding in_transaction_def by (intro safe TrueI)
  show ?thesis
    unfolding run_job_def prune_oauth_authorization_codes_def prune_refresh_sessions_def
      clear_expired_verification_tokens_def auto_archive_completed_todos_def
    by (cases j) (simp_all, (intro impI conjI safe TrueI transaction keeping_clear_tokens)+)
qed

lemma step_keeps:
  assumes "api_step sv w w'" and "serves_or_runs (sv_cache sv)" and w: "policy ok fresh w"
  shows "policy ok fresh w'"
  using assms(1)
proof (rule api_stepE)
  fix rq c r assume "serve sv rq c w = (r, w')"
  with keeping_serve [OF assms(2)] w show ?thesis by (blast dest: withinD)
next
  fix j x assume "run_job j w = (x, w')"
  with keeping_job w show ?thesis by (blast dest: withinD)
next
  assume "later w w'"
  with w show ?thesis by (simp add: later_def policy_def)
qed

lemma run_keeps:
  "api_run sv w w' \<Longrightarrow> serves_or_runs (sv_cache sv) \<Longrightarrow> policy ok fresh w \<Longrightarrow> policy ok fresh w'"
  by (induction rule: api_run.induct) (blast intro: step_keeps)+

end

end
