(* ===== verification/Api_Props.thy ===== *)
theory Api_Props
  imports Api_Facts Sample
begin

text \<open>What holds of every run of the program: no request ever gives an account more power.\<close>

section \<open>The policy of a starting point\<close>

definition no_more_power :: "db \<Rightarrow> user \<Rightarrow> bool" where
  "no_more_power d u \<longleftrightarrow>
     (u_is_superuser u \<longrightarrow> (\<exists>v \<in> set (users d). u_id v = u_id u \<and> u_is_superuser v)) \<and>
     (\<forall>v \<in> set (users d). u_id v = u_id u \<longrightarrow> \<not> u_is_active v \<longrightarrow> \<not> u_is_active u)"

definition beyond :: "db \<Rightarrow> int \<Rightarrow> bool" where
  "beyond d i \<longleftrightarrow> (\<forall>v \<in> set (users d). u_id v < i)"

interpretation accounts: user_policy "no_more_power d" "beyond d" for d
proof
  show "beyond d i \<Longrightarrow> beyond d (i + 1)" for i by (force simp: beyond_def)
  show "beyond d i \<Longrightarrow> \<not> nu_is_superuser n \<Longrightarrow> no_more_power d (user_row i t n)" for i n t
    by (force simp: beyond_def no_more_power_def user_row_def)
  show "no_more_power d u \<Longrightarrow> no_gain u u' \<Longrightarrow> no_more_power d u'" for u u'
    by (auto simp: no_more_power_def no_gain_def)
qed

lemma start_policy:
  assumes "valid_db (committed w)" "work w = committed w" "beyond (committed w) (user_seq w)"
  shows "policy (no_more_power (committed w)) (beyond (committed w)) w"
proof -
  have "distinct (map u_id (users (committed w)))"
    using assms(1) by (simp add: valid_db_def violation_iffs)
  then have "v = u" if "v \<in> set (users (committed w))" "u \<in> set (users (committed w))" "u_id v = u_id u" for u v
    using that by (auto simp: distinct_map dest: inj_onD)
  then have "no_more_power (committed w) u" if "u \<in> set (users (committed w))" for u
    using that unfolding no_more_power_def by blast
  with assms show ?thesis by (simp add: policy_def list_all_iff)
qed

text \<open>
  C3. No account ever gains power through the API: in every run of the program, any requests
  on any routes and any maintenance jobs in any order, with any faults of the database and any
  passing of time between them, the committed database stays valid, whoever is a superuser was
  one at the start, whoever was deactivated at the start is never active again, and every
  request is answered.
\<close>

theorem requests_never_escalate:
  assumes "api_run sv w0 w" and "serves_or_runs (sv_cache sv)" and "valid_db (committed w0)"
    and "work w0 = committed w0" and "\<forall>u \<in> set (users (committed w0)). u_id u < user_seq w0"
  shows "valid_db (committed w) \<and>
     (\<forall>u \<in> set (users (committed w)). u_is_superuser u \<longrightarrow>
        (\<exists>v \<in> set (users (committed w0)). u_id v = u_id u \<and> u_is_superuser v)) \<and>
     (\<forall>v \<in> set (users (committed w0)). \<not> u_is_active v \<longrightarrow>
        (\<forall>u \<in> set (users (committed w)). u_id u = u_id v \<longrightarrow> \<not> u_is_active u)) \<and>
     (\<forall>rq c. \<exists>r w'. serve sv rq c w = (Inr r, w'))"
proof -
  have "policy (no_more_power (committed w0)) (beyond (committed w0)) w0"
    using assms(3-5) by (intro start_policy) (simp_all add: beyond_def)
  with assms(1,2) have "policy (no_more_power (committed w0)) (beyond (committed w0)) w"
    by (rule accounts.run_keeps)
  then have "valid_db (committed w)" "\<forall>u \<in> set (users (committed w)). no_more_power (committed w0) u"
    by (simp_all add: policy_def list_all_iff)
  moreover have "\<exists>r w'. serve sv rq c w = (Inr r, w')" for rq c
    unfolding serve_def by (rule answer_total)
  ultimately show ?thesis unfolding no_more_power_def by metis
qed

definition sample_server :: server where
  "sample_server = \<lparr>sv_env = sample_env, sv_settings = default_settings, sv_broker = (\<lambda>_ _. True),
     sv_mailer = \<lparr>deliver = (\<lambda>_. SmtpFine), connection = SmtpFine\<rparr>, sv_cache = (\<lambda>_ m. m)\<rparr>"

definition plain_request :: request where
  "plain_request = \<lparr>rq_method = ''POST'', rq_scheme = ''https'', rq_netloc = ''app'', rq_headers = [],
     rq_cookies = [], rq_id = ''1''\<rparr>"

theorem requests_never_escalate_witness:
  "\<exists>w. api_run sample_server (sample_world sample_users_db) w \<and>
     (\<forall>u \<in> set (users (committed w)). \<not> u_is_superuser u) \<and>
     (\<exists>r w'. serve sample_server plain_request Health w = (Inr r, w') \<and> rp_status r = 200)"
proof -
  let ?w0 = "sample_world sample_users_db"
  obtain r w where step: "serve sample_server plain_request (Logout (Inr ''x'')) ?w0 = (r, w)" by fastforce
  then have run: "api_run sample_server ?w0 w"
    by (intro api_run.Step [OF api_run.Start] api_step.Request)
  have "serves_or_runs (sv_cache sample_server)" by (simp add: sample_server_def serves_or_runs_def)
  moreover have "valid_db (committed ?w0)" by (simp add: valid_sample_users_db)
  moreover have "work ?w0 = committed ?w0" by simp
  moreover have "\<forall>u \<in> set (users (committed ?w0)). u_id u < user_seq ?w0 \<and> \<not> u_is_superuser u"
    by (simp add: sample_users_db_def sample_user_def)
  ultimately have "\<forall>u \<in> set (users (committed w)). \<not> u_is_superuser u"
    using requests_never_escalate [OF run] by blast
  moreover have "serve sample_server plain_request Health w = (Inr (respond 200 (HealthJson ''ok'')), w\<lparr>work := committed w\<rparr>)"
    by (simp add: serve_def answer_def dispatch_def health_check_def get_session_def catch_def ret_def Let_def)
  ultimately show ?thesis using run by (intro exI [of _ w]) (simp add: respond_def)
qed

end
