(* ===== verification/Route_Table.thy ===== *)
theory Route_Table
  imports Api
begin

text \<open>
  The decorators of \<^verbatim>\<open>api/v1/routes\<close> as data: the method, the path, the status of a success, the
  dependencies that guard a route and the credential that identifies its caller; and the
  selection of a route, as Starlette documents it.
\<close>

section \<open>Routes\<close>

datatype segment = Lit string | Param

record route =
  ro_method :: string
  ro_path :: "segment list"
  ro_status :: int

definition at :: "string \<Rightarrow> segment list \<Rightarrow> int \<Rightarrow> route" where
  "at m p st = \<lparr>ro_method = m, ro_path = [Lit ''api'', Lit ''v1''] @ p, ro_status = st\<rparr>"

definition route_of :: "api_call \<Rightarrow> route" where
  "route_of c = (case c of
      Health \<Rightarrow> at ''GET'' [Lit ''health''] 200
    | Register _ \<Rightarrow> at ''POST'' [Lit ''auth'', Lit ''register''] 201
    | ResendVerification _ \<Rightarrow> at ''POST'' [Lit ''auth'', Lit ''email-verification'', Lit ''resend''] 202
    | ConfirmEmail _ \<Rightarrow> at ''GET'' [Lit ''auth'', Lit ''email-verification'', Lit ''confirm''] 200
    | Login _ \<Rightarrow> at ''POST'' [Lit ''auth'', Lit ''login''] 200
    | BrowserLogin _ \<Rightarrow> at ''POST'' [Lit ''auth'', Lit ''browser'', Lit ''login''] 200
    | Refresh _ \<Rightarrow> at ''POST'' [Lit ''auth'', Lit ''refresh''] 200
    | BrowserRefresh _ \<Rightarrow> at ''POST'' [Lit ''auth'', Lit ''browser'', Lit ''refresh''] 200
    | Logout _ \<Rightarrow> at ''POST'' [Lit ''auth'', Lit ''logout''] 204
    | BrowserLogout _ \<Rightarrow> at ''POST'' [Lit ''auth'', Lit ''browser'', Lit ''logout''] 204
    | AuthorizationPage _ \<Rightarrow> at ''GET'' [Lit ''auth'', Lit ''authorize''] 200
    | Authorize _ _ \<Rightarrow> at ''POST'' [Lit ''auth'', Lit ''authorize''] 200
    | ExchangeCode _ \<Rightarrow> at ''POST'' [Lit ''auth'', Lit ''token''] 200
    | GetMe _ \<Rightarrow> at ''GET'' [Lit ''users'', Lit ''me''] 200
    | UpdateMe _ _ \<Rightarrow> at ''PATCH'' [Lit ''users'', Lit ''me''] 200
    | DeleteMe _ \<Rightarrow> at ''DELETE'' [Lit ''users'', Lit ''me''] 204
    | GetMeByKey _ \<Rightarrow> at ''GET'' [Lit ''users'', Lit ''me'', Lit ''api-key''] 200
    | GetMeByBasic _ \<Rightarrow> at ''GET'' [Lit ''users'', Lit ''me'', Lit ''basic''] 200
    | GetMeByQueryKey _ \<Rightarrow> at ''GET'' [Lit ''users'', Lit ''me'', Lit ''query-api-key''] 200
    | CreateKey _ _ \<Rightarrow> at ''POST'' [Lit ''api-keys''] 201
    | ListKeys _ _ \<Rightarrow> at ''GET'' [Lit ''api-keys''] 200
    | DeleteKey _ _ \<Rightarrow> at ''DELETE'' [Lit ''api-keys'', Param] 204
    | CheckSmtp _ \<Rightarrow> at ''GET'' [Lit ''emails'', Lit ''smtp''] 200
    | SendTestEmail _ _ _ \<Rightarrow> at ''POST'' [Lit ''emails'', Lit ''test''] 200
    | CreateTodo _ _ _ \<Rightarrow> at ''POST'' [Lit ''todos''] 201
    | ListTodos _ _ \<Rightarrow> at ''GET'' [Lit ''todos''] 200
    | GetTodo _ _ _ \<Rightarrow> at ''GET'' [Lit ''todos'', Param] 200
    | UpdateTodo _ _ _ _ \<Rightarrow> at ''PATCH'' [Lit ''todos'', Param] 200
    | RemoveTodo _ _ _ \<Rightarrow> at ''DELETE'' [Lit ''todos'', Param] 204)"

text \<open>The routes in the order in which the routers include them.\<close>

definition health_routes :: "route list" where
  "health_routes = [at ''GET'' [Lit ''health''] 200]"

definition auth_routes :: "route list" where
  "auth_routes =
     [at ''POST'' [Lit ''auth'', Lit ''register''] 201,
      at ''POST'' [Lit ''auth'', Lit ''email-verification'', Lit ''resend''] 202,
      at ''GET'' [Lit ''auth'', Lit ''email-verification'', Lit ''confirm''] 200,
      at ''POST'' [Lit ''auth'', Lit ''login''] 200,
      at ''POST'' [Lit ''auth'', Lit ''browser'', Lit ''login''] 200,
      at ''POST'' [Lit ''auth'', Lit ''refresh''] 200,
      at ''POST'' [Lit ''auth'', Lit ''browser'', Lit ''refresh''] 200,
      at ''POST'' [Lit ''auth'', Lit ''logout''] 204,
      at ''POST'' [Lit ''auth'', Lit ''browser'', Lit ''logout''] 204]"

definition oauth_routes :: "route list" where
  "oauth_routes =
     [at ''GET'' [Lit ''auth'', Lit ''authorize''] 200, at ''POST'' [Lit ''auth'', Lit ''authorize''] 200,
      at ''POST'' [Lit ''auth'', Lit ''token''] 200]"

definition api_key_routes :: "route list" where
  "api_key_routes =
     [at ''POST'' [Lit ''api-keys''] 201, at ''GET'' [Lit ''api-keys''] 200,
      at ''DELETE'' [Lit ''api-keys'', Param] 204]"

definition email_routes :: "route list" where
  "email_routes = [at ''GET'' [Lit ''emails'', Lit ''smtp''] 200, at ''POST'' [Lit ''emails'', Lit ''test''] 200]"

definition todo_routes :: "route list" where
  "todo_routes =
     [at ''POST'' [Lit ''todos''] 201, at ''GET'' [Lit ''todos''] 200, at ''GET'' [Lit ''todos'', Param] 200,
      at ''PATCH'' [Lit ''todos'', Param] 200, at ''DELETE'' [Lit ''todos'', Param] 204]"

definition user_routes :: "route list" where
  "user_routes =
     [at ''GET'' [Lit ''users'', Lit ''me''] 200, at ''PATCH'' [Lit ''users'', Lit ''me''] 200,
      at ''DELETE'' [Lit ''users'', Lit ''me''] 204, at ''GET'' [Lit ''users'', Lit ''me'', Lit ''api-key''] 200,
      at ''GET'' [Lit ''users'', Lit ''me'', Lit ''basic''] 200,
      at ''GET'' [Lit ''users'', Lit ''me'', Lit ''query-api-key''] 200]"

definition api_router :: "route list" where
  "api_router = health_routes @ auth_routes @ oauth_routes @ api_key_routes @ email_routes @ todo_routes @ user_routes"

text \<open>
  Starlette: the first route whose method and path fit; a parameter takes one non-empty
  segment. The path is given by its segments.
\<close>

fun fits_segments :: "segment list \<Rightarrow> string list \<Rightarrow> bool" where
  "fits_segments [] [] \<longleftrightarrow> True"
| "fits_segments (Lit t # ts) (x # xs) \<longleftrightarrow> x = t \<and> fits_segments ts xs"
| "fits_segments (Param # ts) (x # xs) \<longleftrightarrow> x \<noteq> [] \<and> fits_segments ts xs"
| "fits_segments _ _ \<longleftrightarrow> False"

definition select_route :: "route list \<Rightarrow> string \<Rightarrow> string list \<Rightarrow> route option" where
  "select_route rs m path = find (\<lambda>r. ro_method r = m \<and> fits_segments (ro_path r) path) rs"

definition path_of :: "string \<Rightarrow> segment list \<Rightarrow> string list" where
  "path_of x = map (\<lambda>seg. case seg of Lit t \<Rightarrow> t | Param \<Rightarrow> x)"

lemmas router_defs = api_router_def health_routes_def auth_routes_def oauth_routes_def api_key_routes_def
  email_routes_def todo_routes_def user_routes_def at_def

text \<open>No route shadows another: the path of a call, with any id in it, selects the route of the call.\<close>

lemma calls_select_their_route:
  "x \<noteq> [] \<Longrightarrow> select_route api_router (ro_method (route_of c)) (path_of x (ro_path (route_of c))) = Some (route_of c)"
  by (cases c) (simp_all add: route_of_def select_route_def path_of_def router_defs)

section \<open>Guards\<close>

text \<open>The dependencies of a route, in the order in which FastAPI resolves them.\<close>

datatype guard = CheckOrigin | CheckCsrf "string option" | CheckBrowserCsrf "string option"

datatype caller =
    Anybody
  | ByToken "string option"
  | ByBasic "(string \<times> string) option"
  | ByHeaderKey "string option"
  | ByQueryKey "string option"

definition guards :: "api_call \<Rightarrow> guard list" where
  "guards c = (case c of
      BrowserRefresh csrf \<Rightarrow> [CheckBrowserCsrf csrf]
    | BrowserLogout csrf \<Rightarrow> [CheckBrowserCsrf csrf]
    | SendTestEmail _ csrf _ \<Rightarrow> [CheckOrigin, CheckCsrf csrf]
    | CreateTodo _ csrf _ \<Rightarrow> [CheckOrigin, CheckCsrf csrf]
    | GetTodo _ csrf _ \<Rightarrow> [CheckCsrf csrf]
    | UpdateTodo _ csrf _ _ \<Rightarrow> [CheckOrigin, CheckCsrf csrf]
    | RemoveTodo _ csrf _ \<Rightarrow> [CheckOrigin, CheckCsrf csrf]
    | _ \<Rightarrow> [])"

definition caller_of :: "api_call \<Rightarrow> caller" where
  "caller_of c = (case c of
      GetMe t \<Rightarrow> ByToken t | UpdateMe t _ \<Rightarrow> ByToken t | DeleteMe t \<Rightarrow> ByToken t
    | GetMeByKey k \<Rightarrow> ByHeaderKey k | GetMeByBasic b \<Rightarrow> ByBasic b | GetMeByQueryKey k \<Rightarrow> ByQueryKey k
    | CreateKey t _ \<Rightarrow> ByToken t | ListKeys t _ \<Rightarrow> ByToken t | DeleteKey t _ \<Rightarrow> ByToken t
    | CheckSmtp t \<Rightarrow> ByToken t | SendTestEmail t _ _ \<Rightarrow> ByToken t
    | CreateTodo t _ _ \<Rightarrow> ByToken t | ListTodos t _ \<Rightarrow> ByToken t | GetTodo t _ _ \<Rightarrow> ByToken t
    | UpdateTodo t _ _ _ \<Rightarrow> ByToken t | RemoveTodo t _ _ \<Rightarrow> ByToken t
    | _ \<Rightarrow> Anybody)"

definition run_guard :: "server \<Rightarrow> request \<Rightarrow> guard \<Rightarrow> unit act" where
  "run_guard sv rq g = (case g of
      CheckOrigin \<Rightarrow> validate_request_origin (sv_settings sv) rq
    | CheckCsrf csrf \<Rightarrow> require_csrf_token rq csrf
    | CheckBrowserCsrf csrf \<Rightarrow> require_browser_csrf_token rq csrf)"

fun run_guards :: "server \<Rightarrow> request \<Rightarrow> guard list \<Rightarrow> unit act" where
  "run_guards sv rq [] = ret ()"
| "run_guards sv rq (g # gs) = bnd (run_guard sv rq g) (\<lambda>_. run_guards sv rq gs)"

definition identify :: "server \<Rightarrow> request \<Rightarrow> caller \<Rightarrow> user option act" where
  "identify sv rq who = (case who of
      Anybody \<Rightarrow> ret None
    | ByToken t \<Rightarrow> bnd (get_current_user (sv_env sv) (sv_settings sv) t (cookie rq ACCESS_COOKIE_NAME))
        (\<lambda>u. ret (Some u))
    | ByBasic cred \<Rightarrow> bnd (get_current_basic_user (sv_env sv) cred) (\<lambda>u. ret (Some u))
    | ByHeaderKey k \<Rightarrow> bnd (get_current_header_api_key_user k) (\<lambda>u. ret (Some u))
    | ByQueryKey k \<Rightarrow> bnd (get_current_query_api_key_user k) (\<lambda>u. ret (Some u)))"

definition gate :: "server \<Rightarrow> request \<Rightarrow> api_call \<Rightarrow> user option act" where
  "gate sv rq c = bnd (run_guards sv rq (guards c)) (\<lambda>_. identify sv rq (caller_of c))"

text \<open>An operation behind a gate is refused whenever the gate refuses, with the same exception.\<close>

definition behind :: "'b act \<Rightarrow> 'a act \<Rightarrow> bool" where
  "behind g m \<longleftrightarrow> (\<forall>w e w1. g w = (Inl e, w1) \<longrightarrow> m w = (Inl e, w1))"

lemma behind_ret: "behind (ret x) m"
  by (simp add: behind_def ret_def)

lemma behind_bnd: "(\<And>x. behind (g x) (f x)) \<Longrightarrow> behind (bnd a g) (bnd a f)"
  by (auto simp: behind_def bnd_def split: prod.splits sum.splits)

lemma bnd_ret_left [simp]: "bnd (ret x) f = f x"
  by (simp add: bnd_def ret_def fun_eq_iff)

lemma bnd_assoc: "bnd (bnd a f) g = bnd a (\<lambda>x. bnd (f x) g)"
  by (auto simp: bnd_def fun_eq_iff split: prod.splits sum.splits)

lemmas route_defs =
  refresh_browser_session_def logout_browser_session_def me_def update_current_user_def
  deactivate_current_user_def me_by_api_key_def me_by_basic_def me_by_query_api_key_def
  Routes_User.create_api_key_def get_api_keys_def delete_api_key_def check_smtp_connection_def
  send_test_email_def create_todo_route_def update_todo_route_def remove_todo_route_def
  list_todos_route_def get_todo_route_def browser_write_def

lemma dispatch_behind_gate: "behind (gate sv rq c) (dispatch sv rq c)"
  by (cases c)
    (simp_all add: gate_def guards_def caller_of_def identify_def run_guard_def dispatch_def route_defs bnd_assoc Let_def
      behind_ret behind_bnd)

end
