(* ===== verification/Reply_Types.thy ===== *)
theory Reply_Types
  imports Api_Props
begin

text \<open>
  Type soundness of the API: for every call, the shape of a success (status, body, cookies)
  and of a refusal, and that every request is answered with one of the two.
\<close>

section \<open>The shapes\<close>

definition session_answer :: "settings \<Rightarrow> reply \<Rightarrow> bool" where
  "session_answer s r \<longleftrightarrow> (\<exists>t m e csrf. TokenResponseSchema t = Inr t \<and> 1 \<le> m \<and> csrf \<noteq> [] \<and>
     r = with_headers no_store_headers (with_cookies
       [access_cookie s (access_token t) (expires_in t), refresh_cookie s (refresh_token t) m (Some e),
        csrf_cookie s csrf m (Some e)] (respond 200 (SessionJson (expires_in t)))))"

text \<open>The cache adds headers to what it serves, and may answer that nothing has changed.\<close>

definition same_content :: "reply \<Rightarrow> reply \<Rightarrow> bool" where
  "same_content r r' \<longleftrightarrow> rp_status r = rp_status r' \<and> rp_cookies r = rp_cookies r' \<and> rp_body r = rp_body r'"

definition not_modified :: "reply \<Rightarrow> bool" where
  "not_modified r \<longleftrightarrow> same_content r (respond 304 NoContent)"

definition replays :: "cache \<Rightarrow> bool" where
  "replays cache \<longleftrightarrow> (\<forall>key m w r w'. cache key m w = (Inr r, w') \<longrightarrow>
     not_modified r \<or> (\<exists>r' w1 w2. m w1 = (Inr r', w2) \<and> same_content r r'))"

definition is_success :: "settings \<Rightarrow> api_call \<Rightarrow> reply \<Rightarrow> bool" where
  "is_success s c r = (case c of
      Register _ \<Rightarrow> (\<exists>u q. r = respond 201 (RegistrationJson u q q))
    | ResendVerification _ \<Rightarrow> r = respond 202 AcceptedJson
    | ConfirmEmail _ \<Rightarrow>
        r = with_headers (no_store_headers @ [(''Referrer-Policy'', ''no-referrer'')]) (respond 200 VerifiedJson)
    | Login _ \<Rightarrow> (\<exists>t. TokenResponseSchema t = Inr t \<and> r = respond 200 (TokensJson t))
    | BrowserLogin _ \<Rightarrow> session_answer s r
    | Refresh _ \<Rightarrow> (\<exists>t. TokenResponseSchema t = Inr t \<and> r = respond 200 (TokensJson t))
    | BrowserRefresh _ \<Rightarrow> session_answer s r
    | Logout _ \<Rightarrow> r = respond 204 NoContent
    | BrowserLogout _ \<Rightarrow> r = with_cookies (clear_browser_session_cookies s)
        (with_headers no_store_headers (respond 204 NoContent))
    | AuthorizationPage _ \<Rightarrow> (\<exists>request. r = login_page request []) \<or> (\<exists>url. r = redirect_reply 302 url)
    | Authorize _ _ \<Rightarrow> (\<exists>request. r = login_page request ''Invalid email or password.'') \<or>
        (\<exists>url. r = redirect_reply 302 url) \<or> (\<exists>url. r = redirect_reply 303 url)
    | ExchangeCode _ \<Rightarrow> (\<exists>t. TokenResponseSchema t = Inr t \<and>
        r = with_headers no_store_headers (respond 200 (TokensJson t)))
    | CreateKey _ _ \<Rightarrow> (\<exists>k. r = respond 201 (KeyJson k))
    | ListKeys _ _ \<Rightarrow> (\<exists>ks. r = respond 200 (KeysJson ks))
    | DeleteKey _ _ \<Rightarrow> r = respond 204 NoContent
    | DeleteMe _ \<Rightarrow> r = respond 204 NoContent
    | CheckSmtp _ \<Rightarrow> (\<exists>d. r = respond 200 (SmtpJson d))
    | SendTestEmail _ _ _ \<Rightarrow> (\<exists>d e. r = respond 200 (DeliveryJson d e))
    | CreateTodo _ _ _ \<Rightarrow> (\<exists>t. r = respond 201 (TodoJson t))
    | ListTodos _ _ \<Rightarrow> not_modified r \<or> (\<exists>l. same_content r (respond 200 (TodosJson l)))
    | GetTodo _ _ _ \<Rightarrow> not_modified r \<or> (\<exists>t. same_content r (respond 200 (TodoJson t)))
    | UpdateTodo _ _ _ _ \<Rightarrow> (\<exists>t. r = respond 200 (TodoJson t))
    | RemoveTodo _ _ _ \<Rightarrow> r = respond 204 NoContent
    | Health \<Rightarrow> r = respond 200 (HealthJson ''ok'')
    | _ \<Rightarrow> (\<exists>u. r = respond 200 (UserJson u)))"

definition is_invalid :: "reply \<Rightarrow> bool" where
  "is_invalid r \<longleftrightarrow> (\<exists>fields'. r = respond 422 (InvalidJson fields'))"

definition is_refusal :: "request \<Rightarrow> api_call \<Rightarrow> reply \<Rightarrow> bool" where
  "is_refusal rq c r \<longleftrightarrow> is_invalid r \<or> r = respond 500 ServerFailure \<or>
     (\<exists>e. r = error_reply (handle_error (call_path c) (has_authorization rq) e))"

section \<open>Typing rules\<close>

abbreviation yields :: "('a \<Rightarrow> bool) \<Rightarrow> 'a act \<Rightarrow> bool" where
  "yields Q m \<equiv> within (\<lambda>_. True) Q m"

lemma yields_any: "yields (\<lambda>_. True) m"
  by (simp add: within_def)

lemma yields_bnd: "(\<And>x. yields Q (f x)) \<Longrightarrow> yields Q (bnd m f)"
  by (rule within_bnd [OF yields_any])

lemma yields_result: "yields Q m \<Longrightarrow> m w = (Inr x, w') \<Longrightarrow> Q x"
  by (auto dest: withinD)

lemma yields_get_session: "yields Q m \<Longrightarrow> yields Q (get_session m)"
  by (auto simp: within_def get_session_def split: prod.splits) (metis fst_conv)

lemma yields_validated:
  "(\<And>x. yields (\<lambda>r. Q r \<or> is_invalid r) (f x)) \<Longrightarrow> yields (\<lambda>r. Q r \<or> is_invalid r) (validated v f)"
  unfolding validated_def by (rule within_sum) (auto simp: is_invalid_def intro: within_ret)

lemma yields_of_valid: "(\<And>x. v = Inr x \<Longrightarrow> Q x) \<Longrightarrow> yields Q (of_valid v)"
  by (auto simp: within_def of_valid_def ret_def raise_def split: sum.splits)

lemmas typing =
  yields_validated yields_bnd within_ret within_raise within_if within_option within_sum within_prod
  within_except_sql within_of_oauth

lemma yields_counting: "yields Q m \<Longrightarrow> yields Q (counting_failures mechanism m)"
  unfolding counting_failures_def
  by (rule within_catch, assumption) (auto split: exn.splits if_splits intro: typing)

section \<open>Tokens\<close>

abbreviation tokens_ok :: "token_response \<Rightarrow> bool" where
  "tokens_ok t \<equiv> TokenResponseSchema t = Inr t"

lemma schema_fixed: "TokenResponseSchema t = Inr t' \<Longrightarrow> tokens_ok t'"
  by (auto simp: TokenResponseSchema_def Let_def split: if_splits)

lemma yields_token_pair: "yields tokens_ok (create_token_pair env s a b t d)"
  unfolding create_token_pair_def by (intro yields_bnd yields_of_valid) (rule schema_fixed)

lemma yields_stage: "yields tokens_ok (stage_login_session env s u d)"
  unfolding stage_login_session_def Let_def
  by (intro yields_bnd within_bnd_by [OF yields_token_pair] within_ret)


lemma yields_login: "yields tokens_ok (create_login_session env s u)"
  unfolding create_login_session_def
  by (intro within_except_sql within_bnd_by [OF yields_stage] yields_bnd within_ret)

lemma yields_password_login: "yields tokens_ok (password_login env s mechanism form)"
  unfolding password_login_def by (intro yields_counting yields_bnd yields_login)

lemma yields_rotate: "yields tokens_ok (rotate_session env s u r now)"
  unfolding rotate_session_def
  by (intro within_bnd_by [OF yields_token_pair] yields_bnd within_ret)

lemma yields_refresh: "yields tokens_ok (refresh_login_session env s token)"
  unfolding refresh_login_session_def refresh_with_record_def
  by (intro typing yields_rotate)

lemma yields_exchange: "yields tokens_ok (exchange_authorization_code env s request)"
  unfolding exchange_authorization_code_def
  by (intro within_if within_raise yields_bnd within_except_sql within_option within_bnd_by [OF yields_stage]
      within_ret)

lemma yields_cookies:
  "yields (\<lambda>cs. \<exists>m e csrf. cs = [access_cookie s (access_token t) (expires_in t),
      refresh_cookie s (refresh_token t) m (Some e), csrf_cookie s csrf m (Some e)] \<and> 1 \<le> m \<and> csrf \<noteq> [])
    (set_browser_session_cookies env s t)"
  unfolding within_def
proof (intro allI impI conjI TrueI)
  fix w cs assume "fst (set_browser_session_cookies env s t w) = Inr cs"
  then have "set_browser_session_cookies env s t w = (Inr cs, snd (set_browser_session_cookies env s t w))"
    by (simp add: prod_eq_iff)
  from set_cookies_success [OF this]
  show "\<exists>m e csrf. cs = [access_cookie s (access_token t) (expires_in t),
      refresh_cookie s (refresh_token t) m (Some e), csrf_cookie s csrf m (Some e)] \<and> 1 \<le> m \<and> csrf \<noteq> []"
    by (elim exE conjE) (intro exI conjI)
qed

lemma yields_session_json:
  assumes "tokens_ok t" and cs: "cs = [access_cookie s (access_token t) (expires_in t),
      refresh_cookie s (refresh_token t) m (Some e), csrf_cookie s csrf m (Some e)]" "1 \<le> m" "csrf \<noteq> []"
  shows "yields (session_answer s) (bnd (of_valid (BrowserSessionResponseSchema (expires_in t))) (\<lambda>n.
      ret (with_headers no_store_headers (with_cookies cs (respond 200 (SessionJson n))))))"
proof (rule within_bnd_by [where Q = "\<lambda>n. n = expires_in t"])
  show "yields (\<lambda>n. n = expires_in t) (of_valid (BrowserSessionResponseSchema (expires_in t)))"
    by (rule yields_of_valid) (simp add: BrowserSessionResponseSchema_def split: if_splits)
  fix n assume "n = expires_in t"
  with assms show "yields (session_answer s)
      (ret (with_headers no_store_headers (with_cookies cs (respond 200 (SessionJson n)))))"
    unfolding session_answer_def by (intro within_ret exI [of _ t] exI [of _ m] exI [of _ e] exI [of _ csrf]) simp
qed

lemma yields_session_reply:
  assumes "tokens_ok t"
  shows "yields (session_answer s) (session_reply env s mechanism t)"
  unfolding session_reply_def
  by (rule within_bnd_by [OF yields_cookies], elim exE conjE, rule yields_bnd, rule yields_session_json [OF assms])

section \<open>Routes\<close>

abbreviation answers :: "settings \<Rightarrow> api_call \<Rightarrow> reply act \<Rightarrow> bool" where
  "answers s c m \<equiv> yields (\<lambda>r. is_success s c r \<or> is_invalid r) m"

lemma answers_auth_routes:
  "answers s (Register p) (register br env s rq p)"
  "answers s (ResendVerification e) (resend_email_verification br s rq e)"
  "answers s (ConfirmEmail t) (confirm_email_verification br rq t)"
  "answers s (Logout t) (logout env s t)"
  "answers s (BrowserLogout c) (logout_browser_session env s rq c)"
  unfolding register_def resend_email_verification_def confirm_email_verification_def logout_def
    logout_browser_session_def Let_def
  by (intro typing; auto simp: is_success_def)+

lemma answers_token_routes:
  "answers s (Login f) (login env s f)"
  "answers s (Refresh t) (refresh env s t)"
  unfolding login_def refresh_def
  by (rule yields_validated, rule within_bnd_by [OF yields_password_login], intro typing,
      simp add: is_success_def, blast)
    (rule yields_validated, rule within_bnd_by [OF yields_counting [OF yields_refresh]], intro typing,
      simp add: is_success_def, blast)

lemma answers_exchange: "answers s (ExchangeCode tp) (exchange_code env s rq tp)"
  unfolding exchange_code_def
  by (intro within_if within_raise, rule yields_bnd, rule within_bnd_by [OF yields_exchange], rule within_ret)
    (auto simp: is_success_def)

lemma answers_session_routes:
  "answers s (BrowserLogin f) (browser_login env s f)"
  "answers s (BrowserRefresh c) (refresh_browser_session env s rq c)"
  unfolding browser_login_def refresh_browser_session_def Let_def
  by (rule yields_validated, rule within_bnd_by [OF yields_password_login],
      rule within_weaken [OF yields_session_reply], assumption, simp add: is_success_def)
    (rule yields_bnd, intro within_if within_raise, rule within_bnd_by [OF yields_counting [OF yields_refresh]],
      rule within_weaken [OF yields_session_reply], assumption, simp add: is_success_def)

lemma answers_user_routes:
  "answers s (GetMe t) (me env s rq t)" "answers s (UpdateMe t p) (update_current_user env s rq t p)"
  "answers s (DeleteMe t) (deactivate_current_user env s rq t)"
  "answers s (GetMeByKey k) (me_by_api_key k)" "answers s (GetMeByBasic b) (me_by_basic env b)"
  "answers s (GetMeByQueryKey k) (me_by_query_api_key k)"
  "answers s (CreateKey t n) (Routes_User.create_api_key env s rq t n)"
  "answers s (ListKeys t b') (get_api_keys env s rq t b')"
  "answers s (DeleteKey t i) (delete_api_key env s rq t i)"
  "answers s Health health_check"
  unfolding me_def update_current_user_def deactivate_current_user_def me_by_api_key_def me_by_basic_def
    me_by_query_api_key_def Routes_User.create_api_key_def get_api_keys_def delete_api_key_def
    health_check_def user_reply_def
  by (intro typing; auto simp: is_success_def)+

lemma answers_mail_routes:
  "answers s (CheckSmtp t) (check_smtp_connection m env s rq t)"
  "answers s (SendTestEmail t c p) (send_test_email m env s rq t c p)"
  unfolding check_smtp_connection_def send_test_email_def
  by (intro typing; auto simp: is_success_def)+

lemma answers_todo_writes:
  "answers s (CreateTodo b c p) (create_todo_route env s rq b c p)"
  "answers s (UpdateTodo b c i u) (update_todo_route env s rq b c i u)"
  "answers s (RemoveTodo b c i) (remove_todo_route env s rq b c i)"
  unfolding create_todo_route_def update_todo_route_def remove_todo_route_def
  by (intro typing; auto simp: is_success_def)+

lemma yields_cache:
  assumes "replays cache" and "yields Q m"
    and "\<And>r r'. Q r' \<Longrightarrow> same_content r r' \<Longrightarrow> R r" and "\<And>r. not_modified r \<Longrightarrow> R r"
  shows "yields R (cache key m)"
  unfolding within_def
proof (intro allI impI conjI TrueI)
  fix w r assume "fst (cache key m w) = Inr r"
  then have "cache key m w = (Inr r, snd (cache key m w))" by (simp add: prod_eq_iff)
  with assms(1) have "not_modified r \<or> (\<exists>r' w1 w2. m w1 = (Inr r', w2) \<and> same_content r r')"
    unfolding replays_def by blast
  then show "R r"
  proof (elim disjE exE conjE)
    fix r' w1 w2 assume "m w1 = (Inr r', w2)" "same_content r r'"
    with yields_result [OF assms(2)] assms(3) show ?thesis by blast
  qed (rule assms(4))
qed

lemma answers_cached:
  assumes "replays cache" and "yields (\<lambda>r'. P r') m"
    and "\<And>r r'. P r' \<Longrightarrow> same_content r r' \<Longrightarrow> is_success s c r" and "\<And>r. not_modified r \<Longrightarrow> is_success s c r"
  shows "answers s c (cached_read cache s' e u q i m)"
  unfolding cached_read_def
  by (rule yields_bnd, rule yields_cache [OF assms(1,2)]) (blast intro: assms(3,4))+

lemma answers_todo_reads:
  assumes "replays cache"
  shows "answers s (ListTodos b q) (list_todos_route cache env s rq b q)"
    and "answers s (GetTodo b c i) (get_todo_route cache env s rq b c i)"
proof -
  show "answers s (ListTodos b q) (list_todos_route cache env s rq b q)"
    unfolding list_todos_route_def
    by (rule yields_bnd, rule yields_validated,
        rule answers_cached [OF assms, where P = "\<lambda>r'. \<exists>l. r' = respond 200 (TodosJson l)"])
      (auto simp: is_success_def intro!: yields_bnd within_ret)
  show "answers s (GetTodo b c i) (get_todo_route cache env s rq b c i)"
    unfolding get_todo_route_def
    by (rule yields_bnd, rule yields_bnd, rule yields_validated,
        rule answers_cached [OF assms, where P = "\<lambda>r'. \<exists>t. r' = respond 200 (TodoJson t)"])
      (auto simp: is_success_def intro!: yields_bnd within_ret)
qed

lemma yields_redirect_error:
  "yields (\<lambda>r. \<exists>url. r = redirect_reply 302 url) (redirect_authorization_error s e p)"
  unfolding redirect_authorization_error_def by (intro typing) auto

lemma yields_on_oauth_error:
  assumes "yields Q m" and "\<And>e. yields Q (h e)"
  shows "yields Q (on_oauth_error caught m h)"
  unfolding on_oauth_error_def
  by (rule within_catch [OF assms(1)]) (auto split: exn.splits error_class.splits if_splits intro: assms(2))

lemma answers_authorization_page: "answers s (AuthorizationPage p) (authorization_page s p)"
  unfolding authorization_page_def
  by (intro yields_on_oauth_error yields_bnd within_ret within_weaken [OF yields_redirect_error])
    (auto simp: is_success_def)

lemma answers_authorize: "answers s (Authorize cred p) (authorize env s cred p)"
proof -
  let ?Q = "\<lambda>issued. case issued of Inl shown \<Rightarrow> is_success s (Authorize cred p) shown | Inr (_ :: string) \<Rightarrow> True"
  have "yields ?Q (on_oauth_error is_issuance_error
      (catch (bnd (issue_authorization_code env s email password request) (\<lambda>code. ret (Inr code)))
        (\<lambda>e. if is_login_failure e
             then Some (ret (Inl (login_page request ''Invalid email or password.''))) else None))
      (\<lambda>e. bnd (redirect_authorization_error s e p) (\<lambda>r. ret (Inl r))))" for email password request
  proof (rule yields_on_oauth_error)
    show "yields ?Q (catch (bnd (issue_authorization_code env s email password request) (\<lambda>code. ret (Inr code)))
        (\<lambda>e. if is_login_failure e
             then Some (ret (Inl (login_page request ''Invalid email or password.''))) else None))"
      by (rule within_catch) (auto simp: is_success_def intro!: yields_bnd within_ret split: if_splits)
    show "yields ?Q (bnd (redirect_authorization_error s e p) (\<lambda>r. ret (Inl r)))" for e
      by (rule within_bnd_by [OF yields_redirect_error], rule within_ret) (auto simp: is_success_def)
  qed
  note issued = within_bnd_by [OF this]
  have refused: "answers s (Authorize cred p) (redirect_authorization_error s e p)" for e
    by (rule within_weaken [OF yields_redirect_error]) (simp add: is_success_def)
  have shown: "answers s (Authorize cred p) (case issued of Inl shown \<Rightarrow> ret shown
      | Inr code \<Rightarrow> bnd (of_option ValueErr (append_query uri (ps code))) (\<lambda>location. ret (redirect_reply 303 location)))"
    if "?Q issued" for issued uri ps
    using that by (auto simp: is_success_def intro!: yields_bnd within_ret split: sum.splits)
  show ?thesis
    unfolding authorize_def
    by (rule yields_validated, rule within_prod, rule within_sum, intro within_if within_raise refused,
        rule issued, rule shown)
qed

lemma answers_dispatch:
  assumes "replays (sv_cache sv)"
  shows "answers (sv_settings sv) c (dispatch sv rq c)"
  by (cases c)
    (simp_all add: dispatch_def answers_auth_routes answers_token_routes answers_exchange answers_session_routes
      answers_user_routes answers_mail_routes answers_todo_writes answers_todo_reads [OF assms]
      answers_authorization_page answers_authorize)

text \<open>
  C4. Every request is answered, and its answer has the type of its route: either the success
  that the route declares, with its status, its body and exactly its cookies, or a refusal: the
  fields that FastAPI rejects (422), the answer of the exception handlers to a class of the
  program, or 500. In particular a browser session hands its tokens out only in the three
  cookies, whatever the route, an answer carries tokens only to a login, a refresh or a code
  exchange, and no other route sets a cookie.
\<close>

theorem replies_well_typed:
  assumes "serve sv rq c w = (r, w')" and "replays (sv_cache sv)"
  shows "\<exists>rp. r = Inr rp \<and> (is_success (sv_settings sv) c rp \<or> is_refusal rq c rp)"
proof -
  obtain rp where rp: "r = Inr rp"
    using answer_total [of rq "call_path c" "dispatch sv rq c" w] assms(1) by (auto simp: serve_def)
  have "yields (\<lambda>r. is_success (sv_settings sv) c r \<or> is_refusal rq c r) (serve sv rq c)"
    unfolding serve_def answer_def
  proof (rule within_catch)
    show "yields (\<lambda>r. is_success (sv_settings sv) c r \<or> is_refusal rq c r) (get_session (dispatch sv rq c))"
      by (rule within_weaken [OF yields_get_session [OF answers_dispatch [OF assms(2)]]]) (auto simp: is_refusal_def)
  qed (auto simp: is_refusal_def Let_def intro!: yields_bnd within_ret split: exn.splits)
  from yields_result [OF this] assms(1) rp show ?thesis by blast
qed

theorem replies_well_typed_witness:
  "replays (sv_cache sample_server) \<and>
   (\<exists>rp w. serve sample_server plain_request (Register (Inl [''email''])) (sample_world sample_users_db) = (Inr rp, w) \<and>
      rp_status rp = 422 \<and> (is_success default_settings (Register (Inl [''email''])) rp \<or>
        is_refusal plain_request (Register (Inl [''email''])) rp))"
proof -
  let ?c = "Register (Inl [''email''])" and ?w = "sample_world sample_users_db"
  have cache: "replays (sv_cache sample_server)"
    unfolding replays_def sample_server_def by (fastforce simp: same_content_def)
  have run: "serve sample_server plain_request ?c ?w =
      (Inr (respond 422 (InvalidJson [''email''])), ?w\<lparr>work := committed ?w\<rparr>)"
    by (simp add: serve_def answer_def dispatch_def register_def validated_def get_session_def catch_def ret_def Let_def)
  from replies_well_typed [OF run cache] cache run show ?thesis
    by (auto simp: respond_def sample_server_def)
qed

end
