(* ===== verification/Gate_Props.thy ===== *)
theory Gate_Props
  imports Route_Table Reply_Types Access_Props
begin

text \<open>What guards the routes: who is behind an answered call, and which page sent it.\<close>

section \<open>Guards that pass\<close>

text \<open>The session of a request starts from what is committed.\<close>

definition opened :: "world \<Rightarrow> world" where
  "opened w = w\<lparr>work := committed w\<rparr>"

definition csrf_matches :: "request \<Rightarrow> string option \<Rightarrow> bool" where
  "csrf_matches rq h \<longleftrightarrow> (\<exists>tok. tok \<noteq> [] \<and> h = Some tok \<and> cookie rq CSRF_COOKIE_NAME = Some tok)"

text \<open>Where a request comes from, as far as it says.\<close>

definition from_allowed_page :: "settings \<Rightarrow> request \<Rightarrow> bool" where
  "from_allowed_page s rq \<longleftrightarrow> (\<forall>og. names_origin rq ''origin'' og \<longrightarrow> og \<in> allowed_origins s rq) \<and>
     (uses_browser_session rq \<longrightarrow>
        (\<exists>name \<in> {''origin'', ''referer''}. \<exists>og. names_origin rq name og \<and> og \<in> allowed_origins s rq))"

definition passed :: "server \<Rightarrow> request \<Rightarrow> guard \<Rightarrow> bool" where
  "passed sv rq g \<longleftrightarrow> (\<exists>w w'. run_guard sv rq g w = (Inr (), w'))"

lemma guard_pure: "run_guard sv rq g w = (Inr (), w') \<Longrightarrow> w' = w"
  by (cases g)
    (auto simp: run_guard_def validate_request_origin_def require_csrf_token_def require_browser_csrf_token_def
      bnd_ok ret_ok extract_origin_ok check_origin_ok check_csrf_ok split: if_splits)

lemma run_guards_ok:
  "run_guards sv rq gs w = (Inr (), w') \<Longrightarrow> w' = w \<and> (\<forall>g \<in> set gs. passed sv rq g)"
proof (induction gs arbitrary: w)
  case Nil
  then show ?case by (simp add: ret_ok)
next
  case (Cons g gs)
  then obtain w1 where g: "run_guard sv rq g w = (Inr (), w1)" and gs: "run_guards sv rq gs w1 = (Inr (), w')"
    by (auto simp: bnd_ok)
  with guard_pure [OF g] Cons.IH [OF gs] show ?case unfolding passed_def by auto
qed

section \<open>Callers\<close>

text \<open>The user that the credential of a call names, in the rows that the request sees.\<close>

definition names_caller :: "server \<Rightarrow> request \<Rightarrow> caller \<Rightarrow> world \<Rightarrow> user \<Rightarrow> bool" where
  "names_caller sv rq who w u \<longleftrightarrow> (case who of
      Anybody \<Rightarrow> True
    | ByToken t \<Rightarrow> token_user (sv_env sv) (sv_settings sv) t (cookie rq ACCESS_COOKIE_NAME) w u
    | ByBasic cred \<Rightarrow> basic_user (sv_env sv) cred w u
    | ByHeaderKey k \<Rightarrow> key_user k w u
    | ByQueryKey k \<Rightarrow> key_user k w u)"

definition entitled :: "server \<Rightarrow> request \<Rightarrow> caller \<Rightarrow> world \<Rightarrow> bool" where
  "entitled sv rq who w \<longleftrightarrow> who = Anybody \<or>
     (\<exists>u. names_caller sv rq who w u \<and> u_is_active u \<and> is_email_verified u)"

lemma outcome_ok: "auth_outcome m P w (auth w) \<Longrightarrow> auth w = (Inr u, w') \<Longrightarrow> P u \<and> u_is_active u \<and> is_email_verified u"
  by (simp add: auth_outcome_def)

lemma identify_ok: "identify sv rq who w = (Inr x, w') \<Longrightarrow> entitled sv rq who w"
  by (cases who)
    (auto simp: identify_def entitled_def names_caller_def bnd_ok get_current_header_api_key_user_def
      get_current_query_api_key_user_def
      dest!: outcome_ok [OF current_user_outcome] outcome_ok [OF basic_user_outcome] outcome_ok [OF key_user_outcome])

lemma gate_ok:
  assumes "gate sv rq c w = (Inr x, w')"
  shows "(\<forall>g \<in> set (guards c). passed sv rq g) \<and> entitled sv rq (caller_of c) w"
proof -
  from assms obtain w1 where g: "run_guards sv rq (guards c) w = (Inr (), w1)"
    and i: "identify sv rq (caller_of c) w1 = (Inr x, w')" by (auto simp: gate_def bnd_ok)
  from run_guards_ok [OF g] identify_ok [OF i] show ?thesis by simp
qed

section \<open>A success has passed the gate\<close>

lemma success_is_no_error:
  "is_success s c r \<Longrightarrow> rp_body r \<noteq> ErrorJson x \<and> rp_body r \<noteq> ServerFailure"
  by (cases c)
    (auto simp: is_success_def session_answer_def not_modified_def same_content_def respond_def with_headers_def
      with_cookies_def login_page_def redirect_reply_def)

lemma success_passes_gate:
  assumes "serve sv rq c w = (Inr r, w')" and "is_success s c r"
  shows "\<exists>x w1. gate sv rq c (opened w) = (Inr x, w1)"
proof (cases "gate sv rq c (opened w)")
  case (Pair y w1)
  show ?thesis
  proof (cases y)
    case (Inl e)
    with Pair have "dispatch sv rq c (opened w) = (Inl e, w1)"
      using dispatch_behind_gate [of sv rq c] by (simp add: behind_def)
    then have "(\<exists>x. rp_body r = ErrorJson x) \<or> rp_body r = ServerFailure"
      using assms(1)
      by (cases e) (auto simp: serve_def answer_def get_session_def catch_def opened_def Let_def bnd_ok ret_ok
          error_reply_def respond_def)
    with success_is_no_error [OF assms(2)] show ?thesis by blast
  qed (use Pair in blast)
qed

section \<open>The guarded API\<close>

text \<open>The four writes of a signed-in user that no browser check guards.\<close>

definition exempt :: "api_call \<Rightarrow> bool" where
  "exempt c \<longleftrightarrow> (case c of
      UpdateMe _ _ \<Rightarrow> True | DeleteMe _ \<Rightarrow> True | CreateKey _ _ \<Rightarrow> True | DeleteKey _ _ \<Rightarrow> True | _ \<Rightarrow> False)"

definition is_write :: "api_call \<Rightarrow> bool" where
  "is_write c \<longleftrightarrow> upper_ascii (ro_method (route_of c)) \<notin> set SAFE_METHODS"

lemma is_write_iff: "is_write c \<longleftrightarrow> ro_method (route_of c) \<noteq> ''GET''"
proof -
  have "upper_ascii ''GET'' = ''GET''" "upper_ascii ''POST'' = ''POST''" "upper_ascii ''PATCH'' = ''PATCH''"
    "upper_ascii ''DELETE'' = ''DELETE''" by code_simp+
  then show ?thesis
    by (cases c) (simp_all add: is_write_def route_of_def at_def SAFE_METHODS_def)
qed

lemma writes_have_guards:
  "is_write c \<Longrightarrow> caller_of c = ByToken t \<Longrightarrow>
     exempt c \<or> CheckOrigin \<in> set (guards c) \<and> (\<exists>h. CheckCsrf h \<in> set (guards c))"
  by (cases c) (simp_all add: is_write_iff route_of_def at_def caller_of_def exempt_def guards_def)

lemma exempt_writes_unguarded: "exempt c \<Longrightarrow> is_write c \<and> (\<exists>t. caller_of c = ByToken t) \<and> guards c = []"
  by (cases c) (simp_all add: is_write_iff route_of_def at_def caller_of_def exempt_def guards_def)

lemma csrf_guard_ok:
  assumes "passed sv rq (CheckCsrf h)" and "entitled sv rq (ByToken (bearer (header rq ''authorization''))) w"
    and "reads_bearer bearer"
  shows "given (bearer (header rq ''authorization'')) \<or> csrf_matches rq h"
proof (cases "has_explicit_bearer_token rq")
  case True
  with explicit_is_given [OF _ assms(3)] show ?thesis by blast
next
  case False
  from assms(2) have "given (bearer (header rq ''authorization'')) \<or> cookie rq ACCESS_COOKIE_NAME \<noteq> None"
    by (auto simp: entitled_def names_caller_def token_user_def selected_token_def given_def split: if_splits)
  with assms(1) False show ?thesis
    by (auto simp: passed_def run_guard_def require_csrf_token_def csrf_matches_def check_csrf_ok)
qed

lemma browser_guard_ok:
  "passed sv rq (CheckBrowserCsrf h) \<Longrightarrow> uses_browser_session rq \<Longrightarrow> csrf_matches rq h"
  by (auto simp: passed_def run_guard_def require_browser_csrf_token_def uses_browser_session_def csrf_matches_def
      check_csrf_ok split: if_splits)


text \<open>A signed-in browser sends itself the test email.\<close>

definition sample_mail :: api_call where
  "sample_mail = SendTestEmail None (Some ''c'')
     (Inr \<lparr>et_subject = ''s'', et_body = ''b'', et_subtype = HtmlText\<rparr>)"


end
