(* ===== verification/Migrations.thy ===== *)
theory Migrations
  imports Models
begin

text \<open>
  The migrations of \<^verbatim>\<open>alembic/versions\<close> as values: a schema is a list of named tables, a revision
  is two lists of operations, and Alembic's walk along the \<^verbatim>\<open>down_revision\<close> links is a function.
  \<open>metadata\<close> is the schema that the mapped classes declare. Alembic and PostgreSQL are modelled as
  far as these operations use them; whether a table has rows is an argument.
\<close>

section \<open>Schemas\<close>

datatype column_type = IntegerT | StringT nat | TextT | BooleanT | DateTimeT | EnumT string "string list" nat

datatype column_default = Now | TrueD | FalseD | TextD string

record column =
  co_name :: string
  co_type :: column_type
  co_nullable :: bool
  co_default :: "column_default option"

text \<open>All foreign keys refer to the id of a table and cascade.\<close>

datatype constraint =
    PrimaryKey string "string list"
  | Unique string "string list"
  | Check string string
  | ForeignKey string string string \<comment> \<open>name, column, table\<close>

fun constraint_name :: "constraint \<Rightarrow> string" where
  "constraint_name (PrimaryKey n _) = n"
| "constraint_name (Unique n _) = n"
| "constraint_name (Check n _) = n"
| "constraint_name (ForeignKey n _ _) = n"

fun constraint_columns :: "constraint \<Rightarrow> string list" where
  "constraint_columns (PrimaryKey _ cs) = cs"
| "constraint_columns (Unique _ cs) = cs"
| "constraint_columns (Check _ _) = []"
| "constraint_columns (ForeignKey _ c _) = [c]"

record table_schema =
  tb_columns :: "column list"
  tb_constraints :: "constraint list"
  tb_indexes :: "(string \<times> string list) list"

type_synonym schema = "(string \<times> table_schema) list"

definition col :: "string \<Rightarrow> column_type \<Rightarrow> column" where
  "col n t = \<lparr>co_name = n, co_type = t, co_nullable = False, co_default = None\<rparr>"

definition nullable_col :: "string \<Rightarrow> column_type \<Rightarrow> column" where
  "nullable_col n t = \<lparr>co_name = n, co_type = t, co_nullable = True, co_default = None\<rparr>"

definition default_col :: "string \<Rightarrow> column_type \<Rightarrow> column_default \<Rightarrow> column" where
  "default_col n t d = \<lparr>co_name = n, co_type = t, co_nullable = False, co_default = Some d\<rparr>"

section \<open>Operations\<close>

datatype operation =
    CreateTable string "column list" "constraint list"
  | DropTable string
  | AddColumn string column
  | DropColumn string string
  | CreateConstraint string constraint
  | DropConstraint string string
  | CreateIndex string string "string list" \<comment> \<open>index, table, columns\<close>
  | DropIndex string string
  | AlterDefault string string "column_default option"
  | Execute string

definition has_column :: "table_schema \<Rightarrow> string \<Rightarrow> bool" where
  "has_column t c \<longleftrightarrow> list_ex (\<lambda>x. co_name x = c) (tb_columns t)"

definition constraint_fits :: "schema \<Rightarrow> table_schema \<Rightarrow> constraint \<Rightarrow> bool" where
  "constraint_fits s t k \<longleftrightarrow> list_all (has_column t) (constraint_columns k) \<and>
     \<not> list_ex (\<lambda>k'. constraint_name k' = constraint_name k) (tb_constraints t) \<and>
     (case k of ForeignKey _ _ r \<Rightarrow> map_of s r \<noteq> None | _ \<Rightarrow> True)"

fun add_constraints :: "schema \<Rightarrow> constraint list \<Rightarrow> table_schema \<Rightarrow> table_schema option" where
  "add_constraints s [] t = Some t"
| "add_constraints s (k # ks) t =
     (if constraint_fits s t k then add_constraints s ks (t\<lparr>tb_constraints := tb_constraints t @ [k]\<rparr>) else None)"

definition on_table :: "string \<Rightarrow> (table_schema \<Rightarrow> table_schema option) \<Rightarrow> schema \<Rightarrow> schema option" where
  "on_table n f s = (case map_of s n of
      None \<Rightarrow> None
    | Some t \<Rightarrow> map_option (\<lambda>t'. map (\<lambda>e. if fst e = n then (n, t') else e) s) (f t))"

definition references :: "string \<Rightarrow> table_schema \<Rightarrow> bool" where
  "references n t \<longleftrightarrow> list_ex (\<lambda>k. case k of ForeignKey _ _ r \<Rightarrow> r = n | _ \<Rightarrow> False) (tb_constraints t)"

text \<open>
  What PostgreSQL does: \<open>None\<close> is an error. A column without null and without default cannot be
  added to a table with rows. Dropping a column drops what mentions it.
\<close>

fun apply_operation :: "string list \<Rightarrow> operation \<Rightarrow> schema \<Rightarrow> schema option" where
  "apply_operation populated (CreateTable n cs ks) s =
     (if map_of s n \<noteq> None \<or> \<not> distinct (map co_name cs) then None
      else map_option (\<lambda>t. s @ [(n, t)])
             (add_constraints s ks \<lparr>tb_columns = cs, tb_constraints = [], tb_indexes = []\<rparr>))"
| "apply_operation populated (DropTable n) s =
     (if map_of s n = None \<or> list_ex (\<lambda>e. fst e \<noteq> n \<and> references n (snd e)) s then None
      else Some (filter (\<lambda>e. fst e \<noteq> n) s))"
| "apply_operation populated (AddColumn n c) s = on_table n (\<lambda>t.
     if has_column t (co_name c) \<or> (\<not> co_nullable c \<and> co_default c = None \<and> n \<in> set populated) then None
     else Some (t\<lparr>tb_columns := tb_columns t @ [c]\<rparr>)) s"
| "apply_operation populated (DropColumn n c) s = on_table n (\<lambda>t.
     if \<not> has_column t c then None
     else Some (t\<lparr>tb_columns := filter (\<lambda>x. co_name x \<noteq> c) (tb_columns t),
                  tb_constraints := filter (\<lambda>k. c \<notin> set (constraint_columns k)) (tb_constraints t),
                  tb_indexes := filter (\<lambda>i. c \<notin> set (snd i)) (tb_indexes t)\<rparr>)) s"
| "apply_operation populated (CreateConstraint n k) s = on_table n (add_constraints s [k]) s"
| "apply_operation populated (DropConstraint n k) s = on_table n (\<lambda>t.
     if \<not> list_ex (\<lambda>k'. constraint_name k' = k) (tb_constraints t) then None
     else Some (t\<lparr>tb_constraints := filter (\<lambda>k'. constraint_name k' \<noteq> k) (tb_constraints t)\<rparr>)) s"
| "apply_operation populated (CreateIndex i n cs) s =
     (if list_ex (\<lambda>e. list_ex (\<lambda>j. fst j = i) (tb_indexes (snd e))) s then None
      else on_table n (\<lambda>t. if list_all (has_column t) cs
             then Some (t\<lparr>tb_indexes := tb_indexes t @ [(i, cs)]\<rparr>) else None) s)"
| "apply_operation populated (DropIndex i n) s = on_table n (\<lambda>t.
     if \<not> list_ex (\<lambda>j. fst j = i) (tb_indexes t) then None
     else Some (t\<lparr>tb_indexes := filter (\<lambda>j. fst j \<noteq> i) (tb_indexes t)\<rparr>)) s"
| "apply_operation populated (AlterDefault n c d) s = on_table n (\<lambda>t.
     if \<not> has_column t c then None
     else Some (t\<lparr>tb_columns := map (\<lambda>x. if co_name x = c then x\<lparr>co_default := d\<rparr> else x) (tb_columns t)\<rparr>)) s"
| "apply_operation populated (Execute _) s = Some s"

fun apply_operations :: "string list \<Rightarrow> operation list \<Rightarrow> schema \<Rightarrow> schema option" where
  "apply_operations populated [] s = Some s"
| "apply_operations populated (x # xs) s =
     (case apply_operation populated x s of None \<Rightarrow> None | Some s' \<Rightarrow> apply_operations populated xs s')"

section \<open>Revisions\<close>

record revision =
  rv_id :: string
  rv_down :: "string option"
  rv_upgrade :: "operation list"
  rv_downgrade :: "operation list"

definition timestamps :: "column list" where
  "timestamps = [default_col ''created_at'' DateTimeT Now, default_col ''updated_at'' DateTimeT Now]"

definition rev_users :: revision where
  "rev_users = \<lparr>rv_id = ''eb01c19b53b3'', rv_down = None,
     rv_upgrade =
       [CreateTable ''users''
          ([col ''id'' IntegerT, col ''email'' (StringT 255), nullable_col ''full_name'' (StringT 150),
            col ''hashed_password'' (StringT 255), col ''is_active'' BooleanT, col ''is_superuser'' BooleanT]
           @ timestamps)
          [PrimaryKey ''pk_users'' [''id''], Unique ''uq_users_email'' [''email'']],
        CreateIndex ''ix_users_email'' ''users'' [''email'']],
     rv_downgrade = [DropIndex ''ix_users_email'' ''users'', DropTable ''users'']\<rparr>"

definition rev_api_keys :: revision where
  "rev_api_keys = \<lparr>rv_id = ''49f306553b4d'', rv_down = Some ''eb01c19b53b3'',
     rv_upgrade =
       [CreateTable ''api_keys''
          ([col ''id'' IntegerT, col ''user_id'' IntegerT, col ''name'' (StringT 100),
            col ''key_hash'' (StringT 64), default_col ''is_active'' BooleanT TrueD] @ timestamps)
          [ForeignKey ''fk_api_keys_user_id_users'' ''user_id'' ''users'', PrimaryKey ''pk_api_keys'' [''id''],
           Unique ''uq_api_keys_key_hash'' [''key_hash'']],
        CreateIndex ''ix_api_keys_user_id'' ''api_keys'' [''user_id'']],
     rv_downgrade = [DropIndex ''ix_api_keys_user_id'' ''api_keys'', DropTable ''api_keys'']\<rparr>"

definition rev_refresh_sessions :: revision where
  "rev_refresh_sessions = \<lparr>rv_id = ''c1e9a65f3d20'', rv_down = Some ''49f306553b4d'',
     rv_upgrade =
       [AlterDefault ''users'' ''is_active'' (Some TrueD),
        AlterDefault ''users'' ''is_superuser'' (Some FalseD),
        CreateTable ''refresh_sessions''
          ([col ''id'' (StringT 64), col ''user_id'' IntegerT, col ''token_hash'' (StringT 64),
            col ''expires_at'' DateTimeT, nullable_col ''revoked_at'' DateTimeT,
            nullable_col ''last_used_at'' DateTimeT] @ timestamps)
          [Check ''ck_refresh_sessions_expiration'' ''expires_at > created_at'',
           ForeignKey ''fk_refresh_sessions_user_id_users'' ''user_id'' ''users'',
           PrimaryKey ''pk_refresh_sessions'' [''id''],
           Unique ''uq_refresh_sessions_token_hash'' [''token_hash'']],
        CreateIndex ''ix_refresh_sessions_expires_at'' ''refresh_sessions'' [''expires_at''],
        CreateIndex ''ix_refresh_sessions_user_revoked'' ''refresh_sessions'' [''user_id'', ''revoked_at'']],
     rv_downgrade =
       [DropIndex ''ix_refresh_sessions_user_revoked'' ''refresh_sessions'',
        DropIndex ''ix_refresh_sessions_expires_at'' ''refresh_sessions'',
        DropTable ''refresh_sessions'',
        AlterDefault ''users'' ''is_superuser'' None,
        AlterDefault ''users'' ''is_active'' None]\<rparr>"

definition rev_drop_email_index :: revision where
  "rev_drop_email_index = \<lparr>rv_id = ''d72c03a55ac1'', rv_down = Some ''c1e9a65f3d20'',
     rv_upgrade = [DropIndex ''ix_users_email'' ''users''],
     rv_downgrade = [CreateIndex ''ix_users_email'' ''users'' [''email'']]\<rparr>"

definition rev_rotation :: revision where
  "rev_rotation = \<lparr>rv_id = ''d0bf5b40031b'', rv_down = Some ''d72c03a55ac1'',
     rv_upgrade =
       [AddColumn ''refresh_sessions'' (nullable_col ''previous_token_hash'' (StringT 64)),
        AddColumn ''refresh_sessions'' (col ''absolute_expires_at'' DateTimeT),
        AddColumn ''refresh_sessions'' (nullable_col ''rotated_at'' DateTimeT),
        CreateIndex ''ix_refresh_sessions_absolute_expires_at'' ''refresh_sessions'' [''absolute_expires_at'']],
     rv_downgrade =
       [DropIndex ''ix_refresh_sessions_absolute_expires_at'' ''refresh_sessions'',
        DropColumn ''refresh_sessions'' ''rotated_at'',
        DropColumn ''refresh_sessions'' ''absolute_expires_at'',
        DropColumn ''refresh_sessions'' ''previous_token_hash'']\<rparr>"

definition rev_session_checks :: revision where
  "rev_session_checks = \<lparr>rv_id = ''f25650d6b6f7'', rv_down = Some ''d0bf5b40031b'',
     rv_upgrade =
       [CreateConstraint ''refresh_sessions''
          (Check ''ck_refresh_sessions_absolute_expiration'' ''absolute_expires_at > created_at''),
        CreateConstraint ''refresh_sessions''
          (Check ''ck_refresh_sessions_idle_before_absolute'' ''expires_at <= absolute_expires_at'')],
     rv_downgrade =
       [DropConstraint ''refresh_sessions'' ''ck_refresh_sessions_idle_before_absolute'',
        DropConstraint ''refresh_sessions'' ''ck_refresh_sessions_absolute_expiration'']\<rparr>"

text \<open>The text of the completion check, but for its white space; \<^verbatim>\<open>done\<close> stands in SQL quotes.\<close>

definition quoted :: "string \<Rightarrow> string" where
  "quoted s = CHR 0x27 # s @ [CHR 0x27]"

definition rev_todos :: revision where
  "rev_todos = \<lparr>rv_id = ''a284decc39f6'', rv_down = Some ''f25650d6b6f7'',
     rv_upgrade =
       [CreateTable ''todos''
          ([col ''id'' IntegerT, col ''user_id'' IntegerT, col ''title'' (StringT 200),
            nullable_col ''description'' TextT,
            default_col ''status''
              (EnumT ''todo_status'' [''todo'', ''in_progress'', ''done'', ''cancelled''] 20) (TextD ''todo''),
            default_col ''priority''
              (EnumT ''todo_priority'' [''low'', ''medium'', ''high'', ''urgent''] 10) (TextD ''medium''),
            nullable_col ''due_at'' DateTimeT, nullable_col ''completed_at'' DateTimeT,
            default_col ''is_archived'' BooleanT FalseD] @ timestamps)
          [Check ''ck_todos_completion_state''
             (''(status = '' @ quoted ''done'' @ '' AND completed_at IS NOT NULL) OR (status <> '' @
              quoted ''done'' @ '' AND completed_at IS NULL)''),
           Check ''ck_todos_title_not_blank'' ''char_length(trim(title)) > 0'',
           ForeignKey ''fk_todos_user_id_users'' ''user_id'' ''users'', PrimaryKey ''pk_todos'' [''id'']],
        CreateIndex ''ix_todos_user_archived'' ''todos'' [''user_id'', ''is_archived''],
        CreateIndex ''ix_todos_user_due_at'' ''todos'' [''user_id'', ''due_at''],
        CreateIndex ''ix_todos_user_status'' ''todos'' [''user_id'', ''status'']],
     rv_downgrade =
       [DropIndex ''ix_todos_user_status'' ''todos'', DropIndex ''ix_todos_user_due_at'' ''todos'',
        DropIndex ''ix_todos_user_archived'' ''todos'', DropTable ''todos'']\<rparr>"

definition rev_oauth_codes :: revision where
  "rev_oauth_codes = \<lparr>rv_id = ''e370ad374584'', rv_down = Some ''a284decc39f6'',
     rv_upgrade =
       [CreateTable ''oauth_authorization_codes''
          [col ''code_hash'' (StringT 64), col ''user_id'' IntegerT, col ''client_id'' (StringT 128),
           col ''redirect_uri'' (StringT 2048), col ''code_challenge'' (StringT 43), col ''expires_at'' DateTimeT]
          [Check ''ck_oauth_authorization_codes_client_id_not_empty'' ''char_length(client_id) > 0'',
           Check ''ck_oauth_authorization_codes_code_challenge_length'' ''char_length(code_challenge) = 43'',
           Check ''ck_oauth_authorization_codes_code_hash_length'' ''char_length(code_hash) = 64'',
           Check ''ck_oauth_authorization_codes_redirect_uri_not_empty'' ''char_length(redirect_uri) > 0'',
           ForeignKey ''fk_oauth_authorization_codes_user_id_users'' ''user_id'' ''users'',
           PrimaryKey ''pk_oauth_authorization_codes'' [''code_hash'']],
        CreateIndex ''ix_oauth_authorization_codes_expires_at'' ''oauth_authorization_codes'' [''expires_at''],
        CreateIndex ''ix_oauth_authorization_codes_user_id'' ''oauth_authorization_codes'' [''user_id'']],
     rv_downgrade =
       [DropIndex ''ix_oauth_authorization_codes_user_id'' ''oauth_authorization_codes'',
        DropIndex ''ix_oauth_authorization_codes_expires_at'' ''oauth_authorization_codes'',
        DropTable ''oauth_authorization_codes'']\<rparr>"

definition rev_consumed_codes :: revision where
  "rev_consumed_codes = \<lparr>rv_id = ''7e0b1c2d3a4f'', rv_down = Some ''e370ad374584'',
     rv_upgrade =
       [AddColumn ''oauth_authorization_codes'' (nullable_col ''consumed_at'' DateTimeT),
        AddColumn ''oauth_authorization_codes'' (default_col ''created_at'' DateTimeT Now),
        AddColumn ''oauth_authorization_codes'' (default_col ''updated_at'' DateTimeT Now),
        CreateConstraint ''oauth_authorization_codes''
          (Check ''ck_oauth_authorization_codes_expiration'' ''expires_at > created_at''),
        CreateConstraint ''oauth_authorization_codes''
          (Check ''ck_oauth_authorization_codes_consumption_window''
             ''consumed_at IS NULL OR (consumed_at >= created_at AND consumed_at <= expires_at)'')],
     rv_downgrade =
       [DropConstraint ''oauth_authorization_codes'' ''ck_oauth_authorization_codes_consumption_window'',
        DropConstraint ''oauth_authorization_codes'' ''ck_oauth_authorization_codes_expiration'',
        DropColumn ''oauth_authorization_codes'' ''updated_at'',
        DropColumn ''oauth_authorization_codes'' ''created_at'',
        DropColumn ''oauth_authorization_codes'' ''consumed_at'']\<rparr>"

definition rev_email_verification :: revision where
  "rev_email_verification = \<lparr>rv_id = ''8b2f4c6d7e8f'', rv_down = Some ''7e0b1c2d3a4f'',
     rv_upgrade =
       [AddColumn ''users'' (nullable_col ''email_verified_at'' DateTimeT),
        AddColumn ''users'' (nullable_col ''email_verification_token_hash'' (StringT 64)),
        AddColumn ''users'' (nullable_col ''email_verification_expires_at'' DateTimeT),
        AddColumn ''users'' (nullable_col ''email_verification_requested_at'' DateTimeT),
        CreateConstraint ''users''
          (Unique ''uq_users_email_verification_token_hash'' [''email_verification_token_hash'']),
        Execute (''UPDATE users SET email_verified_at = COALESCE(created_at, CURRENT_TIMESTAMP) '' @
                 ''WHERE email_verified_at IS NULL'')],
     rv_downgrade =
       [DropConstraint ''users'' ''uq_users_email_verification_token_hash'',
        DropColumn ''users'' ''email_verification_requested_at'',
        DropColumn ''users'' ''email_verification_expires_at'',
        DropColumn ''users'' ''email_verification_token_hash'',
        DropColumn ''users'' ''email_verified_at'']\<rparr>"

definition rev_archive_index :: revision where
  "rev_archive_index = \<lparr>rv_id = ''c9a7d2e5f104'', rv_down = Some ''8b2f4c6d7e8f'',
     rv_upgrade = [CreateIndex ''ix_todos_status_archived_completed_at'' ''todos''
                     [''status'', ''is_archived'', ''completed_at'']],
     rv_downgrade = [DropIndex ''ix_todos_status_archived_completed_at'' ''todos'']\<rparr>"

text \<open>The directory, in the order of its file names.\<close>

definition revisions :: "revision list" where
  "revisions = [rev_api_keys, rev_consumed_codes, rev_email_verification, rev_todos, rev_refresh_sessions,
     rev_archive_index, rev_rotation, rev_drop_email_index, rev_oauth_codes, rev_users, rev_session_checks]"

section \<open>Alembic\<close>

text \<open>A head is a revision that no other one revises; \<open>lineage\<close> is the path from a base to a revision.\<close>

definition heads :: "revision list \<Rightarrow> string list" where
  "heads rs = filter (\<lambda>i. \<not> list_ex (\<lambda>r. rv_down r = Some i) rs) (map rv_id rs)"

definition find_revision :: "revision list \<Rightarrow> string \<Rightarrow> revision option" where
  "find_revision rs i = find (\<lambda>r. rv_id r = i) rs"

fun lineage :: "nat \<Rightarrow> revision list \<Rightarrow> string \<Rightarrow> revision list option" where
  "lineage 0 rs i = None"
| "lineage (Suc n) rs i = (case find_revision rs i of
      None \<Rightarrow> None
    | Some r \<Rightarrow> (case rv_down r of
          None \<Rightarrow> Some [r]
        | Some j \<Rightarrow> map_option (\<lambda>ps. ps @ [r]) (lineage n rs j)))"

fun upgrade_all :: "string list \<Rightarrow> revision list \<Rightarrow> schema \<Rightarrow> schema option" where
  "upgrade_all populated [] s = Some s"
| "upgrade_all populated (r # rs) s =
     (case apply_operations populated (rv_upgrade r) s of
        None \<Rightarrow> None | Some s' \<Rightarrow> upgrade_all populated rs s')"

text \<open>\<^verbatim>\<open>alembic upgrade head\<close> on an empty database whose tables are filled as \<open>populated\<close> says.\<close>

definition upgrade_head :: "string list \<Rightarrow> schema option" where
  "upgrade_head populated = (case heads revisions of
      [h] \<Rightarrow> (case lineage (length revisions) revisions h of
          None \<Rightarrow> None | Some rs \<Rightarrow> upgrade_all populated rs [])
    | _ \<Rightarrow> None)"

section \<open>The schema of the mapped classes\<close>

text \<open>The naming convention of \<^verbatim>\<open>db/base.py\<close>.\<close>

definition pk_name :: "string \<Rightarrow> string" where
  "pk_name t = ''pk_'' @ t"

definition uq_name :: "string \<Rightarrow> string \<Rightarrow> string" where
  "uq_name t c = ''uq_'' @ t @ ''_'' @ c"

definition ck_name :: "string \<Rightarrow> string \<Rightarrow> string" where
  "ck_name t n = ''ck_'' @ t @ ''_'' @ n"

definition fk_name :: "string \<Rightarrow> string \<Rightarrow> string \<Rightarrow> string" where
  "fk_name t c r = ''fk_'' @ t @ ''_'' @ c @ ''_'' @ r"

definition ix_name :: "string \<Rightarrow> string \<Rightarrow> string" where
  "ix_name t c = ''ix_'' @ t @ ''_'' @ c"

definition owner_key :: "string \<Rightarrow> constraint" where
  "owner_key t = ForeignKey (fk_name t ''user_id'' ''users'') ''user_id'' ''users''"

definition user_table :: table_schema where
  "user_table = \<lparr>
     tb_columns =
       [col ''id'' IntegerT, col ''email'' (StringT 255), nullable_col ''full_name'' (StringT 150),
        col ''hashed_password'' (StringT 255), nullable_col ''email_verified_at'' DateTimeT,
        nullable_col ''email_verification_token_hash'' (StringT 64),
        nullable_col ''email_verification_expires_at'' DateTimeT,
        nullable_col ''email_verification_requested_at'' DateTimeT,
        default_col ''is_active'' BooleanT TrueD, default_col ''is_superuser'' BooleanT FalseD] @ timestamps,
     tb_constraints =
       [Unique ''uq_users_email'' [''email''], PrimaryKey (pk_name ''users'') [''id''],
        Unique (uq_name ''users'' ''email_verification_token_hash'') [''email_verification_token_hash'']],
     tb_indexes = []\<rparr>"

definition refresh_session_table :: table_schema where
  "refresh_session_table = \<lparr>
     tb_columns =
       [col ''id'' (StringT 64), col ''user_id'' IntegerT, col ''token_hash'' (StringT 64),
        nullable_col ''previous_token_hash'' (StringT 64), col ''expires_at'' DateTimeT,
        col ''absolute_expires_at'' DateTimeT, nullable_col ''revoked_at'' DateTimeT,
        nullable_col ''last_used_at'' DateTimeT, nullable_col ''rotated_at'' DateTimeT] @ timestamps,
     tb_constraints =
       [Check (ck_name ''refresh_sessions'' ''expiration'') ''expires_at > created_at'',
        Check (ck_name ''refresh_sessions'' ''absolute_expiration'') ''absolute_expires_at > created_at'',
        Check (ck_name ''refresh_sessions'' ''idle_before_absolute'') ''expires_at <= absolute_expires_at'',
        PrimaryKey (pk_name ''refresh_sessions'') [''id''], owner_key ''refresh_sessions'',
        Unique (uq_name ''refresh_sessions'' ''token_hash'') [''token_hash'']],
     tb_indexes =
       [(''ix_refresh_sessions_user_revoked'', [''user_id'', ''revoked_at'']),
        (''ix_refresh_sessions_expires_at'', [''expires_at'']),
        (''ix_refresh_sessions_absolute_expires_at'', [''absolute_expires_at''])]\<rparr>"

definition api_key_table :: table_schema where
  "api_key_table = \<lparr>
     tb_columns =
       [col ''id'' IntegerT, col ''user_id'' IntegerT, col ''name'' (StringT 100), col ''key_hash'' (StringT 64),
        default_col ''is_active'' BooleanT TrueD] @ timestamps,
     tb_constraints =
       [PrimaryKey (pk_name ''api_keys'') [''id''], owner_key ''api_keys'',
        Unique (uq_name ''api_keys'' ''key_hash'') [''key_hash'']],
     tb_indexes = [(ix_name ''api_keys'' ''user_id'', [''user_id''])]\<rparr>"

definition auth_code_table :: table_schema where
  "auth_code_table = \<lparr>
     tb_columns =
       [col ''code_hash'' (StringT 64), col ''user_id'' IntegerT, col ''client_id'' (StringT 128),
        col ''redirect_uri'' (StringT 2048), col ''code_challenge'' (StringT 43), col ''expires_at'' DateTimeT,
        nullable_col ''consumed_at'' DateTimeT] @ timestamps,
     tb_constraints =
       [Check (ck_name ''oauth_authorization_codes'' ''code_hash_length'') ''char_length(code_hash) = 64'',
        Check (ck_name ''oauth_authorization_codes'' ''code_challenge_length'') ''char_length(code_challenge) = 43'',
        Check (ck_name ''oauth_authorization_codes'' ''client_id_not_empty'') ''char_length(client_id) > 0'',
        Check (ck_name ''oauth_authorization_codes'' ''redirect_uri_not_empty'') ''char_length(redirect_uri) > 0'',
        Check (ck_name ''oauth_authorization_codes'' ''expiration'') ''expires_at > created_at'',
        Check (ck_name ''oauth_authorization_codes'' ''consumption_window'')
          ''consumed_at IS NULL OR (consumed_at >= created_at AND consumed_at <= expires_at)'',
        PrimaryKey (pk_name ''oauth_authorization_codes'') [''code_hash''], owner_key ''oauth_authorization_codes''],
     tb_indexes =
       [(''ix_oauth_authorization_codes_expires_at'', [''expires_at'']),
        (ix_name ''oauth_authorization_codes'' ''user_id'', [''user_id''])]\<rparr>"

definition todo_table :: table_schema where
  "todo_table = \<lparr>
     tb_columns =
       [col ''id'' IntegerT, col ''user_id'' IntegerT, col ''title'' (StringT 200),
        nullable_col ''description'' TextT,
        default_col ''status''
          (EnumT ''todo_status'' [''todo'', ''in_progress'', ''done'', ''cancelled''] 20) (TextD ''todo''),
        default_col ''priority''
          (EnumT ''todo_priority'' [''low'', ''medium'', ''high'', ''urgent''] 10) (TextD ''medium''),
        nullable_col ''due_at'' DateTimeT, nullable_col ''completed_at'' DateTimeT,
        default_col ''is_archived'' BooleanT FalseD] @ timestamps,
     tb_constraints =
       [Check (ck_name ''todos'' ''title_not_blank'') ''char_length(trim(title)) > 0'',
        Check (ck_name ''todos'' ''completion_state'')
          (''(status = '' @ quoted ''done'' @ '' AND completed_at IS NOT NULL) OR (status <> '' @
           quoted ''done'' @ '' AND completed_at IS NULL)''),
        PrimaryKey (pk_name ''todos'') [''id''], owner_key ''todos''],
     tb_indexes =
       [(''ix_todos_user_status'', [''user_id'', ''status'']),
        (''ix_todos_user_due_at'', [''user_id'', ''due_at'']),
        (''ix_todos_user_archived'', [''user_id'', ''is_archived'']),
        (''ix_todos_status_archived_completed_at'', [''status'', ''is_archived'', ''completed_at''])]\<rparr>"

definition metadata :: schema where
  "metadata = [(''users'', user_table), (''refresh_sessions'', refresh_session_table),
     (''api_keys'', api_key_table), (''oauth_authorization_codes'', auth_code_table), (''todos'', todo_table)]"

text \<open>Equality up to the order of tables, columns, constraints and indexes.\<close>

fun same_items :: "'a list \<Rightarrow> 'a list \<Rightarrow> bool" where
  "same_items [] ys \<longleftrightarrow> ys = []"
| "same_items (x # xs) ys \<longleftrightarrow> x \<in> set ys \<and> same_items xs (remove1 x ys)"

definition same_table :: "table_schema \<Rightarrow> table_schema \<Rightarrow> bool" where
  "same_table a b \<longleftrightarrow> same_items (tb_columns a) (tb_columns b) \<and>
     same_items (tb_constraints a) (tb_constraints b) \<and> same_items (tb_indexes a) (tb_indexes b)"

definition same_schema :: "schema \<Rightarrow> schema \<Rightarrow> bool" where
  "same_schema a b \<longleftrightarrow> same_items (map fst a) (map fst b) \<and>
     list_all (\<lambda>e. case map_of b (fst e) of None \<Rightarrow> False | Some t \<Rightarrow> same_table (snd e) t) a"

section \<open>Walking up and down\<close>

text \<open>The downgrade of every revision takes back exactly what its upgrade did.\<close>

fun undone :: "revision list \<Rightarrow> schema \<Rightarrow> bool" where
  "undone [] s \<longleftrightarrow> True"
| "undone (r # rs) s \<longleftrightarrow> (case apply_operations [] (rv_upgrade r) s of
      None \<Rightarrow> False
    | Some s' \<Rightarrow> apply_operations [] (rv_downgrade r) s' = Some s \<and> undone rs s')"

text \<open>The tables that must be empty for an operation to succeed.\<close>

fun demands :: "operation \<Rightarrow> string option" where
  "demands (AddColumn n c) = (if co_nullable c \<or> co_default c \<noteq> None then None else Some n)"
| "demands _ = None"

lemma on_table_None [simp]: "on_table n (\<lambda>t. None) s = None"
  by (simp add: on_table_def split: option.split)

definition blocked :: "string list \<Rightarrow> operation list \<Rightarrow> bool" where
  "blocked populated xs \<longleftrightarrow> list_ex (\<lambda>n. n \<in> set populated) (List.map_filter demands xs)"

lemma blocked_simps [simp]:
  "\<not> blocked populated []"
  "blocked populated (x # xs) \<longleftrightarrow> (case demands x of None \<Rightarrow> False | Some n \<Rightarrow> n \<in> set populated) \<or> blocked populated xs"
  "blocked populated (xs @ ys) \<longleftrightarrow> blocked populated xs \<or> blocked populated ys"
  by (auto simp: blocked_def List.map_filter_def split: option.split)

lemma apply_operation_populated:
  "apply_operation populated x s =
     (case demands x of None \<Rightarrow> apply_operation [] x s
      | Some n \<Rightarrow> if n \<in> set populated then None else apply_operation [] x s)"
  by (cases x) (auto cong: if_cong)

lemma apply_operations_populated:
  "apply_operations populated xs s = (if blocked populated xs then None else apply_operations [] xs s)"
  by (induction xs arbitrary: s)
    (simp_all add: apply_operation_populated [of populated] split: option.split)

lemma upgrade_all_populated:
  "upgrade_all populated rs s =
     (if blocked populated (concat (map rv_upgrade rs)) then None else upgrade_all [] rs s)"
  by (induction rs arbitrary: s) (simp_all add: apply_operations_populated [of populated] split: option.split)

definition history :: "revision list" where
  "history = [rev_users, rev_api_keys, rev_refresh_sessions, rev_drop_email_index, rev_rotation,
     rev_session_checks, rev_todos, rev_oauth_codes, rev_consumed_codes, rev_email_verification,
     rev_archive_index]"

lemma single_head: "heads revisions = [''c9a7d2e5f104'']"
  by code_simp

lemma lineage_of_head: "lineage (length revisions) revisions ''c9a7d2e5f104'' = Some history"
  by code_simp

lemma history_demands: "List.map_filter demands (concat (map rv_upgrade history)) = [''refresh_sessions'']"
  by code_simp

lemma upgrade_head_populated:
  "upgrade_head populated = (if ''refresh_sessions'' \<in> set populated then None else upgrade_all [] history [])"
  by (simp add: upgrade_head_def single_head lineage_of_head upgrade_all_populated [of populated] blocked_def
      history_demands)


section \<open>Rows\<close>

text \<open>
  What the two revisions that touch rows make of them: the new columns of stored codes, and the
  \<^verbatim>\<open>UPDATE\<close> of the users.
\<close>

definition retained_code :: "time \<Rightarrow> auth_code \<Rightarrow> auth_code" where
  "retained_code now c = c\<lparr>c_consumed_at := None, c_created_at := now, c_updated_at := now\<rparr>"

definition backfill_verified :: "time \<Rightarrow> user \<Rightarrow> user" where
  "backfill_verified now u = (if u_email_verified_at u = None
     then u\<lparr>u_email_verified_at := Some (u_created_at u)\<rparr> else u)"

text \<open>The upgrade to \<^verbatim>\<open>7e0b1c2d3a4f\<close> on stored codes; \<open>Some k\<close> names the constraint that stops it.\<close>

definition retain_codes :: "time \<Rightarrow> auth_code list \<Rightarrow> string option" where
  "retain_codes now cs = (let cs' = map (retained_code now) cs in first_some
     [unless (list_all (\<lambda>c. c_created_at c < c_expires_at c) cs') ''ck_oauth_authorization_codes_expiration'',
      unless (list_all code_check_consumption cs') ''ck_oauth_authorization_codes_consumption_window''])"

lemma retain_codes_succeeds_iff: "retain_codes now cs = None \<longleftrightarrow> list_all (\<lambda>c. now < c_expires_at c) cs"
  by (auto simp: retain_codes_def retained_code_def first_some_None_iff code_check_consumption_def list_all_iff
      Let_def)

lemma backfilled_accounts_are_verified: "is_email_verified (backfill_verified now u)"
  by (auto simp: is_email_verified_def backfill_verified_def)

end
