(* ===== verification/Lifespan.thy ===== *)
theory Lifespan
  imports Worker Maintenance
begin

text \<open>
  \<^verbatim>\<open>app.py\<close>, \<^verbatim>\<open>core/cache.py\<close> and \<^verbatim>\<open>background/\<close>: what a process acquires when the application starts and
  gives back when it stops, the jobs of the scheduler, and the periodic tasks of Celery with
  their queues.
\<close>

section \<open>The resources of a process\<close>

datatype cache_backend = InMemory | RedisBackend

record process =
  pr_slot :: slot
  pr_scheduler :: bool \<comment> \<open>the scheduler runs\<close>
  pr_cache :: "cache_backend option" \<comment> \<open>the global state of the cache library\<close>
  pr_redis :: bool \<comment> \<open>the cache has an open Redis client\<close>
  pr_engine :: bool \<comment> \<open>the engine may hold connections\<close>

text \<open>
  The calls into libraries and what they raise, by the name of the exception. Those of the
  scheduler and of Redis fail when their server does.
\<close>

record calls =
  cs_ping :: "string option"
  cs_jobstore :: "string option"
  cs_start :: "string option"
  cs_from_url :: "string option"
  cs_serving :: "string option"
  cs_shutdown :: "string option"
  cs_clear :: "string option"
  cs_aclose :: "string option"
  cs_dispose :: "string option"

type_synonym 'p phase = "'p \<Rightarrow> string option \<times> 'p"

definition skip :: "'p phase" where
  "skip p = (None, p)"

text \<open>A call that succeeds has its effect; one that raises has none.\<close>

definition attempt :: "string option \<Rightarrow> ('p \<Rightarrow> 'p) \<Rightarrow> 'p phase" where
  "attempt failure effect p = (case failure of None \<Rightarrow> (None, effect p) | Some e \<Rightarrow> (Some e, p))"

definition andthen :: "'p phase \<Rightarrow> 'p phase \<Rightarrow> 'p phase" where
  "andthen a b p = (case a p of (None, q) \<Rightarrow> b q | (Some e, q) \<Rightarrow> (Some e, q))"

text \<open>\<^verbatim>\<open>try: a finally: b\<close>: an exception of \<open>b\<close> replaces one of \<open>a\<close>.\<close>

definition try_finally :: "'p phase \<Rightarrow> 'p phase \<Rightarrow> 'p phase" where
  "try_finally a b p = (case a p of (r, q) \<Rightarrow>
     (case b q of (None, q') \<Rightarrow> (r, q') | (Some e, q') \<Rightarrow> (Some e, q')))"

section \<open>The cache\<close>

definition initialize_cache :: "calls \<Rightarrow> bool \<Rightarrow> process phase" where
  "initialize_cache cs in_memory p =
     (let p = p\<lparr>pr_cache := None\<rparr> in
      if in_memory then (None, p\<lparr>pr_cache := Some InMemory\<rparr>)
      else attempt (cs_from_url cs) (\<lambda>p. p\<lparr>pr_redis := True, pr_cache := Some RedisBackend\<rparr>) p)"

text \<open>\<^verbatim>\<open>get_backend\<close> asserts that the cache is initialised, before the \<^verbatim>\<open>try\<close>.\<close>

definition close_cache :: "calls \<Rightarrow> process phase" where
  "close_cache cs p = (case pr_cache p of
      None \<Rightarrow> (Some ''AssertionError'', p)
    | Some backend \<Rightarrow>
        try_finally (if backend = InMemory then attempt (cs_clear cs) id else skip)
          (try_finally
             (if backend = RedisBackend then attempt (cs_aclose cs) (\<lambda>p. p\<lparr>pr_redis := False\<rparr>) else skip)
             (\<lambda>p. (None, p\<lparr>pr_cache := None\<rparr>))) p)"

section \<open>The life span of the application\<close>

text \<open>\<^verbatim>\<open>create_scheduler\<close> takes the slot before the job store may fail.\<close>

definition make_scheduler :: "calls \<Rightarrow> nat \<Rightarrow> process phase" where
  "make_scheduler cs database p =
     attempt (cs_jobstore cs) id (p\<lparr>pr_slot := create_scheduler database (pr_slot p)\<rparr>)"

definition startup :: "calls \<Rightarrow> bool \<Rightarrow> nat \<Rightarrow> process phase" where
  "startup cs in_memory database =
     andthen (attempt (cs_ping cs) (\<lambda>p. p\<lparr>pr_engine := True\<rparr>))
       (andthen (make_scheduler cs database)
         (andthen (attempt (cs_start cs) (\<lambda>p. p\<lparr>pr_scheduler := True\<rparr>))
           (initialize_cache cs in_memory)))"

definition teardown :: "calls \<Rightarrow> nat \<Rightarrow> process phase" where
  "teardown cs database =
     andthen (attempt (cs_shutdown cs) (\<lambda>p. p\<lparr>pr_scheduler := False\<rparr>))
       (andthen (\<lambda>p. (None, p\<lparr>pr_slot := release_scheduler_database database (pr_slot p)\<rparr>))
         (try_finally (close_cache cs) (attempt (cs_dispose cs) (\<lambda>p. p\<lparr>pr_engine := False\<rparr>))))"

definition lifespan :: "calls \<Rightarrow> bool \<Rightarrow> nat \<Rightarrow> process phase" where
  "lifespan cs in_memory database =
     andthen (startup cs in_memory database)
       (try_finally (attempt (cs_serving cs) id) (teardown cs database))"

definition idle_process :: process where
  "idle_process = \<lparr>pr_slot = None, pr_scheduler = False, pr_cache = None, pr_redis = False, pr_engine = False\<rparr>"

lemmas phase_defs = lifespan_def startup_def teardown_def make_scheduler_def initialize_cache_def close_cache_def
  andthen_def try_finally_def attempt_def skip_def create_scheduler_def release_scheduler_database_def

text \<open>The cache is reset even when closing its backend fails.\<close>

lemma close_cache_resets: "pr_cache p \<noteq> None \<Longrightarrow> pr_cache (snd (close_cache cs p)) = None"
  by (auto simp: close_cache_def try_finally_def attempt_def skip_def Let_def split: option.splits prod.splits)

text \<open>A stopped application never takes the slot of another one.\<close>

lemma release_spares_others: "d \<noteq> d' \<Longrightarrow> release_scheduler_database d (create_scheduler d' slot) = Some d'"
  by (simp add: release_scheduler_database_def create_scheduler_def)

definition started :: "calls \<Rightarrow> bool \<Rightarrow> bool" where
  "started cs in_memory \<longleftrightarrow> cs_ping cs = None \<and> cs_jobstore cs = None \<and> cs_start cs = None \<and>
     (in_memory \<or> cs_from_url cs = None)"

definition up :: "bool \<Rightarrow> nat \<Rightarrow> process" where
  "up in_memory database = \<lparr>pr_slot = Some database, pr_scheduler = True,
     pr_cache = Some (if in_memory then InMemory else RedisBackend), pr_redis = (\<not> in_memory), pr_engine = True\<rparr>"

lemma startup_started:
  "started cs m \<Longrightarrow> startup cs m d idle_process = (None, up m d)"
  by (auto simp: started_def startup_def make_scheduler_def initialize_cache_def andthen_def attempt_def
      create_scheduler_def idle_process_def up_def Let_def)

text \<open>A start that fails keeps what it has acquired so far.\<close>

lemma startup_failed:
  "\<not> started cs m \<Longrightarrow> \<exists>e. startup cs m d idle_process = (Some e, \<lparr>
     pr_slot = (if cs_ping cs = None then Some d else None),
     pr_scheduler = (cs_ping cs = None \<and> cs_jobstore cs = None \<and> cs_start cs = None),
     pr_cache = None, pr_redis = False, pr_engine = (cs_ping cs = None)\<rparr>)"
  by (auto simp: started_def startup_def make_scheduler_def initialize_cache_def andthen_def attempt_def
      create_scheduler_def idle_process_def split: option.splits)

definition given_back :: "calls \<Rightarrow> bool \<Rightarrow> process" where
  "given_back cs in_memory = \<lparr>pr_slot = None, pr_scheduler = False, pr_cache = None,
     pr_redis = (\<not> in_memory \<and> cs_aclose cs \<noteq> None), pr_engine = (cs_dispose cs \<noteq> None)\<rparr>"

lemma teardown_up:
  "snd (teardown cs d (up m d)) = (if cs_shutdown cs = None then given_back cs m else up m d)"
  by (cases "cs_clear cs"; cases "cs_aclose cs"; cases "cs_dispose cs"; cases m)
    (auto simp: teardown_def close_cache_def andthen_def try_finally_def attempt_def skip_def up_def given_back_def
      release_scheduler_database_def split: option.split)

lemma teardown_quiet: "fst (teardown cs d (up m d)) = None \<longleftrightarrow>
    cs_shutdown cs = None \<and> (if m then cs_clear cs else cs_aclose cs) = None \<and> cs_dispose cs = None"
  by (cases "cs_clear cs"; cases "cs_aclose cs"; cases "cs_dispose cs"; cases m)
    (auto simp: teardown_def close_cache_def andthen_def try_finally_def attempt_def skip_def up_def
      release_scheduler_database_def split: option.split)

lemma try_finally_parts:
  "snd (try_finally a b p) = snd (b (snd (a p)))"
  "fst (try_finally a b p) = None \<longleftrightarrow> fst (a p) = None \<and> fst (b (snd (a p))) = None"
  by (auto simp: try_finally_def split: prod.split option.split)

lemma attempt_parts: "snd (attempt e id p) = p" "fst (attempt e id p) = e"
  by (simp_all add: attempt_def split: option.split)

text \<open>
  C40. Once it has started, an application gives everything back: however its serving ends, and
  whatever clearing the cache, closing Redis or disposing of the engine raises, the slot is
  free, the scheduler stopped, the cache reset, and each of the two clients closed unless its
  own closing failed. Only a scheduler that refuses to stop keeps the rest from being given
  back. A start that fails after the database has answered, on the other hand, gives back
  nothing: the engine and the slot stay, and so does a scheduler that already runs. The life
  span ends without an exception exactly when no call raised one.
\<close>

theorem lifespan_gives_back:
  "snd (lifespan cs m d idle_process) =
     (if started cs m then if cs_shutdown cs = None then given_back cs m else up m d
      else \<lparr>pr_slot = (if cs_ping cs = None then Some d else None),
        pr_scheduler = (cs_ping cs = None \<and> cs_jobstore cs = None \<and> cs_start cs = None),
        pr_cache = None, pr_redis = False, pr_engine = (cs_ping cs = None)\<rparr>) \<and>
   (fst (lifespan cs m d idle_process) = None \<longleftrightarrow>
      started cs m \<and> cs_serving cs = None \<and> cs_shutdown cs = None \<and>
      (if m then cs_clear cs else cs_aclose cs) = None \<and> cs_dispose cs = None)"
proof (cases "started cs m")
  case True
  then have "lifespan cs m d idle_process = try_finally (attempt (cs_serving cs) id) (teardown cs d) (up m d)"
    by (simp add: lifespan_def andthen_def startup_started)
  with True show ?thesis by (simp add: try_finally_parts attempt_parts teardown_up teardown_quiet)
next
  case False
  from startup_failed [OF False] obtain e where "startup cs m d idle_process = (Some e, \<lparr>
     pr_slot = (if cs_ping cs = None then Some d else None),
     pr_scheduler = (cs_ping cs = None \<and> cs_jobstore cs = None \<and> cs_start cs = None),
     pr_cache = None, pr_redis = False, pr_engine = (cs_ping cs = None)\<rparr>)" by blast
  with False show ?thesis by (simp add: lifespan_def andthen_def)
qed

end
