(* ===== verification/Jobs.thy ===== *)
theory Jobs
  imports Lifespan Mail
begin

text \<open>
  The periodic work: \<^verbatim>\<open>background/scheduler.py\<close> runs two jobs in the API process,
  \<^verbatim>\<open>background/celery_app.py\<close> sends two tasks to a maintenance worker
  (\<^verbatim>\<open>background/tasks/maintenance.py\<close>) and names the queues of all tasks.
\<close>

section \<open>The scheduler in the API process\<close>

text \<open>A job runs on the database of the application that holds the slot.\<close>

definition with_scheduler_database :: "slot \<Rightarrow> int act \<Rightarrow> unit act" where
  "with_scheduler_database slot job = (case get_scheduler_database slot of
      Inl e \<Rightarrow> raise e
    | Inr _ \<Rightarrow> bnd job (\<lambda>_. ret ()))"

definition run_oauth_authorization_code_pruning :: "slot \<Rightarrow> unit act" where
  "run_oauth_authorization_code_pruning slot = with_scheduler_database slot (run_job PruneCodes)"

definition run_refresh_session_pruning :: "slot \<Rightarrow> unit act" where
  "run_refresh_session_pruning slot = with_scheduler_database slot (run_job PruneSessions)"

record interval_job =
  ij_id :: string
  ij_run :: "slot \<Rightarrow> unit act"
  ij_seconds :: nat
  ij_misfire_grace :: nat

definition scheduled_jobs :: "interval_job list" where
  "scheduled_jobs =
     [\<lparr>ij_id = ''prune-oauth-authorization-codes'', ij_run = run_oauth_authorization_code_pruning,
       ij_seconds = 5 * 60, ij_misfire_grace = 60\<rparr>,
      \<lparr>ij_id = ''prune-refresh-sessions'', ij_run = run_refresh_session_pruning,
       ij_seconds = 10, ij_misfire_grace = 300\<rparr>]"

lemma no_job_outside_lifespan:
  "list_all (\<lambda>j. ij_run j None w = (Inl RuntimeErr, w)) scheduled_jobs"
  by (simp add: scheduled_jobs_def run_oauth_authorization_code_pruning_def run_refresh_session_pruning_def
      with_scheduler_database_def get_scheduler_database_def raise_def)

section \<open>Celery\<close>

definition CLEAR_TASK :: string where
  "CLEAR_TASK = ''todo_api.maintenance.clear_expired_email_verification_tokens''"

definition ARCHIVE_TASK :: string where
  "ARCHIVE_TASK = ''todo_api.maintenance.auto_archive_completed_todos''"

definition celery_tasks :: "string list" where
  "celery_tasks = [VERIFICATION_TASK, WELCOME_TASK, CLEAR_TASK, ARCHIVE_TASK]"

text \<open>Periods in seconds; \<^verbatim>\<open>crontab(hour=2, minute=30)\<close> is once a day.\<close>

record beat_entry =
  be_name :: string
  be_task :: string
  be_period :: nat
  be_queue :: string
  be_expires :: nat

definition beat_schedule :: "beat_entry list" where
  "beat_schedule =
     [\<lparr>be_name = ''clear-expired-email-verification-tokens'', be_task = CLEAR_TASK, be_period = 30,
       be_queue = ''maintenance'', be_expires = 25\<rparr>,
      \<lparr>be_name = ''auto-archive-completed-todos'', be_task = ARCHIVE_TASK, be_period = 24 * 60 * 60,
       be_queue = ''maintenance'', be_expires = 82800\<rparr>]"

definition task_routes :: "(string \<times> string) list" where
  "task_routes = [(''todo_api.email.*'', ''emails''), (''todo_api.maintenance.*'', ''maintenance'')]"

definition task_default_queue :: string where
  "task_default_queue = ''default''"

text \<open>A pattern of the routes ends in a star: Celery takes the first that the name of the task fits.\<close>

definition route_fits :: "string \<Rightarrow> string \<Rightarrow> bool" where
  "route_fits pattern task = (if pattern \<noteq> [] \<and> last pattern = CHR ''*''
     then take (length pattern - 1) task = butlast pattern else task = pattern)"

definition queue_of :: "string \<Rightarrow> string" where
  "queue_of task = (case find (\<lambda>r. route_fits (fst r) task) task_routes of
      Some r \<Rightarrow> snd r | None \<Rightarrow> task_default_queue)"

text \<open>No task ends in the default queue.\<close>

lemma tasks_routed: "map queue_of celery_tasks = [''emails'', ''emails'', ''maintenance'', ''maintenance'']"
  by code_simp

text \<open>
  Every periodic task is one that the workers declare, goes to the queue that its entry names, and an
  unhandled message has expired before the next one is sent.
\<close>

lemma beat_schedule_consistent:
  "list_all (\<lambda>e. be_task e \<in> set celery_tasks \<and> queue_of (be_task e) = be_queue e \<and> be_expires e < be_period e)
     beat_schedule"
proof -
  have "queue_of CLEAR_TASK = ''maintenance''" "queue_of ARCHIVE_TASK = ''maintenance''"
    using tasks_routed by (simp_all add: celery_tasks_def)
  then show ?thesis by (simp add: beat_schedule_def celery_tasks_def)
qed

subsection \<open>Retries\<close>

text \<open>
  \<^verbatim>\<open>autoretry_for\<close> with \<^verbatim>\<open>max_retries\<close>: an exception of the named classes runs the task again, as long
  as retries are left; \<open>outcomes\<close> says what each run ends with. The result comes with the number of
  runs.
\<close>

record task_options =
  to_retries :: "exn \<Rightarrow> bool"
  to_backoff :: nat
  to_max_retries :: nat

definition EMAIL_TASK_OPTIONS :: task_options where
  "EMAIL_TASK_OPTIONS = \<lparr>to_retries = (\<lambda>e. case e of
       AppErr c \<Rightarrow> isinstance c (Email_Error EmailServiceUnavailableError) | _ \<Rightarrow> False),
     to_backoff = 2, to_max_retries = 5\<rparr>"

definition MAINTENANCE_TASK_OPTIONS :: task_options where
  "MAINTENANCE_TASK_OPTIONS = \<lparr>to_retries = is_sqlalchemy_error, to_backoff = 5, to_max_retries = 3\<rparr>"

fun run_with_retries :: "task_options \<Rightarrow> nat \<Rightarrow> (nat \<Rightarrow> exn + 'a) \<Rightarrow> nat \<Rightarrow> (exn + 'a) \<times> nat" where
  "run_with_retries opts left outcomes i = (case outcomes i of
      Inr x \<Rightarrow> (Inr x, Suc i)
    | Inl e \<Rightarrow> (case left of
        0 \<Rightarrow> (Inl e, Suc i)
      | Suc n \<Rightarrow> if to_retries opts e then run_with_retries opts n outcomes (Suc i) else (Inl e, Suc i)))"

declare run_with_retries.simps [simp del]

definition run_task :: "task_options \<Rightarrow> (nat \<Rightarrow> exn + 'a) \<Rightarrow> (exn + 'a) \<times> nat" where
  "run_task opts outcomes = run_with_retries opts (to_max_retries opts) outcomes 0"

lemma retries_bounds:
  "run_with_retries opts left outcomes i = (r, n) \<Longrightarrow> i < n \<and> n \<le> i + left + 1 \<and> r = outcomes (n - 1) \<and>
     (\<forall>j. i \<le> j \<longrightarrow> j + 1 < n \<longrightarrow> (\<exists>e. outcomes j = Inl e \<and> to_retries opts e))"
proof (induction left arbitrary: i)
  case 0
  then show ?case by (subst (asm) run_with_retries.simps) (auto split: sum.splits)
next
  case (Suc left)
  show ?case
  proof (cases "\<exists>e. outcomes i = Inl e \<and> to_retries opts e")
    case True
    then obtain e where e: "outcomes i = Inl e" "to_retries opts e" by blast
    with Suc.prems have "run_with_retries opts left outcomes (Suc i) = (r, n)"
      by (subst (asm) run_with_retries.simps) simp
    from Suc.IH [OF this] have ih: "Suc i < n" "n \<le> Suc i + left + 1" "r = outcomes (n - 1)"
      "\<And>j. Suc i \<le> j \<Longrightarrow> j + 1 < n \<Longrightarrow> \<exists>e. outcomes j = Inl e \<and> to_retries opts e" by blast+
    have "\<exists>e. outcomes j = Inl e \<and> to_retries opts e" if "i \<le> j" "j + 1 < n" for j
      using that ih(4) [of j] e by (cases "j = i") auto
    with ih(1-3) show ?thesis by simp
  next
    case False
    with Suc.prems show ?thesis by (subst (asm) run_with_retries.simps) (auto split: sum.splits if_splits)
  qed
qed

subsection \<open>The maintenance tasks\<close>

text \<open>
  A task runs its job on the database of the worker's runtime; a factory that fails keeps the
  job from running.
\<close>

definition maintenance_task ::
  "string \<Rightarrow> exn option \<Rightarrow> job \<Rightarrow> runtime \<times> world \<Rightarrow> (exn + string \<times> int) \<times> runtime \<times> world" where
  "maintenance_task operation factory j = (\<lambda>(st, w).
     if rt_database (initialize st) = None \<and> factory \<noteq> None
     then (Inl (the factory), initialize st, w)
     else
       (case run_job j w of (r, w') \<Rightarrow>
         (case run factory r st of
            (Inl e, st') \<Rightarrow> (Inl e, st', w')
          | (Inr n, st') \<Rightarrow> (Inr (operation, n), st', w'))))"

definition clear_tokens_task :: "exn option \<Rightarrow> runtime \<times> world \<Rightarrow> (exn + string \<times> int) \<times> runtime \<times> world" where
  "clear_tokens_task factory = maintenance_task ''clear_expired_email_verification_tokens'' factory ClearTokens"

definition archive_todos_task ::
  "settings \<Rightarrow> exn option \<Rightarrow> runtime \<times> world \<Rightarrow> (exn + string \<times> int) \<times> runtime \<times> world" where
  "archive_todos_task s factory = maintenance_task ''auto_archive_completed_todos'' factory
     (ArchiveTodos (completed_todo_auto_archive_days s))"

end
