(* ===== verification/Metrics.thy ===== *)
theory Metrics
  imports Observability
begin

text \<open>
  \<^verbatim>\<open>observability/metrics.py\<close>: the declared metrics with their labels and buckets, the children
  that exist from the start, and what the program's calls of a metric do to a registry. The
  calls of \<^verbatim>\<open>middleware.py\<close> and \<^verbatim>\<open>database.py\<close> are given by the metric and the labels they name.
\<close>

section \<open>Declarations\<close>

text \<open>Bounds of histograms, times in tenths of a millisecond.\<close>

definition HTTP_DURATION_BUCKETS :: "nat list" where
  "HTTP_DURATION_BUCKETS = [50, 100, 250, 500, 1000, 2500, 5000, 10000, 25000, 50000, 100000]"

definition DB_DURATION_BUCKETS :: "nat list" where
  "DB_DURATION_BUCKETS = [10, 25, 50, 100, 250, 500, 1000, 2500, 5000, 10000, 25000, 50000]"

definition SIZE_BUCKETS :: "nat list" where
  "SIZE_BUCKETS = [100, 1000, 10000, 100000, 1000000, 10000000]"

datatype metric_kind = Counter | Gauge | Histogram "nat list" | Info

record metric =
  mt_name :: string
  mt_kind :: metric_kind
  mt_labels :: "string list"

definition metric :: "string \<Rightarrow> metric_kind \<Rightarrow> string list \<Rightarrow> metric" where
  "metric n k ls = \<lparr>mt_name = ''todo_api_'' @ n, mt_kind = k, mt_labels = ls\<rparr>"

text \<open>\<^verbatim>\<open>AppMetrics\<close>: the attributes of the record of metrics.\<close>

datatype app_metric =
    build_info | http_requests_total | http_request_duration_seconds | http_request_size_bytes
  | http_response_size_bytes | http_requests_in_progress | http_exceptions_total | db_queries_total
  | db_query_duration_seconds | db_queries_in_progress | db_pool_events_total | db_pool_connections
  | db_pool_timeouts_total | auth_attempts_total | user_registrations_total

fun create_metrics :: "app_metric \<Rightarrow> metric" where
  "create_metrics build_info = metric ''build'' Info []"
| "create_metrics http_requests_total = metric ''http_requests_total'' Counter [''method'', ''route'', ''status_code'']"
| "create_metrics http_request_duration_seconds =
     metric ''http_request_duration_seconds'' (Histogram HTTP_DURATION_BUCKETS) [''method'', ''route'']"
| "create_metrics http_request_size_bytes =
     metric ''http_request_size_bytes'' (Histogram SIZE_BUCKETS) [''method'', ''route'']"
| "create_metrics http_response_size_bytes =
     metric ''http_response_size_bytes'' (Histogram SIZE_BUCKETS) [''method'', ''route'']"
| "create_metrics http_requests_in_progress = metric ''http_requests_in_progress'' Gauge [''method'']"
| "create_metrics http_exceptions_total =
     metric ''http_exceptions_total'' Counter [''method'', ''route'', ''exception_type'']"
| "create_metrics db_queries_total = metric ''db_queries_total'' Counter [''operation'', ''outcome'']"
| "create_metrics db_query_duration_seconds =
     metric ''db_query_duration_seconds'' (Histogram DB_DURATION_BUCKETS) [''operation'']"
| "create_metrics db_queries_in_progress = metric ''db_queries_in_progress'' Gauge [''operation'']"
| "create_metrics db_pool_events_total = metric ''db_pool_events_total'' Counter [''event'']"
| "create_metrics db_pool_connections = metric ''db_pool_connections'' Gauge [''state'']"
| "create_metrics db_pool_timeouts_total = metric ''db_pool_timeouts_total'' Counter []"
| "create_metrics auth_attempts_total = metric ''auth_attempts_total'' Counter [''mechanism'', ''outcome'']"
| "create_metrics user_registrations_total = metric ''user_registrations_total'' Counter [''outcome'']"

definition all_metrics :: "app_metric list" where
  "all_metrics = [build_info, http_requests_total, http_request_duration_seconds, http_request_size_bytes,
     http_response_size_bytes, http_requests_in_progress, http_exceptions_total, db_queries_total,
     db_query_duration_seconds, db_queries_in_progress, db_pool_events_total, db_pool_connections,
     db_pool_timeouts_total, auth_attempts_total, user_registrations_total]"

section \<open>Calls\<close>

text \<open>\<^verbatim>\<open>m.labels(...)\<close>: the client library refuses labels other than the declared ones.\<close>

type_synonym child = "app_metric \<times> (string \<times> string) list"

definition labels :: "app_metric \<Rightarrow> (string \<times> string) list \<Rightarrow> child option" where
  "labels m kvs = (if set (map fst kvs) = set (mt_labels (create_metrics m)) \<and> distinct (map fst kvs)
     then Some (m, kvs) else None)"

definition OPERATIONS :: "string list" where
  "OPERATIONS = [''SELECT'', ''INSERT'', ''UPDATE'', ''DELETE'', ''MERGE'', ''DDL'', ''OTHER'']"

text \<open>The children that exist before any statement runs.\<close>

definition initial_children :: "child option list" where
  "initial_children = concat (map (\<lambda>operation.
     [labels db_query_duration_seconds [(''operation'', operation)],
      labels db_queries_in_progress [(''operation'', operation)]] @
     map (\<lambda>outcome. labels db_queries_total [(''operation'', operation), (''outcome'', outcome)])
       [''success'', ''error'']) OPERATIONS)"

definition record_auth_attempt :: "string \<Rightarrow> string \<Rightarrow> child option" where
  "record_auth_attempt mechanism outcome =
     labels auth_attempts_total [(''mechanism'', mechanism), (''outcome'', outcome)]"

definition record_registration :: "string \<Rightarrow> child option" where
  "record_registration outcome = labels user_registrations_total [(''outcome'', outcome)]"

definition call_children :: "string \<Rightarrow> string \<Rightarrow> string \<Rightarrow> string \<Rightarrow> child option list" where
  "call_children method route status_code exception_type =
     [labels http_requests_in_progress [(''method'', method)],
      labels http_exceptions_total
        [(''method'', method), (''route'', route), (''exception_type'', exception_type)],
      labels http_requests_total [(''method'', method), (''route'', route), (''status_code'', status_code)],
      labels http_request_duration_seconds [(''method'', method), (''route'', route)],
      labels http_request_size_bytes [(''method'', method), (''route'', route)],
      labels http_response_size_bytes [(''method'', method), (''route'', route)]]"

definition statement_children :: "string \<Rightarrow> string \<Rightarrow> child option list" where
  "statement_children operation outcome =
     [labels db_queries_in_progress [(''operation'', operation)],
      labels db_queries_total [(''operation'', operation), (''outcome'', outcome)],
      labels db_query_duration_seconds [(''operation'', operation)]]"

definition pool_children :: "string \<Rightarrow> string \<Rightarrow> child option list" where
  "pool_children event' state' =
     [labels db_pool_events_total [(''event'', event')], labels db_pool_connections [(''state'', state')]]"

text \<open>No call of a metric can fail, whatever the values of its labels.\<close>

lemma calls_name_declared_labels:
  "None \<notin> set (initial_children @ call_children method route status_code exception_type @
     statement_children operation outcome @ pool_children event' state' @
     [record_auth_attempt mechanism outcome, record_registration outcome])"
  by (auto simp: initial_children_def OPERATIONS_def call_children_def statement_children_def pool_children_def
      record_auth_attempt_def record_registration_def labels_def metric_def)

text \<open>A statement adds no child: those of its operation exist from the start.\<close>

lemma operation_known: "operation_of sql visit_name \<in> set OPERATIONS"
  by (auto simp: operation_of_def KNOWN_OPERATIONS_def OPERATIONS_def)

lemma statements_add_no_child:
  "outcome \<in> {''success'', ''error''} \<Longrightarrow>
     set (statement_children (operation_of sql visit_name) outcome) \<subseteq> set initial_children"
  using operation_known [of sql visit_name] by (auto simp: statement_children_def initial_children_def)

text \<open>Names are distinct, and buckets increase.\<close>

definition buckets_increase :: "metric \<Rightarrow> bool" where
  "buckets_increase m = (case mt_kind m of Histogram bs \<Rightarrow> sorted bs \<and> distinct bs | _ \<Rightarrow> True)"

lemma metrics_well_formed:
  "distinct (map (mt_name \<circ> create_metrics) all_metrics) \<and>
   list_all (buckets_increase \<circ> create_metrics) all_metrics \<and> m \<in> set all_metrics"
  by (cases m) (simp_all add: all_metrics_def buckets_increase_def metric_def HTTP_DURATION_BUCKETS_def
      DB_DURATION_BUCKETS_def SIZE_BUCKETS_def)

text \<open>An observation counts in every bucket whose bound it does not exceed; the last has no bound.\<close>

fun observe :: "nat list \<Rightarrow> nat \<Rightarrow> nat list \<Rightarrow> nat list" where
  "observe (b # bs) x (n # ns) = (if x \<le> b then Suc n else n) # observe bs x ns"
| "observe [] x (n # ns) = Suc n # ns"
| "observe _ x [] = []"

text \<open>The counts of a histogram are always cumulative: they rise with the bounds.\<close>

lemma observe_cumulative:
  assumes "sorted bs" "sorted ns" "length ns = Suc (length bs)"
  shows "sorted (observe bs x ns)"
  using assms
proof (induction bs arbitrary: ns)
  case Nil
  then show ?case by (cases ns) auto
next
  case (Cons b bs)
  then obtain n n' ms where ns: "ns = n # n' # ms" by (cases ns; cases "tl ns") auto
  have "sorted (observe bs x (n' # ms))" using Cons ns by simp
  moreover have "sorted (observe (b # bs) x ns)" if "sorted (observe bs x (n' # ms))"
    using that Cons.prems ns by (cases bs) (auto split: if_splits)
  ultimately show ?case by blast
qed

end
