(* ===== verification/Middleware.thy ===== *)
theory Middleware
  imports Observability_Props Cache_Facts Route_Table
begin

text \<open>
  The middleware around the routes, as \<^verbatim>\<open>app.py\<close> stacks it: \<^verbatim>\<open>RequestContextMiddleware\<close> outside,
  the metrics, and \<^verbatim>\<open>PrivateCacheHeadersMiddleware\<close> inside, by what they do to the headers of an
  answer; and the CORS policy of \<^verbatim>\<open>core/cors.py\<close> as data. The checks of the hosts and of CORS are Starlette's.
\<close>

type_synonym headers = "(string \<times> string) list"

definition PROCESS_TIME_HEADER :: string where "PROCESS_TIME_HEADER = ''X-Process-Time''"
definition REQUEST_ID_HEADER :: string where "REQUEST_ID_HEADER = ''X-Request-ID''"
definition CSRF_HEADER_NAME :: string where "CSRF_HEADER_NAME = ''X-CSRF-Token''"

section \<open>The request context\<close>

text \<open>The identifier that \<^verbatim>\<open>request.state\<close> holds; \<open>fresh\<close> is what \<^verbatim>\<open>uuid4\<close> draws.\<close>

definition request_id_of :: "nat \<Rightarrow> headers \<Rightarrow> string" where
  "request_id_of fresh request_headers = resolve_request_id fresh (get_header REQUEST_ID_HEADER request_headers)"

text \<open>\<^verbatim>\<open>send_with_observability_headers\<close>: \<open>process_time\<close> is the formatted duration.\<close>

definition with_observability_headers :: "string \<Rightarrow> string \<Rightarrow> headers \<Rightarrow> headers" where
  "with_observability_headers process_time request_id hs =
     set_header REQUEST_ID_HEADER request_id (set_header PROCESS_TIME_HEADER process_time hs)"

text \<open>Only HTTP requests get a context; the headers of the answer pass the inner middleware first.\<close>

definition answer_headers :: "string \<Rightarrow> nat \<Rightarrow> string \<Rightarrow> headers \<Rightarrow> headers \<Rightarrow> headers" where
  "answer_headers scope_type fresh process_time request_headers hs =
     (if scope_type \<noteq> ''http'' then hs
      else with_observability_headers process_time (request_id_of fresh request_headers) (private_cache_headers hs))"

section \<open>CORS\<close>

definition ALLOWED_METHODS :: "string list" where
  "ALLOWED_METHODS = [''GET'', ''POST'', ''PATCH'', ''DELETE'']"

definition ALLOWED_HEADERS :: "string list" where
  "ALLOWED_HEADERS = [''Accept'', ''Authorization'', ''Content-Type'', CSRF_HEADER_NAME, REQUEST_ID_HEADER]"

definition EXPOSED_HEADERS :: "string list" where
  "EXPOSED_HEADERS = [PROCESS_TIME_HEADER, REQUEST_ID_HEADER]"

record cors_policy =
  cp_allow_origins :: "string list"
  cp_allow_credentials :: bool
  cp_allow_methods :: "string list"
  cp_allow_headers :: "string list"
  cp_expose_headers :: "string list"
  cp_max_age :: int
  cp_allow_private_network :: bool

definition register_cors_middleware :: "settings \<Rightarrow> cors_policy" where
  "register_cors_middleware s = \<lparr>cp_allow_origins = cors_allowed_origins s, cp_allow_credentials = True,
     cp_allow_methods = ALLOWED_METHODS, cp_allow_headers = ALLOWED_HEADERS,
     cp_expose_headers = EXPOSED_HEADERS, cp_max_age = cors_max_age_seconds s, cp_allow_private_network = False\<rparr>"

text \<open>A page of an allowed origin can use every route.\<close>

lemma cors_covers_routes: "set (map ro_method api_router) \<subseteq> set (cp_allow_methods (register_cors_middleware s))"
  by (simp add: register_cors_middleware_def ALLOWED_METHODS_def router_defs)

section \<open>The headers of an answer\<close>

text \<open>How often a header occurs, in any spelling.\<close>

definition occurrences :: "string \<Rightarrow> headers \<Rightarrow> nat" where
  "occurrences n hs = length (filter (\<lambda>h. lower (fst h) = lower n) hs)"

lemma occurrences_simps [simp]:
  "occurrences n [] = 0" "occurrences n (hs @ ks) = occurrences n hs + occurrences n ks"
  "occurrences n (h # hs) = (if lower (fst h) = lower n then Suc (occurrences n hs) else occurrences n hs)"
  by (simp_all add: occurrences_def)

lemma get_header_Cons [simp]:
  "get_header n [] = None"
  "get_header n ((m, v) # hs) = (if lower m = lower n then Some v else get_header n hs)"
  by (simp_all add: get_header_def)

lemma occurrences_del: "occurrences n (del_header m hs) = (if lower n = lower m then 0 else occurrences n hs)"
  by (induction hs) (auto simp: del_header_def)

lemma get_header_del: "get_header n (del_header m hs) = (if lower n = lower m then None else get_header n hs)"
  by (induction hs) (auto simp: del_header_def get_header_def)

lemma set_header_Nil: "set_header n v [] = [(lower n, v)]"
  by (simp add: set_header_def get_header_def)

lemma set_header_Cons:
  "set_header n v (h # hs) = (if lower (fst h) = lower n then (lower n, v) # del_header n hs else h # set_header n v hs)"
  by (cases h) (simp add: set_header_def del_header_def)

lemma get_header_set: "get_header n (set_header m v hs) = (if lower n = lower m then Some v else get_header n hs)"
proof (induction hs)
  case Nil
  then show ?case by (simp add: set_header_Nil)
next
  case (Cons h hs)
  then show ?case by (cases h) (auto simp: set_header_Cons get_header_del)
qed

lemma occurrences_set: "occurrences n (set_header m v hs) = (if lower n = lower m then 1 else occurrences n hs)"
proof (induction hs)
  case Nil
  then show ?case by (simp add: set_header_Nil)
next
  case (Cons h hs)
  then show ?case by (cases h) (auto simp: set_header_Cons occurrences_del)
qed

lemma get_vary: "get_header n (add_vary_header v hs) =
    (if lower n = ''vary'' then Some (case get_header ''vary'' hs of None \<Rightarrow> v | Some e \<Rightarrow> e @ '', '' @ v)
     else get_header n hs)"
proof -
  have "lower ''vary'' = ''vary''" by code_simp
  then show ?thesis by (simp add: add_vary_header_def get_header_set)
qed

text \<open>
  Every answer to an HTTP request carries one request id, that of \<^verbatim>\<open>request.state\<close>; an answer from the cache is
  private to its user, has no entity tag, and varies with the credentials.
\<close>

lemma answers_are_correlated:
  "occurrences REQUEST_ID_HEADER (answer_headers ''http'' fresh t rqh hs) = 1 \<and>
   get_header REQUEST_ID_HEADER (answer_headers ''http'' fresh t rqh hs) = Some (request_id_of fresh rqh)"
  by (simp add: answer_headers_def with_observability_headers_def occurrences_set get_header_set)

lemma cached_answers_are_private:
  assumes "get_header CACHE_STATUS_HEADER hs \<noteq> None"
  shows "get_header ''Cache-Control'' (answer_headers ''http'' fresh t rqh hs) = Some ''private, no-store''"
    and "get_header ''ETag'' (answer_headers ''http'' fresh t rqh hs) = None"
    and "\<exists>v. get_header ''Vary'' (answer_headers ''http'' fresh t rqh hs) =
      Some (v @ ''Authorization, Cookie'')"
proof -
  have names: "lower ''Cache-Control'' = ''cache-control''" "lower ''ETag'' = ''etag''" "lower ''vary'' = ''vary''"
    "lower ''Vary'' = ''vary''" "lower REQUEST_ID_HEADER = ''x-request-id''" "lower PROCESS_TIME_HEADER = ''x-process-time''"
    by code_simp+
  let ?h = "answer_headers ''http'' fresh t rqh hs"
  obtain y where y: "get_header CACHE_STATUS_HEADER hs = Some y" using assms by blast
  show "get_header ''Cache-Control'' ?h = Some ''private, no-store''" "get_header ''ETag'' ?h = None"
    using y
    by (simp_all add: answer_headers_def with_observability_headers_def private_cache_headers_def get_header_set
        get_vary get_header_del names)
  show "\<exists>v. get_header ''Vary'' ?h = Some (v @ ''Authorization, Cookie'')"
    using y
    by (cases "get_header ''vary'' (del_header ''ETag'' (set_header ''Cache-Control'' ''private, no-store'' hs))")
      (simp_all add: answer_headers_def with_observability_headers_def private_cache_headers_def get_header_set
        get_vary names)
qed

end
