(* ===== verification/App.thy ===== *)
theory App
  imports Middleware Http
begin

text \<open>
  \<^verbatim>\<open>create_app\<close> of \<^verbatim>\<open>app.py\<close>: what it puts together, and how the stack of middleware that it
  registers answers a request. An ASGI application is a function from a request and the HTTP
  metrics to the events on its connection, how it ended, and the metrics; the routed application
  (FastAPI with the routes) and the two middlewares of Starlette, for hosts and CORS, are parameters.
\<close>

section \<open>Applications and events\<close>

datatype event_kind =
    Got nat \<comment> \<open>a chunk of the request\<close>
  | Started int headers
  | Sent nat \<comment> \<open>a chunk of the answer\<close>

datatype ending = Returned | Raised string | Cancelled

record http_request =
  hr_scope :: scope
  hr_headers :: headers
  hr_id :: "string option" \<comment> \<open>\<open>request.state.request_id\<close>\<close>

type_synonym outcome = "event_kind list \<times> ending \<times> http_metrics"
type_synonym asgi = "http_request \<Rightarrow> http_metrics \<Rightarrow> outcome"

definition is_http :: "http_request \<Rightarrow> bool" where
  "is_http rq \<longleftrightarrow> sc_type (hr_scope rq) = ''http''"

text \<open>A wrapper around \<^verbatim>\<open>send\<close> that edits the headers of \<^verbatim>\<open>http.response.start\<close>.\<close>

fun on_start :: "(headers \<Rightarrow> headers) \<Rightarrow> event_kind \<Rightarrow> event_kind" where
  "on_start f (Started status hs) = Started status (f hs)"
| "on_start f e = e"

definition edit_answer :: "(headers \<Rightarrow> headers) \<Rightarrow> outcome \<Rightarrow> outcome" where
  "edit_answer f out = (case out of (es, e, m) \<Rightarrow> (map (on_start f) es, e, m))"

section \<open>The middlewares of the program\<close>

definition private_cache_middleware :: "asgi \<Rightarrow> asgi" where
  "private_cache_middleware app rq m =
     (if \<not> is_http rq then app rq m else edit_answer private_cache_headers (app rq m))"

definition request_context_middleware :: "nat \<Rightarrow> string \<Rightarrow> asgi \<Rightarrow> asgi" where
  "request_context_middleware fresh process_time app rq m =
     (if \<not> is_http rq then app rq m
      else (let request_id = request_id_of fresh (hr_headers rq) in
        edit_answer (with_observability_headers process_time request_id) (app (rq\<lparr>hr_id := Some request_id\<rparr>) m)))"

text \<open>What passes \<^verbatim>\<open>receive_with_size\<close> and \<^verbatim>\<open>send_with_size\<close>.\<close>

fun note_event :: "event_kind \<Rightarrow> call \<Rightarrow> call" where
  "note_event (Got n) c = receive_with_size (RequestBody n) c"
| "note_event (Started status hs) c = send_with_size (ResponseStart status) c"
| "note_event (Sent n) c = send_with_size (ResponseBody n) c"

definition failure_of :: "ending \<Rightarrow> string option" where
  "failure_of e = (case e of Raised t \<Rightarrow> Some t | _ \<Rightarrow> None)"

definition http_metrics_middleware :: "string \<Rightarrow> asgi \<Rightarrow> asgi" where
  "http_metrics_middleware excluded app rq m =
     (if \<not> is_measured excluded (hr_scope rq) then app rq m
      else (case begin_call (hr_scope rq) m of (c, m) \<Rightarrow>
        case app rq m of (es, e, m) \<Rightarrow>
          (es, e, finish_call (hr_scope rq) (failure_of e) (fold note_event es c) m)))"

section \<open>The application\<close>

datatype middleware =
    PrivateCacheHeadersMiddleware
  | HTTPMetricsMiddleware string
  | RequestContextMiddleware
  | CORSMiddleware cors_policy
  | TrustedHostMiddleware "string list" bool \<comment> \<open>the hosts, whether \<open>www\<close> is redirected\<close>

datatype handler = PoolTimeoutHandler | OAuthErrorHandler | ApplicationErrorHandler

record application =
  ap_title :: string
  ap_version :: string
  ap_swagger_client :: string
  ap_build_info :: "string \<times> app_env"
  ap_settings :: settings
  ap_middleware :: "middleware list" \<comment> \<open>the outermost first\<close>
  ap_routes :: "route list"
  ap_handlers :: "(string \<times> handler) list"

definition version :: string where "version = ''0.1.0''"

text \<open>Starlette inserts a middleware before those it has.\<close>

definition add_middleware :: "middleware \<Rightarrow> application \<Rightarrow> application" where
  "add_middleware mw a = a\<lparr>ap_middleware := mw # ap_middleware a\<rparr>"

definition include_routes :: "route list \<Rightarrow> application \<Rightarrow> application" where
  "include_routes rs a = a\<lparr>ap_routes := ap_routes a @ rs\<rparr>"

definition add_exception_handler :: "string \<Rightarrow> handler \<Rightarrow> application \<Rightarrow> application" where
  "add_exception_handler c h a = a\<lparr>ap_handlers := ap_handlers a @ [(c, h)]\<rparr>"

definition register_exception_handlers :: "application \<Rightarrow> application" where
  "register_exception_handlers a =
     add_exception_handler ''ApplicationError'' ApplicationErrorHandler
       (add_exception_handler ''OAuthServiceError'' OAuthErrorHandler a)"

text \<open>The segments of a path: what follows each slash.\<close>

fun segments :: "string \<Rightarrow> string \<Rightarrow> string list" where
  "segments acc [] = [acc]"
| "segments acc (c # cs) = (if c = CHR ''/'' then acc # segments [] cs else segments (acc @ [c]) cs)"

definition metrics_route :: "string \<Rightarrow> route" where
  "metrics_route path = \<lparr>ro_method = ''GET'', ro_path = map Lit (tl (segments [] path)), ro_status = 200\<rparr>"

definition new_application :: "settings \<Rightarrow> application" where
  "new_application s = \<lparr>ap_title = app_name s, ap_version = version,
     ap_swagger_client = oauth2_public_client_id s, ap_build_info = (version, app_env s), ap_settings = s,
     ap_middleware = [], ap_routes = [], ap_handlers = []\<rparr>"

definition create_app :: "settings \<Rightarrow> application" where
  "create_app s =
     (let a = new_application s;
          a = add_middleware PrivateCacheHeadersMiddleware a;
          a = add_middleware (HTTPMetricsMiddleware (metrics_path s)) a;
          a = add_middleware RequestContextMiddleware a;
          a = add_middleware (CORSMiddleware (register_cors_middleware s)) a;
          a = add_middleware (TrustedHostMiddleware (allowed_hosts s) False) a;
          a = include_routes [metrics_route (metrics_path s)] a;
          a = include_routes api_router a;
          a = add_exception_handler ''SQLAlchemyTimeoutError'' PoolTimeoutHandler a
      in register_exception_handlers a)"

text \<open>The handler counts the timeout and answers 503.\<close>

definition database_pool_timeout_handler :: "nat \<Rightarrow> reply \<times> nat" where
  "database_pool_timeout_handler db_pool_timeouts_total =
     (respond 503 (ErrorJson
        [(''detail'', ''Database capacity is temporarily unavailable.''), (''code'', ''database_capacity_unavailable'')]),
      Suc db_pool_timeouts_total)"

section \<open>Serving\<close>

text \<open>
  Starlette's middlewares: \<open>st_host\<close> is the answer of a request that the host check refuses,
  \<open>st_preflight\<close> that of a preflight, \<open>st_cors\<close> what CORS does to the headers of any other answer.
\<close>

record starlette =
  st_host :: "string list \<Rightarrow> bool \<Rightarrow> http_request \<Rightarrow> event_kind list option"
  st_preflight :: "cors_policy \<Rightarrow> http_request \<Rightarrow> event_kind list option"
  st_cors :: "cors_policy \<Rightarrow> http_request \<Rightarrow> headers \<Rightarrow> headers"

text \<open>Of one request: what \<^verbatim>\<open>uuid4\<close> draws, and the formatted duration.\<close>

definition wrap :: "starlette \<Rightarrow> nat \<Rightarrow> string \<Rightarrow> middleware \<Rightarrow> asgi \<Rightarrow> asgi" where
  "wrap st fresh process_time mw app = (case mw of
      PrivateCacheHeadersMiddleware \<Rightarrow> private_cache_middleware app
    | HTTPMetricsMiddleware path \<Rightarrow> http_metrics_middleware path app
    | RequestContextMiddleware \<Rightarrow> request_context_middleware fresh process_time app
    | CORSMiddleware policy \<Rightarrow> (\<lambda>rq m. case st_preflight st policy rq of
          Some es \<Rightarrow> (es, Returned, m)
        | None \<Rightarrow> edit_answer (st_cors st policy rq) (app rq m))
    | TrustedHostMiddleware hosts www \<Rightarrow> (\<lambda>rq m. case st_host st hosts www rq of
          Some es \<Rightarrow> (es, Returned, m)
        | None \<Rightarrow> app rq m))"

text \<open>The routed application answers without touching the HTTP metrics.\<close>

definition routed :: "(http_request \<Rightarrow> event_kind list \<times> ending) \<Rightarrow> asgi" where
  "routed core rq m = (case core rq of (es, e) \<Rightarrow> (es, e, m))"

definition serve_app :: "application \<Rightarrow> starlette \<Rightarrow> nat \<Rightarrow> string \<Rightarrow> (http_request \<Rightarrow> event_kind list \<times> ending) \<Rightarrow> asgi" where
  "serve_app a st fresh process_time core = foldr (wrap st fresh process_time) (ap_middleware a) (routed core)"

section \<open>The stack\<close>

text \<open>
  The contract of a middleware that only edits headers: status, sizes, the way it ends and the metrics are
  those of the application inside.
\<close>

fun shape :: "event_kind \<Rightarrow> event_kind" where
  "shape (Started status hs) = Started status []"
| "shape e = e"

lemma shape_on_start [simp]: "shape (on_start f e) = shape e"
  by (cases e) simp_all

lemma shape_map_on_start [simp]: "map shape (map (on_start f) es) = map shape es"
  by simp

locale header_editor =
  fixes mw :: "asgi \<Rightarrow> asgi"
    and entering :: "http_request \<Rightarrow> http_request"
    and edit :: "http_request \<Rightarrow> headers \<Rightarrow> headers"
  assumes other: "\<not> is_http rq \<Longrightarrow> mw app rq m = app rq m"
    and http: "is_http rq \<Longrightarrow> mw app rq m = edit_answer (edit rq) (app (entering rq) m)"
begin

lemma keeps_shape:
  assumes "is_http rq" "app (entering rq) m = (es, e, m')"
  shows "\<exists>es'. mw app rq m = (es', e, m') \<and> map shape es' = map shape es"
  using assms by (simp add: http edit_answer_def)

lemma edits_every_start:
  assumes "is_http rq" "mw app rq m = (es, e, m')" "Started status hs \<in> set es"
  shows "\<exists>hs'. hs = edit rq hs'"
proof -
  obtain es0 e0 m0 where "app (entering rq) m = (es0, e0, m0)" by (cases "app (entering rq) m")
  with assms have "Started status hs \<in> on_start (edit rq) ` set es0" by (auto simp: http edit_answer_def)
  then obtain x where "Started status hs = on_start (edit rq) x" by blast
  then show ?thesis by (cases x) auto
qed

end

interpretation private_cache: header_editor private_cache_middleware "\<lambda>rq. rq" "\<lambda>_. private_cache_headers"
  by unfold_locales (simp_all add: private_cache_middleware_def)

interpretation request_context: header_editor "request_context_middleware fresh process_time"
    "\<lambda>rq. rq\<lparr>hr_id := Some (request_id_of fresh (hr_headers rq))\<rparr>"
    "\<lambda>rq. with_observability_headers process_time (request_id_of fresh (hr_headers rq))"
  for fresh process_time
  by unfold_locales (simp_all add: request_context_middleware_def Let_def)

lemma note_shape: "note_event (shape e) c = note_event e c"
  by (cases e) (simp_all add: send_with_size_def)

lemma notes_shape: "fold note_event (map shape es) c = fold note_event es c"
  by (induction es arbitrary: c) (simp_all add: note_shape)

text \<open>The registration in \<^verbatim>\<open>create_app\<close>, from the outside in, and the routes that Starlette tries in turn.\<close>

lemma stack_of_create_app:
  "ap_middleware (create_app s) =
     [TrustedHostMiddleware (allowed_hosts s) False, CORSMiddleware (register_cors_middleware s),
      RequestContextMiddleware, HTTPMetricsMiddleware (metrics_path s), PrivateCacheHeadersMiddleware]"
  by (simp add: create_app_def new_application_def add_middleware_def include_routes_def Let_def
      add_exception_handler_def register_exception_handlers_def)

lemma routes_of_create_app: "ap_routes (create_app s) = metrics_route (metrics_path s) # api_router"
  by (simp add: create_app_def new_application_def add_middleware_def include_routes_def Let_def
      add_exception_handler_def register_exception_handlers_def)

section \<open>What a request gets and what is counted\<close>

definition method_label :: "scope \<Rightarrow> string" where
  "method_label sc = upper_ascii (case sc_method sc of None \<Rightarrow> ''UNKNOWN'' | Some t \<Rightarrow> t)"

fun status_sent :: "int \<Rightarrow> event_kind list \<Rightarrow> int" where
  "status_sent d [] = d"
| "status_sent d (Started status hs # es) = status_sent status es"
| "status_sent d (e # es) = status_sent d es"

definition bytes_received :: "event_kind list \<Rightarrow> nat" where
  "bytes_received es = sum_list (map (\<lambda>e. case e of Got n \<Rightarrow> n | _ \<Rightarrow> 0) es)"

definition bytes_sent :: "event_kind list \<Rightarrow> nat" where
  "bytes_sent es = sum_list (map (\<lambda>e. case e of Sent n \<Rightarrow> n | _ \<Rightarrow> 0) es)"

text \<open>One finished request: no gauge is left raised, every counter and histogram has one more entry.\<close>

definition counted :: "scope \<Rightarrow> event_kind list \<Rightarrow> ending \<Rightarrow> http_metrics \<Rightarrow> http_metrics" where
  "counted sc es e m = (let k = method_label sc; r = route_template sc in
     m\<lparr>hm_requests := hm_requests m @ [(k, r, py_str (status_sent 500 es))],
       hm_durations := hm_durations m @ [(k, r)],
       hm_request_sizes := hm_request_sizes m @ [(k, r, bytes_received es)],
       hm_response_sizes := hm_response_sizes m @ [(k, r, bytes_sent es)],
       hm_exceptions := hm_exceptions m @ (case e of Raised t \<Rightarrow> [(k, r, t)] | _ \<Rightarrow> [])\<rparr>)"

lemma notes_call:
  "fold note_event es c = c\<lparr>ca_status := status_sent (ca_status c) es,
     ca_request_size := ca_request_size c + bytes_received es,
     ca_response_size := ca_response_size c + bytes_sent es\<rparr>"
proof (induction es arbitrary: c)
  case Nil
  then show ?case by (simp add: bytes_received_def bytes_sent_def)
next
  case (Cons e es)
  then show ?case
    by (cases e) (simp_all add: bytes_received_def bytes_sent_def receive_with_size_def send_with_size_def)
qed

lemma counted_call:
  "finish_call sc (failure_of e) (fold note_event es (fst (begin_call sc m))) (snd (begin_call sc m)) = counted sc es e m"
  by (cases e)
    (simp_all add: finish_call_def begin_call_def notes_call counted_def failure_of_def method_label_def Let_def)

lemma counted_shape: "map shape es = map shape es' \<Longrightarrow> counted sc es e m = counted sc es' e m"
  using notes_shape counted_call by metis

lemma http_metrics_counts:
  assumes "is_http rq" "\<And>m. app rq m = (es, e, m)"
  shows "http_metrics_middleware excluded app rq m =
    (es, e, if sc_path (hr_scope rq) = excluded then m else counted (hr_scope rq) es e m)"
  using assms counted_call [of "hr_scope rq" e es m]
  by (auto simp: http_metrics_middleware_def is_measured_def is_http_def split: prod.split)

text \<open>Starlette's CORS touches its own headers and \<open>Vary\<close> only.\<close>

definition cors_name :: "string \<Rightarrow> bool" where
  "cors_name n \<longleftrightarrow> lower n = ''vary'' \<or> startswith (lower n) ''access-control-''"

definition spares_other_headers :: "(headers \<Rightarrow> headers) \<Rightarrow> bool" where
  "spares_other_headers f \<longleftrightarrow> (\<forall>n hs. \<not> cors_name n \<longrightarrow>
     get_header n (f hs) = get_header n hs \<and> occurrences n (f hs) = occurrences n hs)"

definition finished_headers :: "settings \<Rightarrow> starlette \<Rightarrow> nat \<Rightarrow> string \<Rightarrow> http_request \<Rightarrow> headers \<Rightarrow> headers" where
  "finished_headers s st fresh process_time rq hs =
     st_cors st (register_cors_middleware s) rq
       (with_observability_headers process_time (request_id_of fresh (hr_headers rq)) (private_cache_headers hs))"

lemma on_start_on_start: "on_start f (on_start g e) = on_start (\<lambda>hs. f (g hs)) e"
  by (cases e) simp_all

lemma program_stack_serves:
  assumes "is_http rq" and "core (rq\<lparr>hr_id := Some (request_id_of fresh (hr_headers rq))\<rparr>) = (es, e)"
  shows "request_context_middleware fresh t
      (http_metrics_middleware excluded (private_cache_middleware (routed core))) rq m =
    (map (on_start (\<lambda>hs. with_observability_headers t (request_id_of fresh (hr_headers rq)) (private_cache_headers hs))) es, e,
     if sc_path (hr_scope rq) = excluded then m else counted (hr_scope rq) es e m)"
proof -
  let ?rq = "rq\<lparr>hr_id := Some (request_id_of fresh (hr_headers rq))\<rparr>"
  have http: "is_http ?rq" using assms(1) by (simp add: is_http_def)
  have "private_cache_middleware (routed core) ?rq m = (map (on_start private_cache_headers) es, e, m)" for m
    using http assms(2) by (simp add: private_cache.http routed_def edit_answer_def)
  from http_metrics_counts [where app = "private_cache_middleware (routed core)" and rq = ?rq, OF http this]
  show ?thesis
    using assms(1) counted_shape [OF shape_map_on_start, of _ _ es]
    by (simp add: request_context.http edit_answer_def on_start_on_start comp_def)
qed

text \<open>
  C35. What the stack of \<^verbatim>\<open>create_app\<close> makes of an HTTP request. One that Starlette's host check refuses, and a
  preflight, are answered by Starlette alone: nothing is counted, no header of the program is added. Any other
  reaches the routes with the request id in its state; the answer has the same events but for its headers, it
  ends the same way, and unless its path is that of the metrics it is counted exactly once, with the status it
  was sent with (500 when none was) and its sizes, and no gauge stays raised. As CORS spares the other
  headers, every answer carries that request id once, and one from the cache is private and has no entity tag.
\<close>
theorem requests_pass_the_stack:
  assumes "is_http rq" and "spares_other_headers (st_cors st (register_cors_middleware s) rq)"
  shows "serve_app (create_app s) st fresh t core rq m =
      (case st_host st (allowed_hosts s) False rq of
         Some es \<Rightarrow> (es, Returned, m)
       | None \<Rightarrow> (case st_preflight st (register_cors_middleware s) rq of
           Some es \<Rightarrow> (es, Returned, m)
         | None \<Rightarrow> (case core (rq\<lparr>hr_id := Some (request_id_of fresh (hr_headers rq))\<rparr>) of (es, e) \<Rightarrow>
             (map (on_start (finished_headers s st fresh t rq)) es, e,
              if sc_path (hr_scope rq) = metrics_path s then m else counted (hr_scope rq) es e m)))) \<and>
    get_header REQUEST_ID_HEADER (finished_headers s st fresh t rq hs) = Some (request_id_of fresh (hr_headers rq)) \<and>
    occurrences REQUEST_ID_HEADER (finished_headers s st fresh t rq hs) = 1 \<and>
    (if get_header CACHE_STATUS_HEADER hs = None then True
     else get_header ''Cache-Control'' (finished_headers s st fresh t rq hs) = Some ''private, no-store'' \<and>
       get_header ''ETag'' (finished_headers s st fresh t rq hs) = None)"
proof -
  let ?rid = "request_id_of fresh (hr_headers rq)"
  obtain es e where core: "core (rq\<lparr>hr_id := Some ?rid\<rparr>) = (es, e)" by (cases "core (rq\<lparr>hr_id := Some ?rid\<rparr>)")
  have run: "serve_app (create_app s) st fresh t core rq m =
      (case st_host st (allowed_hosts s) False rq of
         Some es \<Rightarrow> (es, Returned, m)
       | None \<Rightarrow> (case st_preflight st (register_cors_middleware s) rq of
           Some es \<Rightarrow> (es, Returned, m)
         | None \<Rightarrow> (map (on_start (finished_headers s st fresh t rq)) es, e,
              if sc_path (hr_scope rq) = metrics_path s then m else counted (hr_scope rq) es e m)))"
    using program_stack_serves [where core = core, OF assms(1) core, where t = t and m = m]
    by (simp add: serve_app_def stack_of_create_app wrap_def edit_answer_def on_start_on_start comp_def
        finished_headers_def [abs_def] split: option.split)
  have spared: "get_header n (finished_headers s st fresh t rq hs) = get_header n (answer_headers ''http'' fresh t (hr_headers rq) hs)"
      "occurrences n (finished_headers s st fresh t rq hs) = occurrences n (answer_headers ''http'' fresh t (hr_headers rq) hs)"
    if "\<not> cors_name n" for n
    using assms(2) that by (simp_all add: spares_other_headers_def finished_headers_def answer_headers_def)
  have names: "\<not> cors_name REQUEST_ID_HEADER" "\<not> cors_name ''Cache-Control''" "\<not> cors_name ''ETag''"
    by code_simp+
  have "if get_header CACHE_STATUS_HEADER hs = None then True
     else get_header ''Cache-Control'' (finished_headers s st fresh t rq hs) = Some ''private, no-store'' \<and>
       get_header ''ETag'' (finished_headers s st fresh t rq hs) = None"
    using cached_answers_are_private(1,2) [of hs fresh t "hr_headers rq"]
    by (simp add: spared(1) [OF names(2)] spared(1) [OF names(3)])
  moreover have "get_header REQUEST_ID_HEADER (finished_headers s st fresh t rq hs) = Some ?rid \<and>
      occurrences REQUEST_ID_HEADER (finished_headers s st fresh t rq hs) = 1"
    using answers_are_correlated [of fresh t "hr_headers rq" hs] by (simp add: spared [OF names(1)])
  ultimately show ?thesis unfolding run core prod.case by (intro conjI refl) blast+
qed

definition plain_starlette :: starlette where
  "plain_starlette = \<lparr>st_host = (\<lambda>_ _ _. None), st_preflight = (\<lambda>_ _. None), st_cors = (\<lambda>_ _ hs. hs)\<rparr>"

definition sample_request :: http_request where
  "sample_request = \<lparr>hr_scope = \<lparr>sc_type = ''http'', sc_path = ''/api/v1/health'', sc_method = Some ''GET'',
     sc_route = Some ''/api/v1/health'', sc_root_path = []\<rparr>, hr_headers = [], hr_id = None\<rparr>"

theorem requests_pass_the_stack_witness:
  "hm_requests (snd (snd (serve_app (create_app default_settings) plain_starlette 7 ''0.1''
     (\<lambda>_. ([Started 200 [], Sent 15], Returned)) sample_request (mo_http (new_monitor 0))))) =
   [(''GET'', ''/api/v1/health'', ''200'')]"
proof -
  have "is_http sample_request" "spares_other_headers (st_cors plain_starlette (register_cors_middleware default_settings) sample_request)"
    by (simp_all add: is_http_def sample_request_def spares_other_headers_def plain_starlette_def)
  note run = requests_pass_the_stack [OF this, where fresh = 7 and t = "''0.1''" and hs = "[]" and
      core = "\<lambda>_. ([Started 200 [], Sent 15], Returned)" and m = "mo_http (new_monitor 0)", THEN conjunct1]
  have "sc_path (hr_scope sample_request) \<noteq> metrics_path default_settings" by code_simp
  moreover have "route_template (hr_scope sample_request) = ''/api/v1/health''"
      "method_label (hr_scope sample_request) = ''GET''" "py_str 200 = ''200''"
    by code_simp+
  ultimately show ?thesis
    unfolding run by (simp add: plain_starlette_def counted_def new_monitor_def Let_def)
qed

end
