(* ===== verification/Escape_Props.thy ===== *)
theory Escape_Props
  imports Reply_Types
begin

text \<open>
  Which exceptions leave a route. Those of the program have a handler; what else leaves is Starlette's 500. No
  failure of the database or of the hasher does.
\<close>

section \<open>Sets of exceptions\<close>

definition covers :: "exn set \<Rightarrow> bool" where
  "covers E \<longleftrightarrow> range AppErr \<subseteq> E"

lemma covered [simp]: "covers E \<Longrightarrow> AppErr c \<in> E"
  by (auto simp: covers_def)

lemma covered_auth [simp]: "covers E \<Longrightarrow> auth_error c \<in> E" "covers E \<Longrightarrow> key_error d \<in> E" "covers E \<Longrightarrow> oauth_exn f \<in> E"
  by (simp_all add: auth_error_def key_error_def oauth_exn_def)

lemma covers_sql [simp]: "covers E \<Longrightarrow> covers (E \<union> F)"
  by (auto simp: covers_def)

text \<open>What the creation of a token pair may raise.\<close>

definition token_slips :: "exn set" where
  "token_slips = insert ValueErr (range ValidationErr)"

lemma raises_of_valid: "range ValidationErr \<subseteq> E \<Longrightarrow> raises E (of_valid r)"
  by (cases r) (auto simp: of_valid_def intro: outcomes)

lemma raises_refuse: "e \<in> E \<Longrightarrow> raises E (refuse mechanism outcome e)"
  unfolding refuse_def by (intro outcomes)

lemma raises_except_sql_refuse:
  "raises (E \<union> sql_errors) m \<Longrightarrow> e \<in> E \<Longrightarrow> raises E (except_sql_refuse mechanism e m)"
  unfolding except_sql_refuse_def
  by (rule raises_catch [of "E \<union> sql_errors"], assumption)
     (auto simp: sql_errors_def split: if_splits intro: raises_refuse)

lemma raises_validated: "(\<And>x. raises E (f x)) \<Longrightarrow> raises E (validated v f)"
  by (cases v) (simp_all add: validated_def raises_ret)

section \<open>Callers\<close>

lemma raises_decode: "covers E \<Longrightarrow> raises E (decode_access_token env s token)"
  "covers E \<Longrightarrow> raises E (decode_refresh_token env s token)"
  unfolding decode_access_token_def decode_refresh_token_def decode_token_def
  by (rule raises_bnd, rule outcomes, auto split: option.splits sum.splits intro!: outcomes)+

lemma raises_get_user_by_id: "sql_errors \<subseteq> E \<Longrightarrow> raises E (get_user_by_id i)"
  unfolding get_user_by_id_def by (intro outcomes) auto

lemma raises_get_user_by_email: "sql_errors \<subseteq> E \<Longrightarrow> raises E (get_user_by_email e)"
  unfolding get_user_by_email_def by (intro outcomes)

lemma raises_require_active: "covers E \<Longrightarrow> raises E (require_active_user u mechanism)"
  unfolding require_active_user_def by (intro outcomes raises_refuse) simp_all

lemma raises_token_user_id: "covers E \<Longrightarrow> raises E (access_token_user_id env s token)"
  unfolding access_token_user_id_def
  by (rule raises_catch [of "insert ValueErr (range AppErr)"], intro outcomes raises_decode)
    (auto simp: covers_def invalid_token_exn_def split: if_splits intro!: raises_refuse)

lemma raises_current_user: "covers E \<Longrightarrow> raises E (get_current_user env s token cookie_token)"
  unfolding get_current_user_def select_access_token_def authenticate_access_token_def
  by (intro outcomes raises_refuse raises_token_user_id raises_require_active raises_except_sql_refuse
      raises_get_user_by_id) simp_all

lemma raises_basic_user: "covers E \<Longrightarrow> raises E (get_current_basic_user env credentials)"
proof -
  assume E: "covers E"
  have "raises E (catch (verify_password env p h) (\<lambda>e. if e = UnknownHashErr
      then Some (refuse BASIC_AUTH ''error'' (auth_error BasicAuthenticationUnavailableError)) else None))" for p h
    unfolding verify_password_def using E
    by (intro raises_catch [of "{UnknownHashErr}"] outcomes) (auto split: if_splits intro: raises_refuse)
  then show ?thesis
    unfolding get_current_basic_user_def using E
    by (intro outcomes raises_refuse raises_require_active raises_except_sql_refuse raises_get_user_by_email) simp_all
qed

lemma raises_key_user: "covers E \<Longrightarrow> TypeErr \<in> E \<Longrightarrow> raises E (authenticate_api_key key m)"
  unfolding authenticate_api_key_def Let_def get_active_api_key_by_hash_def
  by (intro outcomes raises_refuse raises_require_active raises_except_sql_refuse) simp_all

lemma raises_origin: "covers E \<Longrightarrow> ValueErr \<in> E \<Longrightarrow> raises E (validate_request_origin s rq)"
  unfolding validate_request_origin_def extract_origin_def check_origin_def
  by (intro outcomes) simp_all

lemma raises_check_csrf: "covers E \<Longrightarrow> TypeErr \<in> E \<Longrightarrow> raises E (check_csrf rq h)"
  unfolding check_csrf_def of_result_def verify_csrf_token_def compare_digest_def
  by (rule raises_bnd) (auto split: option.splits if_splits sum.splits intro!: outcomes)

lemma raises_csrf:
  "covers E \<Longrightarrow> TypeErr \<in> E \<Longrightarrow> raises E (require_csrf_token rq h)"
  "covers E \<Longrightarrow> TypeErr \<in> E \<Longrightarrow> raises E (require_browser_csrf_token rq h)"
  unfolding require_csrf_token_def require_browser_csrf_token_def
  by (intro outcomes raises_check_csrf; assumption)+

section \<open>Services\<close>

lemma raises_register_covered: "covers E \<Longrightarrow> raises E (register_pending_verification env s p)"
  by (rule raises_mono [OF raises_register_pending]) simp

lemma raises_verification:
  "covers E \<Longrightarrow> raises E (request_email_verification s email)" "covers E \<Longrightarrow> raises E (verify_email token)"
  unfolding request_email_verification_def verify_email_def generate_email_verification_token_def Let_def save_user_def
  by (intro outcomes raises_get_user_by_email; simp)+

lemma raises_authenticate: "covers E \<Longrightarrow> raises E (authenticate env email password)"
proof -
  assume E: "covers E"
  have "raises E (catch (verify_and_update_password env p h) (\<lambda>e. if e = HashingErr \<or> e = UnknownHashErr
      then Some (raise (auth_error LoginSessionUnavailableError)) else None))" for p h
    unfolding verify_and_update_password_def using E
    by (intro raises_catch [of "{HashingErr, UnknownHashErr}"] raises_bnd outcomes)
      (auto split: if_splits password_verdict.splits intro: outcomes)
  then show ?thesis
    unfolding authenticate_def save_user_def Let_def using E
    by (intro outcomes raises_get_user_by_email) simp_all
qed

lemma raises_token_pair: "covers E \<Longrightarrow> token_slips \<subseteq> E \<Longrightarrow> raises E (create_token_pair env s a b t d)"
  unfolding create_token_pair_def create_access_token_def create_refresh_token_def access_token_lifetime_def
    refresh_token_lifetime_def lifetime_of_def bounded_lifetime_def required_def generate_token_id_def Let_def
  by (intro outcomes raises_of_valid) (auto simp: token_slips_def)

lemma raises_stage: "covers E \<Longrightarrow> token_slips \<subseteq> E \<Longrightarrow> raises E (stage_login_session env s u d)"
  unfolding stage_login_session_def generate_token_id_def Let_def
  by (intro outcomes raises_token_pair raises_decode)

lemma raises_login_session: "covers E \<Longrightarrow> token_slips \<subseteq> E \<Longrightarrow> raises E (create_login_session env s u)"
  unfolding create_login_session_def by (intro outcomes raises_stage) auto

lemma raises_digest: "TypeErr \<in> E \<Longrightarrow> raises E (matches_token stored presented)"
  by (auto simp: matches_token_def of_result_def compare_digest_def split: option.splits intro!: outcomes)

lemma raises_with_record:
  "covers E \<Longrightarrow> token_slips \<subseteq> E \<Longrightarrow> ValueErr \<in> E \<Longrightarrow> TypeErr \<in> E \<Longrightarrow> sql_errors \<subseteq> E \<Longrightarrow>
     raises E (refresh_with_record env s i h now r)"
  unfolding refresh_with_record_def rotate_session_def is_recoverable_previous_token_def save_session_def Let_def
  by (intro outcomes raises_digest raises_get_user_by_id raises_token_pair raises_decode; simp)

lemma raises_refresh:
  assumes "covers E" "token_slips \<subseteq> E" "TypeErr \<in> E"
  shows "raises E (refresh_login_session env s token)"
proof -
  have "ValueErr \<in> E" using assms(2) by (auto simp: token_slips_def)
  with assms show ?thesis
    unfolding refresh_login_session_def
    by (intro outcomes raises_decode raises_with_record) auto
qed

lemma raises_logout: "covers E \<Longrightarrow> raises E (revoke_refresh_session env s token)"
proof -
  assume E: "covers E"
  have "raises E (catch (bnd (decode_refresh_token env s token) (\<lambda>payload.
             bnd (of_option ValueErr (py_int (cl_sub payload))) (\<lambda>user_id. ret (Some (payload, user_id)))))
            (\<lambda>e. if ignored_on_logout e then Some (ret None) else None))"
    using E by (intro raises_catch [of "insert ValueErr (range AppErr)"] outcomes raises_decode)
      (auto simp: covers_def ignored_on_logout_def split: if_splits intro: outcomes)
  then show ?thesis
    unfolding revoke_refresh_session_def save_session_def using E by (intro outcomes; simp)
qed

lemma raises_keys:
  "covers E \<Longrightarrow> raises E (api_key_issue i name)" "covers E \<Longrightarrow> raises E (api_key_list i revoked)"
  "covers E \<Longrightarrow> raises E (api_key_revoke i k)"
  unfolding api_key_issue_def api_key_list_def api_key_revoke_def generate_api_key_def create_api_key_record_def
    list_user_api_keys_def get_user_api_key_by_id_def save_api_key_def Let_def
  by (intro outcomes; simp)+

lemma raises_profile: "covers E \<Longrightarrow> raises E (update_profile u name)" "covers E \<Longrightarrow> raises E (deactivate_account u)"
  unfolding update_profile_def deactivate_account_def save_user_def Let_def by (intro outcomes; simp)+

lemma raises_transition: "covers E \<Longrightarrow> raises E (transition t target)"
  by (cases target) (auto simp: transition_def intro!: outcomes)

lemma raises_todos:
  "covers E \<Longrightarrow> raises E (todo_create_op i p)" "covers E \<Longrightarrow> raises E (todo_get i k)"
  "covers E \<Longrightarrow> raises E (todo_list env i q)" "covers E \<Longrightarrow> raises E (todo_update_op i k u)"
  "covers E \<Longrightarrow> raises E (todo_delete i k)"
  unfolding todo_create_op_def todo_get_def todo_list_def todo_update_op_def todo_delete_def create_todo_def
    get_owned_todo_def list_owned_todos_def save_todo_def delete_todo_def Let_def
  by (intro outcomes raises_transition; simp)+

lemma raises_issue: "covers E \<Longrightarrow> raises E (issue_authorization_code env s e p r)"
proof -
  assume E: "covers E"
  have "raises E (catch (authenticate env e p) (\<lambda>x. if is_auth_error LoginSessionUnavailableError x
      then Some (raise (oauth_exn AuthorizationCodeIssuanceUnavailableError)) else None))"
    using E by (intro raises_catch [of E] raises_authenticate) (auto split: if_splits intro: outcomes)
  then show ?thesis
    unfolding issue_authorization_code_def validate_authorization_request_def prune_expired_authorization_codes_def
      create_authorization_code_def Let_def
    using E by (intro outcomes; simp)
qed

lemma raises_exchange: "covers E \<Longrightarrow> token_slips \<subseteq> E \<Longrightarrow> raises E (exchange_authorization_code env s r)"
  unfolding exchange_authorization_code_def create_s256_code_challenge_def consume_authorization_code_def Let_def
  by (intro outcomes raises_get_user_by_id raises_stage) (auto simp: token_slips_def)

section \<open>Routes\<close>

lemma raises_bnd_by:
  assumes "raises E m" "yields Q m" "\<And>x. Q x \<Longrightarrow> raises E (f x)"
  shows "raises E (bnd m f)"
  unfolding raises_def
proof (intro allI impI)
  fix w e w'
  assume run: "bnd m f w = (Inl e, w')"
  obtain r w1 where m: "m w = (r, w1)" by fastforce
  show "e \<in> E"
  proof (cases r)
    case (Inl x)
    with m run raisesD [OF assms(1) m [unfolded Inl]] show ?thesis by (simp add: bnd_def)
  next
    case (Inr x)
    with assms(2) m have "Q x" using yields_result by metis
    with run m Inr assms(3) [of x] show ?thesis by (auto simp: bnd_def dest: raisesD)
  qed
qed

text \<open>The id of a caller is positive, so every caller has cache keys.\<close>

lemma yields_user_id: "yields (\<lambda>i. 0 < i) (access_token_user_id env s token)"
  unfolding access_token_user_id_def refuse_def
  by (rule within_catch) (auto split: if_splits intro!: typing)

lemma yields_found: "yields (\<lambda>x. \<forall>u. x = Some u \<longrightarrow> u_id u = i) (get_user_by_id i)"
proof -
  have "u_id u = i" if "get_user_by_id i w = (Inr (Some u), w')" for w u w'
  proof -
    have "find (\<lambda>u. u_id u = i) (users (work w)) = Some u" using get_user_by_id_ok [OF that] by simp
    then show ?thesis by (auto simp: find_Some_iff)
  qed
  then show ?thesis unfolding within_def by (metis prod.collapse)
qed

lemma yields_caller: "yields (\<lambda>u. 0 < u_id u) (get_current_user env s token c)"
proof -
  have active: "yields (\<lambda>u. 0 < u_id u) (require_active_user u m)" if "0 < u_id u" for u m
    using that unfolding require_active_user_def refuse_def by (intro typing)
  have found: "yields (\<lambda>x. \<forall>u. x = Some u \<longrightarrow> u_id u = i) (except_sql_refuse m e (get_user_by_id i))" for m e i
    unfolding except_sql_refuse_def refuse_def
    by (rule within_catch [OF yields_found]) (auto split: if_splits intro!: typing)
  show ?thesis
    unfolding get_current_user_def authenticate_access_token_def
    by (intro yields_bnd within_bnd_by [OF yields_user_id] within_bnd_by [OF found] within_option active)
      (auto simp: refuse_def intro!: typing)
qed

lemma raises_cache:
  assumes "serves_or_runs cache" "raises E m"
  shows "raises E (cache key m)"
  unfolding raises_def
proof (intro allI impI)
  fix w e w'
  assume run: "cache key m w = (Inl e, w')"
  from assms(1) have "cache key m w = m w \<or> (\<exists>r. cache key m w = (Inr r, w))"
    unfolding serves_or_runs_def by (elim allE)
  with run have "m w = (Inl e, w')" by auto
  with assms(2) show "e \<in> E" by (rule raisesD)
qed

lemma raises_cached_read:
  "serves_or_runs cache \<Longrightarrow> raises E m \<Longrightarrow> 0 < i \<Longrightarrow> raises E (cached_read cache s e i q t m)"
  unfolding cached_read_def todo_cache_key_builder_def
  by (rule raises_bnd) (auto simp: of_option_def intro: outcomes raises_cache)

definition smtp_slips :: "mailer \<Rightarrow> exn set" where
  "smtp_slips m = {e. connection m = SmtpBroken e \<or> (\<exists>msg. deliver m msg = SmtpBroken e)}"

lemma raises_smtp:
  "covers E \<Longrightarrow> smtp_slips m \<subseteq> E \<Longrightarrow> raises E (check_connection m s)"
  "covers E \<Longrightarrow> smtp_slips m \<subseteq> E \<Longrightarrow> raises E (send_mail m s r t b k a)"
proof -
  have smtp: "raises E (smtp x)" if "covers E" "\<And>e. x = SmtpBroken e \<Longrightarrow> e \<in> E" for x and E
    using that by (cases x) (auto simp: smtp_def intro: outcomes)
  show "covers E \<Longrightarrow> smtp_slips m \<subseteq> E \<Longrightarrow> raises E (check_connection m s)"
    unfolding check_connection_def by (intro outcomes smtp) (auto simp: smtp_slips_def)
  show "covers E \<Longrightarrow> smtp_slips m \<subseteq> E \<Longrightarrow> raises E (send_mail m s r t b k a)"
    unfolding send_mail_def by (intro outcomes smtp) (auto simp: smtp_slips_def)
qed

lemma raises_publish: "raises E (enqueue_registration_verification_email b r t n q x)"
  "raises E (enqueue_registration_welcome_email b r n q)" "raises E (record_activity a i)" "raises E (invalidate_todo_cache i)"
  unfolding enqueue_registration_verification_email_def enqueue_registration_welcome_email_def publish_def
    record_activity_def invalidate_todo_cache_def by (intro outcomes)+

lemma raises_counting: "raises E m \<Longrightarrow> raises E (counting_failures mechanism m)"
  unfolding counting_failures_def
  by (rule raises_catch, assumption) (auto split: exn.splits if_splits intro!: outcomes)

lemma raises_password_login: "covers E \<Longrightarrow> token_slips \<subseteq> E \<Longrightarrow> raises E (password_login env s m form)"
  unfolding password_login_def by (intro raises_counting outcomes raises_authenticate raises_login_session)

lemma raises_session_reply: "covers E \<Longrightarrow> token_slips \<subseteq> E \<Longrightarrow> raises E (session_reply env s m t)"
  unfolding session_reply_def set_browser_session_cookies_def remaining_seconds_def Let_def
  by (intro outcomes raises_of_valid raises_decode) (auto simp: token_slips_def)

lemma raises_browser_write:
  "covers E \<Longrightarrow> ValueErr \<in> E \<Longrightarrow> TypeErr \<in> E \<Longrightarrow> raises E (browser_write env s rq b h)"
  unfolding browser_write_def by (intro outcomes raises_origin raises_csrf raises_current_user)

lemma raises_routes_todo:
  "covers E \<Longrightarrow> ValueErr \<in> E \<Longrightarrow> TypeErr \<in> E \<Longrightarrow> raises E (create_todo_route env s rq b h p)"
  "covers E \<Longrightarrow> ValueErr \<in> E \<Longrightarrow> TypeErr \<in> E \<Longrightarrow> raises E (update_todo_route env s rq b h i u)"
  "covers E \<Longrightarrow> ValueErr \<in> E \<Longrightarrow> TypeErr \<in> E \<Longrightarrow> raises E (remove_todo_route env s rq b h i)"
  "covers E \<Longrightarrow> serves_or_runs cache \<Longrightarrow> raises E (list_todos_route cache env s rq b q)"
  "covers E \<Longrightarrow> TypeErr \<in> E \<Longrightarrow> serves_or_runs cache \<Longrightarrow> raises E (get_todo_route cache env s rq b h i)"
  unfolding create_todo_route_def update_todo_route_def remove_todo_route_def list_todos_route_def get_todo_route_def
  by (intro raises_bnd_by [OF raises_current_user yields_caller] raises_csrf raises_browser_write raises_validated
      raises_cached_read raises_todos raises_publish outcomes; assumption)+

text \<open>The settings only keep redirect URIs that \<^verbatim>\<open>urlsplit\<close> takes.\<close>

definition redirects_parse :: "settings \<Rightarrow> bool" where
  "redirects_parse s \<longleftrightarrow> (\<forall>uri \<in> set (oauth2_redirect_uris s). urlsplit uri \<noteq> None)"

lemma validated_settings_parse:
  assumes "load_settings env raw = Some s"
  shows "redirects_parse s"
  unfolding redirects_parse_def
proof
  fix uri assume "uri \<in> set (oauth2_redirect_uris s)"
  then have "Some uri \<in> set (map redirect_uri_of (oauth2_redirect_uris raw))"
    using validated_redirects [OF assms] by simp
  then obtain raw_uri where "redirect_uri_of raw_uri = Some uri" by auto
  then show "urlsplit uri \<noteq> None"
    by (auto simp: redirect_uri_of_def Let_def split: option.splits if_splits)
qed

lemma raises_redirect_error:
  "covers E \<Longrightarrow> redirects_parse s \<Longrightarrow> raises E (redirect_authorization_error s e p)"
  by (auto simp: redirect_authorization_error_def has_trusted_redirect_def redirects_parse_def append_query_def
      of_option_def split: option.splits if_splits intro!: outcomes)

lemma raises_of_oauth: "covers E \<Longrightarrow> raises E (of_oauth r)"
  by (cases r) (auto simp: of_oauth_def intro: outcomes)

lemma raises_on_oauth_error:
  "raises E m \<Longrightarrow> (\<And>e. raises E (h e)) \<Longrightarrow> raises E (on_oauth_error caught m h)"
  unfolding on_oauth_error_def
  by (rule raises_catch, assumption) (auto split: exn.splits error_class.splits if_splits)

lemma raises_authorization_page:
  "covers E \<Longrightarrow> redirects_parse s \<Longrightarrow> raises E (authorization_page s p)"
  unfolding authorization_page_def validate_authorization_request_def
  by (intro raises_on_oauth_error outcomes raises_of_oauth raises_redirect_error) simp_all

lemma yields_issue:
  "yields (\<lambda>_. ar_redirect_uri r \<in> set (oauth2_redirect_uris s)) (issue_authorization_code env s e p r)"
proof -
  have "yields (\<lambda>_. ar_redirect_uri r \<in> set (oauth2_redirect_uris s)) (validate_authorization_request s r)"
    unfolding validate_authorization_request_def by (auto intro: typing)
  then show ?thesis
    unfolding issue_authorization_code_def Let_def by (rule within_bnd_by) (intro yields_bnd within_ret)
qed

lemma raises_authorize:
  assumes "covers E" "redirects_parse s"
  shows "raises E (authorize env s credentials p)"
proof -
  define shown where "shown email password = (\<lambda>request. on_oauth_error is_issuance_error
      (catch (bnd (issue_authorization_code env s email password request) (\<lambda>code. ret (Inr code)))
        (\<lambda>e. if is_login_failure e
             then Some (ret (Inl (login_page request ''Invalid email or password.''))) else None))
      (\<lambda>e. bnd (redirect_authorization_error s e p) (\<lambda>r. ret (Inl r))))" for email password
  have raises: "raises E (shown email password request)" for email password request
    unfolding shown_def using assms
    by (intro raises_on_oauth_error raises_catch [of E] outcomes raises_issue raises_redirect_error)
      (auto split: if_splits intro: outcomes)
  have yields: "yields (\<lambda>x. \<forall>code. x = Inr code \<longrightarrow> ar_redirect_uri request \<in> set (oauth2_redirect_uris s))
      (shown email password request)" for email password request
    unfolding shown_def on_oauth_error_def
    by (intro within_catch within_bnd_by [OF yields_issue])
      (auto split: if_splits exn.splits error_class.splits intro!: typing)
  have "raises E (bnd (shown email password request) (\<lambda>issued. case issued of
            Inl r \<Rightarrow> ret r
          | Inr code \<Rightarrow> bnd (of_option ValueErr (append_query (ar_redirect_uri request)
                     [(''code'', Some code), (''state'', ar_state request)])) (\<lambda>location.
              ret (redirect_reply 303 location))))" for email password request
    using assms(2)
    by (intro raises_bnd_by [OF raises yields])
      (auto simp: append_query_def redirects_parse_def of_option_def split: sum.splits option.splits intro!: outcomes)
  then show ?thesis
    unfolding authorize_def shown_def using assms
    by (intro raises_validated) (auto split: sum.splits intro!: outcomes raises_redirect_error)
qed

section \<open>Every route\<close>

text \<open>
  What may leave a route beside the exceptions of the program. \<^verbatim>\<open>TypeError\<close>: a comparison of texts that are not
  ASCII, or a key whose owner is gone. \<^verbatim>\<open>ValueError\<close>: an origin that \<^verbatim>\<open>urlsplit\<close> refuses, or a lifetime that is
  not positive. \<^verbatim>\<open>ValidationError\<close>: a token or an answer with tokens that its schema refuses.
\<close>

definition slips :: "server \<Rightarrow> api_call \<Rightarrow> exn set" where
  "slips sv c = (case c of
      Login _ \<Rightarrow> token_slips
    | BrowserLogin _ \<Rightarrow> token_slips
    | Refresh _ \<Rightarrow> insert TypeErr token_slips
    | BrowserRefresh _ \<Rightarrow> insert TypeErr token_slips
    | BrowserLogout _ \<Rightarrow> {TypeErr}
    | ExchangeCode _ \<Rightarrow> token_slips
    | GetMeByKey _ \<Rightarrow> {TypeErr}
    | GetMeByQueryKey _ \<Rightarrow> {TypeErr}
    | CheckSmtp _ \<Rightarrow> smtp_slips (sv_mailer sv)
    | SendTestEmail _ _ _ \<Rightarrow> {TypeErr, ValueErr} \<union> smtp_slips (sv_mailer sv)
    | CreateTodo _ _ _ \<Rightarrow> {TypeErr, ValueErr}
    | GetTodo _ _ _ \<Rightarrow> {TypeErr}
    | UpdateTodo _ _ _ _ \<Rightarrow> {TypeErr, ValueErr}
    | RemoveTodo _ _ _ \<Rightarrow> {TypeErr, ValueErr}
    | _ \<Rightarrow> {})"

lemma raises_routes_auth:
  "covers E \<Longrightarrow> raises E (register b env s rq p)" "covers E \<Longrightarrow> raises E (resend_email_verification b s rq t)"
  "covers E \<Longrightarrow> raises E (confirm_email_verification b rq t)" "covers E \<Longrightarrow> raises E (logout env s t)"
  unfolding register_def resend_email_verification_def confirm_email_verification_def logout_def Let_def
  by (intro raises_validated outcomes raises_register_covered raises_verification raises_logout raises_publish; assumption)+

lemma raises_routes_session:
  assumes "covers E" "token_slips \<subseteq> E"
  shows "raises E (login env s form)" "raises E (browser_login env s form)"
    and "TypeErr \<in> E \<Longrightarrow> raises E (refresh env s t)" "TypeErr \<in> E \<Longrightarrow> raises E (refresh_browser_session env s rq h)"
    and "raises E (exchange_code env s rq q)"
  using assms
  unfolding login_def browser_login_def refresh_def refresh_browser_session_def exchange_code_def Let_def
  by (intro raises_validated outcomes raises_password_login raises_session_reply raises_counting raises_refresh
      raises_csrf raises_of_oauth raises_exchange; simp)+

lemma raises_routes_user:
  assumes "covers E"
  shows "raises E (me env s rq t)" "raises E (update_current_user env s rq t n)"
    and "raises E (deactivate_current_user env s rq t)" "raises E (me_by_basic env cr)"
    and "raises E (Routes_User.create_api_key env s rq t n')" "raises E (get_api_keys env s rq t v)"
    and "raises E (delete_api_key env s rq t i)"
    and "TypeErr \<in> E \<Longrightarrow> raises E (me_by_api_key k)" "TypeErr \<in> E \<Longrightarrow> raises E (me_by_query_api_key k)"
    and "TypeErr \<in> E \<Longrightarrow> raises E (logout_browser_session env s rq h)"
  using assms
  unfolding me_def update_current_user_def deactivate_current_user_def me_by_basic_def Routes_User.create_api_key_def
    get_api_keys_def delete_api_key_def me_by_api_key_def me_by_query_api_key_def get_current_header_api_key_user_def
    get_current_query_api_key_user_def logout_browser_session_def Let_def
  by (intro raises_validated outcomes raises_current_user raises_basic_user raises_key_user raises_profile raises_keys
      raises_publish raises_csrf raises_logout; simp)+

lemma raises_routes_email:
  assumes "covers E" "smtp_slips m \<subseteq> E"
  shows "raises E (check_smtp_connection m env s rq t)"
    and "TypeErr \<in> E \<Longrightarrow> ValueErr \<in> E \<Longrightarrow> raises E (send_test_email m env s rq t h p)"
  using assms
  unfolding check_smtp_connection_def send_test_email_def
  by (intro raises_validated outcomes raises_current_user raises_origin raises_csrf raises_smtp; simp)+

lemmas raises_routes = raises_routes_auth raises_routes_session raises_routes_user raises_routes_email
  raises_routes_todo raises_authorization_page raises_authorize

lemma raises_dispatch:
  assumes "serves_or_runs (sv_cache sv)" "redirects_parse (sv_settings sv)"
  shows "raises (range AppErr \<union> slips sv c) (dispatch sv rq c)"
  using assms
  by (cases c) (auto simp: dispatch_def slips_def Let_def covers_def health_check_def intro!: raises_routes outcomes)

lemma database_is_no_slip:
  "slips sv c \<inter> (sql_errors \<union> {HashingErr, UnknownHashErr, RuntimeErr}) \<subseteq> smtp_slips (sv_mailer sv)"
  by (cases c) (auto simp: slips_def token_slips_def sql_errors_def is_sqlalchemy_error_def)

lemma no_success_fails: "is_success s c rp \<Longrightarrow> rp_body rp \<noteq> ServerFailure"
  by (cases c)
    (auto simp: is_success_def session_answer_def not_modified_def same_content_def respond_def with_headers_def
      with_cookies_def login_page_def redirect_reply_def)

text \<open>
  C5. No failure of the database becomes a 500. Whatever each statement of a request meets, from an address
  that another request has just taken to a pool without a free connection, and whatever the password hasher raises, the
  route turns it into an exception of the program, which has a handler. A 500 comes from one of the few
  slips of its route only: texts that are not ASCII where a digest is compared, an origin that does not parse, a
  token that its own schema refuses, or an exception of the mail library that the service does not name; and most
  routes have none. So the handler of pool timeouts in \<^verbatim>\<open>app.py\<close> has nothing left to do.
\<close>

theorem database_failures_are_answered:
  assumes "serve sv rq c w = (Inr rp, w')" and "rp_body rp = ServerFailure"
    and "serves_or_runs (sv_cache sv)" "replays (sv_cache sv)" "redirects_parse (sv_settings sv)"
  shows "\<exists>e w1. dispatch sv rq c (w\<lparr>work := committed w\<rparr>) = (Inl e, w1) \<and> e \<in> slips sv c \<and>
     e \<notin> (sql_errors \<union> {HashingErr, UnknownHashErr, RuntimeErr}) - smtp_slips (sv_mailer sv)"
proof -
  obtain r w1 where run: "dispatch sv rq c (w\<lparr>work := committed w\<rparr>) = (r, w1)" by fastforce
  show ?thesis
  proof (cases r)
    case (Inr r')
    with run assms(1) have "rp = r'"
      by (simp add: serve_def answer_def get_session_def catch_def)
    moreover have "is_success (sv_settings sv) c r' \<or> is_invalid r'"
      using yields_result [OF answers_dispatch [OF assms(4)]] run Inr by blast
    ultimately show ?thesis
      using assms(2) no_success_fails by (auto simp: is_invalid_def respond_def)
  next
    case (Inl e)
    with run raises_dispatch [OF assms(3,5)] have e: "e \<in> range AppErr \<union> slips sv c" by (auto dest: raisesD)
    have "e \<notin> range AppErr"
    proof
      assume "e \<in> range AppErr"
      with run Inl assms(1,2) show False
        by (auto simp: serve_def answer_def get_session_def catch_def Let_def bnd_def ret_def emit_def error_reply_def
            split: option.splits)
    qed
    with e have "e \<in> slips sv c" by blast
    with run Inl database_is_no_slip [of sv c] show ?thesis by blast
  qed
qed

text \<open>A logout whose CSRF header and cookie are the letter \<^verbatim>\<open>e\<close> with an accent.\<close>

definition accented_request :: request where
  "accented_request = plain_request\<lparr>rq_cookies :=
     [(ACCESS_COOKIE_NAME, ''x''), (CSRF_COOKIE_NAME, [CHR 0xE9])]\<rparr>"

theorem database_failures_are_answered_witness:
  "(\<exists>w. serve sample_server accented_request (BrowserLogout (Some [CHR 0xE9])) (sample_world sample_db) =
      (Inr (respond 500 ServerFailure), w)) \<and>
   (\<exists>e w. dispatch sample_server accented_request (BrowserLogout (Some [CHR 0xE9])) (sample_world sample_db) =
      (Inl e, w) \<and> e \<in> {TypeErr})"
proof -
  let ?c = "BrowserLogout (Some [CHR 0xE9])" and ?w = "sample_world sample_db"
  have same: "?w\<lparr>work := sample_db\<rparr> = ?w" by (simp add: sample_world_def)
  have names: "ACCESS_COOKIE_NAME \<noteq> CSRF_COOKIE_NAME" "\<not> is_ascii [CHR 0xE9]" by code_simp+
  have csrf: "verify_csrf_token (Some [CHR 0xE9]) (cookie accented_request CSRF_COOKIE_NAME) = Inl TypeErr"
    using names by (simp add: verify_csrf_token_def compare_digest_def cookie_def accented_request_def)
  have "cookie accented_request ACCESS_COOKIE_NAME = Some ''x''" by (simp add: cookie_def accented_request_def)
  with csrf have guard: "require_browser_csrf_token accented_request (Some [CHR 0xE9]) w = (Inl TypeErr, w)" for w
    by (simp add: require_browser_csrf_token_def check_csrf_def of_result_def raise_def bnd_def)
  then have slip: "dispatch sample_server accented_request ?c w = (Inl TypeErr, w)" for w
    by (simp add: dispatch_def logout_browser_session_def Let_def bnd_def)
  then have run: "serve sample_server accented_request ?c ?w = (Inr (respond 500 ServerFailure), ?w)"
    by (simp add: serve_def answer_def get_session_def catch_def ret_def same)
  have cache: "serves_or_runs (sv_cache sample_server)" "replays (sv_cache sample_server)"
    unfolding serves_or_runs_def replays_def sample_server_def by (fastforce simp: same_content_def)+
  have "redirects_parse (sv_settings sample_server)"
    unfolding redirects_parse_def sample_server_def by code_simp
  from database_failures_are_answered [OF run _ cache this] run show ?thesis
    by (auto simp: respond_def same slips_def)
qed

end
