(* ===== verification/Scripts.thy ===== *)
theory Scripts
  imports Auth_Facts OAuth Todos Api_Keys Cache_Facts
begin

text \<open>
  The command line tools of \<^verbatim>\<open>scripts/\<close> that write: \<^verbatim>\<open>create_user.py\<close> makes an account with a
  generated password, \<^verbatim>\<open>seed_database.py\<close> replaces a batch of example data. What Faker and
  \<^verbatim>\<open>random.Random\<close> draw is given, one record of draws per row; so is the Persian label of the API keys.
\<close>

section \<open>An account with a generated password\<close>

definition bytes18 :: "byte list \<Rightarrow> byte list" where
  "bytes18 bs = take 18 (bs @ replicate 18 0)"

text \<open>\<^verbatim>\<open>secrets.token_urlsafe(18)\<close>.\<close>

definition generate_password :: "string act" where
  "generate_password = bnd draw (\<lambda>bs. ret (b64url_nopad (bytes18 bs)))"

definition create_user_script :: "env \<Rightarrow> string \<Rightarrow> string field \<Rightarrow> bool \<Rightarrow> (user \<times> string) act" where
  "create_user_script env email full_name superuser =
     bnd generate_password (\<lambda>password.
     get_session
       (bnd (of_valid (UserCreateSchema env \<lparr>uci_email = Given email, uci_full_name = full_name,
               uci_password = Given password, uci_extra = []\<rparr>)) (\<lambda>payload.
        bnd (register_verified env payload superuser) (\<lambda>user. ret (user, password)))))"

lemma length_bytes18 [simp]: "length (bytes18 bs) = 18"
  by (simp add: bytes18_def)

text \<open>
  The schema wants a letter and a digit; a text of twenty-four base 64 letters need not have a
  digit, and then the command fails.
\<close>

definition has_letter_and_digit :: "string \<Rightarrow> bool" where
  "has_letter_and_digit p \<longleftrightarrow> list_ex is_ascii_letter p \<and> list_ex (\<lambda>c. digit_of c \<noteq> None) p"

lemma generated_password_field:
  "password_field (Given (b64url_nopad (bytes18 bs))) =
     (if has_letter_and_digit (b64url_nopad (bytes18 bs)) then Some (b64url_nopad (bytes18 bs)) else None)"
proof -
  have "list_all b64url_alphabet (b64url_nopad (bytes18 bs))" "length (b64url_nopad (bytes18 bs)) = 24"
    using b64url_nopad_shape [of "bytes18 bs"] by simp_all
  then show ?thesis
    using alphabet_not_space
    by (auto simp: password_field_def has_letter_and_digit_def length_between_def list_all_iff list_ex_iff)
qed

lemma unlucky_password: "\<not> has_letter_and_digit (b64url_nopad (bytes18 []))"
  by code_simp

lemma create_user_refuses_unlucky:
  assumes "\<not> has_letter_and_digit (b64url_nopad (bytes18 (drawn w)))"
  shows "\<exists>names w'. create_user_script env email full_name su w = (Inl (ValidationErr names), w') \<and>
     ''password'' \<in> set names \<and> committed w' = committed w"
proof -
  have "password_field (Given (b64url_nopad (bytes18 (drawn w)))) = None"
    using assms by (simp add: generated_password_field)
  then show ?thesis
    by (auto simp: create_user_script_def generate_password_def bnd_def draw_eq ret_def get_session_def of_valid_def
        UserCreateSchema_def rejected_def raise_def split: option.split list.split)
qed

section \<open>Seeding\<close>

record seed_options =
  so_seed :: int
  so_users :: nat
  so_todos_per_user :: nat
  so_api_keys_per_user :: nat
  so_refresh_sessions_per_user :: nat
  so_oauth_codes_per_user :: nat
  so_password :: string
  so_oauth_client_id :: string
  so_oauth_redirect_uri :: string

definition SEED_EMAIL_DOMAIN :: string where "SEED_EMAIL_DOMAIN = ''example.com''"

text \<open>\<^verbatim>\<open>{index:04d}\<close>\<close>

definition pad4 :: "nat \<Rightarrow> string" where
  "pad4 n = replicate (4 - length (str_nat n)) (CHR ''0'') @ str_nat n"

definition seed_email :: "int \<Rightarrow> nat \<Rightarrow> string" where
  "seed_email seed index = ''seed-'' @ py_str seed @ ''-'' @ pad4 index @ ''@'' @ SEED_EMAIL_DOMAIN"

definition sha256_hex :: "string \<Rightarrow> string" where
  "sha256_hex value = hash_secret value"

definition create_pkce_challenge :: "string \<Rightarrow> string option" where
  "create_pkce_challenge verifier = map_option (\<lambda>bs. b64url_nopad (sha256 bs)) (ascii_encode verifier)"

text \<open>
  \<^verbatim>\<open>" ".join(value.split())\<close>, stripped of spaces and points (the Persian marks are no characters
  here), cut, and stripped of white space at the end.
\<close>

fun split_words :: "string \<Rightarrow> string \<Rightarrow> string list" where
  "split_words acc [] = (if acc = [] then [] else [acc])"
| "split_words acc (c # cs) =
     (if is_space c then (if acc = [] then [] else [acc]) @ split_words [] cs else split_words (acc @ [c]) cs)"

fun join_words :: "string list \<Rightarrow> string" where
  "join_words [] = []"
| "join_words [w] = w"
| "join_words (w # ws) = w @ '' '' @ join_words ws"

definition strip_marks :: "string \<Rightarrow> string" where
  "strip_marks s = (let mark = (\<lambda>c. c = CHR '' '' \<or> c = CHR ''.'') in
     rev (dropWhile mark (rev (dropWhile mark s))))"

definition rstrip :: "string \<Rightarrow> string" where
  "rstrip s = rev (dropWhile is_space (rev s))"

definition clean_sentence :: "string \<Rightarrow> nat \<Rightarrow> string" where
  "clean_sentence value max_length = rstrip (take max_length (strip_marks (join_words (split_words [] value))))"

subsection \<open>Rows\<close>

abbreviation hours :: "int \<Rightarrow> time" where "hours n \<equiv> n * 3600000000"
abbreviation minutes :: "int \<Rightarrow> time" where "minutes n \<equiv> n * 60000000"

record todo_draw =
  td_status :: todo_status
  td_days :: int
  td_hours :: int
  td_done_hours :: int
  td_done_minutes :: int
  td_due_days :: int
  td_paragraph :: "string option" \<comment> \<open>in four of five rows\<close>
  td_sentence :: string
  td_priority :: todo_priority
  td_has_due :: bool
  td_archived :: bool

definition build_todo :: "int \<Rightarrow> int \<Rightarrow> todo_draw \<Rightarrow> time \<Rightarrow> todo" where
  "build_todo i user_id d now =
     (let created_at = now - (days (td_days d) + hours (td_hours d));
          completed_at = (if td_status d = DONE
            then Some (min (created_at + (hours (td_done_hours d) + minutes (td_done_minutes d))) now) else None);
          due_at = created_at + days (td_due_days d)
      in \<lparr>t_id = i, t_user_id = user_id, t_title = clean_sentence (td_sentence d) 200,
          t_description = map_option (\<lambda>p. clean_sentence p 1000) (td_paragraph d),
          t_status = td_status d, t_priority = td_priority d,
          t_due_at = (if td_has_due d then Some due_at else None), t_completed_at = completed_at,
          t_is_archived = (td_status d \<in> {DONE, CANCELLED} \<and> td_archived d),
          t_created_at = created_at,
          t_updated_at = (case completed_at of Some c \<Rightarrow> c | None \<Rightarrow> created_at)\<rparr>)"

definition build_api_key :: "int \<Rightarrow> string \<Rightarrow> int \<Rightarrow> int \<Rightarrow> nat \<Rightarrow> int \<Rightarrow> bool \<Rightarrow> time \<Rightarrow> api_key" where
  "build_api_key i label seed user_id index days_ago active now =
     (let created_at = now - days days_ago in
      \<lparr>k_id = i, k_user_id = user_id, k_name = label @ str_nat index,
       k_key_hash = sha256_hex (''api-key:'' @ py_str seed @ '':'' @ py_str user_id @ '':'' @ str_nat index),
       k_is_active = active, k_created_at = created_at, k_updated_at = created_at\<rparr>)"

record session_draw =
  sd_days :: int
  sd_hours :: int
  sd_life_days :: int
  sd_idle_days :: int
  sd_rotated :: bool
  sd_revoked :: bool

definition build_refresh_session :: "int \<Rightarrow> int \<Rightarrow> nat \<Rightarrow> session_draw \<Rightarrow> time \<Rightarrow> refresh_session" where
  "build_refresh_session seed user_id index d now =
     (let name = py_str seed @ '':'' @ py_str user_id @ '':'' @ str_nat index;
          created_at = now - (days (sd_days d) + hours (sd_hours d));
          absolute_expires_at = created_at + days (sd_life_days d);
          expires_at = min (now + days (sd_idle_days d)) absolute_expires_at;
          activity_at = min (created_at + days 1) now;
          used = sd_rotated d \<or> sd_revoked d
      in \<lparr>s_id = take 64 (sha256_hex (''session-id:'' @ name)), s_user_id = user_id,
          s_token_hash = sha256_hex (''refresh-token:'' @ name @ '':current''),
          s_previous_token_hash =
            (if sd_rotated d then Some (sha256_hex (''refresh-token:'' @ name @ '':previous'')) else None),
          s_expires_at = expires_at, s_absolute_expires_at = absolute_expires_at,
          s_revoked_at = (if sd_revoked d then Some activity_at else None),
          s_last_used_at = (if used then Some activity_at else None),
          s_rotated_at = (if sd_rotated d then Some activity_at else None),
          s_created_at = created_at, s_updated_at = (if used then activity_at else created_at)\<rparr>)"

text \<open>\<open>None\<close> would be a verifier that is not ASCII.\<close>

definition build_oauth_code ::
  "int \<Rightarrow> int \<Rightarrow> nat \<Rightarrow> string \<Rightarrow> string \<Rightarrow> int \<Rightarrow> bool \<Rightarrow> time \<Rightarrow> auth_code option" where
  "build_oauth_code seed user_id index client_id redirect_uri minutes_ago consumed now =
     (let name = py_str seed @ '':'' @ py_str user_id @ '':'' @ str_nat index;
          created_at = now - minutes minutes_ago;
          expires_at = created_at + minutes 10;
          consumed_at = (if consumed then Some (min (created_at + minutes 1) expires_at) else None)
      in map_option (\<lambda>challenge.
           \<lparr>c_code_hash = sha256_hex (''authorization-code:'' @ name), c_user_id = user_id,
            c_client_id = client_id, c_redirect_uri = redirect_uri, c_code_challenge = challenge,
            c_expires_at = expires_at, c_consumed_at = consumed_at, c_created_at = created_at,
            c_updated_at = (case consumed_at of Some c \<Rightarrow> c | None \<Rightarrow> created_at)\<rparr>)
         (create_pkce_challenge (sha256_hex (''pkce-verifier:'' @ name))))"

text \<open>The rows that the draws of \<^verbatim>\<open>rng\<close> allow.\<close>

definition todo_draw_ok :: "todo_draw \<Rightarrow> bool" where
  "todo_draw_ok d \<longleftrightarrow> 0 \<le> td_days d \<and> td_days d \<le> 120 \<and> 0 \<le> td_hours d \<and> td_hours d \<le> 23 \<and>
     1 \<le> td_done_hours d \<and> td_done_hours d \<le> 240 \<and> 0 \<le> td_done_minutes d \<and> td_done_minutes d \<le> 59 \<and>
     - 10 \<le> td_due_days d \<and> td_due_days d \<le> 45"

definition session_draw_ok :: "session_draw \<Rightarrow> bool" where
  "session_draw_ok d \<longleftrightarrow> 0 \<le> sd_days d \<and> sd_days d \<le> 20 \<and> 0 \<le> sd_hours d \<and> sd_hours d \<le> 23 \<and>
     30 \<le> sd_life_days d \<and> sd_life_days d \<le> 90 \<and> 1 \<le> sd_idle_days d \<and> sd_idle_days d \<le> 14"

lemma last_rstrip: "rstrip s \<noteq> [] \<Longrightarrow> \<not> is_space (last (rstrip s))"
  using hd_dropWhile [of is_space "rev s"] by (auto simp: rstrip_def last_rev)

lemma length_clean_sentence: "length (clean_sentence v n) \<le> n"
proof -
  have "length (rstrip t) \<le> length t" for t
    by (simp add: rstrip_def length_dropWhile_rev)
  then show ?thesis unfolding clean_sentence_def by (rule order_trans) simp
qed

lemma clean_sentence_not_blank: "clean_sentence v n \<noteq> [] \<Longrightarrow> list_ex (\<lambda>c. c \<noteq> CHR '' '') (clean_sentence v n)"
proof -
  assume ne: "clean_sentence v n \<noteq> []"
  then have "\<not> is_space (last (clean_sentence v n))"
    unfolding clean_sentence_def by (rule last_rstrip)
  moreover have "is_space (CHR '' '')" by (simp add: is_space_def)
  ultimately have "last (clean_sentence v n) \<noteq> CHR '' ''" by metis
  with ne show ?thesis unfolding list_ex_iff by (intro bexI [of _ "last (clean_sentence v n)"]) auto
qed

lemma seeded_todo:
  assumes "todo_draw_ok d" and "clean_sentence (td_sentence d) 200 \<noteq> []" and "int32 i"
  shows "todo_check_title (build_todo i u d now) \<and> todo_check_completion (build_todo i u d now) \<and>
     todo_fits (build_todo i u d now) \<and>
     t_created_at (build_todo i u d now) \<le> t_updated_at (build_todo i u d now) \<and>
     t_updated_at (build_todo i u d now) \<le> now"
  using assms clean_sentence_not_blank [OF assms(2)] length_clean_sentence [of "td_sentence d" 200]
  by (auto simp: build_todo_def Let_def todo_check_title_def todo_check_completion_def todo_fits_def todo_draw_ok_def)

lemma seeded_session:
  assumes "session_draw_ok d"
  shows "session_check_expiration (build_refresh_session seed u i d now) \<and>
     session_check_absolute (build_refresh_session seed u i d now) \<and>
     session_check_idle (build_refresh_session seed u i d now) \<and>
     session_fits (build_refresh_session seed u i d now) \<and>
     (session_is_active (build_refresh_session seed u i d now) now \<longleftrightarrow> \<not> sd_revoked d)"
  using assms
  by (auto simp: build_refresh_session_def Let_def session_check_expiration_def session_check_absolute_def
      session_check_idle_def session_fits_def session_is_active_def session_draw_ok_def sha256_hex_def min_def)

lemma create_pkce_challenge_hash:
  "\<exists>c. create_pkce_challenge (sha256_hex v) = Some c \<and> length c = 43"
  using is_ascii_hash_secret [of v]
  by (auto simp: create_pkce_challenge_def sha256_hex_def ascii_encode_def is_ascii_def length_b64url_nopad_32)

lemma seeded_code:
  assumes "client_id \<noteq> []" "length client_id \<le> 128" "redirect_uri \<noteq> []" "length redirect_uri \<le> 2048"
  shows "\<exists>c. build_oauth_code seed u i client_id redirect_uri m consumed now = Some c \<and>
     length (c_code_hash c) = 64 \<and> length (c_code_challenge c) = 43 \<and> c_client_id c \<noteq> [] \<and>
     c_redirect_uri c \<noteq> [] \<and> c_created_at c < c_expires_at c \<and> code_check_consumption c \<and> auth_code_fits c"
proof -
  let ?v = "''pkce-verifier:'' @ py_str seed @ '':'' @ py_str u @ '':'' @ str_nat i"
  obtain ch where "create_pkce_challenge (sha256_hex ?v) = Some ch" "length ch = 43"
    using create_pkce_challenge_hash by blast
  with assms show ?thesis
    by (auto simp: build_oauth_code_def Let_def code_check_consumption_def auth_code_fits_def sha256_hex_def)
qed

subsection \<open>The batch\<close>

text \<open>Deleting users: their rows go with them (\<^verbatim>\<open>ON DELETE CASCADE\<close>).\<close>

definition drop_users :: "(user \<Rightarrow> bool) \<Rightarrow> db \<Rightarrow> db" where
  "drop_users P d = (let gone = map u_id (filter P (users d)) in
     d\<lparr>users := delete_where P (users d),
       refresh_sessions := delete_where (\<lambda>r. s_user_id r \<in> set gone) (refresh_sessions d),
       auth_codes := delete_where (\<lambda>r. c_user_id r \<in> set gone) (auth_codes d),
       api_keys := delete_where (\<lambda>r. k_user_id r \<in> set gone) (api_keys d),
       todos := delete_where (\<lambda>r. t_user_id r \<in> set gone) (todos d)\<rparr>)"

definition email_pattern :: "int \<Rightarrow> string" where
  "email_pattern seed = ''seed-'' @ py_str seed @ ''-%@'' @ SEED_EMAIL_DOMAIN"

definition remove_previous_seed_batch :: "int \<Rightarrow> unit act" where
  "remove_previous_seed_batch seed =
     bnd statement (\<lambda>_.
     bnd (edit (drop_users (\<lambda>u. like_match (u_email u) (email_pattern seed)))) (\<lambda>_. commit))"

text \<open>What Faker and the generator draw; \<open>dr_inactive\<close> says whether the draw is below the rate.\<close>

record draws =
  dr_name :: "nat \<Rightarrow> string"
  dr_inactive :: "nat \<Rightarrow> bool"
  dr_todo :: "int \<Rightarrow> nat \<Rightarrow> todo_draw"
  dr_key :: "int \<Rightarrow> nat \<Rightarrow> int \<times> bool"
  dr_key_label :: string
  dr_session :: "int \<Rightarrow> nat \<Rightarrow> session_draw"
  dr_code :: "int \<Rightarrow> nat \<Rightarrow> int \<times> bool"

fun for_each :: "('x \<Rightarrow> 'y act) \<Rightarrow> 'x list \<Rightarrow> 'y list act" where
  "for_each f [] = ret []"
| "for_each f (x # xs) = bnd (f x) (\<lambda>y. bnd (for_each f xs) (\<lambda>ys. ret (y # ys)))"

definition create_seed_user :: "env \<Rightarrow> seed_options \<Rightarrow> draws \<Rightarrow> nat \<Rightarrow> (nat \<times> user) act" where
  "create_seed_user env opts dr index =
     bnd (of_valid (UserCreateSchema env
       \<lparr>uci_email = Given (seed_email (so_seed opts) index), uci_full_name = Given (dr_name dr index),
        uci_password = Given (so_password opts), uci_extra = []\<rparr>)) (\<lambda>payload.
     bnd (register_verified env payload (index = 1)) (\<lambda>user. ret (index, user)))"

definition create_users :: "env \<Rightarrow> seed_options \<Rightarrow> draws \<Rightarrow> user list act" where
  "create_users env opts dr =
     bnd (for_each (create_seed_user env opts dr) [1..<Suc (so_users opts)]) (\<lambda>created.
     (let inactive = map (u_id \<circ> snd) (filter (\<lambda>(i, _). i \<noteq> 1 \<and> dr_inactive dr i) created) in
      bnd (if inactive = [] then ret ()
           else
             bnd statement (\<lambda>_.
             bnd (read db_now) (\<lambda>now.
             bnd (edit (\<lambda>d. d\<lparr>users := update_where (\<lambda>u. u_id u \<in> set inactive)
                    (\<lambda>u. u\<lparr>u_is_active := False, u_updated_at := now\<rparr>) (users d)\<rparr>)) (\<lambda>_. commit)))) (\<lambda>_.
      ret (map snd created))))"

definition add_user_data :: "seed_options \<Rightarrow> draws \<Rightarrow> time \<Rightarrow> user \<Rightarrow> unit act" where
  "add_user_data opts dr now user =
     (let u = u_id user in
      bnd (for_each (\<lambda>n. bnd next_todo_id (\<lambda>i.
             edit (\<lambda>d. d\<lparr>todos := todos d @ [build_todo i u (dr_todo dr u n) now]\<rparr>)))
           [0..<so_todos_per_user opts]) (\<lambda>_.
      bnd (for_each (\<lambda>n. bnd next_api_key_id (\<lambda>i.
             edit (\<lambda>d. d\<lparr>api_keys := api_keys d @
               [build_api_key i (dr_key_label dr) (so_seed opts) u n (fst (dr_key dr u n)) (snd (dr_key dr u n)) now]\<rparr>)))
           [1..<Suc (so_api_keys_per_user opts)]) (\<lambda>_.
      bnd (for_each (\<lambda>n. edit (\<lambda>d. d\<lparr>refresh_sessions := refresh_sessions d @
             [build_refresh_session (so_seed opts) u n (dr_session dr u n) now]\<rparr>))
           [1..<Suc (so_refresh_sessions_per_user opts)]) (\<lambda>_.
      bnd (for_each (\<lambda>n. bnd (of_option ValueErr (build_oauth_code (so_seed opts) u n (so_oauth_client_id opts)
               (so_oauth_redirect_uri opts) (fst (dr_code dr u n)) (snd (dr_code dr u n)) now)) (\<lambda>c.
             edit (\<lambda>d. d\<lparr>auth_codes := auth_codes d @ [c]\<rparr>)))
           [1..<Suc (so_oauth_codes_per_user opts)]) (\<lambda>_. ret ())))))"

record seed_result =
  sr_users :: nat
  sr_todos :: nat
  sr_api_keys :: nat
  sr_refresh_sessions :: nat
  sr_oauth_codes :: nat

definition create_related_data :: "seed_options \<Rightarrow> draws \<Rightarrow> user list \<Rightarrow> seed_result act" where
  "create_related_data opts dr us =
     bnd now_utc (\<lambda>now.
     bnd (for_each (add_user_data opts dr now) us) (\<lambda>_.
     bnd commit (\<lambda>_. ret
       \<lparr>sr_users = length us, sr_todos = length us * so_todos_per_user opts,
        sr_api_keys = length us * so_api_keys_per_user opts,
        sr_refresh_sessions = length us * so_refresh_sessions_per_user opts,
        sr_oauth_codes = length us * so_oauth_codes_per_user opts\<rparr>)))"

definition seed_database :: "env \<Rightarrow> seed_options \<Rightarrow> draws \<Rightarrow> seed_result act" where
  "seed_database env opts dr = get_session
     (bnd (remove_previous_seed_batch (so_seed opts)) (\<lambda>_.
      bnd (create_users env opts dr) (\<lambda>us. create_related_data opts dr us)))"

text \<open>The integer options of the command line; \<open>None\<close> is refused by \<^verbatim>\<open>argparse\<close>.\<close>

definition non_negative_int :: "string \<Rightarrow> int option" where
  "non_negative_int value = (case py_int value of
      None \<Rightarrow> None | Some n \<Rightarrow> if n < 0 then None else Some n)"

definition positive_int :: "string \<Rightarrow> int option" where
  "positive_int value = (case py_int value of None \<Rightarrow> None | Some n \<Rightarrow> if n < 1 then None else Some n)"

text \<open>The defaults of \<^verbatim>\<open>parse_args\<close>; the rate of inactive users is part of the draws.\<close>

definition default_seed_options :: seed_options where
  "default_seed_options = \<lparr>so_seed = 1405, so_users = 10, so_todos_per_user = 10, so_api_keys_per_user = 2,
     so_refresh_sessions_per_user = 2, so_oauth_codes_per_user = 1, so_password = ''qwe123!@#'',
     so_oauth_client_id = ''todo-web'', so_oauth_redirect_uri = ''http://localhost:3000/callback''\<rparr>"

subsection \<open>Batches do not touch each other\<close>

definition plain_char :: "char \<Rightarrow> bool" where
  "plain_char c \<longleftrightarrow> c \<noteq> CHR ''%'' \<and> c \<noteq> CHR ''_'' \<and> c \<noteq> CHR 0x5C"

lemma like_plain:
  "list_all plain_char p \<Longrightarrow> like_match t (p @ q) \<longleftrightarrow> (\<exists>r. t = p @ r \<and> like_match r q)"
proof (induction p arbitrary: t)
  case Nil
  then show ?case by simp
next
  case (Cons c p)
  then show ?case by (cases t) (auto simp: plain_char_def)
qed

lemma like_any: "like_match t ps \<Longrightarrow> like_match (xs @ t) (CHR ''%'' # ps)"
proof (induction xs)
  case Nil
  then show ?case by (cases t) simp_all
next
  case (Cons x xs)
  then show ?case by simp
qed

lemma plain_digits: "list_all plain_char (py_str i)"
proof -
  have "plain_char c" if "c \<in> set (str_nat n)" for c n
    using digit_of_str_nat [OF that] by (auto simp: plain_char_def digit_of_def)
  then show ?thesis by (auto simp: py_str_def list_all_iff plain_char_def)
qed

text \<open>The pattern of a batch fits the addresses of that batch, and of no other.\<close>

lemma pattern_fits_batch: "like_match (seed_email seed' i) (email_pattern seed) \<longleftrightarrow> seed = seed'"
proof -
  let ?p = "''seed-'' @ py_str seed @ ''-''" and ?d = "''@'' @ SEED_EMAIL_DOMAIN"
  have split: "email_pattern seed = ?p @ (CHR ''%'' # ?d)"
    "seed_email seed' i = ''seed-'' @ py_str seed' @ CHR ''-'' # (pad4 i @ ?d)"
    by (simp_all add: email_pattern_def seed_email_def)
  have p: "list_all plain_char ?p" "list_all plain_char ?d"
    using plain_digits by (simp_all add: plain_char_def SEED_EMAIL_DOMAIN_def)
  have "like_match ?d ?d" using like_plain [OF p(2), of ?d "[]"] by simp
  then have mid: "like_match (pad4 i @ ?d) (CHR ''%'' # ?d)" by (rule like_any)
  have stop: "stops (CHR ''-'' # x)" for x by (simp add: stops_def digit_of_def)
  show ?thesis
    unfolding split like_plain [OF p(1)]
    using mid by (auto simp: py_str_prefix [OF stop stop])
qed

lemma reseeding_spares_other_batches:
  assumes "\<forall>u \<in> set (users d). \<exists>seed' i. u_email u = seed_email seed' i \<and> seed' \<noteq> seed"
  shows "drop_users (\<lambda>u. like_match (u_email u) (email_pattern seed)) d = d"
proof -
  have "\<not> like_match (u_email u) (email_pattern seed)" if "u \<in> set (users d)" for u
    using assms that pattern_fits_batch by fastforce
  then show ?thesis by (simp add: drop_users_def delete_where_def cong: filter_cong)
qed

end
