(* ===== verification/Locking.thy ===== *)
theory Locking
  imports Prelude
begin

text \<open>
  Requests that contend for one row. The services take the row they decide about with
  \<^verbatim>\<open>SELECT ... FOR UPDATE\<close> (\<^verbatim>\<open>get_owned_todo(for_update=True)\<close>, \<^verbatim>\<open>verify_email\<close>,
  \<^verbatim>\<open>refresh_login_session\<close>) or in an \<^verbatim>\<open>UPDATE ... RETURNING\<close>
  (\<^verbatim>\<open>consume_authorization_code\<close>): the second transaction waits until the first one ends and
  then reads what it committed. A client is a function from what it reads under the lock to
  what it writes and what it answers; a schedule is a list of moves. This theory shows that
  every schedule has the effect of the clients served one after the other, that none gets stuck, and
  what follows for a row that can be used once.
\<close>

section \<open>Clients, stages and moves\<close>

type_synonym ('r, 'o) client = "'r \<Rightarrow> 'r \<times> 'o"

datatype ('r, 'o) stage = Waiting | Holding 'r | Staged 'r 'o | Ended "'o option"

record ('r, 'o) contention =
  shared :: 'r
  stages :: "('r, 'o) stage list"

text \<open>A client goes on, or its transaction is aborted and rolled back.\<close>

datatype move = Advance nat | Abort nat

definition holds_lock :: "('r, 'o) stage \<Rightarrow> bool" where
  "holds_lock st = (case st of Holding _ \<Rightarrow> True | Staged _ _ \<Rightarrow> True | _ \<Rightarrow> False)"

definition ended :: "('r, 'o) stage \<Rightarrow> bool" where
  "ended st = (case st of Ended _ \<Rightarrow> True | _ \<Rightarrow> False)"

fun proceed :: "('r, 'o) client \<Rightarrow> bool \<Rightarrow> 'r \<Rightarrow> ('r, 'o) stage \<Rightarrow> ('r \<times> ('r, 'o) stage) option" where
  "proceed f free r Waiting = (if free then Some (r, Holding r) else None)"
| "proceed f free r (Holding x) = (case f x of (x', out) \<Rightarrow> Some (r, Staged x' out))"
| "proceed f free r (Staged x' out) = Some (x', Ended (Some out))"
| "proceed f free r (Ended out) = None"

fun lock_move :: "('r, 'o) client list \<Rightarrow> move \<Rightarrow> ('r, 'o) contention \<Rightarrow> ('r, 'o) contention option" where
  "lock_move fs (Advance i) s =
     (if length (stages s) \<le> i then None
      else case proceed (fs ! i) (\<not> list_ex holds_lock (stages s)) (shared s) (stages s ! i) of
        None \<Rightarrow> None
      | Some (r, st) \<Rightarrow> Some (s\<lparr>shared := r, stages := (stages s)[i := st]\<rparr>))"
| "lock_move fs (Abort i) s =
     (if length (stages s) \<le> i \<or> ended (stages s ! i) then None
      else Some (s\<lparr>stages := (stages s)[i := Ended None]\<rparr>))"

fun contend :: "('r, 'o) client list \<Rightarrow> move list \<Rightarrow> ('r, 'o) contention \<Rightarrow> ('r, 'o) contention option" where
  "contend fs [] s = Some s"
| "contend fs (m # ms) s = (case lock_move fs m s of None \<Rightarrow> None | Some s' \<Rightarrow> contend fs ms s')"

definition arrive :: "('r, 'o) client list \<Rightarrow> 'r \<Rightarrow> ('r, 'o) contention" where
  "arrive fs r = \<lparr>shared = r, stages = replicate (length fs) Waiting\<rparr>"

text \<open>What a client was answered: nothing while it runs, or when it was aborted.\<close>

definition answer_of :: "('r, 'o) stage \<Rightarrow> 'o option" where
  "answer_of st = (case st of Ended out \<Rightarrow> out | _ \<Rightarrow> None)"

text \<open>How many clients were answered with such an answer.\<close>

definition winners :: "('o \<Rightarrow> bool) \<Rightarrow> ('r, 'o) contention \<Rightarrow> nat" where
  "winners won s = length (filter (\<lambda>st. case answer_of st of None \<Rightarrow> False | Some x \<Rightarrow> won x) (stages s))"

text \<open>The specification: the clients of a list, one after the other.\<close>

fun serial :: "('r, 'o) client list \<Rightarrow> nat list \<Rightarrow> 'r \<Rightarrow> 'r \<times> (nat \<times> 'o) list" where
  "serial fs [] r = (r, [])"
| "serial fs (i # is) r = (case (fs ! i) r of (r1, out) \<Rightarrow>
     case serial fs is r1 of (r2, outs) \<Rightarrow> (r2, (i, out) # outs))"

lemma serial_append:
  "serial fs (is @ js) r = (case serial fs is r of (r1, xs) \<Rightarrow>
     case serial fs js r1 of (r2, ys) \<Rightarrow> (r2, xs @ ys))"
  by (induction "is" arbitrary: r) (auto split: prod.splits)

lemma serial_order: "map fst (snd (serial fs is r)) = is"
  by (induction "is" arbitrary: r) (auto split: prod.splits, metis snd_conv)

lemma stage_simps [simp]:
  "holds_lock (Holding r)" "holds_lock (Staged r x)" "\<not> holds_lock Waiting" "\<not> holds_lock (Ended y)"
  "ended (Ended y)" "\<not> ended Waiting" "\<not> ended (Holding r)" "\<not> ended (Staged r x)"
  "answer_of (Ended y) = y" "answer_of Waiting = None" "answer_of (Holding r) = None"
  "answer_of (Staged r x) = None"
  by (simp_all add: holds_lock_def ended_def answer_of_def)

lemma contend_append:
  "contend fs (ms @ ns) s = (case contend fs ms s of None \<Rightarrow> None | Some s' \<Rightarrow> contend fs ns s')"
  by (induction ms arbitrary: s) (auto split: option.splits)

section \<open>Every schedule is a serial order\<close>

text \<open>
  The invariant: at most one client holds the lock, what it read is still the row, what it
  would write is what it answers for that row, and the finished ones have been served in the
  order \<open>is\<close>.
\<close>

definition serialised :: "('r, 'o) client list \<Rightarrow> 'r \<Rightarrow> nat list \<Rightarrow> ('r, 'o) contention \<Rightarrow> bool" where
  "serialised fs r0 is s \<longleftrightarrow>
     length (stages s) = length fs \<and> distinct is \<and> set is \<subseteq> {..<length fs} \<and>
     shared s = fst (serial fs is r0) \<and>
     (\<forall>i < length fs. \<forall>x. answer_of (stages s ! i) = Some x \<longleftrightarrow> (i, x) \<in> set (snd (serial fs is r0))) \<and>
     (\<forall>i < length fs. \<forall>r. stages s ! i = Holding r \<longrightarrow> r = shared s) \<and>
     (\<forall>i < length fs. \<forall>r x. stages s ! i = Staged r x \<longrightarrow> (fs ! i) (shared s) = (r, x)) \<and>
     (\<forall>i < length fs. \<forall>j < length fs. holds_lock (stages s ! i) \<longrightarrow> holds_lock (stages s ! j) \<longrightarrow> i = j)"

lemma serialised_arrive: "serialised fs r [] (arrive fs r)"
  by (simp add: serialised_def arrive_def)

lemma serialised_unlocked:
  assumes "serialised fs r0 is s" and "i < length fs" and "answer_of (stages s ! i) = None"
    and "answer_of st = None" and "\<And>r. st = Holding r \<Longrightarrow> r = shared s"
    and "\<And>r x. st = Staged r x \<Longrightarrow> (fs ! i) (shared s) = (r, x)"
    and "holds_lock st \<Longrightarrow> holds_lock (stages s ! i) \<or> \<not> list_ex holds_lock (stages s)"
  shows "serialised fs r0 is (s\<lparr>stages := (stages s)[i := st]\<rparr>)"
proof -
  have free: "\<not> holds_lock (stages s ! j)" if "\<not> list_ex holds_lock (stages s)" "j < length fs" for j
    using that assms(1) by (auto simp: serialised_def list_ex_iff)
  show ?thesis
    using assms free unfolding serialised_def
    by (auto simp: nth_list_update)
qed

lemma same_shared: "s\<lparr>shared := shared s, stages := x\<rparr> = s\<lparr>stages := x\<rparr>"
  by (cases s) simp

lemma serialised_commit:
  assumes inv: "serialised fs r0 is s" and i: "i < length fs" and st: "stages s ! i = Staged r x"
  shows "serialised fs r0 (is @ [i]) (s\<lparr>shared := r, stages := (stages s)[i := Ended (Some x)]\<rparr>)"
proof -
  have body: "(fs ! i) (fst (serial fs is r0)) = (r, x)" 
  proof -
    have "shared s = fst (serial fs is r0)" using inv by (simp add: serialised_def)
    moreover have "(fs ! i) (shared s) = (r, x)" using inv i st unfolding serialised_def by blast
    ultimately show ?thesis by simp
  qed
  have new: "serial fs (is @ [i]) r0 = (r, snd (serial fs is r0) @ [(i, x)])"
    using body by (cases "serial fs is r0") (simp add: serial_append)
  have fresh: "i \<notin> set is"
  proof
    assume "i \<in> set is"
    then have "i \<in> fst ` set (snd (serial fs is r0))" using serial_order [of fs "is" r0] by (metis set_map)
    then obtain y where "(i, y) \<in> set (snd (serial fs is r0))" by force
    then have "answer_of (stages s ! i) = Some y" using inv i by (simp add: serialised_def)
    with st show False by simp
  qed
  then have not_in: "(i, y) \<notin> set (snd (serial fs is r0))" for y
    using serial_order [of fs "is" r0] by (metis image_eqI list.set_map fst_conv)
  have len: "length (stages s) = length fs" using inv by (simp add: serialised_def)
  have others: "\<not> holds_lock (stages s ! j)" if "j < length fs" "j \<noteq> i" for j
    using inv i st that unfolding serialised_def by (metis stage_simps(2))
  let ?s = "s\<lparr>shared := r, stages := (stages s)[i := Ended (Some x)]\<rparr>"
  have at: "stages ?s ! j = (if j = i then Ended (Some x) else stages s ! j)" if "j < length fs" for j
    using that len by (simp add: nth_list_update)
  have free: "\<not> holds_lock (stages ?s ! j)" if "j < length fs" for j
    using that others [OF that] len by (cases "j = i") (simp_all add: nth_list_update)
  show ?thesis
    unfolding serialised_def new
  proof (intro conjI allI impI)
    show "length (stages ?s) = length fs" "shared ?s = fst (r, snd (serial fs is r0) @ [(i, x)])"
      using len by simp_all
    show "distinct (is @ [i])" "set (is @ [i]) \<subseteq> {..<length fs}"
      using inv i fresh by (auto simp: serialised_def)
    show "answer_of (stages ?s ! j) = Some y \<longleftrightarrow>
        (j, y) \<in> set (snd (r, snd (serial fs is r0) @ [(i, x)]))" if "j < length fs" for j y
    proof (cases "j = i")
      case True
      with at [OF that] not_in show ?thesis by auto
    next
      case False
      have "answer_of (stages s ! j) = Some y \<longleftrightarrow> (j, y) \<in> set (snd (serial fs is r0))"
        using inv that unfolding serialised_def by blast
      with at [OF that] False show ?thesis by auto
    qed
  qed (use free in fastforce)+
qed

lemma serialised_move:
  assumes inv: "serialised fs r0 is s" and mv: "lock_move fs m s = Some s'"
  shows "\<exists>is'. serialised fs r0 is' s'"
proof -
  have len: "length (stages s) = length fs" using inv by (simp add: serialised_def)
  show ?thesis
  proof (cases m)
    case (Abort i)
    with mv len have i: "i < length fs" "\<not> ended (stages s ! i)"
      and s': "s' = s\<lparr>stages := (stages s)[i := Ended None]\<rparr>"
      by (auto split: if_splits)
    then have "answer_of (stages s ! i) = None" by (cases "stages s ! i") auto
    from serialised_unlocked [OF inv i(1) this, of "Ended None"]
    have "serialised fs r0 is (s\<lparr>stages := (stages s)[i := Ended None]\<rparr>)" by simp
    then show ?thesis unfolding s' by blast
  next
    case (Advance i)
    with mv len obtain r st where i: "i < length fs"
      and p: "proceed (fs ! i) (\<not> list_ex holds_lock (stages s)) (shared s) (stages s ! i) = Some (r, st)"
      and s': "s' = s\<lparr>shared := r, stages := (stages s)[i := st]\<rparr>"
      by (auto split: if_splits option.splits)
    show ?thesis
    proof (cases "stages s ! i")
      case Waiting
      with p have free: "\<not> list_ex holds_lock (stages s)" and r: "r = shared s" "st = Holding (shared s)"
        by (auto split: if_splits)
      have "serialised fs r0 is (s\<lparr>stages := (stages s)[i := st]\<rparr>)"
        by (rule serialised_unlocked [OF inv i]) (simp_all only: Waiting r(2) free stage_simps stage.inject
            stage.distinct simp_thms)
      then show ?thesis unfolding s' r(1) same_shared by blast
    next
      case (Holding x)
      have x: "x = shared s" using inv i Holding unfolding serialised_def by blast
      obtain x' out where b: "(fs ! i) (shared s) = (x', out)" by fastforce
      with p Holding x have r: "r = shared s" "st = Staged x' out" by auto
      have "serialised fs r0 is (s\<lparr>stages := (stages s)[i := st]\<rparr>)"
        by (rule serialised_unlocked [OF inv i]) (auto simp only: Holding r(2) b stage_simps stage.inject
            stage.distinct simp_thms)
      then show ?thesis unfolding s' r(1) same_shared by blast
    next
      case (Staged x out)
      with p have "r = x" "st = Ended (Some out)" by auto
      with serialised_commit [OF inv i Staged] show ?thesis unfolding s' by blast
    next
      case (Ended out)
      with p show ?thesis by simp
    qed
  qed
qed

lemma contend_serialised:
  "contend fs ms s = Some s' \<Longrightarrow> serialised fs r0 is s \<Longrightarrow> \<exists>is'. serialised fs r0 is' s'"
proof (induction ms arbitrary: s "is")
  case Nil
  then show ?case by auto
next
  case (Cons m ms)
  from Cons.prems(1) obtain s1 where m: "lock_move fs m s = Some s1" and ms: "contend fs ms s1 = Some s'"
    by (auto split: option.splits)
  from serialised_move [OF Cons.prems(2) m] Cons.IH [OF ms] show ?case by blast
qed

text \<open>The refinement: the row and the answers of any schedule are those of a serial order.\<close>

lemma contend_refines_serial:
  assumes "contend fs ms (arrive fs r) = Some s"
  shows "\<exists>is. distinct is \<and> set is \<subseteq> {..<length fs} \<and> shared s = fst (serial fs is r) \<and>
     (\<forall>i < length fs. \<forall>x. answer_of (stages s ! i) = Some x \<longleftrightarrow> (i, x) \<in> set (snd (serial fs is r)))"
  using contend_serialised [OF assms serialised_arrive] by (auto simp: serialised_def)

text \<open>What a client is answered is what it answers for some row.\<close>

lemma serial_answer: "(i, x) \<in> set (snd (serial fs is r)) \<Longrightarrow> \<exists>r'. snd ((fs ! i) r') = x"
  by (induction "is" arbitrary: r) (auto split: prod.splits, (metis snd_conv)+)

lemma contend_answer:
  assumes "contend fs ms (arrive fs r) = Some s" and "i < length fs" and "answer_of (stages s ! i) = Some x"
  shows "\<exists>r'. snd ((fs ! i) r') = x"
  using contend_refines_serial [OF assms(1)] assms(2,3) serial_answer by fastforce

section \<open>Every schedule ends\<close>

fun remaining :: "('r, 'o) stage \<Rightarrow> nat" where
  "remaining Waiting = 3"
| "remaining (Holding r) = 2"
| "remaining (Staged r x) = 1"
| "remaining (Ended y) = 0"

definition work_left :: "('r, 'o) contention \<Rightarrow> nat" where
  "work_left s = sum_list (map remaining (stages s))"

lemma work_left_update:
  assumes "i < length (stages s)" and "remaining st < remaining (stages s ! i)"
  shows "work_left (s\<lparr>stages := (stages s)[i := st]\<rparr>) < work_left s"
proof -
  have "remaining (stages s ! i) \<le> sum_list (map remaining (stages s))"
    using assms(1) by (intro elem_le_sum_list [of i "map remaining (stages s)", simplified]) 
  then show ?thesis
    using assms by (simp add: work_left_def map_update sum_list_update)
qed

lemma work_left_shared [simp]: "work_left (s\<lparr>shared := r\<rparr>) = work_left s"
  by (simp add: work_left_def)

lemma move_less_work:
  assumes "lock_move fs m s = Some s'"
  shows "work_left s' < work_left s"
proof (cases m)
  case (Abort i)
  with assms show ?thesis
    by (cases "stages s ! i") (auto split: if_splits intro!: work_left_update)
next
  case (Advance i)
  with assms obtain r st where i: "i < length (stages s)"
    and p: "proceed (fs ! i) (\<not> list_ex holds_lock (stages s)) (shared s) (stages s ! i) = Some (r, st)"
    and s': "s' = s\<lparr>shared := r, stages := (stages s)[i := st]\<rparr>"
    by (auto split: if_splits option.splits)
  from p have "remaining st < remaining (stages s ! i)"
    by (cases "stages s ! i") (auto split: if_splits prod.splits)
  from work_left_update [of i "s\<lparr>shared := r\<rparr>", simplified, OF i this] show ?thesis by (simp add: s' work_left_def)
qed

lemma contend_work: "contend fs ms s = Some s' \<Longrightarrow> length ms + work_left s' \<le> work_left s"
proof (induction ms arbitrary: s)
  case (Cons m ms)
  then obtain s1 where m: "lock_move fs m s = Some s1" and ms: "contend fs ms s1 = Some s'"
    by (auto split: option.splits)
  from move_less_work [OF m] Cons.IH [OF ms] show ?case by simp
qed simp

lemma contend_length:
  assumes "contend fs ms (arrive fs r) = Some s"
  shows "length ms \<le> 3 * length fs"
  using contend_work [OF assms] by (simp add: work_left_def arrive_def sum_list_replicate)

text \<open>No deadlock: the holder of the lock can go on, and when nobody holds it anyone can take it.\<close>

lemma some_move:
  assumes "i < length (stages s)" and "\<not> ended (stages s ! i)"
  shows "\<exists>j s'. lock_move fs (Advance j) s = Some s'"
proof (cases "list_ex holds_lock (stages s)")
  case True
  then obtain j where j: "j < length (stages s)" "holds_lock (stages s ! j)"
    by (auto simp: list_ex_length)
  then have "lock_move fs (Advance j) s \<noteq> None"
    by (cases "stages s ! j") (auto split: prod.splits)
  then show ?thesis by blast
next
  case False
  then have "stages s ! i = Waiting"
    using assms by (cases "stages s ! i") (auto simp: list_ex_length)
  with assms(1) False have "lock_move fs (Advance i) s \<noteq> None" by simp
  then show ?thesis by blast
qed

lemma stuck_iff_ended: "(\<forall>m. lock_move fs m s = None) \<longleftrightarrow> list_all ended (stages s)"
proof
  assume "\<forall>m. lock_move fs m s = None"
  then show "list_all ended (stages s)"
    unfolding list_all_length by (metis some_move option.distinct(1))
next
  assume all: "list_all ended (stages s)"
  show "\<forall>m. lock_move fs m s = None"
  proof
    fix m
    show "lock_move fs m s = None"
    proof (cases m)
      case (Abort i)
      with all show ?thesis by (cases "i < length (stages s)") (auto simp: list_all_length)
    next
      case (Advance i)
      show ?thesis
      proof (cases "i < length (stages s)")
        case True
        with all obtain y where "stages s ! i = Ended y"
          by (cases "stages s ! i") (auto simp: list_all_length)
        with Advance show ?thesis by simp
      qed (simp add: Advance)
    qed
  qed
qed

text \<open>
  A client that was not aborted stays so while the others only go on, so from every state the
  clients can be brought to the end, and every one of them that was not aborted is answered.
\<close>

definition advances :: "move \<Rightarrow> bool" where
  "advances m = (case m of Advance _ \<Rightarrow> True | Abort _ \<Rightarrow> False)"

lemma advance_not_aborted:
  assumes "lock_move fs (Advance i) s = Some s'"
  shows "length (stages s') = length (stages s) \<and>
     (\<forall>j < length (stages s). stages s ! j \<noteq> Ended None \<longrightarrow> stages s' ! j \<noteq> Ended None)"
proof -
  from assms obtain r st where i: "i < length (stages s)"
    and p: "proceed (fs ! i) (\<not> list_ex holds_lock (stages s)) (shared s) (stages s ! i) = Some (r, st)"
    and s': "s' = s\<lparr>shared := r, stages := (stages s)[i := st]\<rparr>"
    by (auto split: if_splits option.splits)
  from p have "st \<noteq> Ended None"
    by (cases "stages s ! i") (auto split: if_splits prod.splits)
  with i show ?thesis unfolding s' by (auto simp: nth_list_update)
qed

lemma contend_finish:
  "\<exists>ms s'. list_all advances ms \<and> contend fs ms s = Some s' \<and> length (stages s') = length (stages s) \<and>
     list_all ended (stages s') \<and>
     (\<forall>j < length (stages s). stages s ! j \<noteq> Ended None \<longrightarrow> stages s' ! j \<noteq> Ended None)"
proof (induction "work_left s" arbitrary: s rule: less_induct)
  case less
  show ?case
  proof (cases "list_all ended (stages s)")
    case True
    then show ?thesis by (intro exI [of _ "[]"]) simp
  next
    case False
    then obtain i where "i < length (stages s)" "\<not> ended (stages s ! i)" by (auto simp: list_all_length)
    from some_move [OF this, of fs] obtain j s1 where m: "lock_move fs (Advance j) s = Some s1" by blast
    note keeps = advance_not_aborted [OF m]
    from less [OF move_less_work [OF m]] obtain ms s' where
      "list_all advances ms" "contend fs ms s1 = Some s'" "length (stages s') = length (stages s1)"
      "list_all ended (stages s')"
      "\<forall>j < length (stages s1). stages s1 ! j \<noteq> Ended None \<longrightarrow> stages s' ! j \<noteq> Ended None" by blast
    with m keeps show ?thesis
      by (intro exI [of _ "Advance j # ms"] exI [of _ s']) (simp add: advances_def)
  qed
qed

text \<open>Two clients, one after the other.\<close>

definition in_turn :: "move list" where
  "in_turn = [Advance 0, Advance 0, Advance 0, Advance 1, Advance 1, Advance 1]"

lemma contend_in_turn:
  "contend [f, g] in_turn (arrive [f, g] r) =
     Some \<lparr>shared = fst (g (fst (f r))), stages = [Ended (Some (snd (f r))), Ended (Some (snd (g (fst (f r)))))]\<rparr>"
  by (simp add: in_turn_def arrive_def split: prod.splits)

section \<open>Rows that can be used once\<close>

text \<open>
  A latch: some rows are dead, dead rows stay dead whoever is served, an answer that \<open>mark\<close>s
  leaves a dead row, and nobody wins on a dead row. \<open>sound\<close> is what the clients keep.
\<close>

locale latch =
  fixes body :: "'q \<Rightarrow> ('r, 'o) client"
    and admit :: "'q \<Rightarrow> bool" and sound :: "'r \<Rightarrow> bool" and dead :: "'r \<Rightarrow> bool"
    and mark :: "'o \<Rightarrow> bool" and won :: "'o \<Rightarrow> bool"
  assumes keeps_sound: "admit q \<Longrightarrow> sound r \<Longrightarrow> body q r = (r', x) \<Longrightarrow> sound r'"
    and stays_dead: "admit q \<Longrightarrow> sound r \<Longrightarrow> dead r \<Longrightarrow> body q r = (r', x) \<Longrightarrow> dead r'"
    and marks_dead: "admit q \<Longrightarrow> sound r \<Longrightarrow> body q r = (r', x) \<Longrightarrow> mark x \<Longrightarrow> dead r'"
    and wins_alive: "admit q \<Longrightarrow> sound r \<Longrightarrow> body q r = (r', x) \<Longrightarrow> won x \<Longrightarrow> \<not> dead r"
begin

lemma serial_dead:
  assumes "list_all admit qs" and "set is \<subseteq> {..<length qs}" and "sound r" and "dead r"
    and "serial (map body qs) is r = (r', outs)"
  shows "dead r' \<and> (\<forall>(i, x) \<in> set outs. \<not> won x)"
  using assms(2-)
proof (induction "is" arbitrary: r outs)
  case Nil
  then show ?case by simp
next
  case (Cons i js)
  then have i: "i < length qs" by simp
  with assms(1) have q: "admit (qs ! i)" by (simp add: list_all_length)
  from Cons.prems(4) i obtain r1 x outs' where b: "body (qs ! i) r = (r1, x)"
    and rest: "serial (map body qs) js r1 = (r', outs')" and outs: "outs = (i, x) # outs'"
    by (auto split: prod.splits)
  from keeps_sound [OF q Cons.prems(2) b] stays_dead [OF q Cons.prems(2,3) b] Cons.IH [OF _ _ _ rest]
    Cons.prems(1) have "dead r' \<and> (\<forall>(i, x) \<in> set outs'. \<not> won x)" by simp
  moreover have "\<not> won x" using wins_alive [OF q Cons.prems(2) b] Cons.prems(3) by blast
  ultimately show ?case by (simp add: outs)
qed

lemma serial_marked:
  assumes "list_all admit qs" and "set is \<subseteq> {..<length qs}" and "sound r"
    and "serial (map body qs) is r = (r', outs)" and "outs = xs @ (i, x) # ys" and "mark x"
  shows "dead r' \<and> (\<forall>(j, y) \<in> set ys. \<not> won y)"
  using assms(2-5)
proof (induction "is" arbitrary: r outs xs)
  case Nil
  then show ?case by simp
next
  case (Cons k js)
  then have k: "k < length qs" by simp
  with assms(1) have q: "admit (qs ! k)" by (simp add: list_all_length)
  from Cons.prems(3) k obtain r1 y outs' where b: "body (qs ! k) r = (r1, y)"
    and rest: "serial (map body qs) js r1 = (r', outs')" and outs: "outs = (k, y) # outs'"
    by (auto split: prod.splits)
  note r1 = keeps_sound [OF q Cons.prems(2) b]
  show ?case
  proof (cases xs)
    case Nil
    with outs Cons.prems(4) have "y = x" "outs' = ys" by auto
    with marks_dead [OF q Cons.prems(2) b] assms(6) serial_dead [OF assms(1) _ r1 _ rest] Cons.prems(1)
    show ?thesis by auto
  next
    case (Cons z zs)
    with outs Cons.prems(4) have "outs' = zs @ (i, x) # ys" by auto
    from Cons.IH [OF _ r1 rest this] Cons.prems(1) show ?thesis by simp
  qed
qed

text \<open>Whatever the schedule, once a client was answered with a mark the row is dead at the end.\<close>

lemma marked_is_dead:
  assumes "list_all admit qs" and "sound r"
    and "contend (map body qs) ms (arrive (map body qs) r) = Some s"
    and "i < length qs" and "answer_of (stages s ! i) = Some x" and "mark x"
  shows "dead (shared s)"
proof -
  from contend_refines_serial [OF assms(3)] obtain "is" where
    "set is \<subseteq> {..<length qs}" and row: "shared s = fst (serial (map body qs) is r)"
    and "(i, x) \<in> set (snd (serial (map body qs) is r))"
    using assms(4,5) by auto
  moreover from this(3) obtain xs ys where "snd (serial (map body qs) is r) = xs @ (i, x) # ys"
    by (meson split_list)
  ultimately show ?thesis
    using serial_marked [OF assms(1) _ assms(2) prod.collapse [symmetric] _ assms(6)] by auto
qed

text \<open>After a mark nobody wins, so of a mark and a win by two clients the win was served first.\<close>

lemma two_marks:
  assumes "list_all admit qs" and "sound r"
    and "contend (map body qs) ms (arrive (map body qs) r) = Some s"
    and "i < length qs" and "answer_of (stages s ! i) = Some x" and "mark x" and "won x"
    and "j < length qs" and "answer_of (stages s ! j) = Some y" and "mark y" and "won y"
  shows "i = j"
proof (rule ccontr)
  assume ne: "i \<noteq> j"
  from contend_refines_serial [OF assms(3)] obtain "is" where ran: "set is \<subseteq> {..<length qs}"
    and ij: "(i, x) \<in> set (snd (serial (map body qs) is r))" "(j, y) \<in> set (snd (serial (map body qs) is r))"
    using assms(4,5,8,9) by auto
  from ij(1) obtain xs ys where split: "snd (serial (map body qs) is r) = xs @ (i, x) # ys"
    by (meson split_list)
  note after = serial_marked [OF assms(1) ran assms(2) prod.collapse [symmetric]]
  from ij(2) ne split consider "(j, y) \<in> set ys" | "(j, y) \<in> set xs" by auto
  then show False
  proof cases
    case 1
    with after [OF split assms(6)] assms(11) show False by auto
  next
    case 2
    then obtain us vs where "xs = us @ (j, y) # vs" by (meson split_list)
    with split have "snd (serial (map body qs) is r) = us @ (j, y) # (vs @ (i, x) # ys)" by simp
    from after [OF this assms(10)] assms(7) show False by auto
  qed
qed

end

text \<open>A row that serves one client: every win marks.\<close>

locale one_shot = latch body admit sound dead won won
  for body :: "'q \<Rightarrow> ('r, 'o) client" and admit sound dead won
begin

lemma one_winner:
  assumes "list_all admit qs" and "sound r"
    and "contend (map body qs) ms (arrive (map body qs) r) = Some s"
  shows "winners won s \<le> 1"
proof -
  let ?w = "\<lambda>st. case answer_of st of None \<Rightarrow> False | Some x \<Rightarrow> won x"
  let ?I = "{i. i < length (stages s) \<and> ?w (stages s ! i)}"
  have len: "length (stages s) = length qs"
    using contend_serialised [OF assms(3) serialised_arrive] by (auto simp: serialised_def)
  have same: "i = j" if "i \<in> ?I" "j \<in> ?I" for i j
    using that len
    by (auto split: option.splits intro: two_marks [OF assms(1,2,3)])
  have "card ?I \<le> Suc 0"
    using same by (subst card_le_Suc0_iff_eq) auto
  then show ?thesis by (simp add: winners_def length_filter_conv_card)
qed

end

section \<open>Effects that stay\<close>

text \<open>
  A fact about the row that one client establishes and every other client keeps holds at the
  end of every schedule in which that client was served.
\<close>

lemma serial_keeps:
  assumes "serial fs is r = (r', outs)" and "set is \<subseteq> {..<length fs}" and "I r" and "distinct is"
    and "\<And>j r r1 y. j < length fs \<Longrightarrow> I r \<Longrightarrow> (fs ! j) r = (r1, y) \<Longrightarrow> I r1"
    and "\<And>j r r1 y. j < length fs \<Longrightarrow> j \<noteq> i \<Longrightarrow> I r \<Longrightarrow> P r \<Longrightarrow> (fs ! j) r = (r1, y) \<Longrightarrow> P r1"
    and "i \<notin> set is" and "P r"
  shows "P r'"
  using assms(1-4,7,8)
proof (induction "is" arbitrary: r outs)
  case Nil
  then show ?case by simp
next
  case (Cons j js)
  from Cons.prems(1) obtain r1 x outs' where b: "(fs ! j) r = (r1, x)"
    and rest: "serial fs js r1 = (r', outs')" by (auto split: prod.splits)
  from Cons.prems have j: "j < length fs" "j \<noteq> i" by auto
  from assms(5) [OF j(1) Cons.prems(3) b] assms(6) [OF j Cons.prems(3,6) b] Cons.prems
  show ?case by (intro Cons.IH [OF rest]) auto
qed

lemma serial_establishes:
  assumes "serial fs is r = (r', outs)" and "set is \<subseteq> {..<length fs}" and "I r" and "distinct is"
    and inv: "\<And>j r r1 y. j < length fs \<Longrightarrow> I r \<Longrightarrow> (fs ! j) r = (r1, y) \<Longrightarrow> I r1"
    and others: "\<And>j r r1 y. j < length fs \<Longrightarrow> j \<noteq> i \<Longrightarrow> I r \<Longrightarrow> P r \<Longrightarrow> (fs ! j) r = (r1, y) \<Longrightarrow> P r1"
    and it: "\<And>r r1. I r \<Longrightarrow> (fs ! i) r = (r1, x) \<Longrightarrow> P r1"
    and "(i, x) \<in> set outs"
  shows "P r'"
  using assms(1-4,8)
proof (induction "is" arbitrary: r outs)
  case Nil
  then show ?case by simp
next
  case (Cons j js)
  from Cons.prems(1) obtain r1 y outs' where b: "(fs ! j) r = (r1, y)"
    and rest: "serial fs js r1 = (r', outs')" and outs: "outs = (j, y) # outs'" by (auto split: prod.splits)
  from Cons.prems have j: "j < length fs" by auto
  note r1 = inv [OF j Cons.prems(3) b]
  show ?case
  proof (cases "(i, x) \<in> set outs'")
    case True
    with Cons.prems r1 show ?thesis by (intro Cons.IH [OF rest]) auto
  next
    case False
    with outs Cons.prems(5) have "j = i" "y = x" by auto
    with it [OF Cons.prems(3)] b have "P r1" by simp
    with serial_keeps [where I = I and P = P and i = i, OF rest _ r1 _ inv others] Cons.prems \<open>j = i\<close>
    show ?thesis by auto
  qed
qed

lemma contend_establishes:
  assumes "contend fs ms (arrive fs r) = Some s" and "I r" and "i < length fs"
    and "\<And>j r r1 y. j < length fs \<Longrightarrow> I r \<Longrightarrow> (fs ! j) r = (r1, y) \<Longrightarrow> I r1"
    and "\<And>j r r1 y. j < length fs \<Longrightarrow> j \<noteq> i \<Longrightarrow> I r \<Longrightarrow> P r \<Longrightarrow> (fs ! j) r = (r1, y) \<Longrightarrow> P r1"
    and "\<And>r r1. I r \<Longrightarrow> (fs ! i) r = (r1, x) \<Longrightarrow> P r1"
    and "answer_of (stages s ! i) = Some x"
  shows "P (shared s)"
proof -
  from contend_refines_serial [OF assms(1)] obtain "is" where
    "distinct is" "set is \<subseteq> {..<length fs}" "shared s = fst (serial fs is r)"
    "(i, x) \<in> set (snd (serial fs is r))"
    using assms(3,7) by auto
  with serial_establishes [where I = I and P = P and i = i and x = x,
      OF prod.collapse [symmetric] _ assms(2) _ assms(4-6)] show ?thesis by auto
qed

end
