(* ===== verification/Contention.thy ===== *)
theory Contention
  imports Locking OAuth_Props Todo_Facts User_Policy
begin

text \<open>
  The services under contention: requests that present the same verification token,
  authorization code or refresh token, or change the same todo, at the same time. A client of
  \<^verbatim>\<open>Locking\<close> is here a whole service operation, run in a session of its own on what it reads
  once the lock is its own; its clocks, random bytes and database faults are those of its own
  world and arbitrary.
\<close>

section \<open>A service operation as a client\<close>

definition served :: "world \<Rightarrow> 'a act \<Rightarrow> (db, exn + 'a) client" where
  "served v m d = (case get_session m (v\<lparr>committed := d\<rparr>) of (r, w') \<Rightarrow> (committed w', r))"

definition succeeded :: "(exn + 'a) \<Rightarrow> bool" where
  "succeeded r = (case r of Inl _ \<Rightarrow> False | Inr _ \<Rightarrow> True)"

lemma succeeded_iff: "succeeded r \<longleftrightarrow> (\<exists>x. r = Inr x)"
  by (cases r) (simp_all add: succeeded_def)

lemma served_eq:
  "served v m d = (d', r) \<longleftrightarrow>
     (\<exists>w'. m (v\<lparr>committed := d, work := d\<rparr>) = (r, w') \<and> committed w' = d')"
  by (auto simp: served_def get_session_def split: prod.splits)

text \<open>A property of rows that both the transaction and the committed database keep.\<close>

definition both :: "(db \<Rightarrow> bool) \<Rightarrow> world \<Rightarrow> bool" where
  "both D w \<longleftrightarrow> D (work w) \<and> D (committed w)"

lemma both_prim [safe]:
  "keeping (both D) statement" "keeping (both D) check_rows" "keeping (both D) now_utc"
  "keeping (both D) draw" "keeping (both D) (emit ev)"
  by (auto simp: within_def both_def statement_def next_fault_def check_rows_def now_utc_tick draw_eq
      emit_def split: list.splits fault.splits option.splits)

lemma both_edit: "(\<And>d. D d \<Longrightarrow> D (f d)) \<Longrightarrow> keeping (both D) (edit f)"
  by (auto simp: within_def both_def edit_def)

lemma both_select: "(\<And>d. D d \<Longrightarrow> Q (q d)) \<Longrightarrow> within (both D) Q (select q)"
  unfolding select_def
  by (rule within_bnd, rule both_prim) (auto simp: within_def both_def read_def)

lemma both_flush [safe]: "keeping (both D) flush"
  unfolding flush_def by (intro safe)

lemma both_commit [safe]: "keeping (both D) commit"
proof -
  have "keeping (both D) (\<lambda>w. (Inr (), w\<lparr>committed := work w, trace := trace w @ [Committed]\<rparr>))"
    by (simp add: within_def both_def)
  then show ?thesis unfolding commit_def by (intro safe)
qed

lemma served_both:
  assumes "keeping (both D) m" and "D d" and "served v m d = (d', r)"
  shows "D d'"
proof -
  from assms(3) obtain w' where m: "m (v\<lparr>committed := d, work := d\<rparr>) = (r, w')" and d': "committed w' = d'"
    by (auto simp: served_eq)
  from withinD [OF assms(1) _ m] assms(2) d' show ?thesis by (simp add: both_def)
qed

text \<open>The contract of accounts without a restriction on the accounts: what is committed is valid.\<close>

interpretation anyone: user_policy "\<lambda>_. True" "\<lambda>_. True"
  by unfold_locales simp_all

lemma served_valid:
  assumes "keeping (policy (\<lambda>_. True) (\<lambda>_. True)) m" and "valid_db d" and "served v m d = (d', r)"
  shows "valid_db d'"
  using assms by (auto simp: served_eq policy_def list_all_iff dest!: withinD)

lemma served_ok:
  assumes "served v m d = (d', Inr x)"
  obtains w' where "m (v\<lparr>committed := d, work := d\<rparr>) = (Inr x, w')" "committed w' = d'"
  using assms by (auto simp: served_eq)

lemma served_error: "atomic m \<Longrightarrow> served v m d = (d', Inl e) \<Longrightarrow> d' = d"
  by (auto simp: served_eq dest!: atomicD)

section \<open>One verification token\<close>

definition verify_client :: "string \<Rightarrow> world \<Rightarrow> (db, exn + user) client" where
  "verify_client token v = served v (verify_email token)"

definition token_spent :: "string \<Rightarrow> db \<Rightarrow> bool" where
  "token_spent token d \<longleftrightarrow> (\<forall>u \<in> set (users d). u_email_verification_token_hash u \<noteq> Some (hash_secret (strip token)))"

lemma verify_keeps_spent:
  "within (both (token_spent token)) (\<lambda>_. False) (verify_email token)"
proof -
  have find: "within (both (token_spent token)) (\<lambda>x. x = None)
      (select (\<lambda>d. find (\<lambda>u. u_email_verification_token_hash u = Some (hash_secret (strip token))) (users d)))"
    by (rule both_select) (auto simp: token_spent_def find_None_iff')
  show ?thesis
    unfolding verify_email_def Let_def
    by (intro safe within_bnd_by [OF find]) simp_all
qed

interpretation verification: one_shot "verify_client token" "\<lambda>_. True" valid_db "token_spent token" succeeded
proof
  fix v d d' r
  assume v: "valid_db d" and run: "verify_client token v d = (d', r)"
  from served_valid [OF anyone.keeping_verification(2) v] run show "valid_db d'"
    by (simp add: verify_client_def)
  show "token_spent token d'" if "token_spent token d"
    using served_both [OF verify_keeps_spent [THEN keeping_weaken] that] run by (simp add: verify_client_def)
  show "\<not> token_spent token d" if "succeeded r"
    using that run verify_keeps_spent [of token]
    by (auto simp: succeeded_iff verify_client_def served_eq both_def dest!: withinD)
  show "token_spent token d'" if "succeeded r"
  proof -
    from that run obtain u' w' where ok: "verify_email token (v\<lparr>committed := d, work := d\<rparr>) = (Inr u', w')"
      and d': "committed w' = d'" by (auto simp: succeeded_iff verify_client_def elim: served_ok)
    let ?now = "clock (tick (v\<lparr>committed := d, work := d\<rparr>))"
    obtain u where u: "u \<in> set (users d)" "u_email_verification_token_hash u = Some (hash_secret (strip token))"
      and c: "committed w' = put_user (verified_user ?now (db_now v) u) d"
      using v by (rule_tac verify_email_success [OF ok]) auto
    have "set (users d') = insert (verified_user ?now (db_now v) u) (set (users d) - {u})"
      unfolding d' [symmetric] c by (rule set_put_user [OF v u(1)]) (simp add: verified_user_def)
    with token_hash_unique [OF v _ u(1) _ u(2)] show ?thesis
      by (auto simp: token_spent_def verified_user_def)
  qed
qed

section \<open>One authorization code\<close>

text \<open>A client of the token endpoint: its world, what it runs on and its request.\<close>

type_synonym exchange_call = "world \<times> env \<times> settings \<times> token_request"

fun exchange_client :: "exchange_call \<Rightarrow> (db, exn + token_response) client" where
  "exchange_client (v, env, s, req) = served v (exchange_authorization_code env s req)"

fun presents :: "string \<Rightarrow> exchange_call \<Rightarrow> bool" where
  "presents code (v, env, s, req) \<longleftrightarrow> tr_code req = code"

definition code_spent :: "string \<Rightarrow> db \<Rightarrow> bool" where
  "code_spent code d \<longleftrightarrow> (\<forall>c \<in> set (auth_codes d). c_code_hash c = hash_secret code \<longrightarrow> c_consumed_at c \<noteq> None)"

lemma exchange_spends:
  assumes "exchange_authorization_code env s req w = (Inr t, w')" and "valid_db (work w)"
  shows "code_spent (tr_code req) (committed w') \<and> \<not> code_spent (tr_code req) (work w)"
proof -
  have "succeeds (exchange_authorization_code env s req) w" using assms(1) by (auto simp: succeeds_def)
  with exchange_needs_fresh_code [OF assms(2)] have "\<not> code_spent (tr_code req) (work w)"
    unfolding code_spent_def by blast
  moreover obtain c u bs sid exp where c: "c \<in> set (auth_codes (work w))"
      "code_grants (hash_secret (tr_code req)) (tr_client_id req) (tr_redirect_uri req)
         (b64url_nopad (sha256 bs)) (clock (tick w)) c" and
      com: "committed w' = add_session (staged_session u t sid exp
           (clock (tick w) + refresh_session_absolute_ttl s) (clock (tick w)) (db_now w))
         (put_code (consumed_code (clock (tick w)) (db_now w) c) (work w))"
    by (rule exchange_success [OF assms])
  have h: "c_code_hash c = hash_secret (tr_code req)" using c(2) by (simp add: code_grants_def)
  have "set (auth_codes (put_code (consumed_code (clock (tick w)) (db_now w) c) (work w))) =
      insert (consumed_code (clock (tick w)) (db_now w) c) (set (auth_codes (work w)) - {c})"
    by (rule set_put_code [OF assms(2) c(1)]) simp
  with key_unique [OF valid_keys(5) [OF assms(2)] _ c(1)] h com
  have "code_spent (tr_code req) (committed w')"
    by (auto simp: code_spent_def add_session_def)
  ultimately show ?thesis by simp
qed

interpretation codes: one_shot exchange_client "presents code" valid_db "code_spent code" succeeded
proof
  fix q d d' r
  assume p: "presents code q" and v: "valid_db d" and run: "exchange_client q d = (d', r)"
  obtain w env s req where q: "q = (w, env, s, req)" by (cases q)
  from run have served: "served w (exchange_authorization_code env s req) d = (d', r)" by (simp add: q)
  from p have code: "tr_code req = code" by (simp add: q)
  from served_valid [OF anyone.keeping_codes(2) v served] show "valid_db d'" .
  have ok: "code_spent code d' \<and> \<not> code_spent code d" if "succeeded r"
  proof -
    from that served obtain t w' where
      "exchange_authorization_code env s req (w\<lparr>committed := d, work := d\<rparr>) = (Inr t, w')" "committed w' = d'"
      by (auto simp: succeeded_iff elim: served_ok)
    with exchange_spends [OF this(1)] v code show ?thesis by simp
  qed
  from ok show "code_spent code d'" if "succeeded r" using that by simp
  from ok show "\<not> code_spent code d" if "succeeded r" using that by simp
  show "code_spent code d'" if "code_spent code d"
  proof (cases "succeeded r")
    case False
    then obtain e where "r = Inl e" by (cases r) (auto simp: succeeded_iff)
    with served have "d' = d" by (auto dest: served_error [OF atomic_exchange])
    with that show ?thesis by simp
  qed (use ok in simp)
qed

section \<open>One refresh token\<close>

text \<open>
  Clients that present the same refresh token. Without a grace period the current token is
  the only one that is accepted, and a rotation replaces it.
\<close>

type_synonym refresh_call = "world \<times> env \<times> settings"

fun refresh_client :: "string \<Rightarrow> refresh_call \<Rightarrow> (db, exn + token_response) client" where
  "refresh_client token (v, env, s) = served v (refresh_login_session env s token)"

fun without_grace :: "refresh_call \<Rightarrow> bool" where
  "without_grace (v, env, s) \<longleftrightarrow> refresh_token_reuse_grace s \<le> 0"

text \<open>The answer is a new refresh token: one that is not the presented one.\<close>

definition renewed :: "string \<Rightarrow> exn + token_response \<Rightarrow> bool" where
  "renewed token r = (case r of Inl _ \<Rightarrow> False
     | Inr t \<Rightarrow> hash_secret (refresh_token t) \<noteq> hash_secret token)"

definition refresh_spent :: "string \<Rightarrow> db \<Rightarrow> bool" where
  "refresh_spent token d \<longleftrightarrow>
     (\<forall>r \<in> set (refresh_sessions d). s_token_hash r = hash_secret token \<longrightarrow> s_revoked_at r \<noteq> None)"

lemma both_save_session:
  assumes "\<And>t. s_token_hash s \<noteq> hash_secret token"
  shows "keeping (both (refresh_spent token)) (save_session s)"
  unfolding save_session_def
  by (intro safe TrueI both_edit)
    (use assms in \<open>auto simp: refresh_spent_def set_update_where touch_session_def\<close>)

lemma both_decode [safe]: "keeping (both D) (decode_refresh_token env s token)"
  by (auto simp: within_def decode_refresh_eq both_def split: option.splits)

lemma matches_other:
  "th \<noteq> h \<Longrightarrow> within P (\<lambda>b. \<not> b) (matches_token (Some th) h)"
  by (auto simp: within_def matches_token_def of_result_def compare_digest_def ret_def raise_def)

lemma not_recoverable:
  "refresh_token_reuse_grace s \<le> 0 \<Longrightarrow> within P (\<lambda>b. \<not> b) (is_recoverable_previous_token s r h now)"
  by (auto simp: is_recoverable_previous_token_def Let_def split: option.splits intro: safe)

lemma refresh_keeps_spent:
  assumes "refresh_token_reuse_grace s \<le> 0"
  shows "within (both (refresh_spent token)) (\<lambda>_. False) (refresh_login_session env s token)"
proof -
  let ?P = "both (refresh_spent token)"
  have find: "within ?P (\<lambda>x. \<forall>r. x = Some r \<longrightarrow> s_token_hash r = hash_secret token \<longrightarrow> s_revoked_at r \<noteq> None)
      (select (\<lambda>d. find (\<lambda>r. Some (s_id r) = i) (refresh_sessions d)))" for i
    by (rule both_select) (auto simp: refresh_spent_def dest!: find_SomeD)
  have other: "within ?P (\<lambda>_. False) (refresh_with_record env s uid (hash_secret token) now r)"
    if "s_token_hash r \<noteq> hash_secret token" for uid now r
  proof -
    have "keeping ?P (save_session (session_revoke r now))"
      using that by (intro both_save_session) simp
    then have revoke: "within ?P (\<lambda>_. False) (bnd (save_session (session_revoke r now)) (\<lambda>_.
       bnd commit (\<lambda>_. raise (auth_error RefreshTokenReuseDetectedError))))" by (intro safe)
    show ?thesis
      unfolding refresh_with_record_def
      by (rule within_bnd_by [OF matches_other [OF that]], simp,
          rule within_bnd_by [OF not_recoverable [OF assms]], simp add: revoke)
  qed
  show ?thesis
    unfolding refresh_login_session_def
    by (intro safe within_bnd_by [OF find]) (auto simp: session_is_active_def intro: other)
qed

lemma refresh_spends:
  assumes "refresh_login_session env s token w = (Inr t, w')" and "valid_db (work w)"
    and "refresh_token_reuse_grace s \<le> 0" and "hash_secret (refresh_token t) \<noteq> hash_secret token"
  shows "refresh_spent token (committed w')"
proof -
  obtain r now written expires where r: "r \<in> set (refresh_sessions (work w))"
      "hash_secret token = s_token_hash r \<or> within_grace s r (hash_secret token) now" and
      c: "committed w' = put_session
        (rotated_session r (hash_secret (refresh_token t)) expires now written) (work w)"
    by (rule refresh_success [OF assms(1,2)]) blast
  have h: "s_token_hash r = hash_secret token"
    using r(2) assms(3) by (auto simp: within_grace_def split: option.splits)
  have "set (refresh_sessions (committed w')) =
      insert (rotated_session r (hash_secret (refresh_token t)) expires now written)
        (set (refresh_sessions (work w)) - {r})"
    unfolding c by (rule set_put_session [OF assms(2) r(1)]) (simp add: rotated_session_def)
  with key_unique [OF valid_keys(4) [OF assms(2)] _ r(1)] h assms(4) show ?thesis
    by (auto simp: refresh_spent_def rotated_session_def)
qed

interpretation refreshing: one_shot "refresh_client token" without_grace valid_db
  "refresh_spent token" "renewed token"
proof
  fix q d d' r
  assume p: "without_grace q" and v: "valid_db d" and run: "refresh_client token q d = (d', r)"
  obtain w env s where q: "q = (w, env, s)" by (cases q)
  from run have served: "served w (refresh_login_session env s token) d = (d', r)" by (simp add: q)
  from p have grace: "refresh_token_reuse_grace s \<le> 0" by (simp add: q)
  note spent = refresh_keeps_spent [OF grace]
  from served_valid [OF anyone.keeping_refresh(1) v served] show "valid_db d'" .
  show "refresh_spent token d'" if "refresh_spent token d"
    using served_both [OF spent [THEN keeping_weaken] that served] .
  have ok: "\<exists>t w'. r = Inr t \<and> hash_secret (refresh_token t) \<noteq> hash_secret token \<and> committed w' = d' \<and>
      refresh_login_session env s token (w\<lparr>committed := d, work := d\<rparr>) = (Inr t, w')" if "renewed token r"
    using that served by (cases r) (auto simp: renewed_def served_eq)
  show "\<not> refresh_spent token d" if "renewed token r"
    using ok [OF that] spent [of token env]
    by (auto simp: both_def dest!: withinD)
  show "refresh_spent token d'" if "renewed token r"
    using ok [OF that] refresh_spends [where s = s and w = "w\<lparr>committed := d, work := d\<rparr>", OF _ _ grace] v
    by auto
qed

section \<open>One todo\<close>

text \<open>Updates and deletions of a todo of a user; the answer to a deletion has no todo.\<close>

datatype todo_call = Update todo_update | Delete

fun todo_act :: "int \<Rightarrow> int \<Rightarrow> todo_call \<Rightarrow> todo option act" where
  "todo_act uid i (Update p) = bnd (todo_update_op uid i p) (\<lambda>t. ret (Some t))"
| "todo_act uid i Delete = bnd (todo_delete uid i) (\<lambda>_. ret None)"

fun todo_client :: "int \<Rightarrow> int \<Rightarrow> world \<times> todo_call \<Rightarrow> (db, exn + todo option) client" where
  "todo_client uid i (v, q) = served v (todo_act uid i q)"

definition gone :: "int \<Rightarrow> int \<Rightarrow> db \<Rightarrow> bool" where
  "gone uid i d \<longleftrightarrow> (\<forall>t \<in> set (todos d). t_id t = i \<longrightarrow> t_user_id t \<noteq> uid)"

lemma atomic_todo_act: "atomic (todo_act uid i q)"
  by (cases q) (simp_all add: atomic_bnd_ret atomic_todo_update_op atomic_todo_delete)

lemma keeping_todo_act: "keeping (policy ok fresh) (todo_act uid i q)"
  by (cases q) (simp_all, (intro safe TrueI)+)

lemma deletion_effect:
  assumes "todo_delete uid i w = (Inr u, w')" and "valid_db (work w)"
  shows "\<not> gone uid i (work w) \<and> (\<forall>t \<in> set (todos (committed w')). t_id t \<noteq> i) \<and>
     set (todos (committed w')) \<subseteq> set (todos (work w))"
proof -
  obtain t where "find (\<lambda>t. t_id t = i \<and> t_user_id t = uid) (todos (work w)) = Some t"
    and "committed w' = (work w)\<lparr>todos := delete_where (\<lambda>r. t_id r = i) (todos (work w))\<rparr>"
    by (rule todo_delete_success [OF assms(1)])
  then show ?thesis by (auto simp: gone_def delete_where_def dest!: find_SomeD)
qed

lemma update_effect:
  assumes "todo_update_op uid i p w = (Inr t', w')" and "valid_db (work w)"
  obtains t n where "t \<in> set (todos (work w))" "t_id t = i" "t_user_id t = uid"
    "may_become (t_status t) (requested p t)" "t' = touch_todo (db_now w) t (updated_todo n p t)"
    "set (todos (committed w')) = insert t' (set (todos (work w)) - {t})"
    "\<forall>r \<in> set (todos (work w)). t_id r = i \<longrightarrow> r = t"
proof -
  obtain t where t: "t \<in> set (todos (work w))" "t_id t = i" "t_user_id t = uid"
    "may_become (t_status t) (requested p t)"
    and t': "t' = touch_todo (db_now w) t (updated_todo (clock w') p t)"
    and c: "committed w' = write_back i t' (work w)"
    by (rule todo_update_success [OF assms])
  have "set (todos (committed w')) = insert t' (set (todos (work w)) - {t})"
    using set_replace [OF valid_keys(8) [OF assms(2)] t(1), of t'] t(2)
    by (simp add: c write_back_def t')
  moreover have "r = t" if "r \<in> set (todos (work w))" "t_id r = i" for r
    using key_unique [OF valid_keys(8) [OF assms(2)] that(1) t(1)] that(2) t(2) by simp
  ultimately show thesis using that t t' by blast
qed

lemma update_not_gone:
  assumes "todo_update_op uid i p w = (Inr t', w')" and "valid_db (work w)"
  shows "\<not> gone uid i (work w)"
proof -
  obtain t where "t \<in> set (todos (work w))" "t_id t = i" "t_user_id t = uid"
    by (rule update_effect [OF assms])
  then show ?thesis by (auto simp: gone_def)
qed

text \<open>After an update the rows with its id are the row it wrote.\<close>

lemma update_rows:
  assumes "todo_update_op uid i p w = (Inr t', w')" and "valid_db (work w)"
    and "r \<in> set (todos (committed w'))" and "t_id r = i"
  shows "\<exists>t m n. t \<in> set (todos (work w)) \<and> t_id t = i \<and> r = touch_todo m t (updated_todo n p t)"
proof -
  obtain t n where t: "t \<in> set (todos (work w))" "t_id t = i" "t_user_id t = uid"
    "may_become (t_status t) (requested p t)" "t' = touch_todo (db_now w) t (updated_todo n p t)"
    and set: "set (todos (committed w')) = insert t' (set (todos (work w)) - {t})"
    and only: "\<forall>r \<in> set (todos (work w)). t_id r = i \<longrightarrow> r = t"
    by (rule update_effect [OF assms(1,2)])
  from assms(3,4) set only have "r = t'" by auto
  with t(1,2,5) show ?thesis by blast
qed

text \<open>What a client of a todo did when it was answered with a success, and with an error.\<close>

lemma todo_client_cases:
  assumes "todo_client uid i (v, q) d = (d', r)"
  obtains (error) e where "r = Inl e" "d' = d"
    | (update) p t' w' where "q = Update p" "r = Inr (Some t')"
        "todo_update_op uid i p (v\<lparr>committed := d, work := d\<rparr>) = (Inr t', w')" "committed w' = d'"
    | (delete) w' where "q = Delete" "r = Inr None"
        "todo_delete uid i (v\<lparr>committed := d, work := d\<rparr>) = (Inr (), w')" "committed w' = d'"
proof (cases r)
  case (Inl e)
  with assms have "d' = d" by (auto dest: served_error [OF atomic_todo_act])
  with Inl show thesis by (rule error)
next
  case (Inr x)
  with assms show thesis
    by (cases q) (auto simp: served_eq bnd_ok ret_ok intro: update delete)
qed

text \<open>The errors a client can be answered with; no failure of the database is one of them.\<close>

definition todo_errors :: "exn set" where
  "todo_errors = {AppErr (Todo_Error TodoNotFoundError), AppErr (Todo_Error TodoStateConflictError),
     AppErr (Todo_Error TodoServiceUnavailableError)}"

lemma raises_todo_act: "raises todo_errors (todo_act uid i q)"
proof -
  have step: "raises (todo_errors \<union> sql_errors) (transition t s)" for t s
    by (cases s) (auto simp: transition_def todo_errors_def intro!: outcomes)
  have "raises todo_errors (todo_update_op uid i p)" for p
    unfolding todo_update_op_def get_owned_todo_def save_todo_def
    by (intro outcomes step) (auto simp: todo_errors_def)
  moreover have "raises todo_errors (todo_delete uid i)"
    unfolding todo_delete_def get_owned_todo_def delete_todo_def
    by (intro outcomes) (auto simp: todo_errors_def)
  ultimately show ?thesis by (cases q) (simp_all add: raises_bnd raises_ret)
qed

lemma todo_client_errors: "snd (todo_client uid i c d) = Inl e \<Longrightarrow> e \<in> todo_errors"
  using raisesD [OF raises_todo_act]
  by (cases c) (auto simp: served_def get_session_def split: prod.splits)

definition deleted :: "exn + todo option \<Rightarrow> bool" where
  "deleted r \<longleftrightarrow> r = Inr None"

interpretation todos: latch "todo_client uid i" "\<lambda>_. True" valid_db "gone uid i" deleted succeeded
proof
  fix c d d' r
  assume v: "valid_db d" and run: "todo_client uid i c d = (d', r)"
  obtain w q where c: "c = (w, q)" by (cases c)
  note run' = run [unfolded c]
  show "valid_db d'"
    using served_valid [OF keeping_todo_act v] run' by simp
  show "gone uid i d'" if "gone uid i d"
    using run'
  proof (cases rule: todo_client_cases)
    case (update p t' w')
    with update_not_gone [OF update(3)] that v show ?thesis by simp
  next
    case (delete w')
    then show ?thesis using that v by (auto dest!: deletion_effect)
  qed (use that in simp)
  show "gone uid i d'" if "deleted r"
    using run'
  proof (cases rule: todo_client_cases)
    case (delete w')
    then show ?thesis using v by (auto simp: gone_def dest!: deletion_effect)
  qed (use that in \<open>simp_all add: deleted_def\<close>)
  show "\<not> gone uid i d" if "succeeded r"
    using run'
  proof (cases rule: todo_client_cases)
    case (update p t' w')
    with update_not_gone [OF update(3)] v show ?thesis by simp
  next
    case (delete w')
    then show ?thesis using v by (auto dest!: deletion_effect)
  qed (use that in \<open>simp add: succeeded_def\<close>)
qed

subsection \<open>No update is lost\<close>

text \<open>The todo has every value the payload gave; two payloads give no field together.\<close>

definition settles :: "todo_update \<Rightarrow> todo \<Rightarrow> bool" where
  "settles p t \<longleftrightarrow> apply_changes p t = t \<and> requested p t = t_status t"

definition disjoint_updates :: "todo_update \<Rightarrow> todo_update \<Rightarrow> bool" where
  "disjoint_updates p q \<longleftrightarrow>
     (tu_title p = None \<or> tu_title q = None) \<and> (tu_description p = None \<or> tu_description q = None) \<and>
     (tu_status p = None \<or> tu_status q = None) \<and> (tu_priority p = None \<or> tu_priority q = None) \<and>
     (tu_due_at p = None \<or> tu_due_at q = None) \<and> (tu_is_archived p = None \<or> tu_is_archived q = None)"

fun leaves :: "todo_update \<Rightarrow> todo_call \<Rightarrow> bool" where
  "leaves p (Update q) = disjoint_updates p q"
| "leaves p Delete = True"

lemma settles_iff:
  "settles p t \<longleftrightarrow>
     (\<forall>x. tu_title p = Some x \<longrightarrow> t_title t = x) \<and> (\<forall>x. tu_description p = Some x \<longrightarrow> t_description t = x) \<and>
     (\<forall>x. tu_status p = Some x \<longrightarrow> t_status t = x) \<and> (\<forall>x. tu_priority p = Some x \<longrightarrow> t_priority t = x) \<and>
     (\<forall>x. tu_due_at p = Some x \<longrightarrow> t_due_at t = x) \<and> (\<forall>x. tu_is_archived p = Some x \<longrightarrow> t_is_archived t = x)"
  by (cases t) (auto simp: settles_def apply_changes_def requested_def split: option.splits)

lemma updated_fields:
  "t_title (touch_todo m t (updated_todo n p t)) = (case tu_title p of None \<Rightarrow> t_title t | Some x \<Rightarrow> x)"
  "t_description (touch_todo m t (updated_todo n p t)) = (case tu_description p of None \<Rightarrow> t_description t | Some x \<Rightarrow> x)"
  "t_status (touch_todo m t (updated_todo n p t)) = (case tu_status p of None \<Rightarrow> t_status t | Some x \<Rightarrow> x)"
  "t_priority (touch_todo m t (updated_todo n p t)) = (case tu_priority p of None \<Rightarrow> t_priority t | Some x \<Rightarrow> x)"
  "t_due_at (touch_todo m t (updated_todo n p t)) = (case tu_due_at p of None \<Rightarrow> t_due_at t | Some x \<Rightarrow> x)"
  "t_is_archived (touch_todo m t (updated_todo n p t)) = (case tu_is_archived p of None \<Rightarrow> t_is_archived t | Some x \<Rightarrow> x)"
proof -
  have t: "f (touch_todo m t t') = f t'" if "\<And>x y. f (x\<lparr>t_updated_at := y\<rparr>) = f x" for f :: "todo \<Rightarrow> 'b" and t'
    by (simp add: touch_todo_def that)
  have s: "f (updated_todo n p t) = f (apply_changes p t)"
    if "\<And>x y z. f (x\<lparr>t_status := y, t_completed_at := z\<rparr>) = f x" for f :: "todo \<Rightarrow> 'b"
    by (simp add: updated_todo_def with_status_def that)
  show "t_title (touch_todo m t (updated_todo n p t)) = (case tu_title p of None \<Rightarrow> t_title t | Some x \<Rightarrow> x)"
    "t_description (touch_todo m t (updated_todo n p t)) = (case tu_description p of None \<Rightarrow> t_description t | Some x \<Rightarrow> x)"
    "t_priority (touch_todo m t (updated_todo n p t)) = (case tu_priority p of None \<Rightarrow> t_priority t | Some x \<Rightarrow> x)"
    "t_due_at (touch_todo m t (updated_todo n p t)) = (case tu_due_at p of None \<Rightarrow> t_due_at t | Some x \<Rightarrow> x)"
    "t_is_archived (touch_todo m t (updated_todo n p t)) = (case tu_is_archived p of None \<Rightarrow> t_is_archived t | Some x \<Rightarrow> x)"
    by (subst t, simp, subst s, simp, simp add: apply_changes_def)+
  show "t_status (touch_todo m t (updated_todo n p t)) = (case tu_status p of None \<Rightarrow> t_status t | Some x \<Rightarrow> x)"
    by (subst t, simp, simp add: requested_def)
qed

lemma updated_settles: "settles p (touch_todo m t (updated_todo n p t))"
  by (simp add: settles_iff updated_fields)

lemma disjoint_keeps:
  "settles p t \<Longrightarrow> disjoint_updates p q \<Longrightarrow> settles p (touch_todo m t (updated_todo n q t))"
  by (auto simp: settles_iff updated_fields disjoint_updates_def)

definition settled :: "int \<Rightarrow> todo_update \<Rightarrow> db \<Rightarrow> bool" where
  "settled i p d \<longleftrightarrow> (\<forall>t \<in> set (todos d). t_id t = i \<longrightarrow> settles p t)"

lemma update_settled:
  assumes "todo_client uid i (v, Update p) d = (d', Inr (Some t'))" and "valid_db d"
  shows "settled i p d'"
  using assms(1)
proof (cases rule: todo_client_cases)
  case (update p' t1 w')
  then have run: "todo_update_op uid i p (v\<lparr>committed := d, work := d\<rparr>) = (Inr t1, w')" by simp
  show ?thesis
    unfolding settled_def
  proof (intro ballI impI)
    fix r assume "r \<in> set (todos d')" "t_id r = i"
    with update(4) have r: "r \<in> set (todos (committed w'))" "t_id r = i" by simp_all
    obtain t m n where "r = touch_todo m t (updated_todo n p t)"
      using update_rows [OF run _ r] assms(2) by auto
    then show "settles p r" by (simp add: updated_settles)
  qed
qed simp_all

lemma others_settled:
  assumes "todo_client uid i (v, q) d = (d', r)" and "valid_db d" and "settled i p d" and "leaves p q"
  shows "settled i p d'"
  using assms(1)
proof (cases rule: todo_client_cases)
  case (update p' t1 w')
  show ?thesis
    unfolding settled_def
  proof (intro ballI impI)
    fix r assume "r \<in> set (todos d')" "t_id r = i"
    with update(4) have r: "r \<in> set (todos (committed w'))" "t_id r = i" by simp_all
    obtain t m n where "t \<in> set (todos d)" "t_id t = i" "r = touch_todo m t (updated_todo n p' t)"
      using update_rows [OF update(3) _ r] assms(2) by auto
    with assms(3,4) update(1) show "settles p r" by (simp add: settled_def disjoint_keeps)
  qed
next
  case (delete w')
  then show ?thesis using assms(2,3) by (auto simp: settled_def dest!: deletion_effect)
qed (use assms(3) in simp)

end
