(* ===== verification/Contention_Props.thy ===== *)
theory Contention_Props
  imports Contention Todo_Props
begin

text \<open>The properties of requests that contend for one row, each with a concrete instance.\<close>


text \<open>Two exchanges of the sample code, one after the other: the first one wins.\<close>

definition sample_call :: exchange_call where
  "sample_call = (sample_world code_db, sample_env, default_settings, sample_token_request)"

definition strict_call :: refresh_call where
  "strict_call = (sample_world code_db, sample_env, default_settings\<lparr>refresh_token_reuse_grace := 0\<rparr>)"

lemma sample_world_again: "sample_world d\<lparr>committed := d, work := d\<rparr> = sample_world d"
  by (simp add: sample_world_def)

lemma first_exchange_wins: "\<exists>t. snd (exchange_client sample_call code_db) = Inr t"
proof -
  obtain t w' where "exchange_authorization_code sample_env default_settings sample_token_request
     (sample_world code_db) = (Inr t, w')" using sample_exchange by blast
  then show ?thesis
    by (simp add: sample_call_def served_def get_session_def sample_world_again)
qed



text \<open>Two updates of the sample todo: a title and a status, then a description.\<close>

definition describe_update :: todo_update where
  "describe_update = finish_update\<lparr>tu_title := None, tu_status := None, tu_description := Some (Some ''x'')\<rparr>"

definition sample_changes :: "(world \<times> todo_call) list" where
  "sample_changes = [(sample_world sample_db, Update finish_update), (sample_world sample_db, Update describe_update)]"

lemma first_change_answered:
  "\<exists>t. snd (todo_client 1 1 (sample_world sample_db, Update finish_update) sample_db) = Inr (Some t)"
proof -
  obtain t w' where "todo_update_op 1 1 finish_update (sample_world sample_db) = (Inr t, w')"
    using sample_update_run by blast
  then show ?thesis
    by (simp add: served_def get_session_def sample_world_again bnd_run ret_def)
qed




end
