(* ===== verification/Load_Test.thy ===== *)
theory Load_Test
  imports Complex_Main Scripts Route_Table
begin

text \<open>
  The load test \<^verbatim>\<open>loadtests/locustfile.py\<close>: a simulated user logs in with a seeded account, keeps
  its tokens fresh, remembers the todos it has seen, and sends the requests of its tasks. The
  server is a parameter, a function from a request and a state of its own to a response, so
  what is shown here holds for every server. What \<^verbatim>\<open>random.choice\<close> and \<^verbatim>\<open>uuid4\<close> draw, and the
  readings of the clock, are supplies in the state.
\<close>

section \<open>Settings\<close>

text \<open>What \<^verbatim>\<open>float\<close> gives; a comparison with \<open>NaN\<close> is false.\<close>

datatype flt = Num rat | Infinite bool | NaN

fun flt_less :: "flt \<Rightarrow> flt \<Rightarrow> bool" where
  "flt_less (Num x) (Num y) = (x < y)"
| "flt_less (Num x) (Infinite positive) = positive"
| "flt_less (Infinite positive) (Num y) = (\<not> positive)"
| "flt_less (Infinite p) (Infinite q) = (\<not> p \<and> q)"
| "flt_less NaN y = False"
| "flt_less x NaN = False"

text \<open>\<open>None\<close> is the \<^verbatim>\<open>ValueError\<close> that ends the load test before it starts.\<close>

definition integer_setting :: "(string \<rightharpoonup> string) \<Rightarrow> string \<Rightarrow> int \<Rightarrow> int \<Rightarrow> int option" where
  "integer_setting env name fallback minimum =
     (case py_int (case env name of None \<Rightarrow> py_str fallback | Some t \<Rightarrow> t) of
        None \<Rightarrow> None
      | Some value \<Rightarrow> if value < minimum then None else Some value)"

definition float_setting ::
  "(string \<Rightarrow> flt option) \<Rightarrow> (string \<rightharpoonup> string) \<Rightarrow> string \<Rightarrow> string \<Rightarrow> rat \<Rightarrow> flt option" where
  "float_setting read_float env name fallback minimum =
     (case read_float (case env name of None \<Rightarrow> fallback | Some t \<Rightarrow> t) of
        None \<Rightarrow> None
      | Some value \<Rightarrow> if flt_less value (Num minimum) then None else Some value)"

record load_test_settings =
  TEST_SEED :: int
  TEST_USER_COUNT :: int
  TEST_PASSWORD :: string
  MIN_WAIT_SECONDS :: flt
  MAX_WAIT_SECONDS :: flt
  MAX_TRACKED_TODOS :: int
  FAILURE_RATIO_LIMIT :: flt
  P95_MS_LIMIT :: flt

definition load_settings_of :: "(string \<Rightarrow> flt option) \<Rightarrow> (string \<rightharpoonup> string) \<Rightarrow> load_test_settings option" where
  "load_settings_of read_float env =
     (case (integer_setting env ''LOCUST_TEST_SEED'' 9001 0, integer_setting env ''LOCUST_TEST_USER_COUNT'' 50 1,
            float_setting read_float env ''LOCUST_MIN_WAIT_SECONDS'' ''0.5'' 0,
            float_setting read_float env ''LOCUST_MAX_WAIT_SECONDS'' ''2.0'' 0,
            integer_setting env ''LOCUST_MAX_TRACKED_TODOS'' 50 1,
            float_setting read_float env ''LOCUST_FAILURE_RATIO_LIMIT'' ''0.01'' 0,
            float_setting read_float env ''LOCUST_P95_MS_LIMIT'' ''750'' 0) of
       (Some seed, Some count, Some least, Some most, Some tracked, Some ratio, Some p95) \<Rightarrow>
         (let password = (case env ''LOCUST_TEST_PASSWORD'' of None \<Rightarrow> ''LocustPass123!'' | Some t \<Rightarrow> t) in
          if password = [] then None
          else if flt_less most least then None
          else if flt_less (Num 1) ratio then None
          else Some \<lparr>TEST_SEED = seed, TEST_USER_COUNT = count, TEST_PASSWORD = password,
                     MIN_WAIT_SECONDS = least, MAX_WAIT_SECONDS = most, MAX_TRACKED_TODOS = tracked,
                     FAILURE_RATIO_LIMIT = ratio, P95_MS_LIMIT = p95\<rparr>)
     | _ \<Rightarrow> None)"

definition PRIORITIES :: "string list" where
  "PRIORITIES = [''low'', ''medium'', ''high'']"

definition TODO_LIST_QUERIES :: "(string \<times> string) list list" where
  "TODO_LIST_QUERIES =
     [[(''limit'', ''20''), (''offset'', ''0'')],
      [(''limit'', ''20''), (''offset'', ''0''), (''priority'', ''high'')],
      [(''limit'', ''20''), (''offset'', ''0''), (''status'', ''todo'')],
      [(''limit'', ''20''), (''offset'', ''0''), (''sort_by'', ''title''), (''sort_direction'', ''asc'')]]"

definition TOKEN_REFRESH_MARGIN_SECONDS :: int where
  "TOKEN_REFRESH_MARGIN_SECONDS = 30"

section \<open>Requests and responses\<close>

datatype load_body = NoBody | FormBody "(string \<times> string) list" | JsonBody "(string \<times> string) list"
  | Params "(string \<times> string) list"

record load_request =
  lq_method :: string
  lq_path :: string
  lq_authorization :: "string option"
  lq_body :: load_body

text \<open>A parsed JSON document; a \<^verbatim>\<open>float\<close> is kept apart from an \<^verbatim>\<open>int\<close>, a \<^verbatim>\<open>bool\<close> is one in Python.\<close>

datatype payload = PNull | PBool bool | PInt int | PFloat rat | PText string | PList "payload list"
  | PDict "(string \<times> payload) list"

text \<open>\<open>None\<close> is a body that is not valid JSON.\<close>

record load_response =
  lr_status :: int
  lr_json :: "payload option"

fun get_item :: "payload \<Rightarrow> string \<Rightarrow> payload option" where
  "get_item (PDict entries) k = map_of entries k"
| "get_item _ k = None"

text \<open>\<^verbatim>\<open>isinstance(x, int) and not isinstance(x, bool)\<close>.\<close>

definition int_of :: "payload option \<Rightarrow> int option" where
  "int_of x = (case x of Some (PInt i) \<Rightarrow> Some i | _ \<Rightarrow> None)"

definition text_of :: "payload option \<Rightarrow> string option" where
  "text_of x = (case x of Some (PText t) \<Rightarrow> Some t | _ \<Rightarrow> None)"

section \<open>The state of a simulated user\<close>

text \<open>The attributes are absent until they are set.\<close>

record load_user =
  lu_email :: string
  lu_access_token :: "string option"
  lu_refresh_token :: "string option"
  lu_refresh_at :: "time option"
  lu_todo_ids :: "int list"

text \<open>What ends a task: \<^verbatim>\<open>StopUser\<close>, or an exception of Python.\<close>

datatype halt = StopUser | AttributeErr | NotInList | NoChoice

text \<open>
  The log has a line for each request: its name, and why it failed if it did. What was sent, with
  the status that was expected, is kept for the proofs.
\<close>

record 's load_state =
  ls_user :: load_user
  ls_server :: 's
  ls_monotonic :: time
  ls_ticks :: "nat list"
  ls_draws :: "nat list"
  ls_hex :: "string list"
  ls_log :: "(string \<times> string option) list"
  ls_sent :: "(load_request \<times> int) list"

type_synonym 's server = "load_request \<Rightarrow> 's \<Rightarrow> load_response \<times> 's"
type_synonym ('s, 'a) load_act = "'s load_state \<Rightarrow> (halt + 'a) \<times> 's load_state"

definition give :: "'a \<Rightarrow> ('s, 'a) load_act" where
  "give x s = (Inr x, s)"

definition halt_with :: "halt \<Rightarrow> ('s, 'a) load_act" where
  "halt_with h s = (Inl h, s)"

definition next_do :: "('s, 'a) load_act \<Rightarrow> ('a \<Rightarrow> ('s, 'b) load_act) \<Rightarrow> ('s, 'b) load_act" where
  "next_do m f s = (case m s of (Inl h, s') \<Rightarrow> (Inl h, s') | (Inr x, s') \<Rightarrow> f x s')"

definition with_user :: "(load_user \<Rightarrow> ('s, 'a) load_act) \<Rightarrow> ('s, 'a) load_act" where
  "with_user f s = f (ls_user s) s"

definition set_user :: "(load_user \<Rightarrow> load_user) \<Rightarrow> ('s, unit) load_act" where
  "set_user f s = (Inr (), s\<lparr>ls_user := f (ls_user s)\<rparr>)"

text \<open>\<^verbatim>\<open>monotonic()\<close>: it never goes back.\<close>

definition monotonic :: "('s, time) load_act" where
  "monotonic s = (let t = ls_monotonic s + (case ls_ticks s of [] \<Rightarrow> 0 | n # _ \<Rightarrow> int n)
     in (Inr t, s\<lparr>ls_monotonic := t, ls_ticks := tl (ls_ticks s)\<rparr>))"

text \<open>\<^verbatim>\<open>random.choice\<close> of a sequence; of an empty one it raises.\<close>

definition choice :: "'a list \<Rightarrow> ('s, 'a) load_act" where
  "choice xs s = (if xs = [] then (Inl NoChoice, s)
     else (Inr (xs ! ((case ls_draws s of [] \<Rightarrow> 0 | n # _ \<Rightarrow> n) mod length xs)), s\<lparr>ls_draws := tl (ls_draws s)\<rparr>))"

definition uuid4_hex :: "('s, string) load_act" where
  "uuid4_hex s = (Inr (case ls_hex s of [] \<Rightarrow> replicate 32 (CHR ''0'') | h # _ \<Rightarrow> h), s\<lparr>ls_hex := tl (ls_hex s)\<rparr>)"

section \<open>Sending a request\<close>

type_synonym 's consumer = "payload \<Rightarrow> ('s, bool) load_act"

definition logged :: "string \<Rightarrow> string option \<Rightarrow> ('s, unit) load_act" where
  "logged name failure s = (Inr (), s\<lparr>ls_log := ls_log s @ [(name, failure)]\<rparr>)"

definition call_server :: "'s server \<Rightarrow> load_request \<Rightarrow> int \<Rightarrow> ('s, load_response) load_act" where
  "call_server server rq expected_status s = (case server rq (ls_server s) of (response, srv) \<Rightarrow>
     (Inr response, s\<lparr>ls_server := srv, ls_sent := ls_sent s @ [(rq, expected_status)]\<rparr>))"

text \<open>\<^verbatim>\<open>_request\<close> from the headers on: the \<^verbatim>\<open>with\<close> block.\<close>

definition send ::
  "'s server \<Rightarrow> load_request \<Rightarrow> int \<Rightarrow> 's consumer option \<Rightarrow> string \<Rightarrow> ('s, bool) load_act" where
  "send server rq expected_status consume_json name =
     next_do (call_server server rq expected_status) (\<lambda>response.
     if lr_status response \<noteq> expected_status then
       next_do (logged name (Some (''expected '' @ py_str expected_status @ '', received '' @ py_str (lr_status response))))
         (\<lambda>_. give False)
     else case consume_json of
       None \<Rightarrow> next_do (logged name None) (\<lambda>_. give True)
     | Some consume \<Rightarrow>
         (case lr_json response of
            None \<Rightarrow> next_do (logged name (Some ''response is not valid JSON'')) (\<lambda>_. give False)
          | Some document \<Rightarrow>
              next_do (consume document) (\<lambda>ok.
              if ok then next_do (logged name None) (\<lambda>_. give True)
              else next_do (logged name (Some ''response payload is invalid'')) (\<lambda>_. give False))))"

definition store_tokens :: "'s consumer" where
  "store_tokens document =
     (case (text_of (get_item document ''access_token''), text_of (get_item document ''refresh_token''),
            int_of (get_item document ''expires_in'')) of
        (Some atoken, Some rtoken, Some lifetime) \<Rightarrow>
          if atoken \<noteq> [] \<and> rtoken \<noteq> [] \<and> 0 < lifetime then
            next_do monotonic (\<lambda>now.
            next_do (set_user (\<lambda>u. u\<lparr>lu_access_token := Some atoken, lu_refresh_token := Some rtoken,
               lu_refresh_at := Some (now + seconds (max 1 (lifetime - TOKEN_REFRESH_MARGIN_SECONDS)))\<rparr>)) (\<lambda>_.
            give True))
          else give False
      | _ \<Rightarrow> give False)"

definition open_request :: "string \<Rightarrow> string \<Rightarrow> load_body \<Rightarrow> load_request" where
  "open_request m path body = \<lparr>lq_method = m, lq_path = path, lq_authorization = None, lq_body = body\<rparr>"

definition ensure_access_token :: "'s server \<Rightarrow> ('s, unit) load_act" where
  "ensure_access_token server =
     next_do monotonic (\<lambda>now. with_user (\<lambda>u.
     case lu_refresh_at u of
       None \<Rightarrow> halt_with AttributeErr
     | Some refresh_at \<Rightarrow>
         if now < refresh_at then give ()
         else (case lu_refresh_token u of
             None \<Rightarrow> halt_with AttributeErr
           | Some rtoken \<Rightarrow>
               next_do (send server (open_request ''POST'' ''/api/v1/auth/refresh'' (JsonBody [(''refresh_token'', rtoken)]))
                  200 (Some store_tokens) ''/api/v1/auth/refresh'') (\<lambda>ok.
               if ok then give () else halt_with StopUser))))"

definition auth_headers :: "'s server \<Rightarrow> ('s, string) load_act" where
  "auth_headers server =
     next_do (ensure_access_token server) (\<lambda>_. with_user (\<lambda>u.
     case lu_access_token u of
       None \<Rightarrow> halt_with AttributeErr
     | Some atoken \<Rightarrow> give (''Bearer '' @ atoken)))"

definition do_request ::
  "'s server \<Rightarrow> load_request \<Rightarrow> int \<Rightarrow> bool \<Rightarrow> 's consumer option \<Rightarrow> string \<Rightarrow> ('s, bool) load_act" where
  "do_request server rq expected_status authenticated consume_json name =
     (if authenticated then
        next_do (auth_headers server) (\<lambda>authorization.
        send server (rq\<lparr>lq_authorization := Some authorization\<rparr>) expected_status consume_json name)
      else send server rq expected_status consume_json name)"

section \<open>Remembering todos\<close>

text \<open>\<^verbatim>\<open>del self.todo_ids[:-MAX_TRACKED_TODOS]\<close>: the last ones stay.\<close>

definition remember_todo_id :: "load_test_settings \<Rightarrow> int \<Rightarrow> int list \<Rightarrow> int list" where
  "remember_todo_id ls todo_id ids =
     (let ids = (if todo_id \<in> set ids then ids else ids @ [todo_id])
      in drop (length ids - nat (MAX_TRACKED_TODOS ls)) ids)"

definition item_id :: "payload \<Rightarrow> int option" where
  "item_id item = int_of (get_item item ''id'')"

definition remember_todos :: "load_test_settings \<Rightarrow> 's consumer" where
  "remember_todos ls document =
     (case get_item document ''items'' of
        Some (PList items) \<Rightarrow>
          next_do (set_user (\<lambda>u. u\<lparr>lu_todo_ids :=
              fold (\<lambda>item ids. case item_id item of None \<Rightarrow> ids | Some i \<Rightarrow> remember_todo_id ls i ids)
                items (lu_todo_ids u)\<rparr>)) (\<lambda>_. give True)
      | _ \<Rightarrow> give False)"

definition remember_created_todo :: "load_test_settings \<Rightarrow> 's consumer" where
  "remember_created_todo ls document =
     (case item_id document of
        None \<Rightarrow> give False
      | Some i \<Rightarrow>
          next_do (set_user (\<lambda>u. u\<lparr>lu_todo_ids := remember_todo_id ls i (lu_todo_ids u)\<rparr>)) (\<lambda>_. give True))"

definition load_todo_ids :: "load_test_settings \<Rightarrow> 's server \<Rightarrow> ('s, bool) load_act" where
  "load_todo_ids ls server =
     do_request server (open_request ''GET'' ''/api/v1/todos''
         (Params [(''limit'', py_str (min (MAX_TRACKED_TODOS ls) 100)), (''offset'', ''0'')]))
       200 True (Some (remember_todos ls)) ''/api/v1/todos [list]''"

definition random_todo_id :: "load_test_settings \<Rightarrow> 's server \<Rightarrow> ('s, int option) load_act" where
  "random_todo_id ls server =
     next_do (with_user (\<lambda>u. if lu_todo_ids u = [] then load_todo_ids ls server else give True)) (\<lambda>_.
     with_user (\<lambda>u. if lu_todo_ids u = [] then give None
       else next_do (choice (lu_todo_ids u)) (\<lambda>i. give (Some i))))"

section \<open>The life of a simulated user\<close>

definition load_login :: "load_test_settings \<Rightarrow> 's server \<Rightarrow> ('s, bool) load_act" where
  "load_login ls server = with_user (\<lambda>u.
     do_request server (open_request ''POST'' ''/api/v1/auth/login''
         (FormBody [(''username'', lu_email u), (''password'', TEST_PASSWORD ls)]))
       200 False (Some store_tokens) ''/api/v1/auth/login'')"

text \<open>\<^verbatim>\<open>on_start\<close>; \<open>k\<close> is what the user sequence gives.\<close>

definition credential_index :: "load_test_settings \<Rightarrow> nat \<Rightarrow> nat" where
  "credential_index ls k = k mod nat (TEST_USER_COUNT ls) + 1"

definition load_email :: "load_test_settings \<Rightarrow> nat \<Rightarrow> string" where
  "load_email ls k = ''seed-'' @ py_str (TEST_SEED ls) @ ''-'' @ pad4 (credential_index ls k) @ ''@example.com''"

definition user_on_start :: "load_test_settings \<Rightarrow> 's server \<Rightarrow> nat \<Rightarrow> ('s, unit) load_act" where
  "user_on_start ls server k =
     next_do (set_user (\<lambda>u. u\<lparr>lu_email := load_email ls k, lu_todo_ids := []\<rparr>)) (\<lambda>_.
     next_do (load_login ls server) (\<lambda>ok.
     if \<not> ok then halt_with StopUser
     else next_do (load_todo_ids ls server) (\<lambda>_. give ())))"

definition user_on_stop :: "'s server \<Rightarrow> ('s, unit) load_act" where
  "user_on_stop server = with_user (\<lambda>u.
     case lu_refresh_token u of
       None \<Rightarrow> give ()
     | Some rtoken \<Rightarrow>
         if rtoken = [] then give ()
         else next_do (do_request server (open_request ''POST'' ''/api/v1/auth/logout''
             (JsonBody [(''refresh_token'', rtoken)])) 204 False None ''/api/v1/auth/logout'') (\<lambda>_. give ()))"

section \<open>The tasks\<close>

datatype load_task = HealthTask | ProfileTask | ListKeysTask | ListTask | GetTask | CreateTask | UpdateTask | DeleteTask

definition todo_path :: "int \<Rightarrow> string" where
  "todo_path i = ''/api/v1/todos/'' @ py_str i"

text \<open>\<^verbatim>\<open>if todo_id := self._random_todo_id()\<close>: an id of 0 is as good as none.\<close>

definition with_todo :: "load_test_settings \<Rightarrow> 's server \<Rightarrow> (int \<Rightarrow> ('s, unit) load_act) \<Rightarrow> ('s, unit) load_act" where
  "with_todo ls server f =
     next_do (random_todo_id ls server) (\<lambda>found.
     case found of None \<Rightarrow> give () | Some i \<Rightarrow> if i = 0 then give () else f i)"

definition ignoring :: "('s, bool) load_act \<Rightarrow> ('s, unit) load_act" where
  "ignoring m = next_do m (\<lambda>_. give ())"

definition health_task :: "'s server \<Rightarrow> ('s, unit) load_act" where
  "health_task server = ignoring (do_request server (open_request ''GET'' ''/api/v1/health'' NoBody) 200 False None
     ''/api/v1/health'')"

definition profile_task :: "'s server \<Rightarrow> ('s, unit) load_act" where
  "profile_task server = ignoring (do_request server (open_request ''GET'' ''/api/v1/users/me'' NoBody) 200 True None
     ''/api/v1/users/me'')"

definition list_api_keys_task :: "'s server \<Rightarrow> ('s, unit) load_act" where
  "list_api_keys_task server = ignoring (do_request server (open_request ''GET'' ''/api/v1/api-keys'' NoBody) 200 True
     None ''/api/v1/api-keys [list]'')"

definition list_todos_task :: "load_test_settings \<Rightarrow> 's server \<Rightarrow> ('s, unit) load_act" where
  "list_todos_task ls server =
     next_do (choice TODO_LIST_QUERIES) (\<lambda>query.
     ignoring (do_request server (open_request ''GET'' ''/api/v1/todos'' (Params query)) 200 True
       (Some (remember_todos ls)) ''/api/v1/todos [list]''))"

definition get_todo_task :: "load_test_settings \<Rightarrow> 's server \<Rightarrow> ('s, unit) load_act" where
  "get_todo_task ls server = with_todo ls server (\<lambda>i.
     ignoring (do_request server (open_request ''GET'' (todo_path i) NoBody) 200 True None
       ''/api/v1/todos/{todo_id} [get]''))"

definition create_todo_task :: "load_test_settings \<Rightarrow> 's server \<Rightarrow> ('s, unit) load_act" where
  "create_todo_task ls server =
     next_do uuid4_hex (\<lambda>hex.
     next_do (choice PRIORITIES) (\<lambda>priority.
     ignoring (do_request server (open_request ''POST'' ''/api/v1/todos''
         (JsonBody [(''title'', ''Locust todo '' @ take 12 hex),
                (''description'', ''Created by the controlled Locust load test.''), (''priority'', priority)]))
       201 True (Some (remember_created_todo ls)) ''/api/v1/todos [create]'')))"

definition update_todo_task :: "load_test_settings \<Rightarrow> 's server \<Rightarrow> ('s, unit) load_act" where
  "update_todo_task ls server = with_todo ls server (\<lambda>i.
     next_do (choice PRIORITIES) (\<lambda>priority.
     ignoring (do_request server (open_request ''PATCH'' (todo_path i) (JsonBody [(''priority'', priority)])) 200 True None
       ''/api/v1/todos/{todo_id} [update]'')))"

text \<open>\<^verbatim>\<open>self.todo_ids.remove(todo_id)\<close> raises when the id is not there.\<close>

definition forget_todo_id :: "int \<Rightarrow> ('s, unit) load_act" where
  "forget_todo_id i = with_user (\<lambda>u.
     if i \<in> set (lu_todo_ids u) then set_user (\<lambda>u. u\<lparr>lu_todo_ids := remove1 i (lu_todo_ids u)\<rparr>)
     else halt_with NotInList)"

definition delete_todo_task :: "load_test_settings \<Rightarrow> 's server \<Rightarrow> ('s, unit) load_act" where
  "delete_todo_task ls server = with_todo ls server (\<lambda>i.
     next_do (do_request server (open_request ''DELETE'' (todo_path i) NoBody) 204 True None
       ''/api/v1/todos/{todo_id} [delete]'') (\<lambda>ok.
     if ok then forget_todo_id i else give ()))"

fun perform_task :: "load_test_settings \<Rightarrow> 's server \<Rightarrow> load_task \<Rightarrow> ('s, unit) load_act" where
  "perform_task ls server HealthTask = health_task server"
| "perform_task ls server ProfileTask = profile_task server"
| "perform_task ls server ListKeysTask = list_api_keys_task server"
| "perform_task ls server ListTask = list_todos_task ls server"
| "perform_task ls server GetTask = get_todo_task ls server"
| "perform_task ls server CreateTask = create_todo_task ls server"
| "perform_task ls server UpdateTask = update_todo_task ls server"
| "perform_task ls server DeleteTask = delete_todo_task ls server"

section \<open>The thresholds\<close>

datatype breach = NoRequests | FailureRatio | SlowResponses

text \<open>
  \<^verbatim>\<open>enforce_service_level_thresholds\<close>: the breaches, and the exit code when there is one. The
  percentile is computed by the library.
\<close>

definition fail_ratio :: "(string \<times> string option) list \<Rightarrow> rat" where
  "fail_ratio entries = of_nat (length (filter (\<lambda>(_, failure). failure \<noteq> None) entries)) / of_nat (length entries)"

definition threshold_breaches :: "load_test_settings \<Rightarrow> (string \<times> string option) list \<Rightarrow> flt \<Rightarrow> breach list" where
  "threshold_breaches ls entries p95 =
     (if entries = [] then [NoRequests]
      else (if flt_less (FAILURE_RATIO_LIMIT ls) (Num (fail_ratio entries)) then [FailureRatio] else []) @
           (if flt_less (P95_MS_LIMIT ls) p95 then [SlowResponses] else []))"

definition enforce_thresholds :: "load_test_settings \<Rightarrow> (string \<times> string option) list \<Rightarrow> flt \<Rightarrow> int option" where
  "enforce_thresholds ls entries p95 = (if threshold_breaches ls entries p95 = [] then None else Some 1)"

section \<open>What a run of the load test keeps\<close>

text \<open>Total correctness with an exit: \<open>Q\<close> after a return, \<open>E\<close> after a halt.\<close>

definition hoare ::
  "('s load_state \<Rightarrow> bool) \<Rightarrow> ('s, 'a) load_act \<Rightarrow> ('a \<Rightarrow> 's load_state \<Rightarrow> bool) \<Rightarrow>
     (halt \<Rightarrow> 's load_state \<Rightarrow> bool) \<Rightarrow> bool" where
  "hoare P m Q E \<longleftrightarrow> (\<forall>s. P s \<longrightarrow> (case m s of (Inl h, s') \<Rightarrow> E h s' | (Inr x, s') \<Rightarrow> Q x s'))"

named_theorems steps \<comment> \<open>rules for the acts of the load test\<close>

lemma hoare_give: "(\<And>s. P s \<Longrightarrow> Q x s) \<Longrightarrow> hoare P (give x) Q E"
  by (simp add: hoare_def give_def)

lemma hoare_halt: "(\<And>s. P s \<Longrightarrow> E h s) \<Longrightarrow> hoare P (halt_with h) Q E"
  by (simp add: hoare_def halt_with_def)

lemma hoare_next: "hoare P m R E \<Longrightarrow> (\<And>x. hoare (R x) (f x) Q E) \<Longrightarrow> hoare P (next_do m f) Q E"
  unfolding hoare_def next_do_def by (fastforce split: prod.splits sum.splits)

lemma hoare_user: "(\<And>u. hoare (\<lambda>s. P s \<and> ls_user s = u) (f u) Q E) \<Longrightarrow> hoare P (with_user f) Q E"
  by (auto simp: hoare_def with_user_def)

lemma hoare_set: "(\<And>s. P s \<Longrightarrow> Q () (s\<lparr>ls_user := f (ls_user s)\<rparr>)) \<Longrightarrow> hoare P (set_user f) Q E"
  by (simp add: hoare_def set_user_def)

lemma hoare_pre: "hoare P m Q E \<Longrightarrow> (\<And>s. P' s \<Longrightarrow> P s) \<Longrightarrow> hoare P' m Q E"
  by (simp add: hoare_def)

lemma hoare_post: "hoare P m Q E \<Longrightarrow> (\<And>x s. Q x s \<Longrightarrow> Q' x s) \<Longrightarrow> hoare P m Q' E"
  unfolding hoare_def by (fastforce split: prod.splits sum.splits)

lemma hoare_conseq:
  "hoare P m Q E \<Longrightarrow> (\<And>x s. Q x s \<Longrightarrow> Q' x s) \<Longrightarrow> (\<And>h s. E h s \<Longrightarrow> E' h s) \<Longrightarrow> hoare P m Q' E'"
  unfolding hoare_def by (fastforce split: prod.splits sum.splits)

lemma hoareD: "hoare P m Q E \<Longrightarrow> P s \<Longrightarrow> m s = (r, s') \<Longrightarrow> (case r of Inl h \<Rightarrow> E h s' | Inr x \<Rightarrow> Q x s')"
  unfolding hoare_def by force

lemma hoare_if:
  "(b \<Longrightarrow> hoare P m Q E) \<Longrightarrow> (\<not> b \<Longrightarrow> hoare P m' Q E) \<Longrightarrow> hoare P (if b then m else m') Q E"
  by simp

text \<open>
  A user that has logged in is tidy when its ids are distinct and bounded, its tokens are set
  and every request it sent fits the routes of the API.
\<close>

definition fits_api :: "load_request \<times> int \<Rightarrow> bool" where
  "fits_api sent = (case sent of (rq, expected_status) \<Rightarrow>
     (case select_route api_router (lq_method rq) (tl (split_char (CHR ''/'') (lq_path rq))) of
        None \<Rightarrow> False | Some r \<Rightarrow> ro_status r = expected_status))"

definition bounded_ids :: "load_test_settings \<Rightarrow> int list \<Rightarrow> bool" where
  "bounded_ids ls ids \<longleftrightarrow> distinct ids \<and> int (length ids) \<le> MAX_TRACKED_TODOS ls"

definition on :: "(load_user \<Rightarrow> bool) \<Rightarrow> 's load_state \<Rightarrow> bool" where
  "on F s \<longleftrightarrow> F (ls_user s) \<and> list_all fits_api (ls_sent s)"

definition tidy :: "load_test_settings \<Rightarrow> load_user \<Rightarrow> bool" where
  "tidy ls u \<longleftrightarrow> bounded_ids ls (lu_todo_ids u) \<and> lu_access_token u \<noteq> None \<and>
     lu_refresh_token u \<noteq> None \<and> lu_refresh_at u \<noteq> None"

lemma remember_bounded:
  assumes "bounded_ids ls ids" and "1 \<le> MAX_TRACKED_TODOS ls"
  shows "bounded_ids ls (remember_todo_id ls i ids)"
proof -
  let ?ids = "if i \<in> set ids then ids else ids @ [i]"
  have "distinct ?ids" using assms(1) by (simp add: bounded_ids_def)
  then show ?thesis using assms(2) by (auto simp: bounded_ids_def remember_todo_id_def Let_def)
qed

lemma remember_last:
  assumes "1 \<le> MAX_TRACKED_TODOS ls" and "int (length ids) \<le> MAX_TRACKED_TODOS ls"
  shows "i \<in> set (remember_todo_id ls i ids)"
proof (cases "i \<in> set ids")
  case True
  with assms(2) show ?thesis by (simp add: remember_todo_id_def Let_def)
next
  case False
  have "Suc (length ids) - nat (MAX_TRACKED_TODOS ls) \<le> length ids" using assms(1) by auto
  with False show ?thesis by (simp add: remember_todo_id_def Let_def)
qed

lemma remember_all_bounded:
  "bounded_ids ls ids \<Longrightarrow> 1 \<le> MAX_TRACKED_TODOS ls \<Longrightarrow>
     bounded_ids ls (fold (\<lambda>item ids. case item_id item of None \<Rightarrow> ids | Some i \<Rightarrow> remember_todo_id ls i ids) items ids)"
  by (induction items arbitrary: ids) (auto simp: remember_bounded split: option.splits)

lemma hoare_pure:
  "hoare (on F) monotonic (\<lambda>_. on F) E" "hoare (on F) uuid4_hex (\<lambda>_. on F) E"
  "hoare (on F) (logged name failure) (\<lambda>_. on F) E"
  "xs \<noteq> [] \<Longrightarrow> hoare (on F) (choice xs) (\<lambda>x s. on F s \<and> x \<in> set xs) E"
  by (auto simp: hoare_def monotonic_def Let_def uuid4_hex_def logged_def choice_def on_def
      intro!: nth_mem)

lemma hoare_call: "fits_api (rq, st) \<Longrightarrow> hoare (on F) (call_server server rq st) (\<lambda>_. on F) E"
  by (auto simp: hoare_def call_server_def on_def split: prod.splits)

lemma hoare_send:
  assumes "fits_api (rq, st)"
    and "\<And>c d. consume = Some c \<Longrightarrow> hoare (on F) (c d) (\<lambda>ok. on (if ok then G else F)) E"
    and "\<And>u. consume = None \<Longrightarrow> F u \<Longrightarrow> G u"
  shows "hoare (on F) (send server rq st consume name) (\<lambda>ok. on (if ok then G else F)) E"
proof -
  have accepted: "hoare (on G) (next_do (logged name None) (\<lambda>_. give True)) (\<lambda>ok. on (if ok then G else F)) E"
    by (rule hoare_next [OF hoare_pure(3)], rule hoare_give) simp
  have G: "hoare (on F) (next_do (logged name None) (\<lambda>_. give True)) (\<lambda>ok. on (if ok then G else F)) E"
    if "consume = None"
    by (rule hoare_pre [OF accepted]) (use assms(3) [OF that] in \<open>simp add: on_def\<close>)
  have F: "hoare (on F) (next_do (logged name f) (\<lambda>_. give False)) (\<lambda>ok. on (if ok then G else F)) E" for f
    by (rule hoare_next [OF hoare_pure(3)], rule hoare_give) simp
  show ?thesis
    unfolding send_def
  proof (rule hoare_next [OF hoare_call [OF assms(1)]], rule hoare_if [OF F])
    fix response :: load_response
    show "hoare (on F) (case consume of None \<Rightarrow> next_do (logged name None) (\<lambda>_. give True)
       | Some consume \<Rightarrow> (case lr_json response of
            None \<Rightarrow> next_do (logged name (Some ''response is not valid JSON'')) (\<lambda>_. give False)
          | Some document \<Rightarrow> next_do (consume document) (\<lambda>ok.
              if ok then next_do (logged name None) (\<lambda>_. give True)
              else next_do (logged name (Some ''response payload is invalid'')) (\<lambda>_. give False))))
       (\<lambda>ok. on (if ok then G else F)) E"
    proof (cases consume)
      case None
      with G show ?thesis by simp
    next
      case (Some c)
      show ?thesis
      proof (cases "lr_json response")
        case None
        with F Some show ?thesis by simp
      next
        case (Some document)
        have "hoare (on (if ok then G else F))
            (if ok then next_do (logged name None) (\<lambda>_. give True)
             else next_do (logged name (Some ''response payload is invalid'')) (\<lambda>_. give False))
            (\<lambda>ok. on (if ok then G else F)) E" for ok
          using F accepted by (cases ok) simp_all
        with \<open>consume = Some c\<close> Some show ?thesis
          by (simp add: hoare_next [OF assms(2)])
      qed
    qed
  qed
qed

lemma hoare_send_same:
  assumes "fits_api (rq, st)"
    and "\<And>d. hoare (on F) (c d) (\<lambda>ok. on (if ok then G else F)) E"
  shows "hoare (on F) (send server rq st (Some c) name) (\<lambda>ok. on (if ok then G else F)) E"
  by (rule hoare_send [OF assms(1)]) (use assms(2) in auto)

lemma hoare_store:
  assumes "\<And>u a r t. F u \<Longrightarrow> G (u\<lparr>lu_access_token := Some a, lu_refresh_token := Some r, lu_refresh_at := Some t\<rparr>)"
  shows "hoare (on F) (store_tokens d) (\<lambda>ok. on (if ok then G else F)) E"
proof -
  have no: "hoare (on F) (give False) (\<lambda>ok. on (if ok then G else F)) E" by (rule hoare_give) simp
  have yes: "hoare (on F) (next_do monotonic (\<lambda>now.
      next_do (set_user (\<lambda>u. u\<lparr>lu_access_token := Some a, lu_refresh_token := Some r,
         lu_refresh_at := Some (now + x)\<rparr>)) (\<lambda>_. give True))) (\<lambda>ok. on (if ok then G else F)) E" for a r x
    by (rule hoare_next [OF hoare_pure(1)], rule hoare_next [where R = "\<lambda>_. on G"], rule hoare_set)
      (use assms in \<open>auto simp: on_def intro: hoare_give\<close>)
  show ?thesis
    unfolding store_tokens_def using no yes by (auto split: option.splits)
qed

text \<open>Only an unlucky refresh stops a user that has logged in.\<close>

abbreviation stopped :: "(load_user \<Rightarrow> bool) \<Rightarrow> halt \<Rightarrow> 's load_state \<Rightarrow> bool" where
  "stopped F h s \<equiv> h = StopUser \<and> on F s"

definition token_blind :: "load_test_settings \<Rightarrow> (int list \<Rightarrow> bool) \<Rightarrow> load_user \<Rightarrow> bool" where
  "token_blind ls X u \<longleftrightarrow> tidy ls u \<and> X (lu_todo_ids u)"

lemma hoare_headers:
  "hoare (on (token_blind ls X)) (auth_headers server) (\<lambda>_. on (token_blind ls X)) (stopped (token_blind ls X))"
proof -
  let ?F = "token_blind ls X"
  have post: "fits_api (open_request ''POST'' ''/api/v1/auth/refresh'' body, 200)" for body
    by (simp add: fits_api_def open_request_def select_route_def router_defs)
  have send: "hoare (on ?F) (send server (open_request ''POST'' ''/api/v1/auth/refresh'' body) 200
      (Some store_tokens) name) (\<lambda>ok. on (if ok then ?F else ?F)) (stopped ?F)" for body name
    by (rule hoare_send_same [OF post], rule hoare_store) (auto simp: token_blind_def tidy_def)
  have ensure: "hoare (on ?F) (ensure_access_token server) (\<lambda>_. on ?F) (stopped ?F)"
    unfolding ensure_access_token_def
  proof (rule hoare_next [OF hoare_pure(1)], rule hoare_user)
    fix now u
    show "hoare (\<lambda>s. on ?F s \<and> ls_user s = u)
       (case lu_refresh_at u of None \<Rightarrow> halt_with AttributeErr
        | Some refresh_at \<Rightarrow> if now < refresh_at then give ()
            else (case lu_refresh_token u of None \<Rightarrow> halt_with AttributeErr
              | Some rtoken \<Rightarrow> next_do (send server (open_request ''POST'' ''/api/v1/auth/refresh''
                    (JsonBody [(''refresh_token'', rtoken)])) 200 (Some store_tokens) ''/api/v1/auth/refresh'')
                  (\<lambda>ok. if ok then give () else halt_with StopUser)))
       (\<lambda>_. on ?F) (stopped ?F)"
    proof (cases "?F u")
      case False
      then show ?thesis unfolding hoare_def on_def by blast
    next
      case True
      then obtain t r where u: "lu_refresh_at u = Some t" "lu_refresh_token u = Some r"
        by (auto simp: token_blind_def tidy_def)
      have sent: "hoare (\<lambda>s. on ?F s \<and> ls_user s = u) (send server (open_request ''POST'' ''/api/v1/auth/refresh''
           (JsonBody [(''refresh_token'', r)])) 200 (Some store_tokens) ''/api/v1/auth/refresh'')
         (\<lambda>ok. on ?F) (stopped ?F)"
        by (rule hoare_pre [OF hoare_post [OF send]]) auto
      have told: "hoare (on ?F) (if ok then give () else halt_with StopUser) (\<lambda>_. on ?F) (stopped ?F)" for ok
        by (simp add: hoare_def give_def halt_with_def)
      have fresh: "hoare (\<lambda>s. on ?F s \<and> ls_user s = u) (give ()) (\<lambda>_. on ?F) (stopped ?F)"
        by (simp add: hoare_def give_def)
      show ?thesis
        unfolding u option.case by (rule hoare_if [OF fresh hoare_next [OF sent told]])
    qed
  qed
  show ?thesis
    unfolding auth_headers_def
  proof (rule hoare_next [OF ensure], rule hoare_user)
    fix u
    show "hoare (\<lambda>s. on ?F s \<and> ls_user s = u)
       (case lu_access_token u of None \<Rightarrow> halt_with AttributeErr | Some atoken \<Rightarrow> give (''Bearer '' @ atoken))
       (\<lambda>_. on ?F) (stopped ?F)"
      by (cases "lu_access_token u") (auto simp: on_def token_blind_def tidy_def hoare_def halt_with_def give_def)
  qed
qed

text \<open>
  What the header carries: the current access token, which the user does not hold for due at the
  moment it is used.
\<close>

lemma header_is_fresh:
  assumes "auth_headers server s = (Inr a, s')"
  shows "\<exists>t tok. lu_access_token (ls_user s') = Some tok \<and> a = ''Bearer '' @ tok \<and>
     lu_refresh_at (ls_user s') = Some t \<and> ls_monotonic s' < t"
proof -
  have due: "\<exists>t. lu_refresh_at (ls_user s2) = Some t \<and> ls_monotonic s2 < t"
    if "ensure_access_token server s1 = (Inr (), s2)" for s1 s2
  proof -
    have stored: "\<exists>t. lu_refresh_at (ls_user s4) = Some t \<and> ls_monotonic s4 < t"
      if "store_tokens d s3 = (Inr True, s4)" for d and s3 s4 :: "'a load_state"
      using that by (auto simp: store_tokens_def next_do_def monotonic_def set_user_def give_def Let_def
          split: option.splits if_splits)
    have sent: "\<exists>t. lu_refresh_at (ls_user s4) = Some t \<and> ls_monotonic s4 < t"
      if "send server rq 200 (Some store_tokens) name s3 = (Inr True, s4)" for rq name s3 s4
      using that stored
      by (auto simp: send_def next_do_def call_server_def logged_def give_def
          split: prod.splits sum.splits if_splits option.splits)
    show ?thesis
      using that sent
      by (auto simp: ensure_access_token_def next_do_def with_user_def monotonic_def give_def halt_with_def Let_def
          split: option.splits if_splits sum.splits prod.splits)
  qed
  from assms show ?thesis
    by (auto simp: auth_headers_def next_do_def with_user_def give_def halt_with_def dest!: due
        split: option.splits sum.splits prod.splits)
qed

section \<open>The tasks keep the user tidy\<close>

lemma hoare_request:
  assumes "\<And>a. fits_api (rq\<lparr>lq_authorization := a\<rparr>, st)"
    and "\<And>c d. consume = Some c \<Longrightarrow>
      hoare (on (token_blind ls X)) (c d) (\<lambda>ok. on (if ok then G else token_blind ls X)) (stopped (token_blind ls X))"
    and "\<And>u. consume = None \<Longrightarrow> token_blind ls X u \<Longrightarrow> G u"
  shows "hoare (on (token_blind ls X)) (do_request server rq st True consume name)
     (\<lambda>ok. on (if ok then G else token_blind ls X)) (stopped (token_blind ls X))"
  unfolding do_request_def if_True
  by (rule hoare_next [OF hoare_headers], rule hoare_send) (use assms in blast)+

abbreviation any_ids :: "int list \<Rightarrow> bool" where
  "any_ids ids \<equiv> True"

lemma hoare_remember:
  assumes "1 \<le> MAX_TRACKED_TODOS ls"
  shows "hoare (on (token_blind ls any_ids)) (remember_todos ls d) (\<lambda>ok. on (token_blind ls any_ids)) E"
    "hoare (on (token_blind ls any_ids)) (remember_created_todo ls d) (\<lambda>ok. on (token_blind ls any_ids)) E"
  using assms
  by (auto simp: hoare_def remember_todos_def remember_created_todo_def next_do_def set_user_def give_def on_def
      token_blind_def tidy_def remember_bounded remember_all_bounded split: option.splits payload.splits)

lemma fits_path:
  "fits_api (\<lparr>lq_method = m, lq_path = path, lq_authorization = a, lq_body = b\<rparr>, st) \<longleftrightarrow>
     (case select_route api_router m (tl (split_char (CHR ''/'') path)) of None \<Rightarrow> False | Some r \<Rightarrow> ro_status r = st)"
  by (simp add: fits_api_def)

lemma fits_fixed:
  "fits_api ((open_request ''GET'' ''/api/v1/health'' b)\<lparr>lq_authorization := a\<rparr>, 200)"
  "fits_api ((open_request ''GET'' ''/api/v1/users/me'' b)\<lparr>lq_authorization := a\<rparr>, 200)"
  "fits_api ((open_request ''GET'' ''/api/v1/api-keys'' b)\<lparr>lq_authorization := a\<rparr>, 200)"
  "fits_api ((open_request ''GET'' ''/api/v1/todos'' b)\<lparr>lq_authorization := a\<rparr>, 200)"
  "fits_api ((open_request ''POST'' ''/api/v1/todos'' b)\<lparr>lq_authorization := a\<rparr>, 201)"
  by (simp_all add: open_request_def fits_path select_route_def router_defs)

lemma segments_plain: "c \<notin> set t \<Longrightarrow> split_char c t = [t]"
  by (induction t) auto

lemma py_str_plain: "CHR ''/'' \<notin> set (py_str i)" "py_str i \<noteq> []"
proof -
  have "CHR ''/'' \<notin> set (str_nat n)" for n
  proof (induction n rule: str_nat.induct)
    case (1 n)
    have slash: "CHR ''/'' \<noteq> digit_char d" if "d < 10" for d
    proof
      assume "CHR ''/'' = digit_char d"
      with digit_of_digit_char [OF that] have "digit_of (CHR ''/'') = Some (int d)" by simp
      then show False by (simp add: digit_of_def)
    qed
    show ?case
    proof (cases "n < 10")
      case True
      with slash show ?thesis by (subst str_nat.simps) simp
    next
      case False
      with 1 slash [of "n mod 10"] show ?thesis by (subst str_nat.simps) simp
    qed
  qed
  then show "CHR ''/'' \<notin> set (py_str i)" "py_str i \<noteq> []" by (auto simp: py_str_def)
qed

lemma fits_todo:
  "fits_api ((open_request ''GET'' (todo_path i) b)\<lparr>lq_authorization := a\<rparr>, 200)"
  "fits_api ((open_request ''PATCH'' (todo_path i) b)\<lparr>lq_authorization := a\<rparr>, 200)"
  "fits_api ((open_request ''DELETE'' (todo_path i) b)\<lparr>lq_authorization := a\<rparr>, 204)"
proof -
  have "split_char (CHR ''/'') (todo_path i) = [[], ''api'', ''v1'', ''todos'', py_str i]"
    by (simp add: todo_path_def segments_plain [OF py_str_plain(1)])
  then show
    "fits_api ((open_request ''GET'' (todo_path i) b)\<lparr>lq_authorization := a\<rparr>, 200)"
    "fits_api ((open_request ''PATCH'' (todo_path i) b)\<lparr>lq_authorization := a\<rparr>, 200)"
    "fits_api ((open_request ''DELETE'' (todo_path i) b)\<lparr>lq_authorization := a\<rparr>, 204)"
    using py_str_plain(2) by (simp_all add: open_request_def fits_path select_route_def router_defs)
qed

text \<open>A request whose answer is not kept, and one whose answer is remembered.\<close>

lemma hoare_plain:
  assumes "\<And>a. fits_api (rq\<lparr>lq_authorization := a\<rparr>, st)"
  shows "hoare (on (token_blind ls X)) (do_request server rq st True None name)
     (\<lambda>_. on (token_blind ls X)) (stopped (token_blind ls X))"
  by (rule hoare_post [OF hoare_request [OF assms, where G = "token_blind ls X"]]) auto

lemma hoare_remembering:
  assumes "\<And>a. fits_api (rq\<lparr>lq_authorization := a\<rparr>, st)"
    and "\<And>d. hoare (on (token_blind ls any_ids)) (c d) (\<lambda>_. on (token_blind ls any_ids)) (stopped (token_blind ls any_ids))"
  shows "hoare (on (token_blind ls any_ids)) (do_request server rq st True (Some c) name)
     (\<lambda>_. on (token_blind ls any_ids)) (stopped (token_blind ls any_ids))"
  by (rule hoare_post [OF hoare_request [OF assms(1), where G = "token_blind ls any_ids"]])
    (use assms(2) in auto)

lemma hoare_ignoring: "hoare P m (\<lambda>_. Q) E \<Longrightarrow> hoare P (ignoring m) (\<lambda>_. Q) E"
  unfolding ignoring_def by (erule hoare_next) (rule hoare_give)

lemma hoare_load:
  assumes "1 \<le> MAX_TRACKED_TODOS ls"
  shows "hoare (on (token_blind ls any_ids)) (load_todo_ids ls server) (\<lambda>_. on (token_blind ls any_ids))
     (stopped (token_blind ls any_ids))"
  unfolding load_todo_ids_def
  by (rule hoare_remembering [where c = "remember_todos ls", OF fits_fixed(4) hoare_remember(1) [OF assms]])

lemma hoare_random:
  assumes "1 \<le> MAX_TRACKED_TODOS ls"
  shows "hoare (on (token_blind ls any_ids)) (random_todo_id ls server)
     (\<lambda>found. on (token_blind ls (\<lambda>ids. \<forall>i. found = Some i \<longrightarrow> i \<in> set ids))) (stopped (token_blind ls any_ids))"
  unfolding random_todo_id_def
proof (rule hoare_next [where R = "\<lambda>_. on (token_blind ls any_ids)"])
  show "hoare (on (token_blind ls any_ids))
     (with_user (\<lambda>u. if lu_todo_ids u = [] then load_todo_ids ls server else give True))
     (\<lambda>_. on (token_blind ls any_ids)) (stopped (token_blind ls any_ids))"
    by (rule hoare_user, rule hoare_if, rule hoare_pre [OF hoare_load [OF assms]]) (auto intro: hoare_give)
  show "hoare (on (token_blind ls any_ids))
     (with_user (\<lambda>u. if lu_todo_ids u = [] then give None else next_do (choice (lu_todo_ids u)) (\<lambda>i. give (Some i))))
     (\<lambda>found. on (token_blind ls (\<lambda>ids. \<forall>i. found = Some i \<longrightarrow> i \<in> set ids))) (stopped (token_blind ls any_ids))"
    by (auto simp: hoare_def with_user_def give_def next_do_def choice_def on_def token_blind_def intro!: nth_mem)
qed

lemma hoare_with_todo:
  assumes "1 \<le> MAX_TRACKED_TODOS ls"
    and "\<And>i. hoare (on (token_blind ls (\<lambda>ids. i \<in> set ids))) (f i) (\<lambda>_. on (token_blind ls any_ids))
       (stopped (token_blind ls any_ids))"
  shows "hoare (on (token_blind ls any_ids)) (with_todo ls server f) (\<lambda>_. on (token_blind ls any_ids))
     (stopped (token_blind ls any_ids))"
  unfolding with_todo_def
proof (rule hoare_next [OF hoare_random [OF assms(1)]])
  fix found :: "int option"
  show "hoare (on (token_blind ls (\<lambda>ids. \<forall>i. found = Some i \<longrightarrow> i \<in> set ids)))
      (case found of None \<Rightarrow> give () | Some i \<Rightarrow> if i = 0 then give () else f i)
      (\<lambda>_. on (token_blind ls any_ids)) (stopped (token_blind ls any_ids))"
    using assms(2) by (cases found) (auto simp: on_def token_blind_def intro!: hoare_give)
qed

lemma weaken_ids: "on (token_blind ls X) s \<Longrightarrow> on (token_blind ls any_ids) s"
  by (simp add: on_def token_blind_def)

lemma hoare_weaken:
  "hoare P m (\<lambda>_. on (token_blind ls X)) (stopped (token_blind ls X)) \<Longrightarrow>
     hoare P m (\<lambda>_. on (token_blind ls any_ids)) (stopped (token_blind ls any_ids))"
  by (erule hoare_conseq) (auto dest: weaken_ids)

lemma hoare_delete:
  "hoare (on (token_blind ls (\<lambda>ids. i \<in> set ids)))
     (next_do (do_request server (open_request ''DELETE'' (todo_path i) NoBody) 204 True None name)
       (\<lambda>ok. if ok then forget_todo_id i else give ()))
     (\<lambda>_. on (token_blind ls any_ids)) (stopped (token_blind ls any_ids))"
proof -
  let ?I = "\<lambda>ids. i \<in> set ids"
  have forget: "hoare (on (token_blind ls ?I)) (if ok then forget_todo_id i else give ())
      (\<lambda>_. on (token_blind ls any_ids)) (stopped (token_blind ls any_ids))" for ok
    by (auto simp: hoare_def forget_todo_id_def with_user_def set_user_def give_def on_def token_blind_def tidy_def
        bounded_ids_def length_remove1 distinct_remove1)
  have "hoare (on (token_blind ls ?I)) (do_request server (open_request ''DELETE'' (todo_path i) NoBody) 204 True None name)
      (\<lambda>_. on (token_blind ls ?I)) (stopped (token_blind ls any_ids))"
    by (rule hoare_conseq [OF hoare_plain [OF fits_todo(3)]]) (auto dest: weaken_ids)
  from hoare_next [OF this forget] show ?thesis .
qed

lemma hoare_listing:
  assumes "1 \<le> MAX_TRACKED_TODOS ls"
  shows "hoare (on (token_blind ls any_ids)) (do_request server (open_request ''GET'' ''/api/v1/todos'' b) 200 True
     (Some (remember_todos ls)) name) (\<lambda>_. on (token_blind ls any_ids)) (stopped (token_blind ls any_ids))"
  by (rule hoare_remembering [OF fits_fixed(4) hoare_remember(1) [OF assms]])

lemma hoare_creating:
  assumes "1 \<le> MAX_TRACKED_TODOS ls"
  shows "hoare (on (token_blind ls any_ids)) (do_request server (open_request ''POST'' ''/api/v1/todos'' b) 201 True
     (Some (remember_created_todo ls)) name) (\<lambda>_. on (token_blind ls any_ids)) (stopped (token_blind ls any_ids))"
  by (rule hoare_remembering [OF fits_fixed(5) hoare_remember(2) [OF assms]])

lemma hoare_choice:
  assumes "\<And>y. hoare (on F) (f y) Q E"
  shows "hoare (on F) (next_do (choice (x # xs)) f) Q E"
  by (rule hoare_next [OF hoare_post [OF hoare_pure(4), where Q' = "\<lambda>_. on F"]]) (use assms in auto)

lemma hoare_task:
  assumes max: "1 \<le> MAX_TRACKED_TODOS ls"
  shows "hoare (on (token_blind ls any_ids)) (perform_task ls server t) (\<lambda>_. on (token_blind ls any_ids))
     (stopped (token_blind ls any_ids))"
proof -
  show ?thesis
  proof (cases t)
    case HealthTask
    have "hoare (on (token_blind ls any_ids)) (send server (open_request ''GET'' ''/api/v1/health'' NoBody) 200 None name)
        (\<lambda>ok. on (if ok then token_blind ls any_ids else token_blind ls any_ids)) (stopped (token_blind ls any_ids))" for name
      using fits_fixed(1) [where a = None and b = NoBody] by (intro hoare_send) (auto simp: open_request_def)
    with HealthTask show ?thesis by (simp add: health_task_def do_request_def hoare_ignoring)
  next
    case ListTask
    show ?thesis
      unfolding ListTask perform_task.simps list_todos_task_def TODO_LIST_QUERIES_def
      by (intro hoare_choice hoare_ignoring hoare_listing max)
  next
    case CreateTask
    show ?thesis
      unfolding CreateTask perform_task.simps create_todo_task_def PRIORITIES_def
      by (intro hoare_next [OF hoare_pure(2)] hoare_choice hoare_ignoring hoare_creating max)
  next
    case UpdateTask
    show ?thesis
      unfolding UpdateTask perform_task.simps update_todo_task_def PRIORITIES_def
      by (intro hoare_with_todo [OF max] hoare_choice hoare_weaken [OF hoare_ignoring [OF hoare_plain [OF fits_todo(2)]]])
  next
    case GetTask
    show ?thesis
      unfolding GetTask perform_task.simps get_todo_task_def
      by (intro hoare_with_todo [OF max] hoare_weaken [OF hoare_ignoring [OF hoare_plain [OF fits_todo(1)]]])
  next
    case DeleteTask
    show ?thesis
      unfolding DeleteTask perform_task.simps delete_todo_task_def
      by (intro hoare_with_todo [OF max] hoare_delete)
  qed (simp_all add: profile_task_def list_api_keys_task_def hoare_ignoring hoare_plain fits_fixed)
qed

text \<open>
  Whatever the server answers, a task of a user that has logged in returns or ends with
  \<^verbatim>\<open>StopUser\<close>: no attribute is missing, no id is removed that is not there, and the user keeps
  at most \<^verbatim>\<open>MAX_TRACKED_TODOS\<close> distinct ids. Every request it sends is one of the routes of the API
  with the status the route documents.
\<close>

lemma task_keeps_tidy:
  assumes "1 \<le> MAX_TRACKED_TODOS ls" and "tidy ls (ls_user s)" and "list_all fits_api (ls_sent s)"
    and "perform_task ls server t s = (r, s')"
  shows "(r = Inr () \<or> r = Inl StopUser) \<and> tidy ls (ls_user s') \<and> list_all fits_api (ls_sent s')"
proof -
  have "on (token_blind ls any_ids) s" using assms(2,3) by (simp add: on_def token_blind_def)
  from hoareD [OF hoare_task [OF assms(1)] this assms(4)] show ?thesis
    by (cases r) (auto simp: on_def token_blind_def)
qed

section \<open>Starting and stopping\<close>

lemma send_open:
  assumes "fits_api (rq, st)"
  shows "hoare (on F) (do_request server rq st False None name) (\<lambda>_. on F) E"
  unfolding do_request_def if_False
  by (rule hoare_post [OF hoare_send [OF assms, where G = F]]) auto

text \<open>
  A user that starts is tidy afterwards, or stops; one that stops only logs out. The seeds of
  \<^verbatim>\<open>seed_database.py\<close> made the accounts the users log in with.
\<close>

lemma start_is_tidy:
  assumes "1 \<le> MAX_TRACKED_TODOS ls" and "list_all fits_api (ls_sent s)"
    and "user_on_start ls server k s = (r, s')"
  shows "list_all fits_api (ls_sent s') \<and> (r = Inr () \<and> tidy ls (ls_user s') \<or> r = Inl StopUser)"
proof -
  let ?T = "token_blind ls any_ids" and ?F = "\<lambda>u. lu_todo_ids u = []"
  let ?E = "\<lambda>h s :: 'a load_state. h = StopUser \<and> list_all fits_api (ls_sent s)"
  have fits: "fits_api (open_request ''POST'' ''/api/v1/auth/login'' body, 200)" for body
    by (simp add: fits_api_def open_request_def select_route_def router_defs)
  have log: "hoare (on ?F) (load_login ls server) (\<lambda>ok. on (if ok then ?T else ?F)) ?E"
    unfolding load_login_def do_request_def if_False
    by (rule hoare_user, rule hoare_pre [OF hoare_send_same [OF fits hoare_store]])
      (use assms(1) in \<open>auto simp: token_blind_def tidy_def bounded_ids_def\<close>)
  have load: "hoare (on ?T) (next_do (load_todo_ids ls server) (\<lambda>_. give ())) (\<lambda>_. on ?T) ?E"
    by (rule hoare_next [where R = "\<lambda>_. on ?T", OF hoare_conseq [OF hoare_load [OF assms(1)]]])
      (auto simp: on_def intro: hoare_give)
  have after: "hoare (on (if ok then ?T else ?F)) (if \<not> ok then halt_with StopUser
      else next_do (load_todo_ids ls server) (\<lambda>_. give ())) (\<lambda>_. on ?T) ?E" for ok
    using load by (cases ok) (auto simp: on_def intro: hoare_halt)
  have "hoare (\<lambda>s. list_all fits_api (ls_sent s)) (user_on_start ls server k) (\<lambda>_. on ?T) ?E"
    unfolding user_on_start_def
    by (rule hoare_next [where R = "\<lambda>_. on ?F"], rule hoare_set, simp add: on_def,
        rule hoare_next [OF log after])
  from hoareD [OF this assms(2,3)] show ?thesis
    by (cases r) (auto simp: on_def token_blind_def)
qed

lemma stop_fits:
  assumes "list_all fits_api (ls_sent s)" and "user_on_stop server s = (r, s')"
  shows "r = Inr () \<and> list_all fits_api (ls_sent s') \<and> ls_user s' = ls_user s"
proof -
  let ?F = "\<lambda>u. u = ls_user s"
  have fits: "fits_api (open_request ''POST'' ''/api/v1/auth/logout'' body, 204)" for body
    by (simp add: fits_api_def open_request_def select_route_def router_defs)
  have out: "hoare (on ?F) (next_do (do_request server (open_request ''POST'' ''/api/v1/auth/logout'' body) 204 False
      None name) (\<lambda>_. give ())) (\<lambda>_. on ?F) (\<lambda>_ _. False)" for body name
    by (rule hoare_next [OF send_open [OF fits]]) (rule hoare_give)
  have stop: "hoare (on ?F) (user_on_stop server) (\<lambda>_. on ?F) (\<lambda>_ _. False)"
    unfolding user_on_stop_def
    by (rule hoare_user, rule hoare_pre [where P = "on ?F"])
      (auto split: option.splits intro: out hoare_give)
  have "on ?F s" using assms(1) by (simp add: on_def)
  from hoareD [OF stop this assms(2)] show ?thesis by (cases r) (simp_all add: on_def)
qed

lemma load_users_are_seeded:
  assumes "1 \<le> TEST_USER_COUNT ls"
  shows "load_email ls k = seed_email (TEST_SEED ls) (credential_index ls k) \<and>
     1 \<le> credential_index ls k \<and> int (credential_index ls k) \<le> TEST_USER_COUNT ls"
proof -
  have pos: "0 < nat (TEST_USER_COUNT ls)" using assms by simp
  then have "k mod nat (TEST_USER_COUNT ls) < nat (TEST_USER_COUNT ls)" by simp
  then show ?thesis
    by (simp add: load_email_def seed_email_def SEED_EMAIL_DOMAIN_def credential_index_def)
qed

section \<open>Settings and thresholds\<close>

lemma integer_setting_bound: "integer_setting env name fallback minimum = Some v \<Longrightarrow> minimum \<le> v"
  by (auto simp: integer_setting_def split: option.splits if_splits)

lemma float_setting_bound:
  "float_setting read_float env name fallback minimum = Some v \<Longrightarrow> \<not> flt_less v (Num minimum)"
  by (auto simp: float_setting_def split: option.splits if_splits)

lemma load_settings_sound:
  assumes "load_settings_of read_float env = Some ls"
  shows "0 \<le> TEST_SEED ls \<and> 1 \<le> TEST_USER_COUNT ls \<and> 1 \<le> MAX_TRACKED_TODOS ls \<and> TEST_PASSWORD ls \<noteq> [] \<and>
     \<not> flt_less (MAX_WAIT_SECONDS ls) (MIN_WAIT_SECONDS ls) \<and> \<not> flt_less (MIN_WAIT_SECONDS ls) (Num 0) \<and>
     \<not> flt_less (FAILURE_RATIO_LIMIT ls) (Num 0) \<and> \<not> flt_less (Num 1) (FAILURE_RATIO_LIMIT ls) \<and>
     \<not> flt_less (P95_MS_LIMIT ls) (Num 0)"
  using assms unfolding load_settings_of_def Let_def
  by (auto split: option.splits if_splits dest!: integer_setting_bound float_setting_bound)

lemma thresholds_enforced:
  "enforce_thresholds ls entries p95 =
     (if entries = [] \<or> flt_less (FAILURE_RATIO_LIMIT ls) (Num (fail_ratio entries)) \<or> flt_less (P95_MS_LIMIT ls) p95
      then Some 1 else None)"
  by (auto simp: enforce_thresholds_def threshold_breaches_def)

text \<open>
  The checks of the settings let \<open>NaN\<close> through, since no comparison with it holds; with it as a
  limit no failure ratio is too high.
\<close>

lemma nan_limit_disables:
  assumes "FAILURE_RATIO_LIMIT ls = NaN" and "P95_MS_LIMIT ls = NaN" and "entries \<noteq> []"
  shows "enforce_thresholds ls entries p95 = None"
  using assms by (simp add: thresholds_enforced)

end
