(* ===== verification/Wiring.thy ===== *)
theory Wiring
  imports Lifespan Jobs Metrics Migrations Route_Table Load_Test
begin

text \<open>
  What the program hands to the libraries it stands on, and the commands around it: the
  settings that only configure connections, the engine and the sessions of \<^verbatim>\<open>db/session.py\<close>, the mail
  configuration, the listeners and the registry of the metrics,
  the options of the Celery application and of the job store, the security schemes and the
  service factories of \<^verbatim>\<open>api/deps.py\<close>, \<^verbatim>\<open>alembic/env.py\<close>, \<^verbatim>\<open>scripts/check_models.py\<close>, and the
  command lines of the other scripts.
\<close>

section \<open>Settings of connections\<close>

text \<open>Seconds that the code reads as \<^verbatim>\<open>float\<close> are kept as microseconds.\<close>

record connection_settings =
  redis_connect_timeout :: time
  redis_socket_timeout :: time
  apscheduler_redis_db :: int
  celery_result_expires_seconds :: int
  celery_task_always_eager :: bool
  sql_echo :: bool
  db_pool_size :: int
  db_max_overflow :: int
  db_pool_timeout :: time
  db_pool_recycle_seconds :: int
  db_connect_timeout :: time
  db_command_timeout :: time
  db_healthcheck_timeout :: time

definition default_connection_settings :: connection_settings where
  "default_connection_settings =
     \<lparr>redis_connect_timeout = seconds 2, redis_socket_timeout = seconds 2, apscheduler_redis_db = 1,
      celery_result_expires_seconds = 3600, celery_task_always_eager = False, sql_echo = False,
      db_pool_size = 10, db_max_overflow = 10, db_pool_timeout = seconds 30, db_pool_recycle_seconds = 1800,
      db_connect_timeout = seconds 5, db_command_timeout = seconds 30, db_healthcheck_timeout = seconds 2\<rparr>"

text \<open>The bounds of the fields, each with the alias its error carries.\<close>

definition connection_bounds :: "connection_settings \<Rightarrow> (string \<times> bool) list" where
  "connection_bounds c =
     [(''REDIS_CONNECT_TIMEOUT_SECONDS'', 0 < redis_connect_timeout c \<and> redis_connect_timeout c \<le> seconds 60),
      (''REDIS_SOCKET_TIMEOUT_SECONDS'', 0 < redis_socket_timeout c \<and> redis_socket_timeout c \<le> seconds 60),
      (''APSCHEDULER_REDIS_DB'', 0 \<le> apscheduler_redis_db c),
      (''CELERY_RESULT_EXPIRES_SECONDS'',
         60 \<le> celery_result_expires_seconds c \<and> celery_result_expires_seconds c \<le> 604800),
      (''DB_POOL_SIZE'', 1 \<le> db_pool_size c), (''DB_MAX_OVERFLOW'', 0 \<le> db_max_overflow c),
      (''DB_POOL_TIMEOUT_SECONDS'', 0 < db_pool_timeout c),
      (''DB_POOL_RECYCLE_SECONDS'', - 1 \<le> db_pool_recycle_seconds c),
      (''DB_CONNECT_TIMEOUT_SECONDS'', 0 < db_connect_timeout c),
      (''DB_COMMAND_TIMEOUT_SECONDS'', 0 < db_command_timeout c),
      (''DB_HEALTHCHECK_TIMEOUT_SECONDS'', 0 < db_healthcheck_timeout c)]"

definition connection_settings_ok :: "connection_settings \<Rightarrow> bool" where
  "connection_settings_ok c = list_all snd (connection_bounds c)"

lemma default_connection_settings_ok: "connection_settings_ok default_connection_settings"
  by (simp add: connection_settings_ok_def connection_bounds_def default_connection_settings_def)

section \<open>The engine and its sessions\<close>

record engine_options =
  eo_url :: string
  eo_echo :: bool
  eo_pre_ping :: bool
  eo_pool_size :: int
  eo_max_overflow :: int
  eo_pool_timeout :: time
  eo_pool_recycle :: int
  eo_connect_timeout :: time
  eo_command_timeout :: time
  eo_application_name :: string

record session_options =
  se_autoflush :: bool
  se_expire_on_commit :: bool

definition create_database :: "settings \<Rightarrow> connection_settings \<Rightarrow> engine_options \<times> session_options" where
  "create_database s c =
     (\<lparr>eo_url = database_url s, eo_echo = sql_echo c, eo_pre_ping = True, eo_pool_size = db_pool_size c,
       eo_max_overflow = db_max_overflow c, eo_pool_timeout = db_pool_timeout c,
       eo_pool_recycle = db_pool_recycle_seconds c, eo_connect_timeout = db_connect_timeout c,
       eo_command_timeout = db_command_timeout c, eo_application_name = take 63 (app_name s)\<rparr>,
      \<lparr>se_autoflush = False, se_expire_on_commit = False\<rparr>)"

text \<open>
  The engine never opens more connections than the pool and its overflow allow, at least one;
  the name it reports is an identifier PostgreSQL does not cut.
\<close>

definition most_connections :: "engine_options \<Rightarrow> int" where
  "most_connections e = eo_pool_size e + eo_max_overflow e"

lemma engine_sound:
  assumes "connection_settings_ok c"
  shows "1 \<le> most_connections (fst (create_database s c)) \<and>
     length (eo_application_name (fst (create_database s c))) \<le> 63 \<and>
     0 < eo_pool_timeout (fst (create_database s c)) \<and> \<not> se_autoflush (snd (create_database s c))"
  using assms
  by (simp add: connection_settings_ok_def connection_bounds_def create_database_def most_connections_def)

section \<open>Celery and the job store\<close>

record transport_options =
  to_connect_timeout :: time
  to_socket_timeout :: time
  to_visibility_timeout :: "int option"

record celery_conf =
  cc_broker :: string
  cc_backend :: string
  cc_accept_content :: "string list"
  cc_retry_on_startup :: bool
  cc_broker_transport :: transport_options
  cc_backend_transport :: transport_options
  cc_utc :: bool
  cc_result_expires :: int
  cc_result_serializer :: string
  cc_task_serializer :: string
  cc_acks_late :: bool
  cc_always_eager :: bool
  cc_eager_propagates :: bool
  cc_reject_on_worker_lost :: bool
  cc_soft_time_limit :: int
  cc_time_limit :: int
  cc_timezone :: string
  cc_prefetch_multiplier :: int

definition create_celery_app :: "settings \<Rightarrow> connection_settings \<Rightarrow> celery_conf" where
  "create_celery_app s c =
     (let redis_transport_options = \<lparr>to_connect_timeout = redis_connect_timeout c,
            to_socket_timeout = redis_socket_timeout c, to_visibility_timeout = None\<rparr>
      in \<lparr>cc_broker = celery_broker_url s, cc_backend = celery_result_backend s, cc_accept_content = [''json''],
          cc_retry_on_startup = True,
          cc_broker_transport = redis_transport_options\<lparr>to_visibility_timeout := Some 3600\<rparr>,
          cc_backend_transport = redis_transport_options, cc_utc = True,
          cc_result_expires = celery_result_expires_seconds c, cc_result_serializer = ''json'',
          cc_task_serializer = ''json'', cc_acks_late = True, cc_always_eager = celery_task_always_eager c,
          cc_eager_propagates = True, cc_reject_on_worker_lost = True, cc_soft_time_limit = 45,
          cc_time_limit = 60, cc_timezone = ''UTC'', cc_prefetch_multiplier = 1\<rparr>)"

text \<open>
  A message is acknowledged when its task has ended, so it must not become visible to another
  worker while the task may still run: the hard limit is below the visibility timeout, the soft
  limit below the hard one. Workers accept what is sent.
\<close>

lemma celery_limits:
  "cc_acks_late (create_celery_app s c) \<and>
   cc_soft_time_limit (create_celery_app s c) < cc_time_limit (create_celery_app s c) \<and>
   (\<exists>v. to_visibility_timeout (cc_broker_transport (create_celery_app s c)) = Some v \<and>
      cc_time_limit (create_celery_app s c) < v) \<and>
   cc_task_serializer (create_celery_app s c) \<in> set (cc_accept_content (create_celery_app s c)) \<and>
   cc_result_serializer (create_celery_app s c) \<in> set (cc_accept_content (create_celery_app s c))"
  by (simp add: create_celery_app_def Let_def)

text \<open>
  \<^verbatim>\<open>_create_redis_jobstore\<close>: \<^verbatim>\<open>parse_url\<close> of the Redis client is a parameter; the arguments it
  gives are updated.
\<close>

datatype connect_arg = TextArg string | NumberArg int | SecondsArg time | FlagArg bool

record jobstore =
  js_db :: int
  js_jobs_key :: string
  js_run_times_key :: string
  js_connect_args :: "string \<rightharpoonup> connect_arg"

definition create_redis_jobstore ::
  "(string \<Rightarrow> (string \<rightharpoonup> connect_arg)) \<Rightarrow> settings \<Rightarrow> connection_settings \<Rightarrow> jobstore" where
  "create_redis_jobstore parse_url s c =
     (let connect_args = parse_url (redis_url s) ++
            [''db'' \<mapsto> NumberArg (apscheduler_redis_db c),
             ''socket_connect_timeout'' \<mapsto> SecondsArg (redis_connect_timeout c),
             ''socket_timeout'' \<mapsto> SecondsArg (redis_socket_timeout c),
             ''health_check_interval'' \<mapsto> NumberArg 30, ''decode_responses'' \<mapsto> FlagArg False]
      in \<lparr>js_db = apscheduler_redis_db c, js_jobs_key = apscheduler_jobs_key s,
          js_run_times_key = apscheduler_run_times_key s, js_connect_args = connect_args\<rparr>)"

text \<open>The connection uses the database of the settings, whatever database the URL names.\<close>

lemma jobstore_database:
  "js_connect_args (create_redis_jobstore parse_url s c) ''db'' =
     Some (NumberArg (js_db (create_redis_jobstore parse_url s c)))"
  by (simp add: create_redis_jobstore_def Let_def)

section \<open>Mail\<close>

text \<open>
  The mail options that only the library reads. A blank text for an optional one is none
  (\<^verbatim>\<open>empty_mail_options_are_none\<close>); paths are texts in the normal form of
  \<^verbatim>\<open>Path\<close>; that the folder exists is not checked here.
\<close>

record mail_options =
  mail_debug :: int
  mail_from_name :: "string option"
  mail_template_folder :: "string option"
  mail_validate_certs :: bool
  mail_local_hostname :: "string option"
  mail_cert_bundle :: "string option"

definition empty_mail_options_are_none :: "string option \<Rightarrow> string option" where
  "empty_mail_options_are_none value = (case value of
      None \<Rightarrow> None | Some t \<Rightarrow> if strip t = [] then None else Some t)"

text \<open>The options as they are given, \<open>None\<close> where the field is bad.\<close>

definition load_mail_options :: "mail_options \<Rightarrow> mail_options option" where
  "load_mail_options raw =
     (if mail_debug raw < 0 \<or> 1 < mail_debug raw then None
      else Some (raw\<lparr>mail_from_name := empty_mail_options_are_none (mail_from_name raw),
                     mail_template_folder := empty_mail_options_are_none (mail_template_folder raw),
                     mail_local_hostname := empty_mail_options_are_none (mail_local_hostname raw),
                     mail_cert_bundle := empty_mail_options_are_none (mail_cert_bundle raw)\<rparr>))"

record mail_config =
  MAIL_USERNAME :: string
  MAIL_PASSWORD :: string
  MAIL_PORT :: int
  MAIL_SERVER :: string
  MAIL_STARTTLS :: bool
  MAIL_SSL_TLS :: bool
  MAIL_DEBUG :: int
  MAIL_FROM :: string
  MAIL_FROM_NAME :: "string option"
  TEMPLATE_FOLDER :: "string option"
  SUPPRESS_SEND :: int
  USE_CREDENTIALS :: bool
  VALIDATE_CERTS :: bool
  TIMEOUT :: int
  LOCAL_HOSTNAME :: "string option"
  CERT_BUNDLE :: "string option"

definition create_mail_config :: "settings \<Rightarrow> mail_options \<Rightarrow> mail_config" where
  "create_mail_config s m =
     \<lparr>MAIL_USERNAME = mail_username s, MAIL_PASSWORD = mail_password s, MAIL_PORT = mail_port s,
      MAIL_SERVER = mail_server s, MAIL_STARTTLS = mail_starttls s, MAIL_SSL_TLS = mail_ssl_tls s,
      MAIL_DEBUG = mail_debug m, MAIL_FROM = mail_from s, MAIL_FROM_NAME = mail_from_name m,
      TEMPLATE_FOLDER = mail_template_folder m, SUPPRESS_SEND = of_bool (mail_suppress_send s),
      USE_CREDENTIALS = mail_use_credentials s, VALIDATE_CERTS = mail_validate_certs m,
      TIMEOUT = mail_timeout_seconds s, LOCAL_HOSTNAME = mail_local_hostname m,
      CERT_BUNDLE = mail_cert_bundle m\<rparr>"

text \<open>With settings that load, the configuration asks for one kind of TLS at most and has no blank option.\<close>

lemma loaded_mail_options:
  assumes "load_mail_options raw = Some m"
  shows "mail_from_name m \<noteq> Some t \<or> strip t \<noteq> []" and "mail_template_folder m \<noteq> Some t \<or> strip t \<noteq> []"
    and "mail_local_hostname m \<noteq> Some t \<or> strip t \<noteq> []" and "mail_cert_bundle m \<noteq> Some t \<or> strip t \<noteq> []"
  using assms
  by (auto simp: load_mail_options_def empty_mail_options_are_none_def split: if_splits option.splits)

lemma mail_config_one_tls:
  assumes "load_settings env raw = Some s"
  shows "\<not> (MAIL_STARTTLS (create_mail_config s m) \<and> MAIL_SSL_TLS (create_mail_config s m))"
  using assms by (auto simp: load_settings_def validate_signing_secret_def create_mail_config_def
    split: option.splits if_splits)

section \<open>Metrics\<close>

text \<open>
  \<^verbatim>\<open>install_database_metrics\<close>: the listeners are added to an engine once, however often it is called.
  Engines are numbered; the second part of the state counts the listeners of each.
\<close>

definition LISTENERS :: "string list" where
  "LISTENERS = [''before_cursor_execute'', ''after_cursor_execute'', ''handle_error'', ''connect'', ''close'',
     ''checkout'', ''checkin'', ''invalidate'']"

definition install_database_metrics :: "nat \<Rightarrow> nat set \<times> (nat \<Rightarrow> string list) \<Rightarrow> nat set \<times> (nat \<Rightarrow> string list)" where
  "install_database_metrics engine = (\<lambda>(instrumented, listeners).
     if engine \<in> instrumented then (instrumented, listeners)
     else (insert engine instrumented, listeners(engine := listeners engine @ LISTENERS)))"

text \<open>Every event of an engine is counted once, so the gauges stay true after repeated installation.\<close>

lemma installed_once:
  "snd (fold install_database_metrics es ({}, \<lambda>_. [])) e = (if e \<in> set es then LISTENERS else [])"
proof -
  have "fst (fold install_database_metrics es (I, l)) = I \<union> set es \<and>
      snd (fold install_database_metrics es (I, l)) e =
        (if e \<in> set es - I then l e @ LISTENERS else l e)" for I l
    by (induction es arbitrary: I l) (auto simp: install_database_metrics_def)
  from this [of "{}" "\<lambda>_. []"] show ?thesis by simp
qed

text \<open>
  \<^verbatim>\<open>exposition_registry\<close>: with a directory for several processes, a fresh registry that collects from
  it; otherwise the registry of the process. An empty text is no directory.
\<close>

datatype registry = ProcessRegistry | CollectedRegistry string

definition exposition_registry :: "(string \<rightharpoonup> string) \<Rightarrow> registry" where
  "exposition_registry environ = (case environ ''PROMETHEUS_MULTIPROC_DIR'' of
      None \<Rightarrow> ProcessRegistry | Some dir \<Rightarrow> if dir = [] then ProcessRegistry else CollectedRegistry dir)"

section \<open>Security schemes\<close>

text \<open>
  The scheme objects of FastAPI, by what they are constructed with; none of them answers by
  itself (\<^verbatim>\<open>auto_error=False\<close>). How they read a request is the library's.
\<close>

datatype scheme_kind =
    PasswordBearer string
  | AuthorizationCodeBearer string string
  | HttpBearer
  | HttpBasic
  | KeyInCookie string
  | KeyInHeader string
  | KeyInQuery string

record security_scheme =
  ss_name :: string
  ss_kind :: scheme_kind
  ss_auto_error :: bool

definition security_schemes :: "security_scheme list" where
  "security_schemes =
     [\<lparr>ss_name = ''OAuth2PasswordBearer'', ss_kind = PasswordBearer ''/api/v1/auth/login'', ss_auto_error = False\<rparr>,
      \<lparr>ss_name = ''OAuth2AuthorizationCodeBearer'',
       ss_kind = AuthorizationCodeBearer ''/api/v1/auth/authorize'' ''/api/v1/auth/token'', ss_auto_error = False\<rparr>,
      \<lparr>ss_name = ''HTTPBearer'', ss_kind = HttpBearer, ss_auto_error = False\<rparr>,
      \<lparr>ss_name = ''BrowserAccessCookie'', ss_kind = KeyInCookie ACCESS_COOKIE_NAME, ss_auto_error = False\<rparr>,
      \<lparr>ss_name = ''BasicAuth'', ss_kind = HttpBasic, ss_auto_error = False\<rparr>,
      \<lparr>ss_name = ''APIKeyHeaderAuth'', ss_kind = KeyInHeader ''X-API-Key'', ss_auto_error = False\<rparr>,
      \<lparr>ss_name = ''APIKeyQueryAuth'', ss_kind = KeyInQuery ''api_key'', ss_auto_error = False\<rparr>,
      \<lparr>ss_name = ''BrowserCSRF'', ss_kind = KeyInHeader ''X-CSRF-Token'', ss_auto_error = False\<rparr>]"

text \<open>The request with which a client uses the URL of a scheme reaches a route of the API.\<close>

definition serves_path :: "string \<Rightarrow> string \<Rightarrow> bool" where
  "serves_path m url \<longleftrightarrow> is_some (select_route api_router m (tl (split_char (CHR ''/'') url)))"

fun scheme_served :: "scheme_kind \<Rightarrow> bool" where
  "scheme_served (PasswordBearer token_url) = serves_path ''POST'' token_url"
| "scheme_served (AuthorizationCodeBearer authorization_url token_url) =
     (serves_path ''GET'' authorization_url \<and> serves_path ''POST'' token_url)"
| "scheme_served _ = True"

lemma security_schemes_sound:
  "distinct (map ss_name security_schemes) \<and> list_all (\<lambda>x. scheme_served (ss_kind x)) security_schemes \<and>
   list_all (\<lambda>x. \<not> ss_auto_error x) security_schemes"
  by code_simp

section \<open>Services of a request\<close>

text \<open>
  FastAPI builds the dependencies of a request once: the session that \<^verbatim>\<open>get_session\<close> yields and the
  settings of the application. Sessions are numbered.
\<close>

record request_scope =
  rs_session :: nat
  rs_settings :: settings

record auth_service =
  as_session :: nat
  as_settings :: settings

record oauth_service =
  os_session :: nat
  os_settings :: settings
  os_auth :: auth_service

definition get_app_settings :: "request_scope \<Rightarrow> settings" where
  "get_app_settings sc = rs_settings sc"

definition get_auth_service :: "request_scope \<Rightarrow> auth_service" where
  "get_auth_service sc = \<lparr>as_session = rs_session sc, as_settings = get_app_settings sc\<rparr>"

definition get_oauth_service :: "request_scope \<Rightarrow> oauth_service" where
  "get_oauth_service sc =
     \<lparr>os_session = rs_session sc, os_settings = get_app_settings sc, os_auth = get_auth_service sc\<rparr>"

text \<open>The login that the exchange of a code stages is part of the transaction that consumes the code.\<close>

lemma exchange_shares_session:
  "as_session (os_auth (get_oauth_service sc)) = os_session (get_oauth_service sc) \<and>
   as_settings (os_auth (get_oauth_service sc)) = os_settings (get_oauth_service sc)"
  by (simp add: get_oauth_service_def get_auth_service_def)

section \<open>Commands\<close>

text \<open>
  A command owns an engine and, while it works, a connection. The database it works on and what
  it prints are its effect; what the library calls raise is given.
\<close>

record command =
  cm_engine :: bool
  cm_connection :: bool
  cm_schema :: schema
  cm_printed :: "string list"

record command_calls =
  ca_connect :: "string option"
  ca_execute :: "string option"
  ca_configure :: "string option"
  ca_commit :: "string option"
  ca_disconnect :: "string option"
  ca_dispose :: "string option"

definition open_engine :: "command phase" where
  "open_engine p = (None, p\<lparr>cm_engine := True\<rparr>)"

text \<open>\<^verbatim>\<open>engine.dispose()\<close>: whatever it raises, the command gives the engine up.\<close>

definition dispose_engine :: "command_calls \<Rightarrow> command phase" where
  "dispose_engine ca p = (ca_dispose ca, p\<lparr>cm_engine := False\<rparr>)"

text \<open>\<^verbatim>\<open>async with engine.connect() as connection\<close>.\<close>

definition with_connection :: "command_calls \<Rightarrow> command phase \<Rightarrow> command phase" where
  "with_connection ca body =
     andthen (attempt (ca_connect ca) (\<lambda>p. p\<lparr>cm_connection := True\<rparr>))
       (try_finally body (\<lambda>p. (ca_disconnect ca, p\<lparr>cm_connection := False\<rparr>)))"

definition ping :: "command_calls \<Rightarrow> command phase" where
  "ping ca = with_connection ca (attempt (ca_execute ca) id)"

definition check_database :: "command_calls \<Rightarrow> command phase" where
  "check_database ca =
     andthen open_engine
       (try_finally
          (andthen (ping ca) (\<lambda>p. (None, p\<lparr>cm_printed := cm_printed p @ [''Database connection OK'']\<rparr>)))
          (dispose_engine ca))"

text \<open>\<^verbatim>\<open>alembic/env.py\<close>.\<close>

record context_options =
  co_target_metadata :: schema
  co_compare_type :: bool
  co_compare_server_default :: bool
  co_render_as_batch :: bool

definition get_context_options :: "settings \<Rightarrow> context_options" where
  "get_context_options s =
     \<lparr>co_target_metadata = metadata, co_compare_type = True, co_compare_server_default = True,
      co_render_as_batch = prefix ''sqlite'' (database_url s)\<rparr>"

text \<open>
  \<^verbatim>\<open>with context.begin_transaction(): context.run_migrations()\<close> on a fresh database: the upgrade
  goes through and is committed, or nothing of it stays.
\<close>

definition run_migrations :: "command_calls \<Rightarrow> string list \<Rightarrow> command phase" where
  "run_migrations ca populated p =
     (case upgrade_head populated of
        None \<Rightarrow> (Some ''ProgrammingError'', p)
      | Some sch \<Rightarrow> attempt (ca_commit ca) (\<lambda>p. p\<lparr>cm_schema := sch\<rparr>) p)"

definition do_run_migrations :: "command_calls \<Rightarrow> string list \<Rightarrow> command phase" where
  "do_run_migrations ca populated = andthen (attempt (ca_configure ca) id) (run_migrations ca populated)"

definition run_async_migrations :: "command_calls \<Rightarrow> string list \<Rightarrow> command phase" where
  "run_async_migrations ca populated =
     andthen open_engine
       (try_finally (with_connection ca (do_run_migrations ca populated)) (dispose_engine ca))"

text \<open>Offline no engine is made; \<open>sql\<close> is what Alembic writes for the revisions.\<close>

definition run_migrations_offline :: "command_calls \<Rightarrow> string list \<Rightarrow> command phase" where
  "run_migrations_offline ca sql =
     andthen (attempt (ca_configure ca) id) (\<lambda>p. (None, p\<lparr>cm_printed := cm_printed p @ sql\<rparr>))"

text \<open>What \<^verbatim>\<open>context.configure\<close> is called with, offline and on a connection.\<close>

record configure_call =
  cf_options :: context_options
  cf_url :: "string option"
  cf_literal_binds :: bool
  cf_paramstyle :: "string option"
  cf_connection :: bool

definition offline_configure :: "settings \<Rightarrow> configure_call" where
  "offline_configure s = \<lparr>cf_options = get_context_options s, cf_url = Some (database_url s),
     cf_literal_binds = True, cf_paramstyle = Some ''named'', cf_connection = False\<rparr>"

definition online_configure :: "settings \<Rightarrow> configure_call" where
  "online_configure s = \<lparr>cf_options = get_context_options s, cf_url = None, cf_literal_binds = False,
     cf_paramstyle = None, cf_connection = True\<rparr>"

text \<open>Settings that load name PostgreSQL, so a migration never rewrites whole tables in batches.\<close>

lemma no_batch_mode:
  assumes "prefix ''postgresql'' (database_url s)"
  shows "\<not> co_render_as_batch (get_context_options s)"
  using assms by (auto simp: get_context_options_def prefix_def)

lemmas command_defs = andthen_def attempt_def try_finally_def open_engine_def dispose_engine_def
  with_connection_def ping_def check_database_def run_migrations_def do_run_migrations_def
  run_async_migrations_def

text \<open>Every command gives back the connection and the engine it opened, however it ends.\<close>

lemma commands_give_back:
  assumes "\<not> cm_connection p"
  shows "\<not> cm_engine (snd (check_database ca p)) \<and> \<not> cm_connection (snd (check_database ca p)) \<and>
     \<not> cm_engine (snd (run_async_migrations ca populated p)) \<and>
     \<not> cm_connection (snd (run_async_migrations ca populated p))"
  using assms by (auto simp: command_defs split: option.splits prod.splits)

text \<open>The check prints its message exactly when the statement and both calls around it succeeded.\<close>

lemma check_prints_iff_reached:
  "cm_printed (snd (check_database ca p)) = cm_printed p @
     (if ca_connect ca = None \<and> ca_execute ca = None \<and> ca_disconnect ca = None
      then [''Database connection OK''] else [])"
  by (auto simp: command_defs split: option.splits)

text \<open>
  A migration is all or nothing: the schema afterwards is the old one or the one of the mapped
  classes, and the latter when the command ended without an exception.
\<close>

lemma migration_all_or_nothing:
  assumes "run_async_migrations ca populated p = (r, q)"
  shows "cm_schema q = cm_schema p \<or> Some (cm_schema q) = upgrade_head populated"
    "r = None \<Longrightarrow> Some (cm_schema q) = upgrade_head populated"
  using assms by (auto simp: command_defs split: option.splits prod.splits)

section \<open>Command lines\<close>

text \<open>
  \<open>cmdline\<close> holds the options of the command line as \<^verbatim>\<open>argparse\<close> has split it; \<open>None\<close> is a value that it
  refuses. Texts are converted by the type of the option, defaults are not.
\<close>

definition option_value :: "(string \<Rightarrow> 'a option) \<Rightarrow> 'a \<Rightarrow> (string \<rightharpoonup> string) \<Rightarrow> string \<Rightarrow> 'a option" where
  "option_value convert fallback cmdline name =
     (case cmdline name of None \<Rightarrow> Some fallback | Some t \<Rightarrow> convert t)"

definition rate :: "(string \<Rightarrow> flt option) \<Rightarrow> string \<Rightarrow> flt option" where
  "rate read_float value = (case read_float value of
      Some (Num x) \<Rightarrow> if 0 \<le> x \<and> x \<le> 1 then Some (Num x) else None
    | _ \<Rightarrow> None)"

definition parse_seed_args ::
  "(string \<Rightarrow> flt option) \<Rightarrow> (string \<rightharpoonup> string) \<Rightarrow> (string \<rightharpoonup> string) \<Rightarrow> (seed_options \<times> flt) option" where
  "parse_seed_args read_float env cmdline =
     (case (option_value py_int 1405 cmdline ''--seed'', option_value positive_int 10 cmdline ''--users'',
            option_value (rate read_float) (Num (1 / 10)) cmdline ''--inactive-rate'',
            option_value non_negative_int 10 cmdline ''--todos-per-user'',
            option_value non_negative_int 2 cmdline ''--api-keys-per-user'',
            option_value non_negative_int 2 cmdline ''--refresh-sessions-per-user'',
            option_value non_negative_int 1 cmdline ''--oauth-codes-per-user'') of
       (Some seed, Some us, Some inactive, Some ts, Some ks, Some ss, Some cs) \<Rightarrow>
         Some (\<lparr>so_seed = seed, so_users = nat us, so_todos_per_user = nat ts, so_api_keys_per_user = nat ks,
                so_refresh_sessions_per_user = nat ss, so_oauth_codes_per_user = nat cs,
                so_password = (case cmdline ''--password'' of Some t \<Rightarrow> t | None \<Rightarrow>
                  (case env ''TODO_API_SEED_PASSWORD'' of Some t \<Rightarrow> t | None \<Rightarrow> ''qwe123!@#'')),
                so_oauth_client_id = (case cmdline ''--oauth-client-id'' of Some t \<Rightarrow> t | None \<Rightarrow> ''todo-web''),
                so_oauth_redirect_uri = (case cmdline ''--oauth-redirect-uri'' of Some t \<Rightarrow> t
                  | None \<Rightarrow> ''http://localhost:3000/callback'')\<rparr>, inactive)
     | _ \<Rightarrow> None)"

lemma parse_no_args:
  "parse_seed_args read_float Map.empty Map.empty = Some (default_seed_options, Num (1 / 10))"
  by (simp add: parse_seed_args_def option_value_def default_seed_options_def)

lemma positive_int_pos: "positive_int t = Some n \<Longrightarrow> 1 \<le> n"
  by (auto simp: positive_int_def split: option.splits if_splits)

text \<open>A batch has at least one account, its superuser, and the rate is a fraction, never \<open>NaN\<close>.\<close>

lemma parse_args_sound:
  assumes "parse_seed_args read_float env cmdline = Some (opts, inactive)"
  shows "1 \<le> so_users opts" and "\<exists>x. inactive = Num x \<and> 0 \<le> x \<and> x \<le> 1"
proof -
  from assms obtain us where "option_value positive_int 10 cmdline ''--users'' = Some us" "so_users opts = nat us"
    by (auto simp: parse_seed_args_def split: option.splits)
  then show "1 \<le> so_users opts"
    by (auto simp: option_value_def split: option.splits dest: positive_int_pos)
  from assms have "option_value (rate read_float) (Num (1 / 10)) cmdline ''--inactive-rate'' = Some inactive"
    by (auto simp: parse_seed_args_def split: option.splits)
  then show "\<exists>x. inactive = Num x \<and> 0 \<le> x \<and> x \<le> 1"
    by (auto simp: option_value_def rate_def split: option.splits flt.splits if_splits)
qed

text \<open>The command line of \<^verbatim>\<open>create_user.py\<close>: the address is required.\<close>

definition create_user_args :: "(string \<rightharpoonup> string) \<Rightarrow> bool \<Rightarrow> (string \<times> string field \<times> bool) option" where
  "create_user_args cmdline superuser =
     (case cmdline ''--email'' of
        None \<Rightarrow> None
      | Some email \<Rightarrow>
          Some (email, case cmdline ''--full-name'' of None \<Rightarrow> Null | Some n \<Rightarrow> Given n, superuser))"

end
