(* ===== verification/Spec2Isabelle.thy ===== *)
theory Spec2Isabelle
  imports Todo_Props Auth_Props OAuth_Props Access_Props Web_Props Background_Props Observability_Props Api_Props Gate_Props Migrations Lifespan Jobs Metrics App Escape_Props Scripts Contention_Props Load_Test Wiring
begin

text \<open>
  A verification library for the todo API: a FastAPI service (\<^verbatim>\<open>src/todo_api/\<close>) with its
  migrations (\<^verbatim>\<open>alembic/\<close>), its command line tools (\<^verbatim>\<open>scripts/\<close>) and its load test (\<^verbatim>\<open>loadtests/\<close>). Paths
  below are relative to \<^verbatim>\<open>src/todo_api/\<close> unless they say otherwise.

  The program. A request passes a stack of middleware (\<^verbatim>\<open>app.py\<close>), the guards and authenticators of its route
  (\<^verbatim>\<open>api/deps.py\<close>), the route (\<^verbatim>\<open>api/v1/routes/\<close>), and a service (\<^verbatim>\<open>services/\<close>), which runs repository statements
  (\<^verbatim>\<open>repositories/\<close>) on rows (\<^verbatim>\<open>models/\<close>) in one SQLAlchemy session (\<^verbatim>\<open>db/session.py\<close>) and raises the exceptions of
  \<^verbatim>\<open>exceptions/\<close>, which \<^verbatim>\<open>api/exception_handlers.py\<close> turns into answers. Beside the requests, APScheduler jobs in
  the API process and Celery tasks in workers clean up (\<^verbatim>\<open>background/\<close>). The library follows these layers.

  What a computation is (Session). An action takes a world to an exception or a value and a world. The
  world holds the committed and the working database, the clock, a list of faults (what each of the next statements
  meets: nothing, an SQLAlchemy error, a violation that a concurrent request causes), the entropy that \<^verbatim>\<open>secrets\<close> and
  the hasher draw, the sequences of ids, and the trace of metrics and queued messages. Every raise,
  early return and commit of a service is a branch of its action; \<^verbatim>\<open>get_session\<close> starts from what is committed
  and rolls back. In Session one action runs after the other; what concurrency does to a single statement is
  kept as its fault (an address taken between check and insert). Two parts model interleaving itself: requests that
  contend for a row, which the code locks with \<^verbatim>\<open>FOR UPDATE\<close> or takes with an \<^verbatim>\<open>UPDATE ... RETURNING\<close> (Locking,
  Contention), and the HTTP and statement metrics (Observability).

  The theories, from the bottom up:

  \<^item> Prelude, Py_Str, Encoding, Url, Sha256, Web_Text: rows in lists with the locale \<open>table\<close>, the locale
    \<open>total_preorder\<close> of sort orders, and the parts of Python's library that the program uses: \<^verbatim>\<open>str\<close> and \<^verbatim>\<open>int\<close>, UTF-8 and
    base 64, \<^verbatim>\<open>urlsplit\<close>, SHA-256 on 32-bit words, \<^verbatim>\<open>html.escape\<close>, \<^verbatim>\<open>urlencode\<close>.
  \<^item> Errors, Models, Env, Config: \<^verbatim>\<open>exceptions/\<close> with the status table of the handlers; \<^verbatim>\<open>models/\<close> as records, with
    the CHECK, UNIQUE and foreign key constraints and the column widths as the validity of a database; the record of
    libraries that are parameters; \<^verbatim>\<open>core/config.py\<close>.
  \<^item> Security (Security_Facts): \<^verbatim>\<open>core/security.py\<close>, \<^verbatim>\<open>schemas/token.py\<close>.
  \<^item> User_Schema, Auth (Auth_Facts, Login_Facts, Auth_Props): \<^verbatim>\<open>schemas/user.py\<close>, \<^verbatim>\<open>repositories/user.py\<close>,
    \<^verbatim>\<open>repositories/refresh_session.py\<close>, \<^verbatim>\<open>services/auth.py\<close>: registration, verification, authentication, rotation of refresh
    tokens with its grace period, reuse detection, logout.
  \<^item> Todo_Schema, Todos (Todo_Facts, Todo_Props): \<^verbatim>\<open>schemas/todo.py\<close>, \<^verbatim>\<open>repositories/todo.py\<close>, \<^verbatim>\<open>services/todo.py\<close>: the
    status machine, filters, order, pages, search.
  \<^item> OAuth (OAuth_Facts, OAuth_Props): \<^verbatim>\<open>schemas/oauth.py\<close>, \<^verbatim>\<open>repositories/oauth.py\<close>, \<^verbatim>\<open>services/oauth.py\<close>: the code flow with PKCE.
  \<^item> Api_Keys (Key_Facts): \<^verbatim>\<open>schemas/api_key.py\<close>, \<^verbatim>\<open>repositories/api_key.py\<close>, \<^verbatim>\<open>services/api_key.py\<close>, \<^verbatim>\<open>services/user.py\<close>.
  \<^item> Deps (Deps_Facts, Access_Props), Cookies: \<^verbatim>\<open>api/deps.py\<close> and \<^verbatim>\<open>core/cookies.py\<close>; the locale \<open>authenticator\<close> is what the
    three kinds of authenticators share.
  \<^item> Http, Cache (Cache_Facts), Mail: answers and their documentation (\<^verbatim>\<open>api/responses.py\<close>), the keys and headers of
    \<^verbatim>\<open>core/cache.py\<close>, \<^verbatim>\<open>utils/email.py\<close> with \<^verbatim>\<open>services/email.py\<close>, \<^verbatim>\<open>background/dispatch.py\<close> and the email tasks.
  \<^item> Routes_Auth, Routes_OAuth (Redirect_Facts), Routes_User, Routes_Todo (Web_Props): the endpoints of \<^verbatim>\<open>api/v1/routes/\<close>.
  \<^item> Api (Api_Facts, Api_Props), Reply_Types, Escape_Props, Route_Table, Gate_Props: \<^verbatim>\<open>api/v1/router.py\<close>: all calls as one type, their
    dispatch, the runs of the program as an inductive relation, the types of answers, the exceptions that can leave a route, the decorators of the
    routes as data, the guards. User_Policy holds the locale \<open>user_policy\<close>: a contract on accounts that every
    operation of the program keeps if registration and verification do.
  \<^item> Maintenance, Worker (Background_Props), Jobs, Lifespan: \<^verbatim>\<open>background/maintenance.py\<close> (locale \<open>sweep\<close>),
    \<^verbatim>\<open>background/maintenance_runtime.py\<close>, \<^verbatim>\<open>background/scheduler.py\<close> with \<^verbatim>\<open>background/celery_app.py\<close> and \<^verbatim>\<open>background/tasks/\<close>, and the
    life span in \<^verbatim>\<open>app.py\<close>.
  \<^item> Observability (Observability_Props), Metrics, Middleware, App: \<^verbatim>\<open>observability/\<close>, \<^verbatim>\<open>core/cors.py\<close>, and \<^verbatim>\<open>create_app\<close>
    with its stack of middleware (locale \<open>header_editor\<close>).
  \<^item> Migrations: \<^verbatim>\<open>alembic/versions/\<close>, the revisions as operations on a schema. Scripts: \<^verbatim>\<open>scripts/create_user.py\<close> and
    \<^verbatim>\<open>scripts/seed_database.py\<close>.
  \<^item> Locking, Contention (Contention_Props): clients of one row as a machine of moves (wait, hold the lock, stage, commit, abort), its
    refinement of serial orders, and the locales \<open>latch\<close> and \<open>one_shot\<close> of rows that serve a client once, interpreted
    on the operations of the services: \<^verbatim>\<open>verify_email\<close>, \<^verbatim>\<open>exchange_authorization_code\<close>,
    \<^verbatim>\<open>refresh_login_session\<close>, \<^verbatim>\<open>TodoService.update\<close> and \<^verbatim>\<open>TodoService.delete\<close>. A client is the whole operation
    in a session of its own, on what the clients before it committed; its clock, entropy and faults are its own. Only
    the contending transactions are there: rows that none of them writes do not change meanwhile.
  \<^item> Wiring: what is handed to libraries (\<^verbatim>\<open>create_database\<close>, \<^verbatim>\<open>create_mail_config\<close>, the options of \<^verbatim>\<open>background/celery_app.py\<close> and of the job store, the security
    schemes and service factories of \<^verbatim>\<open>api/deps.py\<close>), \<^verbatim>\<open>alembic/env.py\<close>, \<^verbatim>\<open>scripts/check_models.py\<close>, and the command lines.
  \<^item> Load_Test: \<^verbatim>\<open>loadtests/locustfile.py\<close> as a client of an arbitrary server, with total correctness triples for its tasks.
  \<^item> Sample, Auth_Sample: the concrete libraries, databases and tokens of the witnesses. They model no code.

  What is shown. Todos: updates are steps of the status machine and succeed exactly when it allows; writes
  are all or nothing and stay with their owner; listings are the sorted, filtered table cut into pages; search is
  literal; under contention no update is lost, and every request ends. Tokens and sessions: lifetimes stay within the deadline of the session, the types of tokens are not
  interchangeable, rotation, reuse detection and logout do what they promise under any faults, and the legitimate client is not locked
  out. Of any number of requests that present the same credential at the same time at most one is
  accepted. Accounts: registration, single-use verification, sound authentication, and, over every run of
  requests, jobs and time, no account ever gains power. OAuth: a code is bound to its client, its redirect and its
  verifier, works once, is never burnt by an error, and the flow completes. Outer layer: every call is guarded and
  answered with a reply of its route's type, no failure of the database becomes a 500, redirects go to registered addresses only, cache keys are
  isolated, the documented responses are answered but for one swapped pair of the status table, the middleware stack
  serves as documented. Operation: maintenance spares what is alive, the worker and the
  process keep their life cycles, the gauges are true, and the migrations arrive at the mapped schema. The commands give back
  what they open; the load test never trips over itself, and every request it sends is a route of the API with the status it
  expects.

  Hypotheses name documented behaviour of code that is not the program's: \<open>jwt_accepts_own\<close> (PyJWT decodes
  what it encoded until it expires), \<open>ilike_documented\<close>, \<open>reads_bearer\<close> (how FastAPI reads the Authorization
  header), \<open>serves_or_runs\<close> and \<open>replays\<close> (the cache library runs the endpoint, or serves an earlier answer of it), \<open>verdicts_agree\<close>
  (the two verifications of pwdlib), \<open>spares_other_headers\<close> (Starlette's CORS), \<open>redirects_parse\<close> (what the validator of the settings ensures). Their witnesses instantiate them all.

  Bounds. Time is an integer of microseconds; ids are 32-bit columns (\<open>int32\<close>): an id out of range is an
  error of the statement. A text is a list of 8-bit characters: what Unicode adds to \<^verbatim>\<open>lower\<close>, \<^verbatim>\<open>casefold\<close> and \<^verbatim>\<open>isspace\<close> beyond them is
  not modelled. The walk over the migrations has as much fuel as there are revisions, which is enough because each
  visited one is distinct. The resolution order of an exception class
  is read five steps up, and every class is reached sooner (\<open>mro_enough\<close>). A schedule of contending requests needs no
  fuel: it is a list of moves, and \<open>contend_length\<close> bounds it. No other definition uses fuel: all loops of the program are
  over finite data.

  Not modelled: pydantic's own type checks and the parsing of requests by FastAPI (a request arrives parsed or as its list of
  invalid fields), the selection of a route except as Starlette documents it, the pool of connections, what the job stores of
  APScheduler and the transport of Celery do with their options, the splitting of command lines by \<^verbatim>\<open>argparse\<close> and what
  the commands print, logging (\<^verbatim>\<open>core/logging.py\<close>), the start of the
  server (\<^verbatim>\<open>main.py\<close>), the weights with which Locust picks tasks, and the tests: all of this only calls libraries
  or drives the program from outside. Contention is modelled for one row at a time; the sweeps of maintenance, which
  lock many rows, run alone.
\<close>

end
